(* ===== verification/Prelude.thy ===== *)
theory Prelude
  imports Main "HOL-Library.Sublist"
begin

text \<open>
  The prelude of the development: the collections of facts the component proofs share, the
  state-and-exception programs every handler is written in, and generic lemmas on lists and
  sums.  A coroutine of the service becomes a function from the state of the world to a result
  and a new state; the result is \<open>Inl e\<close> when the coroutine raises \<open>e\<close> and \<open>Inr v\<close> when it
  returns \<open>v\<close>.  An exception does not undo the state changes made before it was raised.
\<close>

named_theorems prog_simps "equations of the program combinators"
named_theorems str_simps "equations of the Python string operations"
named_theorems val_simps "equations of the Python value operations"

section \<open>Results\<close>

type_synonym ('e, 'a) result = "'e + 'a"

definition bindR :: "('e, 'a) result \<Rightarrow> ('a \<Rightarrow> ('e, 'b) result) \<Rightarrow> ('e, 'b) result" where
  "bindR r f = (case r of Inl e \<Rightarrow> Inl e | Inr v \<Rightarrow> f v)"

definition ofOption :: "'e \<Rightarrow> 'a option \<Rightarrow> ('e, 'a) result" where
  "ofOption e r = (case r of None \<Rightarrow> Inl e | Some v \<Rightarrow> Inr v)"

fun mapR :: "('a \<Rightarrow> ('e, 'b) result) \<Rightarrow> 'a list \<Rightarrow> ('e, 'b list) result" where
  "mapR f [] = Inr []"
| "mapR f (x # xs) = bindR (f x) (\<lambda>y. bindR (mapR f xs) (\<lambda>ys. Inr (y # ys)))"

definition isOk :: "('e, 'a) result \<Rightarrow> bool" where
  "isOk r = (case r of Inl _ \<Rightarrow> False | Inr _ \<Rightarrow> True)"

lemma bindR_simps [simp, prog_simps]:
  "bindR (Inl e) f = Inl e"
  "bindR (Inr v) f = f v"
  by (simp_all add: bindR_def)

lemma ofOption_simps [simp, prog_simps]:
  "ofOption e None = Inl e"
  "ofOption e (Some v) = Inr v"
  by (simp_all add: ofOption_def)

lemma isOk_simps [simp, prog_simps]:
  "isOk (Inl e) = False"
  "isOk (Inr v) = True"
  by (simp_all add: isOk_def)

lemma bindR_Inr_iff: "bindR r f = Inr v \<longleftrightarrow> (\<exists>x. r = Inr x \<and> f x = Inr v)"
  by (cases r) simp_all

lemma bindR_Inl_iff: "bindR r f = Inl e \<longleftrightarrow> r = Inl e \<or> (\<exists>x. r = Inr x \<and> f x = Inl e)"
  by (cases r) auto

lemma isOk_iff: "isOk r \<longleftrightarrow> (\<exists>v. r = Inr v)"
  by (cases r) simp_all

lemma mapR_ok: "(\<And>x. x \<in> set xs \<Longrightarrow> f x = Inr (g x)) \<Longrightarrow> mapR f xs = Inr (map g xs)"
  by (induction xs) simp_all

lemma mapR_length: "mapR f xs = Inr ys \<Longrightarrow> length ys = length xs"
  by (induction xs arbitrary: ys) (auto simp: bindR_Inr_iff)

section \<open>Programs: state passing with exceptions\<close>

type_synonym ('e, 's, 'a) prog = "'s \<Rightarrow> ('e, 'a) result \<times> 's"

definition returnM :: "'a \<Rightarrow> ('e, 's, 'a) prog" where
  "returnM v s = (Inr v, s)"

definition raiseM :: "'e \<Rightarrow> ('e, 's, 'a) prog" where
  "raiseM e s = (Inl e, s)"

definition liftM :: "('e, 'a) result \<Rightarrow> ('e, 's, 'a) prog" where
  "liftM r s = (r, s)"

definition bindM :: "('e, 's, 'a) prog \<Rightarrow> ('a \<Rightarrow> ('e, 's, 'b) prog) \<Rightarrow> ('e, 's, 'b) prog" where
  "bindM m f s = (case m s of (Inl e, s') \<Rightarrow> (Inl e, s') | (Inr v, s') \<Rightarrow> f v s')"

definition tryM :: "('e, 's, 'a) prog \<Rightarrow> ('e \<Rightarrow> ('e, 's, 'a) prog) \<Rightarrow> ('e, 's, 'a) prog" where
  "tryM m h s = (case m s of (Inl e, s') \<Rightarrow> h e s' | (Inr v, s') \<Rightarrow> (Inr v, s'))"

fun mapM :: "('a \<Rightarrow> ('e, 's, 'b) prog) \<Rightarrow> 'a list \<Rightarrow> ('e, 's, 'b list) prog" where
  "mapM f [] = returnM []"
| "mapM f (x # xs) = bindM (f x) (\<lambda>y. bindM (mapM f xs) (\<lambda>ys. returnM (y # ys)))"

fun forM :: "('a \<Rightarrow> ('e, 's, unit) prog) \<Rightarrow> 'a list \<Rightarrow> ('e, 's, unit) prog" where
  "forM f [] = returnM ()"
| "forM f (x # xs) = bindM (f x) (\<lambda>_. forM f xs)"

lemma prog_run [simp, prog_simps]:
  "returnM v s = (Inr v, s)"
  "raiseM e s = (Inl e, s)"
  "liftM r s = (r, s)"
  by (simp_all add: returnM_def raiseM_def liftM_def)

lemma bindM_run [prog_simps]:
  "bindM m f s = (case m s of (r, s') \<Rightarrow> (case r of Inl e \<Rightarrow> (Inl e, s') | Inr v \<Rightarrow> f v s'))"
  by (simp add: bindM_def split: prod.splits sum.splits)

lemma tryM_run [prog_simps]:
  "tryM m h s = (case m s of (r, s') \<Rightarrow> (case r of Inl e \<Rightarrow> h e s' | Inr v \<Rightarrow> (Inr v, s')))"
  by (simp add: tryM_def split: prod.splits sum.splits)

lemma bindM_return [simp]: "bindM (returnM v) f = f v"
  by (rule ext) (simp add: bindM_run)

lemma bindM_raise [simp]: "bindM (raiseM e) f = raiseM e"
  by (rule ext) (simp add: bindM_run)

lemma bindM_lift [simp]: "bindM (liftM (Inr v)) f = f v" "bindM (liftM (Inl e)) f = raiseM e"
  by (rule ext, simp add: bindM_run)+

lemma bindM_return_right [simp]: "bindM m returnM = m"
  by (rule ext) (simp add: bindM_run split: prod.splits sum.splits)

lemma bindM_assoc: "bindM (bindM m f) g = bindM m (\<lambda>x. bindM (f x) g)"
  by (rule ext) (simp add: bindM_run split: prod.splits sum.splits)

lemma bindM_ok: "m s = (Inr v, s') \<Longrightarrow> bindM m f s = f v s'"
  by (simp add: bindM_run)

lemma bindM_err: "m s = (Inl e, s') \<Longrightarrow> bindM m f s = (Inl e, s')"
  by (simp add: bindM_run)

lemma bindM_Inr_iff:
  "bindM m f s = (Inr v, t) \<longleftrightarrow> (\<exists>x u. m s = (Inr x, u) \<and> f x u = (Inr v, t))"
  by (auto simp: bindM_run split: prod.splits sum.splits)

lemma bindM_Inl_iff:
  "bindM m f s = (Inl e, t) \<longleftrightarrow>
     m s = (Inl e, t) \<or> (\<exists>x u. m s = (Inr x, u) \<and> f x u = (Inl e, t))"
  by (auto simp: bindM_run split: prod.splits sum.splits)

lemma tryM_ok: "m s = (Inr v, s') \<Longrightarrow> tryM m h s = (Inr v, s')"
  by (simp add: tryM_run)

lemma tryM_err: "m s = (Inl e, s') \<Longrightarrow> tryM m h s = h e s'"
  by (simp add: tryM_run)

section \<open>Programs that only read\<close>

text \<open>A program is read-only when it never changes the state it runs in.\<close>

definition readonly :: "('e, 's, 'a) prog \<Rightarrow> bool" where
  "readonly m \<longleftrightarrow> (\<forall>s. snd (m s) = s)"

lemma readonlyD: "readonly m \<Longrightarrow> m s = (r, s') \<Longrightarrow> s' = s"
  by (metis readonly_def snd_conv)

lemma readonly_intros [intro]:
  "readonly (returnM v)" "readonly (raiseM e)" "readonly (liftM r)"
  by (simp_all add: readonly_def)

lemma readonly_bind [intro]:
  assumes "readonly m" and "\<And>x. readonly (f x)"
  shows "readonly (bindM m f)"
  using assms by (auto simp: readonly_def bindM_run split: prod.splits sum.splits)
    (metis snd_conv)+

lemma readonly_try [intro]:
  assumes "readonly m" and "\<And>e. readonly (h e)"
  shows "readonly (tryM m h)"
  using assms by (auto simp: readonly_def tryM_run split: prod.splits sum.splits)
    (metis snd_conv)+

lemma readonly_mapM [intro]: "(\<And>x. readonly (f x)) \<Longrightarrow> readonly (mapM f xs)"
  by (induction xs) auto

lemma readonly_forM [intro]: "(\<And>x. readonly (f x)) \<Longrightarrow> readonly (forM f xs)"
  by (induction xs) auto

section \<open>Lists\<close>

lemma takeWhile_append_stop [simp]:
  "\<lbrakk>\<And>x. x \<in> set xs \<Longrightarrow> P x; \<not> P y\<rbrakk> \<Longrightarrow> takeWhile P (xs @ y # ys) = xs"
  by (induction xs) auto

lemma find_Some_set: "find P xs = Some x \<Longrightarrow> x \<in> set xs \<and> P x"
  by (induction xs) (auto split: if_splits)

end
