(* ===== verification/Py_Strings.thy ===== *)
theory Py_Strings
  imports Prelude
begin

text \<open>
  Python's \<open>str\<close> as the service uses it.  A string is a list of characters, each standing for
  the code point of its number (0 to 255, the Latin-1 block); the character classes and case
  mapping are Python's on that block.  The operations are \<open>split\<close>, \<open>join\<close>, \<open>replace\<close>,
  \<open>strip\<close>, \<open>lower\<close>, \<open>in\<close>, \<open>startswith\<close>, \<open>int(s)\<close>, \<open>int(s, 16)\<close> and \<open>str(i)\<close>.
\<close>

section \<open>Characters\<close>

definition code :: "char \<Rightarrow> nat" where
  "code c = of_char c"

definition py_isspace :: "char \<Rightarrow> bool" where
  "py_isspace c \<longleftrightarrow> code c \<in> {9, 10, 11, 12, 13, 28, 29, 30, 31, 32, 133, 160}"

definition is_digit :: "char \<Rightarrow> bool" where
  "is_digit c \<longleftrightarrow> 48 \<le> code c \<and> code c \<le> 57"

definition is_word :: "char \<Rightarrow> bool" where
  \<comment> \<open>\<open>\<bslash>w\<close>: \<open>str.isalnum\<close> or the underscore\<close>
  "is_word c \<longleftrightarrow> (let n = code c in
     48 \<le> n \<and> n \<le> 57 \<or> 65 \<le> n \<and> n \<le> 90 \<or> n = 95 \<or> 97 \<le> n \<and> n \<le> 122 \<or>
     n \<in> {170, 178, 179, 181, 185, 186, 188, 189, 190} \<or>
     192 \<le> n \<and> n \<le> 214 \<or> 216 \<le> n \<and> n \<le> 246 \<or> 248 \<le> n)"

definition lower_char :: "char \<Rightarrow> char" where
  "lower_char c = (let n = code c in
     if 65 \<le> n \<and> n \<le> 90 \<or> 192 \<le> n \<and> n \<le> 214 \<or> 216 \<le> n \<and> n \<le> 222
     then char_of (n + 32) else c)"

definition lower :: "string \<Rightarrow> string" where
  "lower s = map lower_char s"

section \<open>Searching\<close>

definition startswith :: "string \<Rightarrow> string \<Rightarrow> bool" where
  "startswith s p = prefix p s"

definition endswith :: "string \<Rightarrow> string \<Rightarrow> bool" where
  "endswith s p = suffix p s"

fun py_in :: "string \<Rightarrow> string \<Rightarrow> bool" where
  "py_in p [] = (p = [])"
| "py_in p (x # xs) = (prefix p (x # xs) \<or> py_in p xs)"

lemma py_in_iff: "py_in p s \<longleftrightarrow> (\<exists>a b. s = a @ p @ b)"
proof (induction s)
  case Nil
  then show ?case by simp
next
  case (Cons x xs)
  have "(\<exists>a b. x # xs = a @ p @ b) \<longleftrightarrow> (\<exists>b. x # xs = p @ b) \<or> (\<exists>a b. xs = a @ p @ b)"
    by (metis append_Cons append_Nil list.exhaust list.inject)
  with Cons show ?case by (simp add: prefix_def)
qed

lemma py_in_set: "py_in p s \<Longrightarrow> set p \<subseteq> set s"
  by (auto simp: py_in_iff)

section \<open>Splitting and joining\<close>

fun split_char :: "char \<Rightarrow> string \<Rightarrow> string list" where
  "split_char c [] = [[]]"
| "split_char c (x # xs) =
     (if x = c then [] # split_char c xs
      else (case split_char c xs of [] \<Rightarrow> [[x]] | p # ps \<Rightarrow> (x # p) # ps))"

text \<open>\<open>s.split(c, maxsplit=n)\<close>: after \<open>n\<close> separators the rest is one part.\<close>

fun split_char_max :: "nat \<Rightarrow> char \<Rightarrow> string \<Rightarrow> string list" where
  "split_char_max n c [] = [[]]"
| "split_char_max n c (x # xs) =
     (if x = c \<and> 0 < n then [] # split_char_max (n - 1) c xs
      else (case split_char_max n c xs of [] \<Rightarrow> [[x]] | p # ps \<Rightarrow> (x # p) # ps))"

text \<open>\<open>s.split(sep)\<close> for a separator of several characters.\<close>

fun split_str :: "string \<Rightarrow> string \<Rightarrow> string list" where
  "split_str sep [] = [[]]"
| "split_str sep (x # xs) =
     (if sep \<noteq> [] \<and> prefix sep (x # xs)
      then [] # split_str sep (drop (length sep - 1) xs)
      else (case split_str sep xs of [] \<Rightarrow> [[x]] | p # ps \<Rightarrow> (x # p) # ps))"

fun join :: "string \<Rightarrow> string list \<Rightarrow> string" where
  "join sep [] = []"
| "join sep [p] = p"
| "join sep (p # q # ps) = p @ sep @ join sep (q # ps)"

lemma split_char_not_Nil [simp]: "split_char c s \<noteq> []"
  by (cases s) (auto split: list.splits)

lemma split_char_cons:
  assumes "x \<noteq> c"
  shows "split_char c (x # xs) = (x # hd (split_char c xs)) # tl (split_char c xs)"
  using assms by (simp split: list.splits)

lemma join_cons: "ps \<noteq> [] \<Longrightarrow> join sep (p # ps) = p @ sep @ join sep ps"
  by (cases ps) simp_all

lemma join_hd: "ps \<noteq> [] \<Longrightarrow> join sep ((x # hd ps) # tl ps) = x # join sep ps"
  by (cases ps; cases "tl ps") simp_all

lemma join_split_char: "join [c] (split_char c s) = s"
proof (induction s)
  case Nil
  then show ?case by simp
next
  case (Cons x xs)
  show ?case
  proof (cases "x = c")
    case True
    with Cons show ?thesis by (simp add: join_cons)
  next
    case False
    with Cons show ?thesis by (simp add: join_hd split_char_cons del: split_char.simps)
  qed
qed

lemma split_char_parts: "p \<in> set (split_char c s) \<Longrightarrow> c \<notin> set p"
proof (induction s arbitrary: p)
  case Nil
  then show ?case by simp
next
  case (Cons x xs)
  then show ?case
    by (auto split: if_splits list.splits)
qed

lemma split_char_append:
  "c \<notin> set a \<Longrightarrow> split_char c (a @ c # b) = a # split_char c b"
  by (induction a) auto

lemma split_char_none: "c \<notin> set a \<Longrightarrow> split_char c a = [a]"
  by (induction a) auto

lemma split_char_join:
  "\<lbrakk>ps \<noteq> []; \<And>p. p \<in> set ps \<Longrightarrow> c \<notin> set p\<rbrakk> \<Longrightarrow> split_char c (join [c] ps) = ps"
proof (induction ps)
  case Nil
  then show ?case by simp
next
  case (Cons p ps)
  then show ?case
    by (cases "ps = []") (simp_all add: join_cons split_char_append split_char_none)
qed

lemma length_split_char: "length (split_char c s) = Suc (count_list s c)"
proof (induction s)
  case Nil
  then show ?case by simp
next
  case (Cons x xs)
  then show ?case
    by (cases "split_char c xs") auto
qed

lemma split_char_max_not_Nil [simp]: "split_char_max n c s \<noteq> []"
  by (cases s) (auto split: list.splits)

lemma join_split_char_max: "join [c] (split_char_max n c s) = s"
proof (induction s arbitrary: n)
  case Nil
  then show ?case by simp
next
  case (Cons x xs)
  show ?case
  proof (cases "x = c \<and> 0 < n")
    case True
    then show ?thesis by (simp add: join_cons Cons.IH)
  next
    case False
    obtain p ps where eq: "split_char_max n c xs = p # ps"
      by (meson neq_Nil_conv split_char_max_not_Nil)
    have "join [c] ((x # p) # ps) = x # join [c] (p # ps)"
      by (cases ps) simp_all
    with False eq Cons.IH [of n] show ?thesis by auto
  qed
qed

lemma split_char_max_enough:
  "count_list s c \<le> n \<Longrightarrow> split_char_max n c s = split_char c s"
  by (induction s arbitrary: n) auto

lemma length_split_char_max:
  "length (split_char_max n c s) = Suc (min n (count_list s c))"
proof (induction s arbitrary: n)
  case Nil
  then show ?case by simp
next
  case (Cons x xs)
  show ?case
  proof (cases "x = c \<and> 0 < n")
    case True
    then show ?thesis by (auto simp: Cons.IH)
  next
    case False
    obtain p ps where eq: "split_char_max n c xs = p # ps"
      by (meson neq_Nil_conv split_char_max_not_Nil)
    with False Cons.IH [of n] show ?thesis by auto
  qed
qed

section \<open>Replacing and stripping\<close>

fun py_replace :: "string \<Rightarrow> string \<Rightarrow> string \<Rightarrow> string" where
  \<comment> \<open>\<open>s.replace(old, new)\<close>, for a non-empty \<open>old\<close>\<close>
  "py_replace old new [] = []"
| "py_replace old new (x # xs) =
     (if old \<noteq> [] \<and> prefix old (x # xs)
      then new @ py_replace old new (drop (length old - 1) xs)
      else x # py_replace old new xs)"

definition lstrip_chars :: "(char \<Rightarrow> bool) \<Rightarrow> string \<Rightarrow> string" where
  "lstrip_chars P s = dropWhile P s"

definition strip_chars :: "(char \<Rightarrow> bool) \<Rightarrow> string \<Rightarrow> string" where
  "strip_chars P s = rev (dropWhile P (rev (dropWhile P s)))"

definition strip :: "string \<Rightarrow> string" where
  "strip s = strip_chars py_isspace s"

lemma py_replace_single: "py_replace [c] [] s = filter (\<lambda>x. x \<noteq> c) s"
  by (induction s) auto

lemma py_replace_absent:
  assumes "old \<noteq> []" and "hd old \<notin> set s"
  shows "py_replace old new s = s"
  using assms by (induction s) (auto simp: prefix_Cons neq_Nil_conv)

lemma py_replace_absent_char:
  assumes "c \<in> set old" and "c \<notin> set s"
  shows "py_replace old new s = s"
  using assms(2)
proof (induction s)
  case (Cons x xs)
  then have "\<not> prefix old (x # xs)"
    using assms(1) by (auto dest!: set_mono_prefix)
  with Cons show ?case by simp
qed simp

lemma py_replace_front:
  assumes "old \<noteq> []"
  shows "py_replace old new (old @ s) = new @ py_replace old new s"
  using assms by (cases old) auto

lemma dropWhile_none: "(\<And>x. x \<in> set s \<Longrightarrow> \<not> P x) \<Longrightarrow> dropWhile P s = s"
  by (cases s) auto

lemma strip_chars_id: "(\<And>x. x \<in> set s \<Longrightarrow> \<not> P x) \<Longrightarrow> strip_chars P s = s"
  using dropWhile_none [of s P] dropWhile_none [of "rev s" P] by (simp add: strip_chars_def)

lemma set_strip_chars: "set (strip_chars P s) \<subseteq> set s"
  by (auto simp: strip_chars_def dest!: set_dropWhileD)

section \<open>Integers\<close>

definition digit_val :: "char \<Rightarrow> nat option" where
  "digit_val c = (let n = code c in
     if 48 \<le> n \<and> n \<le> 57 then Some (n - 48)
     else if 97 \<le> n \<and> n \<le> 102 then Some (n - 87)
     else if 65 \<le> n \<and> n \<le> 70 then Some (n - 55)
     else None)"

text \<open>Digits with single underscores between them; the flag says whether a digit came last.\<close>

fun parse_digits :: "nat \<Rightarrow> nat \<Rightarrow> bool \<Rightarrow> string \<Rightarrow> nat option" where
  "parse_digits b acc dig [] = (if dig then Some acc else None)"
| "parse_digits b acc dig (c # cs) =
     (if c = CHR ''_'' then (if dig then parse_digits b acc False cs else None)
      else (case digit_val c of
          None \<Rightarrow> None
        | Some d \<Rightarrow> if d < b then parse_digits b (acc * b + d) True cs else None))"

definition with_sign :: "(string \<Rightarrow> nat option) \<Rightarrow> string \<Rightarrow> int option" where
  "with_sign f s = (case s of
       [] \<Rightarrow> None
     | c # cs \<Rightarrow> if c = CHR ''-'' then map_option (\<lambda>n. - int n) (f cs)
                else if c = CHR ''+'' then map_option int (f cs)
                else map_option int (f s))"

text \<open>\<open>int(s)\<close>: CPython refuses more than 4300 decimal digits.\<close>

definition int_max_str_digits :: nat where
  "int_max_str_digits = 4300"

definition py_int :: "string \<Rightarrow> int option" where
  "py_int s = with_sign (\<lambda>t. if length (filter is_digit t) \<le> int_max_str_digits
                             then parse_digits 10 0 False t else None) (strip s)"

text \<open>\<open>int(s, 16)\<close>, with its optional \<open>0x\<close> and one underscore after it.\<close>

definition py_int16 :: "string \<Rightarrow> int option" where
  "py_int16 s = with_sign (\<lambda>t.
     (case t of
        z # x # r \<Rightarrow>
          if z = CHR ''0'' \<and> (x = CHR ''x'' \<or> x = CHR ''X'')
          then parse_digits 16 0 False (case r of u # r' \<Rightarrow> if u = CHR ''_'' then r' else r | [] \<Rightarrow> r)
          else parse_digits 16 0 False t
      | _ \<Rightarrow> parse_digits 16 0 False t)) (strip s)"

definition digit_char :: "nat \<Rightarrow> char" where
  "digit_char d = (if d < 10 then char_of (48 + d) else char_of (87 + d))"

fun show_nat :: "nat \<Rightarrow> string" where
  "show_nat n = (if n < 10 then [digit_char n] else show_nat (n div 10) @ [digit_char (n mod 10)])"

declare show_nat.simps [simp del]

definition show_int :: "int \<Rightarrow> string" where
  "show_int i = (if i < 0 then CHR ''-'' # show_nat (nat (- i)) else show_nat (nat i))"

lemma code_digit_char: "d < 16 \<Longrightarrow> code (digit_char d) = (if d < 10 then 48 + d else 87 + d)"
  by (auto simp: digit_char_def code_def)

lemma digit_val_char [simp]: "d < 16 \<Longrightarrow> digit_val (digit_char d) = Some d"
  by (simp add: digit_val_def code_digit_char Let_def)

lemma digit_char_not [simp]:
  assumes "d < 16" and "\<not> (48 \<le> code c \<and> code c \<le> 57 \<or> 97 \<le> code c \<and> code c \<le> 102)"
  shows "digit_char d \<noteq> c"
  using assms code_digit_char [of d] by (auto split: if_splits)

lemma digit_char_not_underscore [simp]: "d < 16 \<Longrightarrow> digit_char d \<noteq> CHR ''_''"
  by (rule digit_char_not) (auto simp: code_def)

lemma parse_digits_snoc:
  assumes "d < b" and "b \<le> 16" and "parse_digits b acc dig s = Some v"
  shows "parse_digits b acc dig (s @ [digit_char d]) = Some (v * b + d)"
  using assms(3)
proof (induction s arbitrary: acc dig)
  case Nil
  with assms(1,2) show ?case by (simp split: if_splits)
next
  case (Cons x xs)
  then show ?case
    by (auto split: if_splits option.splits)
qed

lemma parse_show_nat: "parse_digits 10 0 False (show_nat n) = Some n"
proof (induction n rule: show_nat.induct)
  case (1 n)
  show ?case
  proof (cases "n < 10")
    case True
    then show ?thesis by (simp add: show_nat.simps)
  next
    case False
    with 1 have "parse_digits 10 0 False (show_nat (n div 10)) = Some (n div 10)"
      by simp
    with False show ?thesis
      by (subst show_nat.simps) (simp add: parse_digits_snoc)
  qed
qed

lemma show_nat_digits: "c \<in> set (show_nat n) \<Longrightarrow> is_digit c"
proof (induction n rule: show_nat.induct)
  case (1 n)
  have d: "is_digit (digit_char m)" if "m < 10" for m
    using that by (simp add: is_digit_def code_digit_char)
  from 1 show ?case
    by (subst (asm) show_nat.simps) (auto split: if_splits intro: d)
qed

lemma show_nat_not_Nil [simp]: "show_nat n \<noteq> []"
  by (subst show_nat.simps) simp

end
