(* ===== verification/Py_Regex.thy ===== *)
theory Py_Regex
  imports Py_Strings
begin

text \<open>
  Python's \<open>re.match\<close> for the patterns of the service: character classes with the greedy
  quantifiers, literals, sequences, alternatives, named groups and the end anchor.  The matcher
  lists every way to match a prefix of the subject in the order in which Python's backtracking
  tries them, so the result of \<open>match\<close> is the first one.  All patterns of the service are
  anchored at the start, where \<open>re.match\<close> starts anyway.
\<close>

datatype regex =
    RLit string
  | RPlus "char \<Rightarrow> bool"
  | RStar "char \<Rightarrow> bool"
  | ROpt char
  | RSeq regex regex
  | RAlt regex regex
  | RGroup string regex
  | REnd

type_synonym groups = "(string \<times> string) list"

fun re_run :: "regex \<Rightarrow> string \<Rightarrow> (groups \<times> string) list" where
  "re_run (RLit l) s = (if prefix l s then [([], drop (length l) s)] else [])"
| "re_run (RPlus p) s = map (\<lambda>k. ([], drop k s)) (rev [1..<Suc (length (takeWhile p s))])"
| "re_run (RStar p) s = map (\<lambda>k. ([], drop k s)) (rev [0..<Suc (length (takeWhile p s))])"
| "re_run (ROpt c) s =
     (case s of [] \<Rightarrow> [([], s)]
      | x # xs \<Rightarrow> if x = c then [([], xs), ([], s)] else [([], s)])"
| "re_run (RSeq a b) s =
     concat (map (\<lambda>(g, r). map (\<lambda>(g', r'). (g @ g', r')) (re_run b r)) (re_run a s))"
| "re_run (RAlt a b) s = re_run a s @ re_run b s"
| "re_run (RGroup n a) s =
     map (\<lambda>(g, r). ((n, take (length s - length r) s) # g, r)) (re_run a s)"
| "re_run REnd s = (if s = [] \<or> s = [CHR 0x0A] then [([], s)] else [])"

definition re_match :: "regex \<Rightarrow> string \<Rightarrow> groups option" where
  "re_match r s = (case re_run r s of [] \<Rightarrow> None | (g, _) # _ \<Rightarrow> Some g)"

text \<open>A group of the match; \<open>None\<close> where Python has a group that took no part.\<close>

definition group :: "string \<Rightarrow> groups \<Rightarrow> string option" where
  "group n g = map_of g n"

fun seqs :: "regex list \<Rightarrow> regex" where
  "seqs [] = RLit []"
| "seqs [r] = r"
| "seqs (r # rs) = RSeq r (seqs rs)"

fun alts :: "string list \<Rightarrow> regex" where
  "alts [] = RLit []"
| "alts [l] = RLit l"
| "alts (l # ls) = RAlt (RLit l) (alts ls)"

definition any_char :: "char \<Rightarrow> bool" where
  \<comment> \<open>the dot: everything but a newline\<close>
  "any_char c \<longleftrightarrow> c \<noteq> CHR 0x0A"

section \<open>Soundness: what is left is a suffix of the subject\<close>

lemma re_run_suffix: "(g, r) \<in> set (re_run p s) \<Longrightarrow> suffix r s"
proof (induction p arbitrary: g r s)
  case (RLit l)
  then show ?case by (auto simp: suffix_drop split: if_splits)
next
  case (RPlus p)
  then show ?case by (auto simp: suffix_drop)
next
  case (RStar p)
  then show ?case by (auto simp: suffix_drop)
next
  case (ROpt c)
  then show ?case by (auto simp: suffix_ConsI split: list.splits if_splits)
next
  case (RSeq a b)
  then show ?case by (fastforce intro: suffix_order.trans)
next
  case (RAlt a b)
  then show ?case by auto
next
  case (RGroup n a)
  then show ?case by fastforce
next
  case REnd
  then show ?case by (auto split: if_splits)
qed

lemma re_run_groups:
  "(g, r) \<in> set (re_run p s) \<Longrightarrow> (n, v) \<in> set g \<Longrightarrow> \<exists>a b. s = a @ v @ b"
proof (induction p arbitrary: g r s)
  case (RSeq a b)
  then obtain g1 r1 g2 where 1: "(g1, r1) \<in> set (re_run a s)" "(g2, r) \<in> set (re_run b r1)"
      "g = g1 @ g2" by auto
  from RSeq.prems(2) 1(3) consider "(n, v) \<in> set g1" | "(n, v) \<in> set g2" by auto
  then show ?case
  proof cases
    case 1
    then show ?thesis using RSeq.IH(1) \<open>(g1, r1) \<in> set (re_run a s)\<close> by blast
  next
    case 2
    then obtain x y where "r1 = x @ v @ y" using RSeq.IH(2) \<open>(g2, r) \<in> set (re_run b r1)\<close> by blast
    moreover obtain z where "s = z @ r1"
      using re_run_suffix [OF \<open>(g1, r1) \<in> set (re_run a s)\<close>] by (auto simp: suffix_def)
    ultimately have "s = (z @ x) @ v @ y" by simp
    then show ?thesis by blast
  qed
next
  case (RGroup m a)
  then obtain g1 where 1: "(g1, r) \<in> set (re_run a s)" "g = (m, take (length s - length r) s) # g1"
    by auto
  show ?case
  proof (cases "(n, v) \<in> set g1")
    case True
    then show ?thesis using RGroup.IH 1(1) by blast
  next
    case False
    with RGroup.prems(2) 1(2) have "v = take (length s - length r) s" by auto
    then have "s = [] @ v @ drop (length s - length r) s" by simp
    then show ?thesis by blast
  qed
qed (auto split: if_splits list.splits)

section \<open>The first match\<close>

text \<open>
  Backtracking: the first match of a sequence is the first continuation that matches, after the
  earlier ones have all failed.
\<close>

lemma re_run_seq_first:
  assumes "re_run a s = xs @ (g, r) # ys"
    and "\<And>g' r'. (g', r') \<in> set xs \<Longrightarrow> re_run b r' = []"
  shows "\<exists>zs. re_run (RSeq a b) s = map (\<lambda>(g', r'). (g @ g', r')) (re_run b r) @ zs"
proof -
  let ?f = "\<lambda>(g, r). map (\<lambda>(g', r'). (g @ g', r')) (re_run b r)"
  have nil: "concat (map ?f xs) = []"
    using assms(2) by fastforce
  have "re_run (RSeq a b) s = concat (map ?f xs) @ ?f (g, r) @ concat (map ?f ys)"
    using assms(1) by simp
  then have "re_run (RSeq a b) s = map (\<lambda>(g', r'). (g @ g', r')) (re_run b r) @ concat (map ?f ys)"
    unfolding nil by simp
  then show ?thesis by (rule exI)
qed

lemma rev_upt_split:
  assumes "i \<le> k" and "k < n"
  shows "rev [i..<n] = rev [Suc k..<n] @ k # rev [i..<k]"
proof -
  have "[i..<n] = [i..<k] @ [k..<n]"
    using assms upt_add_eq_append [of i k "n - k"] by simp
  also have "[k..<n] = k # [Suc k..<n]"
    using assms(2) by (rule upt_conv_Cons)
  finally show ?thesis by simp
qed

lemma re_run_plus_split:
  assumes "0 < k" and "k \<le> length (takeWhile p s)"
  shows "re_run (RPlus p) s =
    map (\<lambda>j. ([], drop j s)) (rev [Suc k..<Suc (length (takeWhile p s))])
    @ ([], drop k s) # map (\<lambda>j. ([], drop j s)) (rev [1..<k])"
  using rev_upt_split [of 1 k "Suc (length (takeWhile p s))"] assms by simp

lemma re_run_star_split:
  assumes "k \<le> length (takeWhile p s)"
  shows "re_run (RStar p) s =
    map (\<lambda>j. ([], drop j s)) (rev [Suc k..<Suc (length (takeWhile p s))])
    @ ([], drop k s) # map (\<lambda>j. ([], drop j s)) (rev [0..<k])"
  using rev_upt_split [of 0 k "Suc (length (takeWhile p s))"] assms by simp

lemma re_run_plus_first:
  assumes "xs \<noteq> []" and "\<And>x. x \<in> set xs \<Longrightarrow> p x" and "ys = [] \<or> \<not> p (hd ys)"
  shows "\<exists>zs. re_run (RPlus p) (xs @ ys) = ([], ys) # zs"
proof -
  have t: "takeWhile p (xs @ ys) = xs"
    using assms(2,3) by (cases ys) (auto simp: takeWhile_eq_all_conv)
  with assms(1) show ?thesis
    using re_run_plus_split [of "length xs" p "xs @ ys"] by simp
qed

lemma re_run_plus_sound:
  assumes "(g, r) \<in> set (re_run (RPlus p) s)"
  shows "\<exists>t. s = t @ r \<and> t \<noteq> [] \<and> (\<forall>c\<in>set t. p c) \<and> g = []"
proof -
  from assms obtain k where k: "1 \<le> k" "k \<le> length (takeWhile p s)" "g = []" "r = drop k s"
    by auto
  then have t: "take k s = take k (takeWhile p s)"
    by (metis min.absorb1 takeWhile_eq_take take_take)
  have "s = take k s @ r" using k by simp
  moreover have "take k s \<noteq> []" using k by (auto dest: le_trans [OF _ length_takeWhile_le])
  moreover have "\<forall>c\<in>set (take k s). p c"
    unfolding t by (meson in_set_takeD set_takeWhileD)
  ultimately show ?thesis using k(3) by blast
qed

lemma re_run_star_sound:
  assumes "(g, r) \<in> set (re_run (RStar p) s)"
  shows "\<exists>t. s = t @ r \<and> (\<forall>c\<in>set t. p c) \<and> g = []"
proof -
  from assms obtain k where k: "k \<le> length (takeWhile p s)" "g = []" "r = drop k s"
    by (auto simp del: upt_Suc simp: less_Suc_eq_le)
  show ?thesis
  proof (cases "k = 0")
    case False
    with k have "(g, r) \<in> set (re_run (RPlus p) s)"
      by (auto simp del: upt_Suc simp: less_Suc_eq_le)
    then show ?thesis using re_run_plus_sound by blast
  qed (use k in simp)
qed

lemma re_run_lit_sound: "(g, r) \<in> set (re_run (RLit l) s) \<Longrightarrow> s = l @ r \<and> g = []"
  by (auto simp: prefix_def split: if_splits)

lemma re_run_seqE:
  assumes "(g, r) \<in> set (re_run (RSeq a b) s)"
  obtains g1 g2 t where "(g1, t) \<in> set (re_run a s)" "(g2, r) \<in> set (re_run b t)" "g = g1 @ g2"
  using assms by auto

text \<open>A literal at the front, and a greedy class with only one way to stop.\<close>

lemma re_run_lit_seq: "re_run (RSeq (RLit l) b) (l @ s) = re_run b s"
proof -
  have "map (\<lambda>(g', r'). ([] @ g', r')) (re_run b s) = re_run b s"
    by (rule map_idI) auto
  then show ?thesis by simp
qed

lemma re_run_plus_seq:
  assumes "xs \<noteq> []" and "\<And>x. x \<in> set xs \<Longrightarrow> p x" and "ys = [] \<or> \<not> p (hd ys)"
  shows "\<exists>zs. re_run (RSeq (RPlus p) b) (xs @ ys) = re_run b ys @ zs"
proof -
  obtain z where "re_run (RPlus p) (xs @ ys) = [] @ ([], ys) # z"
    using re_run_plus_first [of xs p ys] assms by auto
  from re_run_seq_first [OF this, of b] show ?thesis
    by (auto simp: case_prod_beta)
qed

lemma re_run_group_sound:
  assumes "(g, r) \<in> set (re_run (RGroup n a) s)"
  shows "\<exists>g' t. (g', r) \<in> set (re_run a s) \<and> s = t @ r \<and> g = (n, t) # g'"
proof -
  from assms obtain g' where g: "(g', r) \<in> set (re_run a s)" "g = (n, take (length s - length r) s) # g'"
    by auto
  from re_run_suffix [OF g(1)] obtain t where "s = t @ r" by (auto simp: suffix_def)
  with g show ?thesis by auto
qed

lemma re_run_end_sound: "(g, r) \<in> set (re_run REnd s) \<Longrightarrow> r = s \<and> g = [] \<and> s \<in> {[], [CHR 0x0A]}"
  by (auto split: if_splits)

lemmas re_run_sound = re_run_plus_sound re_run_star_sound re_run_lit_sound re_run_group_sound
  re_run_end_sound

lemma re_run_group_star_end:
  assumes "list_all p v"
  shows "\<exists>zs. re_run (RSeq (RGroup n (RStar p)) REnd) v = ([(n, v)], []) # zs"
proof -
  have tw: "takeWhile p v = v"
    using assms by (simp add: takeWhile_eq_all_conv list_all_iff)
  have "re_run (RStar p) v = ([], []) # map (\<lambda>j. ([], drop j v)) (rev [0..<length v])"
    using re_run_star_split [of "length v" p v] unfolding tw by simp
  then obtain z where "re_run (RGroup n (RStar p)) v = [] @ ([(n, v)], []) # z"
    by simp
  from re_run_seq_first [OF this, of REnd] show ?thesis by auto
qed

declare re_run.simps(2,3) [simp del]

end
