(* ===== verification/Exceptions.thy ===== *)
theory Exceptions
  imports Py_Strings
begin

text \<open>
  The exceptions of the service, one constructor per class that the modelled code raises or
  catches, with the HTTP status each carries: the bulk errors of
  \<open>app/bulk_persistence/errors.py\<close>, the session errors of \<open>sessions_storage.py\<close>, the
  consistency errors of \<open>app/consistency\<close>, the statistics errors, and the exceptions of Python,
  of FastAPI and of the storage clients that the code names.  The text of an error is kept where
  the code computes it from its arguments; the text of a consistency error and the detail of an
  \<open>HTTPException\<close> are not modelled.
\<close>

section \<open>Consistency errors (app/consistency)\<close>

datatype consistency_exn =
    WL_DuplicatedCurveIdException
  | WL_ReferenceCurveIdNotFoundException
  | WL_ColumnDoesNotMatchCurveIdException
  | WL_TotalOfColumnsDoesNotMatchFieldNumberOfColumnsException
  | ReferenceCurveException
  | TRJ_ColumnDoesNotMatchTrajectoryStationException
  | TRJ_MissingTrajectoryStationPropertyException
  | PPFG_DuplicatedCurveIdException
  | PPFG_PrimaryReferenceCurveIdNotFoundException
  | PPFG_ContextTypeIdMissingException
  | PPFG_ReferenceWellTrajectoryIdMissingException
  | PPFG_ColumnDoesNotMatchCurveIdException
  | WPT_DuplicatedCurveIdException
  | WPT_ColumnDoesNotMatchCurveIdException
  | WPT_TotalOfColumnsDoesNotMatchFieldNumberOfColumnsException

section \<open>Bulk errors (app/bulk_persistence/errors.py)\<close>

datatype bulk_error =
    BulkWorkerError string nat
  | BulkRecordNotFound string
  | BulkCurvesNotFound string
  | BulkNotProcessable string
  | BulkSaveException string
  | InternalBulkError string
  | FilterError string
  | TooManyColumnsRequested string
  | TooManyValuesRequested string
  | ConsistencyException consistency_exn

fun bulk_http_status :: "bulk_error \<Rightarrow> nat" where
  "bulk_http_status (BulkWorkerError _ status_code) = status_code"
| "bulk_http_status (BulkRecordNotFound _) = 404"
| "bulk_http_status (BulkCurvesNotFound _) = 404"
| "bulk_http_status (BulkNotProcessable _) = 422"
| "bulk_http_status (BulkSaveException _) = 500"
| "bulk_http_status (InternalBulkError _) = 500"
| "bulk_http_status (FilterError _) = 400"
| "bulk_http_status (TooManyColumnsRequested _) = 400"
| "bulk_http_status (TooManyValuesRequested _) = 400"
| "bulk_http_status (ConsistencyException _) = 400"

text \<open>The constructors' message: an argument that is \<open>None\<close> or empty is left out.\<close>

definition opt_text :: "string option \<Rightarrow> (string \<Rightarrow> string) \<Rightarrow> string" where
  "opt_text a f = (case a of None \<Rightarrow> [] | Some t \<Rightarrow> if t = [] then [] else f t)"

definition make_BulkRecordNotFound ::
    "string option \<Rightarrow> string option \<Rightarrow> string option \<Rightarrow> bulk_error" where
  "make_BulkRecordNotFound record_id bulk_id message = BulkRecordNotFound
     (''bulk '' @ opt_text bulk_id (\<lambda>t. t @ '' '') @ opt_text record_id (\<lambda>t. ''for record '' @ t @ '' '')
      @ ''not found'' @ opt_text message (\<lambda>t. '': '' @ t))"

definition make_BulkCurvesNotFound :: "string option \<Rightarrow> string option \<Rightarrow> bulk_error" where
  "make_BulkCurvesNotFound curves message = BulkCurvesNotFound
     (''bulk '' @ opt_text curves (\<lambda>t. ''for curves: '' @ t @ '' not found'')
      @ opt_text message (\<lambda>t. '': '' @ t))"

definition make_BulkNotProcessable :: "string option \<Rightarrow> string option \<Rightarrow> bulk_error" where
  "make_BulkNotProcessable bulk_id message = BulkNotProcessable
     (''bulk '' @ opt_text bulk_id (\<lambda>t. t @ '' '') @ ''not processable''
      @ opt_text message (\<lambda>t. '': '' @ t))"

definition make_InternalBulkError :: "string option \<Rightarrow> bulk_error" where
  "make_InternalBulkError message =
     InternalBulkError (''Internal bulk error'' @ opt_text message (\<lambda>t. '': '' @ t))"

definition make_FilterError :: "string \<Rightarrow> bulk_error" where
  "make_FilterError reason = FilterError (''filter error: '' @ reason)"

definition make_TooManyColumnsRequested :: "int \<Rightarrow> int \<Rightarrow> bulk_error" where
  "make_TooManyColumnsRequested nb_requested_cols max_allowed = TooManyColumnsRequested
     (''Too many columns requested: '' @ [CHR 0x27] @ show_int nb_requested_cols @ [CHR 0x27]
      @ '', maximum allowed: '' @ [CHR 0x27] @ show_int max_allowed @ [CHR 0x27])"

definition make_TooManyValuesRequested :: "int \<Rightarrow> int \<Rightarrow> bulk_error" where
  "make_TooManyValuesRequested nb_requested max_allowed = TooManyValuesRequested
     (''Too many values requested: '' @ [CHR 0x27] @ show_int nb_requested @ [CHR 0x27]
      @ '', maximum allowed '' @ [CHR 0x27] @ show_int max_allowed @ [CHR 0x27])"

section \<open>Session errors (app/bulk_persistence/sessions_storage.py)\<close>

datatype session_exn =
    SessionUpdatedEtagUnmatched string string
  | SessionInvalidState string string
  | SessionNotFound string string

fun session_http_status :: "session_exn \<Rightarrow> nat" where
  "session_http_status (SessionUpdatedEtagUnmatched _ _) = 412"
| "session_http_status (SessionInvalidState _ _) = 409"
| "session_http_status (SessionNotFound _ _) = 404"

section \<open>Statistics errors (app/bulk_persistence/statistics_exceptions.py)\<close>

datatype statistics_exn =
    ComputationRunningError
  | RequestedCurvesError
  | StatisticsNotFoundError
  | ComputationNotCompleteError
  | BulkCatalogNotFoundError

fun public_error_type :: "statistics_exn \<Rightarrow> string option" where
  "public_error_type ComputationRunningError = None"
| "public_error_type RequestedCurvesError = Some ''CURVES_NOT_FOUND''"
| "public_error_type StatisticsNotFoundError = Some ''DATA_NOT_FOUND''"
| "public_error_type ComputationNotCompleteError = Some ''COMPUTATION_NOT_COMPLETE''"
| "public_error_type BulkCatalogNotFoundError = Some ''BULK_CATALOG_NOT_FOUND''"

section \<open>All exceptions\<close>

datatype exn =
    ValueError
  | KeyError
  | TypeError
  | AttributeError
  | AssertionError
  | RuntimeError
  | IndexError
  | LookupError
  | OverflowError
  | NotImplementedError
  | StopIteration
  | HTTPException nat
  | BulkStatisticsHTTPException nat string
  | BulkErr bulk_error
  | SessionErr session_exn
  | StatisticsErr statistics_exn
  | DuplicatedStationProperties
  | UnexpectedResponse nat
  | ResourceNotFoundException
  | PreconditionFailedException
  | FileNotFoundError
  | SchemaValidationError
  | ArrowInvalid string
  | ArrowException
  | OtherException string

type_synonym 'a res = "exn + 'a"

text \<open>\<open>BulkError.raise_as_http\<close> and \<open>SessionException.raise_as_http\<close>.\<close>

definition bulk_raise_as_http :: "bulk_error \<Rightarrow> exn" where
  "bulk_raise_as_http e = HTTPException (bulk_http_status e)"

definition session_raise_as_http :: "session_exn \<Rightarrow> exn" where
  "session_raise_as_http e = HTTPException (session_http_status e)"

text \<open>\<open>internal_bulk_exceptions\<close>: the Arrow errors that leave a decorated coroutine.\<close>

definition internal_bulk_exceptions :: "exn \<Rightarrow> exn" where
  "internal_bulk_exceptions e = (case e of
       ArrowInvalid msg \<Rightarrow>
         BulkErr (make_BulkNotProcessable (Some (''Unable to process bulk - '' @ msg)) None)
     | ArrowException \<Rightarrow>
         BulkErr (make_BulkNotProcessable (Some ''Unable to process bulk - Arrow'') None)
     | _ \<Rightarrow> e)"

lemma bulk_http_status_client_range:
  assumes "\<And>m c. e \<noteq> BulkWorkerError m c"
  shows "bulk_http_status e \<in> {400, 404, 422, 500}"
  using assms by (cases e) auto

end
