(* ===== verification/Py_Values.thy ===== *)
theory Py_Values
  imports Complex_Main Exceptions "HOL-Library.AList" "HOL-Library.Log_Nat"
begin

text \<open>
  The Python values a record or a JSON document is made of: \<open>None\<close>, booleans, integers, floats,
  strings, lists and dictionaries with string keys.  A dictionary is an association list in
  insertion order.  Floats are IEEE binary64: the finite ones are the rationals they denote, and
  the two roundings the service depends on (conversion and the arithmetic of \<open>math.isclose\<close>)
  are round-half-to-even at 53 bits.
\<close>

section \<open>Floats\<close>

datatype pyfloat = FNaN | FInf bool | FFin rat
  \<comment> \<open>\<open>FInf True\<close> is minus infinity\<close>

definition pow2 :: "int \<Rightarrow> rat" where
  "pow2 e = (if 0 \<le> e then 2 ^ nat e else 1 / 2 ^ nat (- e))"

definition ilog2 :: "rat \<Rightarrow> int" where
  \<comment> \<open>the exponent of a positive rational\<close>
  "ilog2 x = (let (p, q) = quotient_of x; e = bitlen p - bitlen q
              in if pow2 e \<le> x then e else e - 1)"

definition round_half_even :: "rat \<Rightarrow> int" where
  "round_half_even q = (let f = \<lfloor>q\<rfloor>; d = q - of_int f in
     if d < 1 / 2 then f else if 1 / 2 < d then f + 1 else if even f then f else f + 1)"

definition round_mag :: "rat \<Rightarrow> rat" where
  "round_mag x = (let u = max (ilog2 x - 52) (-1074)
                  in of_int (round_half_even (x / pow2 u)) * pow2 u)"

definition to_double :: "rat \<Rightarrow> pyfloat" where
  "to_double x = (if x = 0 then FFin 0 else
     (let m = round_mag \<bar>x\<bar> in
      if pow2 1024 \<le> m then FInf (x < 0)
      else FFin (if x < 0 then - m else m)))"

definition f_abs :: "pyfloat \<Rightarrow> pyfloat" where
  "f_abs f = (case f of FNaN \<Rightarrow> FNaN | FInf _ \<Rightarrow> FInf False | FFin r \<Rightarrow> FFin \<bar>r\<bar>)"

definition f_eq :: "pyfloat \<Rightarrow> pyfloat \<Rightarrow> bool" where
  "f_eq a b = (a \<noteq> FNaN \<and> a = b)"

definition f_le :: "pyfloat \<Rightarrow> pyfloat \<Rightarrow> bool" where
  "f_le a b = (case (a, b) of
       (FNaN, _) \<Rightarrow> False | (_, FNaN) \<Rightarrow> False
     | (FInf True, _) \<Rightarrow> True | (_, FInf False) \<Rightarrow> True
     | (FInf False, _) \<Rightarrow> False | (_, FInf True) \<Rightarrow> False
     | (FFin x, FFin y) \<Rightarrow> x \<le> y)"

text \<open>\<open>math.isclose(a, b)\<close> with its default tolerances, as CPython computes it.\<close>

definition rel_tol :: rat where
  "rel_tol = (case to_double (1 / 10 ^ 9) of FFin r \<Rightarrow> r | _ \<Rightarrow> 0)"

definition isclose :: "pyfloat \<Rightarrow> pyfloat \<Rightarrow> bool" where
  "isclose a b = (f_eq a b \<or>
     (case (a, b) of
        (FFin x, FFin y) \<Rightarrow>
          (let diff = f_abs (to_double (y - x)) in
           f_le diff (f_abs (to_double (rel_tol * y))) \<or> f_le diff (f_abs (to_double (rel_tol * x)))
           \<or> f_le diff (FFin 0))
      | _ \<Rightarrow> False))"

lemma f_abs_to_double_minus: "f_abs (to_double (y - x)) = f_abs (to_double (x - y))"
  by (auto simp: to_double_def f_abs_def Let_def abs_minus_commute)

lemma isclose_refl: "a \<noteq> FNaN \<Longrightarrow> isclose a a"
  by (simp add: isclose_def f_eq_def)

lemma isclose_sym: "isclose a b = isclose b a"
  by (cases a; cases b)
    (auto simp: isclose_def f_eq_def Let_def f_abs_to_double_minus)

section \<open>Values\<close>

datatype pyval =
    PNone
  | PBool bool
  | PInt int
  | PFloat pyfloat
  | PStr string
  | PList "pyval list"
  | PDict "(string \<times> pyval) list"

definition truthy :: "pyval \<Rightarrow> bool" where
  "truthy v = (case v of PNone \<Rightarrow> False | PBool b \<Rightarrow> b | PInt i \<Rightarrow> i \<noteq> 0
     | PFloat f \<Rightarrow> f \<noteq> FFin 0 | PStr s \<Rightarrow> s \<noteq> [] | PList l \<Rightarrow> l \<noteq> [] | PDict d \<Rightarrow> d \<noteq> [])"

definition as_num :: "pyval \<Rightarrow> pyfloat option" where
  \<comment> \<open>the exact numeric value, for comparisons between numbers\<close>
  "as_num v = (case v of PBool b \<Rightarrow> Some (FFin (if b then 1 else 0)) | PInt i \<Rightarrow> Some (FFin (of_int i))
     | PFloat f \<Rightarrow> Some f | _ \<Rightarrow> None)"

fun py_eq :: "pyval \<Rightarrow> pyval \<Rightarrow> bool"
  and py_eq_list :: "pyval list \<Rightarrow> pyval list \<Rightarrow> bool"
  and py_eq_items :: "(string \<times> pyval) list \<Rightarrow> (string \<times> pyval) list \<Rightarrow> bool" where
  "py_eq (PStr a) w = (case w of PStr b \<Rightarrow> a = b | _ \<Rightarrow> False)"
| "py_eq PNone w = (w = PNone)"
| "py_eq (PList a) w = (case w of PList b \<Rightarrow> py_eq_list a b | _ \<Rightarrow> False)"
| "py_eq (PDict a) w = (case w of PDict b \<Rightarrow> length a = length b \<and> py_eq_items a b | _ \<Rightarrow> False)"
| "py_eq v w = (case (as_num v, as_num w) of (Some a, Some b) \<Rightarrow> f_eq a b | _ \<Rightarrow> False)"
| "py_eq_list [] ys = (ys = [])"
| "py_eq_list (x # xs) ys = (case ys of [] \<Rightarrow> False | y # ys' \<Rightarrow> py_eq x y \<and> py_eq_list xs ys')"
| "py_eq_items [] d = True"
| "py_eq_items ((k, v) # r) d =
     ((case map_of d k of None \<Rightarrow> False | Some w \<Rightarrow> py_eq v w) \<and> py_eq_items r d)"

definition hashable :: "pyval \<Rightarrow> bool" where
  "hashable v = (case v of PList _ \<Rightarrow> False | PDict _ \<Rightarrow> False | _ \<Rightarrow> True)"

section \<open>Dictionary, sequence and attribute access\<close>

definition v_get_default :: "pyval \<Rightarrow> string \<Rightarrow> pyval \<Rightarrow> pyval res" where
  \<comment> \<open>\<open>v.get(k, d)\<close>\<close>
  "v_get_default v k d = (case v of
       PDict al \<Rightarrow> Inr (case map_of al k of None \<Rightarrow> d | Some w \<Rightarrow> w)
     | _ \<Rightarrow> Inl AttributeError)"

definition v_get :: "pyval \<Rightarrow> string \<Rightarrow> pyval res" where
  "v_get v k = v_get_default v k PNone"

definition v_index :: "pyval \<Rightarrow> string \<Rightarrow> pyval res" where
  \<comment> \<open>\<open>v[k]\<close> with a string key\<close>
  "v_index v k = (case v of PDict al \<Rightarrow> ofOption KeyError (map_of al k) | _ \<Rightarrow> Inl TypeError)"

definition v_contains :: "string \<Rightarrow> pyval \<Rightarrow> bool res" where
  \<comment> \<open>\<open>k in v\<close> with a string \<open>k\<close>\<close>
  "v_contains k v = (case v of
       PDict al \<Rightarrow> Inr (map_of al k \<noteq> None)
     | PList l \<Rightarrow> Inr (list_ex (\<lambda>w. py_eq (PStr k) w) l)
     | PStr s \<Rightarrow> Inr (py_in k s)
     | _ \<Rightarrow> Inl TypeError)"

definition v_iter :: "pyval \<Rightarrow> pyval list res" where
  \<comment> \<open>the elements a \<open>for\<close> loop sees\<close>
  "v_iter v = (case v of PList l \<Rightarrow> Inr l | PDict al \<Rightarrow> Inr (map (\<lambda>(k, _). PStr k) al)
     | PStr s \<Rightarrow> Inr (map (\<lambda>c. PStr [c]) s) | _ \<Rightarrow> Inl TypeError)"

definition v_setitem :: "pyval \<Rightarrow> string \<Rightarrow> pyval \<Rightarrow> pyval res" where
  \<comment> \<open>\<open>v[k] = w\<close>, the dictionary after the assignment\<close>
  "v_setitem v k w = (case v of PDict al \<Rightarrow> Inr (PDict (AList.update k w al)) | _ \<Rightarrow> Inl TypeError)"

text \<open>A well-formed value has no dictionary with a key twice.\<close>

fun wf_val :: "pyval \<Rightarrow> bool" where
  "wf_val (PList l) = list_all wf_val l"
| "wf_val (PDict d) = (distinct (map fst d) \<and> list_all (\<lambda>(_, v). wf_val v) d)"
| "wf_val _ = True"

lemma v_access_simps [simp, val_simps]:
  "v_get (PDict al) k = Inr (case map_of al k of None \<Rightarrow> PNone | Some w \<Rightarrow> w)"
  "v_get_default (PDict al) k d = Inr (case map_of al k of None \<Rightarrow> d | Some w \<Rightarrow> w)"
  "v_index (PDict al) k = ofOption KeyError (map_of al k)"
  "v_contains k (PDict al) = Inr (map_of al k \<noteq> None)"
  "v_setitem (PDict al) k w = Inr (PDict (AList.update k w al))"
  "v_iter (PList l) = Inr l"
  by (simp_all add: v_get_def v_get_default_def v_index_def v_contains_def v_setitem_def v_iter_def)

lemma truthy_simps [simp, val_simps]:
  "\<not> truthy PNone" "truthy (PBool b) = b" "truthy (PInt i) = (i \<noteq> 0)"
  "truthy (PStr s) = (s \<noteq> [])" "truthy (PList l) = (l \<noteq> [])" "truthy (PDict d) = (d \<noteq> [])"
  by (simp_all add: truthy_def)

lemma hashable_simps [simp, val_simps]:
  "hashable (PStr s)" "hashable PNone" "hashable (PInt i)" "hashable (PBool b)"
  "hashable (PFloat f)" "\<not> hashable (PList l)" "\<not> hashable (PDict d)"
  by (simp_all add: hashable_def)

lemma py_eq_str [simp]: "py_eq v (PStr s) = (v = PStr s)"
  by (cases v) (auto simp: as_num_def split: option.splits)

lemma map_of_AList_update [simp]:
  "map_of (AList.update k v al) k' = (if k' = k then Some v else map_of al k')"
  by (simp add: update_conv')

section \<open>Conversion to float\<close>

definition digits_or_empty :: "string \<Rightarrow> nat option" where
  "digits_or_empty s = (if s = [] then Some 0 else parse_digits 10 0 False s)"

definition parse_mantissa :: "string \<Rightarrow> rat option" where
  "parse_mantissa m = (case split_char (CHR ''.'') m of
       [a] \<Rightarrow> map_option rat_of_nat (parse_digits 10 0 False a)
     | [a, b] \<Rightarrow> if a = [] \<and> b = [] then None else
         (case (digits_or_empty a, digits_or_empty b) of
            (Some i, Some f) \<Rightarrow> Some (rat_of_nat i + rat_of_nat f / 10 ^ length (filter is_digit b))
          | _ \<Rightarrow> None)
     | _ \<Rightarrow> None)"

definition parse_exponent :: "string \<Rightarrow> int option" where
  "parse_exponent s = with_sign (parse_digits 10 0 False) s"

definition parse_decimal :: "string \<Rightarrow> rat option" where
  "parse_decimal s = (let (m, e) = (takeWhile (\<lambda>c. c \<notin> {CHR ''e'', CHR ''E''}) s,
                                    dropWhile (\<lambda>c. c \<notin> {CHR ''e'', CHR ''E''}) s)
     in case parse_mantissa m of
          None \<Rightarrow> None
        | Some x \<Rightarrow> (case e of [] \<Rightarrow> Some x
            | _ # ex \<Rightarrow> map_option (\<lambda>k. if 0 \<le> k then x * 10 ^ nat k else x / 10 ^ nat (- k))
                          (parse_exponent ex)))"

definition float_of_str :: "string \<Rightarrow> pyfloat option" where
  "float_of_str str = (let s = strip str;
       (neg, t) = (case s of c # cs \<Rightarrow> if c = CHR ''-'' then (True, cs)
                                     else if c = CHR ''+'' then (False, cs) else (False, s)
                    | [] \<Rightarrow> (False, []))
     in if lower t \<in> {''inf'', ''infinity''} then Some (FInf neg)
        else if lower t = ''nan'' then Some FNaN
        else map_option (\<lambda>x. to_double (if neg then - x else x)) (parse_decimal t))"

definition py_float :: "pyval \<Rightarrow> pyfloat res" where
  "py_float v = (case v of
       PFloat f \<Rightarrow> Inr f
     | PInt i \<Rightarrow> (case to_double (of_int i) of FInf _ \<Rightarrow> Inl OverflowError | f \<Rightarrow> Inr f)
     | PBool b \<Rightarrow> Inr (FFin (if b then 1 else 0))
     | PStr s \<Rightarrow> ofOption ValueError (float_of_str s)
     | _ \<Rightarrow> Inl TypeError)"

end
