(* ===== verification/Record_Ids.thy ===== *)
theory Record_Ids
  imports Py_Regex Py_Values
begin

text \<open>
  Record identifiers and kinds: the two regular expressions of
  \<open>app/model/osdu_record_id.py\<close> with the splitting of a versioned identifier, the identifier
  patterns of the entity types, and the entity and kind helpers of \<open>app/model/entity_utils.py\<close>
  and \<open>app/model/schema_version.py\<close>.
\<close>

section \<open>Identifiers (osdu_record_id.py)\<close>

definition id_char :: "char \<Rightarrow> bool" where
  \<comment> \<open>\<open>[\<bslash>w\<bslash>-\<bslash>.]\<close>\<close>
  "id_char c \<longleftrightarrow> is_word c \<or> c = CHR ''-'' \<or> c = CHR ''.''"

definition tail_char :: "char \<Rightarrow> bool" where
  \<comment> \<open>\<open>[\<bslash>w\<bslash>-\<bslash>.\<bslash>:\<bslash>%]\<close>\<close>
  "tail_char c \<longleftrightarrow> id_char c \<or> c = CHR '':'' \<or> c = CHR ''%''"

definition not_colon :: "char \<Rightarrow> bool" where
  "not_colon c \<longleftrightarrow> c \<noteq> CHR '':''"

definition record_id_body :: regex where
  "record_id_body = seqs [RPlus id_char, RLit '':'', RPlus not_colon, RLit '':'', RPlus tail_char]"

definition OSDU_RECORD_ID_WITH_VERSION_REGEX :: regex where
  "OSDU_RECORD_ID_WITH_VERSION_REGEX =
     seqs [RGroup ''record_id'' record_id_body, RLit '':'', RGroup ''version'' (RStar is_digit), REnd]"

definition OSDU_RECORD_ID_REGEX :: regex where
  "OSDU_RECORD_ID_REGEX = seqs [record_id_body, REnd]"

definition split_record_id_version :: "string \<Rightarrow> (string option \<times> int option) res" where
  "split_record_id_version record_id =
     (case re_match OSDU_RECORD_ID_WITH_VERSION_REGEX record_id of
        None \<Rightarrow> Inr (if re_match OSDU_RECORD_ID_REGEX record_id \<noteq> None then Some record_id else None, None)
      | Some m \<Rightarrow>
          (case group ''version'' m of
             None \<Rightarrow> Inr (group ''record_id'' m, None)
           | Some v \<Rightarrow> if v = [] then Inr (group ''record_id'' m, None)
                      else bindR (ofOption ValueError (py_int v))
                             (\<lambda>n. Inr (group ''record_id'' m, Some n))))"

text \<open>
  The identifier models of the entity types.  The pattern of a string constraint has no trailing
  newline after its end anchor.
\<close>

definition id_pattern :: "string \<Rightarrow> string \<Rightarrow> bool" where
  "id_pattern entity_type s = list_ex (\<lambda>(_, r). r = [])
     (re_run (seqs [RPlus id_char, RLit ('':'' @ entity_type @ '':''), RPlus tail_char]) s)"

definition WellId :: "string \<Rightarrow> bool" where
  "WellId = id_pattern ''master-data--Well''"

definition WellboreId :: "string \<Rightarrow> bool" where
  "WellboreId = id_pattern ''master-data--Wellbore''"

definition WellboreTrajectoryId :: "string \<Rightarrow> bool" where
  "WellboreTrajectoryId = id_pattern ''work-product-component--WellboreTrajectory''"

definition WellboreMarkerSetId :: "string \<Rightarrow> bool" where
  "WellboreMarkerSetId = id_pattern ''work-product-component--WellboreMarkerSet''"

definition WellLogId :: "string \<Rightarrow> bool" where
  "WellLogId = id_pattern ''work-product-component--WellLog''"

definition WellboreIntervalSetId :: "string \<Rightarrow> bool" where
  "WellboreIntervalSetId = id_pattern ''work-product-component--WellboreIntervalSet''"

definition WellLogAcquisitionId :: "string \<Rightarrow> bool" where
  "WellLogAcquisitionId = id_pattern ''master-data--WellLogAcquisition''"

definition PPFGDatasetId :: "string \<Rightarrow> bool" where
  "PPFGDatasetId = id_pattern ''work-product-component--PPFGDataset''"

definition WellPressureTestRawMeasurementId :: "string \<Rightarrow> bool" where
  "WellPressureTestRawMeasurementId =
     id_pattern ''work-product-component--WellPressureTestRawMeasurement''"

section \<open>Entities and kinds (entity_utils.py, schema_version.py)\<close>

datatype Entity =
    MARKER
  | WELLBOREINTERVALSET
  | WELLLOGACQUISITION
  | TRAJECTORY
  | WELL
  | WELL_LOG
  | WELLBORE
  | DIP
  | DIPSET
  | PPFGDATASET
  | WELLPRESSURETESTRAWMEASUREMENT

fun entity_value :: "Entity \<Rightarrow> string" where
  "entity_value MARKER = ''marker''"
| "entity_value WELLBOREINTERVALSET = ''wellboreintervalset''"
| "entity_value WELLLOGACQUISITION = ''welllogacquisition''"
| "entity_value TRAJECTORY = ''trajectory''"
| "entity_value WELL = ''well''"
| "entity_value WELL_LOG = ''welllog''"
| "entity_value WELLBORE = ''wellbore''"
| "entity_value DIP = ''dip''"
| "entity_value DIPSET = ''dipSet''"
| "entity_value PPFGDATASET = ''ppfgdataset''"
| "entity_value WELLPRESSURETESTRAWMEASUREMENT = ''wellpressuretestrawmeasurement''"

record KindMetaData =
  authority :: string
  kind_source :: string
  kind_entity_type :: string
  kind_version :: string

fun current_version :: "Entity \<Rightarrow> string option" where
  "current_version MARKER = Some ''1.0.4''"
| "current_version WELLBOREINTERVALSET = Some ''1.0.0''"
| "current_version TRAJECTORY = Some ''1.0.5''"
| "current_version WELL = Some ''1.0.2''"
| "current_version WELLBORE = Some ''1.0.6''"
| "current_version DIP = Some ''1.0.0''"
| "current_version DIPSET = Some ''1.0.0''"
| "current_version _ = None"

definition get_entity_version :: "Entity \<Rightarrow> string option" where
  "get_entity_version entity = current_version entity"

definition get_data_partition_from_record_id :: "string option \<Rightarrow> string res" where
  "get_data_partition_from_record_id record_id = (case record_id of
       None \<Rightarrow> Inl AttributeError
     | Some i \<Rightarrow> Inr (hd (split_char (CHR '':'') i)))"

definition format_kind :: "string \<Rightarrow> string \<Rightarrow> string \<Rightarrow> string \<Rightarrow> string" where
  "format_kind auth source entity version = auth @ '':'' @ source @ '':'' @ entity @ '':'' @ version"

definition get_kind :: "string \<Rightarrow> string \<Rightarrow> Entity \<Rightarrow> string" where
  \<comment> \<open>an entity without a version prints as \<open>None\<close>\<close>
  "get_kind auth source entity =
     format_kind auth source (entity_value entity)
       (case get_entity_version entity of Some v \<Rightarrow> v | None \<Rightarrow> ''None'')"

definition get_kind_meta :: "string \<Rightarrow> KindMetaData res" where
  "get_kind_meta kind = (case split_char_max 4 (CHR '':'') kind of
       [a, s, e, v] \<Rightarrow>
         Inr \<lparr>authority = a, kind_source = s, kind_entity_type = e, kind_version = v\<rparr>
     | _ \<Rightarrow> Inl ValueError)"

section \<open>Kinds: printing and reading\<close>

lemma split_four:
  "split_char_max 4 c k = [a, s, e, v] \<longleftrightarrow>
     k = a @ c # s @ c # e @ c # v \<and> c \<notin> set a \<union> set s \<union> set e \<union> set v"
proof
  assume l: "split_char_max 4 c k = [a, s, e, v]"
  then have "length (split_char_max 4 c k) = 4" by simp
  then have "count_list k c \<le> 4" "split_char c k = [a, s, e, v]"
    using l length_split_char_max [of 4 c k] split_char_max_enough [of k c 4]
    by (auto simp: min_def length_split_char split: if_splits)
  then show "k = a @ c # s @ c # e @ c # v \<and> c \<notin> set a \<union> set s \<union> set e \<union> set v"
    using join_split_char [of c k] split_char_parts [of _ c k] by auto
next
  assume r: "k = a @ c # s @ c # e @ c # v \<and> c \<notin> set a \<union> set s \<union> set e \<union> set v"
  then have "split_char c k = [a, s, e, v]"
    using split_char_append by (simp add: split_char_none)
  moreover have "count_list k c \<le> 4"
    using length_split_char [of c k] calculation by simp
  ultimately show "split_char_max 4 c k = [a, s, e, v]"
    using split_char_max_enough [of k c 4] by simp
qed

text \<open>A kind is accepted exactly when it is the printed form of its four parts: \<open>get_kind_meta\<close>
  returns authority, source, entity type and version of a kind if and only if none of them
  contains a colon and \<open>format_kind\<close> of them is that kind.\<close>

theorem kind_meta_iff:
  "get_kind_meta kind = Inr m \<longleftrightarrow>
     kind = format_kind (authority m) (kind_source m) (kind_entity_type m) (kind_version m)
     \<and> CHR '':'' \<notin> set (authority m) \<union> set (kind_source m) \<union> set (kind_entity_type m)
          \<union> set (kind_version m)"
proof -
  have "get_kind_meta kind = Inr m \<longleftrightarrow> split_char_max 4 (CHR '':'') kind =
      [authority m, kind_source m, kind_entity_type m, kind_version m]"
    by (cases m) (auto simp: get_kind_meta_def split: list.splits)
  then show ?thesis
    by (simp add: split_four format_kind_def)
qed

section \<open>Splitting a versioned identifier\<close>

text \<open>The parts of an identifier: a partition, an entity type and a name.\<close>

definition id_parts :: "string \<Rightarrow> string \<Rightarrow> string \<Rightarrow> bool" where
  "id_parts ns ty name \<longleftrightarrow> ns \<noteq> [] \<and> ty \<noteq> [] \<and> name \<noteq> [] \<and> list_all id_char ns
     \<and> list_all not_colon ty \<and> list_all tail_char name"

definition make_id :: "string \<Rightarrow> string \<Rightarrow> string \<Rightarrow> string" where
  "make_id ns ty name = ns @ '':'' @ ty @ '':'' @ name"

lemma colon_chars [simp]: "\<not> id_char (CHR '':'')" "\<not> not_colon (CHR '':'')" "tail_char (CHR '':'')"
  by (simp_all add: id_char_def is_word_def code_def tail_char_def not_colon_def)

lemma digit_tail: "is_digit c \<Longrightarrow> tail_char c"
  by (auto simp: tail_char_def id_char_def is_word_def is_digit_def)

lemma colon_not_digit [simp]: "\<not> is_digit (CHR '':'')"
  by (simp add: is_digit_def code_def)

text \<open>The partition and the entity type are matched without any choice.\<close>

lemma record_id_body_run:
  assumes "id_parts ns ty name"
  shows "\<exists>zs. re_run record_id_body (ns @ '':'' @ ty @ '':'' @ t) = re_run (RPlus tail_char) t @ zs"
proof -
  let ?c = "RSeq (RLit '':'') (RPlus tail_char)"
  let ?b = "RSeq (RLit '':'') (RSeq (RPlus not_colon) ?c)"
  have a: "ns \<noteq> []" "\<And>x. x \<in> set ns \<Longrightarrow> id_char x" "ty \<noteq> []" "\<And>x. x \<in> set ty \<Longrightarrow> not_colon x"
    using assms by (simp_all add: id_parts_def list_all_iff)
  obtain y where y: "re_run (RSeq (RPlus not_colon) ?c) (ty @ '':'' @ t) = re_run ?c ('':'' @ t) @ y"
    using re_run_plus_seq [of ty not_colon "'':'' @ t" ?c] a(3,4) by auto
  obtain z where "re_run (RSeq (RPlus id_char) ?b) (ns @ '':'' @ ty @ '':'' @ t)
      = re_run ?b ('':'' @ ty @ '':'' @ t) @ z"
    using re_run_plus_seq [of ns id_char "'':'' @ ty @ '':'' @ t" ?b] a(1,2) by auto
  then show ?thesis
    unfolding record_id_body_def seqs.simps re_run_lit_seq y append_assoc by blast
qed

lemma version_run:
  assumes "list_all is_digit ds"
  shows "\<exists>zs. re_run (seqs [RLit '':'', RGroup ''version'' (RStar is_digit), REnd]) ('':'' @ ds)
           = ([(''version'', ds)], []) # zs"
  using re_run_group_star_end [OF assms, of "''version''"] unfolding seqs.simps re_run_lit_seq .

text \<open>Backtracking over the name stops at the last colon of the subject.\<close>

lemma versioned_match:
  assumes "id_parts ns ty name" and "list_all is_digit ds"
  shows "re_match OSDU_RECORD_ID_WITH_VERSION_REGEX (make_id ns ty name @ '':'' @ ds)
    = Some [(''record_id'', make_id ns ty name), (''version'', ds)]"
proof -
  let ?t = "name @ '':'' @ ds" and ?s = "make_id ns ty name @ '':'' @ ds"
  let ?v = "seqs [RLit '':'', RGroup ''version'' (RStar is_digit), REnd]"
  let ?g = "RGroup ''record_id'' record_id_body"
  let ?h = "\<lambda>(g, r). ((''record_id'', take (length ?s - length r) ?s) # g, r)"
  have tw: "takeWhile tail_char ?t = ?t"
    using assms by (auto simp: takeWhile_eq_all_conv id_parts_def list_all_iff digit_tail)
  define fails where "fails = map (\<lambda>j. ([] :: groups, drop j ?t)) (rev [Suc (length name)..<Suc (length ?t)])"
  have "0 < length name" using assms(1) by (simp add: id_parts_def)
  then obtain ys where plus: "re_run (RPlus tail_char) ?t = fails @ ([], '':'' @ ds) # ys"
    using re_run_plus_split [of "length name" tail_char ?t] unfolding tw fails_def by auto
  obtain zs where "re_run record_id_body ?s = re_run (RPlus tail_char) ?t @ zs"
    using record_id_body_run [OF assms(1), of ?t] by (auto simp: make_id_def)
  then have run: "re_run ?g ?s = map ?h fails @ ([(''record_id'', make_id ns ty name)], '':'' @ ds)
      # map ?h (ys @ zs)"
    using plus by simp
  have "re_run ?v r = []" if "(g, r) \<in> set (map ?h fails)" for g r
  proof -
    from that have "r \<in> (\<lambda>j. drop j ?t) ` {Suc (length name)..<Suc (length ?t)}"
      by (auto simp only: fails_def set_map set_rev set_upt image_iff)
    then obtain j where "length name < j" "r = drop j ?t"
      by (auto simp only: Suc_le_eq atLeastLessThan_iff)
    then have "r = drop (j - Suc (length name)) ds"
      by (auto simp: drop_Cons' Suc_diff_Suc)
    then have "r = [] \<or> is_digit (hd r)"
      using assms(2) by (metis hd_in_set in_set_dropD list_all_iff)
    then have "\<not> prefix '':'' r" by (cases r) auto
    then show ?thesis by simp
  qed
  from re_run_seq_first [OF run, of ?v] this
  obtain z where z: "re_run (RSeq ?g ?v) ?s
      = map (\<lambda>(g', r'). ([(''record_id'', make_id ns ty name)] @ g', r')) (re_run ?v ('':'' @ ds)) @ z"
    by blast
  obtain z' where "re_run ?v ('':'' @ ds) = ([(''version'', ds)], []) # z'"
    using version_run [OF assms(2)] by blast
  with z have "re_run (RSeq ?g ?v) ?s
      = ([(''record_id'', make_id ns ty name), (''version'', ds)], []) # map (\<lambda>(g', r').
          ([(''record_id'', make_id ns ty name)] @ g', r')) z' @ z"
    by (simp del: re_run.simps)
  then show ?thesis
    unfolding re_match_def OSDU_RECORD_ID_WITH_VERSION_REGEX_def seqs.simps
    by (simp del: re_run.simps)
qed

lemma group_nil [simp]: "group n ((m, v) # g) = (if n = m then Some v else group n g)"
  by (simp add: group_def)

lemma record_id_body_nogroups: "(g, r) \<in> set (re_run record_id_body s) \<Longrightarrow> g = []"
  unfolding record_id_body_def seqs.simps
  by (elim re_run_seqE) (auto dest!: re_run_plus_sound re_run_lit_sound)

lemma record_id_body_sound:
  assumes "(g, r) \<in> set (re_run record_id_body s)"
  shows "\<exists>ns ty name. id_parts ns ty name \<and> s = make_id ns ty name @ r"
proof -
  from assms obtain a b c where "s = a @ CHR '':'' # b @ CHR '':'' # c @ r"
    "id_parts a b c"
    unfolding record_id_body_def seqs.simps id_parts_def list_all_iff
    by (elim re_run_seqE) (force dest!: re_run_sound simp del: re_run.simps)
  then show ?thesis by (auto simp: make_id_def)
qed

lemma versioned_match_sound:
  assumes "re_match OSDU_RECORD_ID_WITH_VERSION_REGEX s = Some m"
  shows "\<exists>ns ty name ds nl. id_parts ns ty name \<and> list_all is_digit ds \<and> nl \<in> {[], [CHR 0x0A]}
     \<and> s = make_id ns ty name @ '':'' @ ds @ nl
     \<and> m = [(''record_id'', make_id ns ty name), (''version'', ds)]"
proof -
  let ?r = "seqs [RLit '':'', RGroup ''version'' (RStar is_digit), REnd]"
  from assms obtain nl where "(m, nl) \<in> set (re_run OSDU_RECORD_ID_WITH_VERSION_REGEX s)"
    unfolding re_match_def by (auto split: list.splits)
  then obtain g1 g2 t where 1: "(g1, t) \<in> set (re_run (RGroup ''record_id'' record_id_body) s)"
      and 2: "(g2, nl) \<in> set (re_run ?r t)" "m = g1 @ g2"
    unfolding OSDU_RECORD_ID_WITH_VERSION_REGEX_def seqs.simps by (rule re_run_seqE) blast
  from re_run_group_sound [OF 1] obtain g i where
    g: "(g, t) \<in> set (re_run record_id_body s)" "s = i @ t" "g1 = (''record_id'', i) # g"
    by blast
  from record_id_body_sound [OF g(1)] g(2) obtain ns ty name where
    i: "id_parts ns ty name" "i = make_id ns ty name" by auto
  from 2(1) obtain ds where v: "t = '':'' @ ds @ nl" "list_all is_digit ds"
      "g2 = [(''version'', ds)]" "nl \<in> {[], [CHR 0x0A]}"
    unfolding seqs.simps list_all_iff
    by (elim re_run_seqE) (force dest!: re_run_sound simp del: re_run.simps)
  then have "s = make_id ns ty name @ '':'' @ ds @ nl"
      "m = [(''record_id'', make_id ns ty name), (''version'', ds)]"
    using i g(2,3) 2(2) record_id_body_nogroups [OF g(1)] by simp_all
  with i(1) v(2,4) show ?thesis by blast
qed

lemma py_int_digits:
  assumes "list_all is_digit ds" and "length ds \<le> int_max_str_digits"
  shows "py_int ds = map_option int (parse_digits 10 0 False ds)"
proof -
  have d: "\<not> py_isspace c" "c \<noteq> CHR ''-''" "c \<noteq> CHR ''+''" if "c \<in> set ds" for c
    using assms(1) that by (auto simp: list_all_iff is_digit_def py_isspace_def code_def)
  have "strip ds = ds" unfolding strip_def by (rule strip_chars_id) (rule d)
  moreover have "filter is_digit ds = ds" using assms(1) by (simp add: filter_id_conv list_all_iff)
  ultimately show ?thesis
    using d assms(2) by (cases ds) (auto simp: py_int_def with_sign_def)
qed

lemma py_int_show_nat: "length (show_nat n) \<le> int_max_str_digits \<Longrightarrow> py_int (show_nat n) = Some (int n)"
  by (simp add: py_int_digits list_all_iff show_nat_digits parse_show_nat)

text \<open>A versioned identifier is split back into the identifier and its version: for every
  well-formed partition, entity type and name (the name may itself contain colons and digits) and
  every version that Python converts, \<open>split_record_id_version\<close> of \<open>id:version\<close> returns exactly the
  two parts.\<close>

theorem split_versioned_roundtrip:
  assumes "id_parts ns ty name" and "length (show_nat v) \<le> int_max_str_digits"
  shows "split_record_id_version (make_id ns ty name @ '':'' @ show_nat v) =
           Inr (Some (make_id ns ty name), Some (int v))"
proof -
  have "list_all is_digit (show_nat v)"
    by (simp add: list_all_iff show_nat_digits)
  then show ?thesis
    using versioned_match [OF assms(1), of "show_nat v"] assms(2)
    by (simp add: split_record_id_version_def py_int_show_nat)
qed

text \<open>A split that returns a version is sound: the argument was the returned identifier, a
  colon, and the decimal digits of the returned version (with at most a final newline), and the
  version is not negative.\<close>

theorem split_version_sound:
  assumes "split_record_id_version s = Inr (Some r, Some v)"
  shows "\<exists>ds nl. s = r @ '':'' @ ds @ nl \<and> list_all is_digit ds \<and> nl \<in> {[], [CHR 0x0A]}
           \<and> py_int ds = Some v \<and> 0 \<le> v"
proof -
  from assms obtain m where m: "re_match OSDU_RECORD_ID_WITH_VERSION_REGEX s = Some m"
    by (auto simp: split_record_id_version_def split: option.splits if_splits)
  from versioned_match_sound [OF m] obtain ns ty name ds nl where
    s: "s = make_id ns ty name @ '':'' @ ds @ nl" "list_all is_digit ds" "nl \<in> {[], [CHR 0x0A]}"
      "m = [(''record_id'', make_id ns ty name), (''version'', ds)]" by blast
  from assms m s(4) have r: "r = make_id ns ty name" "py_int ds = Some v"
    by (auto simp: split_record_id_version_def bindR_Inr_iff ofOption_def
        split: option.splits if_splits)
  have "0 \<le> v"
  proof -
    have "strip ds = ds" "ds = [] \<or> hd ds \<noteq> CHR ''-''"
      using s(2) by (auto simp: strip_def list_all_iff is_digit_def py_isspace_def code_def
          intro!: strip_chars_id dest!: hd_in_set)
    with r(2) show ?thesis
      by (auto simp: py_int_def with_sign_def split: list.splits if_splits)
  qed
  with s r show ?thesis by blast
qed

theorem split_versioned_roundtrip_witness:
  "split_record_id_version ''opendes:work-product-component--WellLog:a.b:7:1234'' =
     Inr (Some ''opendes:work-product-component--WellLog:a.b:7'', Some 1234)"
proof -
  have "id_parts ''opendes'' ''work-product-component--WellLog'' ''a.b:7''" by code_simp
  moreover have n: "show_nat 1234 = ''1234''"
    by (simp add: show_nat.simps digit_char_def char_of_def bit_0)
  ultimately show ?thesis
    using split_versioned_roundtrip [of "''opendes''" "''work-product-component--WellLog''"
        "''a.b:7''" 1234]
    by (simp add: int_max_str_digits_def make_id_def)
qed

theorem split_version_sound_witness:
  "\<exists>ds nl. ''a:b:c:12'' = ''a:b:c'' @ '':'' @ ds @ nl \<and> py_int ds = Some 12"
proof -
  have "split_record_id_version ''a:b:c:12'' = Inr (Some ''a:b:c'', Some 12)" by code_simp
  from split_version_sound [OF this] show ?thesis by blast
qed

end
