(* ===== verification/Blob_Store.thy ===== *)
theory Blob_Store
  imports Py_Values
begin

text \<open>
  The blob storage of the environment (\<open>osdu.core.api.storage\<close>), the clock and the source of fresh
  identifiers are not part of the repository: they are parameters of the model, programs over a
  world \<open>'w\<close>.  \<open>'c\<close> is the type of the stored contents.  What the service relies on is stated as a
  predicate over a view of the world, the map from tenant and object name to content and etag.
  \<open>test_store\<close> is a store that satisfies it, on which the witnesses are evaluated.
\<close>

record ('w, 'c) blob_storage =
  upload :: "string \<Rightarrow> string \<Rightarrow> 'c \<Rightarrow> string option \<Rightarrow> (exn, 'w, string) prog"
    \<comment> \<open>tenant, name, content, \<open>if_match\<close>; returns the new etag\<close>
  download :: "string \<Rightarrow> string \<Rightarrow> (exn, 'w, 'c) prog"
  download_metadata :: "string \<Rightarrow> string \<Rightarrow> (exn, 'w, string) prog"
    \<comment> \<open>the etag\<close>
  list_objects :: "string \<Rightarrow> string \<Rightarrow> (exn, 'w, string list) prog"
    \<comment> \<open>tenant, prefix\<close>
  delete_object :: "string \<Rightarrow> string \<Rightarrow> (exn, 'w, unit) prog"

record 'w runtime =
  utc_now :: "(exn, 'w, int) prog"
    \<comment> \<open>microseconds\<close>
  uuid4 :: "(exn, 'w, string) prog"

type_synonym ('w, 'c) view = "'w \<Rightarrow> string \<times> string \<Rightarrow> ('c \<times> string) option"

text \<open>
  The documented behaviour of the store: a conditional upload succeeds exactly on the current etag
  and gives the object a new one, an unconditional upload always writes, reads return what was
  written last, and only the named object changes.
\<close>

definition upload_law :: "('w, 'c) blob_storage \<Rightarrow> ('w, 'c) view \<Rightarrow> bool" where
  "upload_law st view \<longleftrightarrow> (\<forall>t n c m w.
     (if m = None \<or> map_option snd (view w (t, n)) = m
      then \<exists>e w'. upload st t n c m w = (Inr e, w') \<and> view w' = (view w)((t, n) \<mapsto> (c, e))
             \<and> map_option snd (view w (t, n)) \<noteq> Some e
      else \<exists>w'. upload st t n c m w = (Inl PreconditionFailedException, w') \<and> view w' = view w))"

definition read_law :: "('w, 'c) blob_storage \<Rightarrow> ('w, 'c) view \<Rightarrow> bool" where
  "read_law st view \<longleftrightarrow> (\<forall>t n w.
     (\<exists>w'. view w' = view w \<and> download st t n w =
        ((case view w (t, n) of Some (c, _) \<Rightarrow> Inr c | None \<Rightarrow> Inl ResourceNotFoundException), w'))
   \<and> (\<exists>w'. view w' = view w \<and> download_metadata st t n w =
        ((case view w (t, n) of Some (_, e) \<Rightarrow> Inr e | None \<Rightarrow> Inl ResourceNotFoundException), w')))"

definition delete_law :: "('w, 'c) blob_storage \<Rightarrow> ('w, 'c) view \<Rightarrow> bool" where
  "delete_law st view \<longleftrightarrow> (\<forall>t n w.
     \<exists>r w'. delete_object st t n w = (r, w')
       \<and> (if view w (t, n) = None then r = Inl ResourceNotFoundException \<and> view w' = view w
          else r = Inr () \<and> view w' = (view w)((t, n) := None)))"

definition list_law :: "('w, 'c) blob_storage \<Rightarrow> ('w, 'c) view \<Rightarrow> bool" where
  "list_law st view \<longleftrightarrow> (\<forall>t p w.
     \<exists>ns w'. list_objects st t p w = (Inr ns, w') \<and> view w' = view w
       \<and> set ns = {n. view w (t, n) \<noteq> None \<and> prefix p n} \<and> distinct ns)"

definition runtime_law :: "'w runtime \<Rightarrow> ('w, 'c) view \<Rightarrow> bool" where
  "runtime_law rt view \<longleftrightarrow> (\<forall>w.
     (\<exists>t w'. utc_now rt w = (Inr t, w') \<and> view w' = view w)
   \<and> (\<exists>u w'. uuid4 rt w = (Inr u, w') \<and> view w' = view w))"

lemma upload_ok:
  assumes "upload_law st view" and "m = None \<or> map_option snd (view w (t, n)) = m"
  shows "\<exists>e w'. upload st t n c m w = (Inr e, w') \<and> view w' = (view w)((t, n) \<mapsto> (c, e))
    \<and> map_option snd (view w (t, n)) \<noteq> Some e"
  using assms(1) [unfolded upload_law_def, rule_format, of m w t n c] assms(2)
  by (auto split: if_splits)

lemma upload_refused:
  assumes "upload_law st view" and "m \<noteq> None" and "map_option snd (view w (t, n)) \<noteq> m"
  shows "\<exists>w'. upload st t n c m w = (Inl PreconditionFailedException, w') \<and> view w' = view w"
  using assms(1) [unfolded upload_law_def, rule_format, of m w t n c] assms(2,3)
  by (auto split: if_splits)

lemma download_ok:
  assumes "read_law st view"
  obtains w' where "view w' = view w" "download st t n w =
        ((case view w (t, n) of Some (c, _) \<Rightarrow> Inr c | None \<Rightarrow> Inl ResourceNotFoundException), w')"
  using assms unfolding read_law_def by meson

lemma metadata_ok:
  assumes "read_law st view"
  obtains w' where "view w' = view w" "download_metadata st t n w =
        ((case view w (t, n) of Some (_, e) \<Rightarrow> Inr e | None \<Rightarrow> Inl ResourceNotFoundException), w')"
  using assms unfolding read_law_def by meson

lemma now_ok:
  assumes "runtime_law rt view"
  obtains t w' where "utc_now rt w = (Inr t, w')" "view w' = view w"
  using assms unfolding runtime_law_def by meson

lemma uuid4_ok:
  assumes "runtime_law rt view"
  obtains u w' where "uuid4 rt w = (Inr u, w')" "view w' = view w"
  using assms unfolding runtime_law_def by meson

lemma delete_ok:
  assumes "delete_law st view"
  obtains r w' where "delete_object st t n w = (r, w')"
    "if view w (t, n) = None then r = Inl ResourceNotFoundException \<and> view w' = view w
     else r = Inr () \<and> view w' = (view w)((t, n) := None)"
  using assms unfolding delete_law_def by meson

lemma list_ok:
  assumes "list_law st view"
  obtains ns w' where "list_objects st t p w = (Inr ns, w')" "view w' = view w"
    "set ns = {n. view w (t, n) \<noteq> None \<and> prefix p n}" "distinct ns"
  using assms unfolding list_law_def by meson

section \<open>A store for witnesses\<close>

record 'c test_world =
  tw_blobs :: "((string \<times> string) \<times> ('c \<times> string)) list"
  tw_etag :: nat
  tw_clock :: int
  tw_uuid :: nat

definition test_view :: "('c test_world, 'c) view" where
  "test_view w = map_of (tw_blobs w)"

definition etag_of :: "nat \<Rightarrow> string" where
  "etag_of n = show_nat n"

definition test_store :: "('c test_world, 'c) blob_storage" where
  "test_store = \<lparr>
     upload = (\<lambda>t n c m w.
       let old = map_option snd (map_of (tw_blobs w) (t, n));
           e = (if old = Some (etag_of (tw_etag w)) then etag_of (Suc (tw_etag w)) else etag_of (tw_etag w))
       in if m = None \<or> old = m
          then (Inr e, w\<lparr>tw_blobs := AList.update (t, n) (c, e) (tw_blobs w), tw_etag := Suc (tw_etag w)\<rparr>)
          else (Inl PreconditionFailedException, w)),
     download = (\<lambda>t n w. (case map_of (tw_blobs w) (t, n) of
        Some (c, _) \<Rightarrow> Inr c | None \<Rightarrow> Inl ResourceNotFoundException, w)),
     download_metadata = (\<lambda>t n w. (case map_of (tw_blobs w) (t, n) of
        Some (_, e) \<Rightarrow> Inr e | None \<Rightarrow> Inl ResourceNotFoundException, w)),
     list_objects = (\<lambda>t p w.
        (Inr (remdups (map snd (filter (\<lambda>(t', n). t' = t \<and> prefix p n) (map fst (tw_blobs w))))), w)),
     delete_object = (\<lambda>t n w. if map_of (tw_blobs w) (t, n) = None then (Inl ResourceNotFoundException, w)
        else (Inr (), w\<lparr>tw_blobs := AList.delete (t, n) (tw_blobs w)\<rparr>))\<rparr>"

definition test_runtime :: "'c test_world runtime" where
  "test_runtime = \<lparr>
     utc_now = (\<lambda>w. (Inr (tw_clock w), w\<lparr>tw_clock := tw_clock w + 1\<rparr>)),
     uuid4 = (\<lambda>w. (Inr (show_nat (tw_uuid w)), w\<lparr>tw_uuid := Suc (tw_uuid w)\<rparr>))\<rparr>"

lemma etag_of_inj [simp]: "etag_of m = etag_of n \<longleftrightarrow> m = n"
  unfolding etag_of_def by (metis option.inject parse_show_nat)

lemma test_store_laws:
  "upload_law test_store test_view" "read_law test_store test_view" "delete_law test_store test_view"
  "list_law test_store test_view" "runtime_law test_runtime test_view"
proof -
  show "upload_law test_store test_view"
    by (auto simp: upload_law_def test_store_def test_view_def Let_def fun_eq_iff)
  show "read_law test_store test_view"
    by (simp add: read_law_def test_store_def test_view_def)
  show "delete_law test_store test_view"
    by (auto simp: delete_law_def test_store_def test_view_def delete_conv' restrict_map_def fun_eq_iff)
  show "list_law test_store test_view"
    by (auto simp: list_law_def test_store_def test_view_def image_iff dest: map_of_eq_None_iff [THEN iffD1]
        weak_map_of_SomeI map_of_SomeD) (metis fst_conv map_of_SomeD)+
  show "runtime_law test_runtime test_view"
    by (simp add: runtime_law_def test_runtime_def test_view_def)
qed

end
