(* ===== verification/Sessions.thy ===== *)
theory Sessions
  imports Blob_Store
begin

text \<open>
  Sessions of \<open>app/bulk_persistence/sessions_storage.py\<close>: the session and its states, the storage of
  sessions as blobs under optimistic locking, the state changes with their matrix and time-out, and
  the context manager that brackets a commit or an abandon.  Times are microseconds.  Serialisation
  (pydantic) is a parameter: \<open>ss_dump\<close> and \<open>ss_load\<close> of the environment; the type \<open>'c\<close> of the
  contents is the type of the serialised session.
\<close>

section \<open>Data\<close>

datatype SessionState = Open | Committing | Abandoning | Committed | Abandoned

fun state_value :: "SessionState \<Rightarrow> string" where
  "state_value Open = ''open''"
| "state_value Committing = ''committing''"
| "state_value Abandoning = ''abandoning''"
| "state_value Committed = ''committed''"
| "state_value Abandoned = ''abandoned''"

datatype SessionUpdateMode = Overwrite | Update

fun mode_value :: "SessionUpdateMode \<Rightarrow> string" where
  "mode_value Overwrite = ''overwrite''"
| "mode_value Update = ''update''"

record Session =
  sess_id :: string
  recordId :: string
  fromVersion :: int
  mode :: SessionUpdateMode
  expiry :: int
  createdTime :: int
  updatedTime :: int
  state :: SessionState
  meta :: "(string \<times> string) list option"

record SessionInternal =
  session :: Session
  etag :: "string option"
  internal :: "pyval option"

record ('w, 'c) sessions_env =
  ss_storage :: "('w, 'c) blob_storage"
  ss_runtime :: "'w runtime"
  ss_dump :: "Session \<times> pyval option \<Rightarrow> 'c"
    \<comment> \<open>\<open>model_dump_json(exclude={'etag'})\<close>\<close>
  ss_load :: "'c \<Rightarrow> (Session \<times> pyval option) res"
    \<comment> \<open>\<open>SessionInternal.model_validate_json\<close>\<close>

section \<open>Properties and metadata of a session\<close>

definition is_expired :: "('w, 'c) sessions_env \<Rightarrow> Session \<Rightarrow> (exn, 'w, bool) prog" where
  "is_expired env s = bindM (utc_now (ss_runtime env)) (\<lambda>now. returnM (now > expiry s))"

definition is_closed :: "Session \<Rightarrow> bool" where
  "is_closed s \<longleftrightarrow> state s = Committed \<or> state s = Abandoned"

definition elapsed_since_update :: "('w, 'c) sessions_env \<Rightarrow> Session \<Rightarrow> (exn, 'w, int) prog" where
  \<comment> \<open>in microseconds\<close>
  "elapsed_since_update env s =
     bindM (utc_now (ss_runtime env)) (\<lambda>now. returnM (now - updatedTime s))"

definition set_meta_value :: "Session \<Rightarrow> string \<Rightarrow> string \<Rightarrow> Session" where
  "set_meta_value s key val = (case meta s of
       None \<Rightarrow> s\<lparr>meta := Some [(key, val)]\<rparr>
     | Some m \<Rightarrow> s\<lparr>meta := Some (AList.update key val m)\<rparr>)"

definition get_meta_value :: "Session \<Rightarrow> string \<Rightarrow> string option \<Rightarrow> string option" where
  "get_meta_value s key dflt = (case meta s of
       None \<Rightarrow> dflt
     | Some m \<Rightarrow> (case map_of m key of Some v \<Rightarrow> Some v | None \<Rightarrow> dflt))"

section \<open>Storage\<close>

definition datetime_min :: int where
  \<comment> \<open>the first and the last microsecond of Python's \<open>datetime\<close>, of the years 1 and 9999, counted from 1970\<close>
  "datetime_min = -62135596800000000"

definition datetime_max :: int where
  "datetime_max = 253402300799999999"

definition datetime_plus_minutes :: "int \<Rightarrow> int \<Rightarrow> int res" where
  \<comment> \<open>\<open>t + timedelta(minutes=m)\<close>; a \<open>timedelta\<close> that is itself out of range is longer than all dates\<close>
  "datetime_plus_minutes t m = (let t' = t + m * 60000000 in
     if datetime_min \<le> t' \<and> t' \<le> datetime_max then Inr t' else Inl OverflowError)"

definition build_session_complete_name :: "string \<Rightarrow> string \<Rightarrow> string" where
  "build_session_complete_name record_id session_id = ''sessions/'' @ record_id @ ''/'' @ session_id"

definition store_session ::
    "('w, 'c) sessions_env \<Rightarrow> string \<Rightarrow> SessionInternal \<Rightarrow> (exn, 'w, SessionInternal) prog" where
  "store_session env tenant i =
     bindM (if etag i \<noteq> None
            then bindM (utc_now (ss_runtime env))
                   (\<lambda>now. returnM (i\<lparr>session := (session i)\<lparr>updatedTime := now\<rparr>\<rparr>))
            else returnM i)
       (\<lambda>i. bindM
          (tryM (upload (ss_storage env) tenant
                   (build_session_complete_name (recordId (session i)) (sess_id (session i)))
                   (ss_dump env (session i, internal i)) (etag i))
             (\<lambda>e. case e of
                PreconditionFailedException \<Rightarrow>
                  raiseM (SessionErr (SessionUpdatedEtagUnmatched (recordId (session i)) (sess_id (session i))))
              | _ \<Rightarrow> raiseM e))
          (\<lambda>blob_etag. returnM \<lparr>session = session i, etag = Some blob_etag, internal = internal i\<rparr>))"

definition get_session ::
    "('w, 'c) sessions_env \<Rightarrow> string \<Rightarrow> string \<Rightarrow> string \<Rightarrow> (exn, 'w, SessionInternal) prog" where
  \<comment> \<open>\<open>_get_session\<close> and \<open>get_session\<close>; the two reads of \<open>gather\<close> one after the other\<close>
  "get_session env tenant record_id session_id =
     (let object_name = build_session_complete_name record_id session_id in
      tryM (bindM (download_metadata (ss_storage env) tenant object_name) (\<lambda>blob_etag.
            bindM (download (ss_storage env) tenant object_name) (\<lambda>blob_content.
            bindM (liftM (ss_load env blob_content)) (\<lambda>(s, int).
            returnM \<lparr>session = s, etag = Some blob_etag, internal = int\<rparr>))))
        (\<lambda>e. case e of
           ResourceNotFoundException \<Rightarrow> raiseM (SessionErr (SessionNotFound record_id session_id))
         | _ \<Rightarrow> raiseM e))"

definition raise_http_exception :: "(exn, 'w, 'a) prog \<Rightarrow> (exn, 'w, 'a) prog" where
  "raise_http_exception func = tryM func (\<lambda>e. case e of
       SessionErr ex \<Rightarrow> raiseM (session_raise_as_http ex)
     | _ \<Rightarrow> raiseM e)"

definition create_session :: "('w, 'c) sessions_env \<Rightarrow> string \<Rightarrow> string \<Rightarrow> int \<Rightarrow> int \<Rightarrow> SessionUpdateMode
    \<Rightarrow> (string \<times> string) list option \<Rightarrow> pyval option \<Rightarrow> (exn, 'w, SessionInternal) prog" where
  "create_session env tenant record_id from_version ttl m mt intl =
     bindM (utc_now (ss_runtime env)) (\<lambda>now.
     bindM (uuid4 (ss_runtime env)) (\<lambda>u.
     bindM (liftM (datetime_plus_minutes now ttl)) (\<lambda>deadline.
       store_session env tenant
         \<lparr>session = \<lparr>sess_id = u, recordId = record_id, fromVersion = from_version, mode = m,
                     expiry = deadline, createdTime = now, updatedTime = now,
                     state = Open, meta = mt\<rparr>,
          etag = None, internal = intl\<rparr>)))"

definition list_sessions :: "('w, 'c) sessions_env \<Rightarrow> string \<Rightarrow> string \<Rightarrow> (exn, 'w, string list) prog" where
  "list_sessions env tenant record_id =
     bindM (list_objects (ss_storage env) tenant (build_session_complete_name record_id []))
       (\<lambda>names. returnM (map (\<lambda>name. last (split_char (CHR ''/'') name)) names))"

definition delete_session :: "('w, 'c) sessions_env \<Rightarrow> string \<Rightarrow> string \<Rightarrow> string \<Rightarrow> bool \<Rightarrow> (exn, 'w, unit) prog" where
  "delete_session env tenant record_id session_id force_delete =
     bindM (get_session env tenant record_id session_id) (\<lambda>i.
       if \<not> is_closed (session i) \<and> \<not> force_delete then raiseM RuntimeError
       else delete_object (ss_storage env) tenant (build_session_complete_name record_id session_id))"

section \<open>State changes\<close>

definition idle_timeout :: int where
  \<comment> \<open>five minutes\<close>
  "idle_timeout = 5 * 60 * 1000000"

definition check_state_update :: "('w, 'c) sessions_env \<Rightarrow> string \<Rightarrow> string \<Rightarrow> SessionInternal \<Rightarrow> SessionState
    \<Rightarrow> (exn, 'w, unit) prog" where
  \<comment> \<open>the checks of \<open>_update_session_state\<close> without \<open>force_update\<close>\<close>
  "check_state_update env record_id session_id i new_state =
     (let invalid_state = SessionErr (SessionInvalidState record_id session_id); actual = state (session i) in
      if new_state = Open then raiseM AssertionError
      else if is_closed (session i) then raiseM invalid_state
      else if new_state = Committed
        then (if actual = Committing then returnM () else raiseM AssertionError)
      else if new_state = Abandoned
        then (if actual = Abandoning then returnM () else raiseM AssertionError)
      else if actual \<noteq> Open
        then bindM (elapsed_since_update env (session i)) (\<lambda>elapsed.
               if elapsed < idle_timeout then raiseM invalid_state
               else if new_state = Committing \<and> actual = Abandoning then raiseM invalid_state
               else returnM ())
      else returnM ())"

definition apply_state :: "('w, 'c) sessions_env \<Rightarrow> string \<Rightarrow> string \<Rightarrow> string \<Rightarrow> SessionState \<Rightarrow> bool
    \<Rightarrow> SessionInternal \<Rightarrow> (exn, 'w, SessionInternal) prog" where
  \<comment> \<open>what \<open>_update_session_state\<close> does with the session it has read\<close>
  "apply_state env tenant record_id session_id new_state force_update i =
     bindM (if force_update then returnM () else check_state_update env record_id session_id i new_state)
       (\<lambda>_. store_session env tenant (i\<lparr>session := (session i)\<lparr>state := new_state\<rparr>\<rparr>))"

definition update_session_state :: "('w, 'c) sessions_env \<Rightarrow> string \<Rightarrow> string \<Rightarrow> string \<Rightarrow> SessionState \<Rightarrow> bool
    \<Rightarrow> (exn, 'w, SessionInternal) prog" where
  "update_session_state env tenant record_id session_id new_state force_update =
     bindM (get_session env tenant record_id session_id)
       (apply_state env tenant record_id session_id new_state force_update)"

definition update_session :: "('w, 'c) sessions_env \<Rightarrow> string \<Rightarrow> SessionInternal \<Rightarrow> (exn, 'w, SessionInternal) prog" where
  "update_session env tenant i = store_session env tenant i"

section \<open>The completion context manager\<close>

record CompletionContextManager =
  cm_tenant :: string
  cm_record_id :: string
  cm_session_id :: string
  cm_commit :: bool
  cm_is_armed :: bool
  cm_session :: "SessionInternal option"

definition initiate_completion :: "string \<Rightarrow> string \<Rightarrow> string \<Rightarrow> bool \<Rightarrow> CompletionContextManager" where
  "initiate_completion tenant record_id session_id commit =
     \<lparr>cm_tenant = tenant, cm_record_id = record_id, cm_session_id = session_id, cm_commit = commit,
      cm_is_armed = False, cm_session = None\<rparr>"

definition initiate_commit :: "string \<Rightarrow> string \<Rightarrow> string \<Rightarrow> CompletionContextManager" where
  "initiate_commit tenant record_id session_id = initiate_completion tenant record_id session_id True"

definition initiate_abandon :: "string \<Rightarrow> string \<Rightarrow> string \<Rightarrow> CompletionContextManager" where
  "initiate_abandon tenant record_id session_id = initiate_completion tenant record_id session_id False"

definition aenter :: "('w, 'c) sessions_env \<Rightarrow> CompletionContextManager
    \<Rightarrow> (exn, 'w, CompletionContextManager) prog" where
  "aenter env cm =
     bindM (update_session_state env (cm_tenant cm) (cm_record_id cm) (cm_session_id cm)
              (if cm_commit cm then Committing else Abandoning) False)
       (\<lambda>s. returnM (cm\<lparr>cm_session := Some s, cm_is_armed := True\<rparr>))"

definition aexit :: "('w, 'c) sessions_env \<Rightarrow> CompletionContextManager \<Rightarrow> exn option
    \<Rightarrow> (exn, 'w, CompletionContextManager) prog" where
  "aexit env cm exc =
     (if \<not> cm_is_armed cm then returnM cm
      else bindM
        (if exc = None
         then update_session_state env (cm_tenant cm) (cm_record_id cm) (cm_session_id cm)
                (if cm_commit cm then Committed else Abandoned) False
         else update_session_state env (cm_tenant cm) (cm_record_id cm) (cm_session_id cm) Open True)
        (\<lambda>s. returnM (cm\<lparr>cm_session := Some s, cm_is_armed := False\<rparr>)))"

definition with_completion :: "('w, 'c) sessions_env \<Rightarrow> CompletionContextManager
    \<Rightarrow> (CompletionContextManager \<Rightarrow> (exn, 'w, 'a) prog) \<Rightarrow> (exn, 'w, 'a \<times> CompletionContextManager) prog" where
  \<comment> \<open>\<open>async with cm as guard: body\<close>: an exception of the body is raised again after the exit\<close>
  "with_completion env cm body =
     bindM (aenter env cm) (\<lambda>guard s.
       case body guard s of
         (Inr v, s') \<Rightarrow> bindM (aexit env guard None) (\<lambda>guard'. returnM (v, guard')) s'
       | (Inl e, s') \<Rightarrow> bindM (aexit env guard (Some e)) (\<lambda>_. raiseM e) s')"

section \<open>What the service relies on\<close>

definition sessions_laws :: "('w, 'c) sessions_env \<Rightarrow> ('w, 'c) view \<Rightarrow> bool" where
  "sessions_laws env view \<longleftrightarrow>
     upload_law (ss_storage env) view \<and> read_law (ss_storage env) view
     \<and> delete_law (ss_storage env) view \<and> list_law (ss_storage env) view
     \<and> runtime_law (ss_runtime env) view \<and> (\<forall>x. ss_load env (ss_dump env x) = Inr x)"

definition session_key :: "string \<Rightarrow> string \<Rightarrow> string \<Rightarrow> string \<times> string" where
  "session_key tenant record_id session_id = (tenant, build_session_complete_name record_id session_id)"

definition session_at :: "('w, 'c) sessions_env \<Rightarrow> ('w, 'c) view \<Rightarrow> 'w \<Rightarrow> string \<Rightarrow> SessionInternal \<Rightarrow> bool" where
  \<comment> \<open>the session is stored, with its etag, under its own name\<close>
  "session_at env view w tenant i \<longleftrightarrow> (\<exists>e. etag i = Some e \<and>
     view w (session_key tenant (recordId (session i)) (sess_id (session i)))
       = Some (ss_dump env (session i, internal i), e))"

lemmas session_defs = store_session_def get_session_def session_key_def session_at_def

lemma sessions_lawsD:
  assumes "sessions_laws env view"
  shows "upload_law (ss_storage env) view" "read_law (ss_storage env) view"
    "delete_law (ss_storage env) view" "list_law (ss_storage env) view"
    "runtime_law (ss_runtime env) view" "ss_load env (ss_dump env x) = Inr x"
  using assms unfolding sessions_laws_def by blast+

lemma get_session_stored:
  assumes "sessions_laws env view"
    and "view w (session_key tenant record_id session_id) = Some (ss_dump env (s, x), e)"
  obtains w' where "get_session env tenant record_id session_id w =
      (Inr \<lparr>session = s, etag = Some e, internal = x\<rparr>, w')" "view w' = view w"
proof -
  let ?n = "build_session_complete_name record_id session_id"
  note laws = sessions_lawsD [OF assms(1)]
  have e: "view w (tenant, ?n) = Some (ss_dump env (s, x), e)"
    using assms(2) by (simp add: session_key_def)
  obtain w1 where w1: "view w1 = view w" "download_metadata (ss_storage env) tenant ?n w = (Inr e, w1)"
    using metadata_ok [OF laws(2), of w tenant ?n] e by auto
  obtain w2 where w2: "view w2 = view w1" "download (ss_storage env) tenant ?n w1 =
      (Inr (ss_dump env (s, x)), w2)"
    using download_ok [OF laws(2), of w1 tenant ?n] e w1(1) by auto
  from w1 w2 laws(6) show thesis
    by (intro that [of w2]) (simp_all add: get_session_def bindM_run tryM_run Let_def)
qed

lemma get_session_at:
  assumes "sessions_laws env view" and "session_at env view w tenant i"
  obtains w' where "get_session env tenant (recordId (session i)) (sess_id (session i)) w = (Inr i, w')"
    "view w' = view w"
proof -
  from assms(2) obtain e where "i = \<lparr>session = session i, etag = Some e, internal = internal i\<rparr>"
      "view w (session_key tenant (recordId (session i)) (sess_id (session i)))
         = Some (ss_dump env (session i, internal i), e)"
    by (cases i) (auto simp: session_at_def)
  then show thesis using get_session_stored [OF assms(1)] that by metis
qed

lemma get_session_missing:
  assumes "sessions_laws env view" and "view w (session_key tenant record_id session_id) = None"
  obtains w' where "get_session env tenant record_id session_id w =
    (Inl (SessionErr (SessionNotFound record_id session_id)), w')" "view w' = view w"
proof -
  let ?n = "build_session_complete_name record_id session_id"
  obtain w1 where w1: "view w1 = view w"
      "download_metadata (ss_storage env) tenant ?n w = (Inl ResourceNotFoundException, w1)"
    using metadata_ok [OF sessions_lawsD(2) [OF assms(1)], of w tenant ?n] assms(2)
    by (auto simp: session_key_def)
  then show thesis
    by (intro that [of w1]) (simp_all add: get_session_def bindM_run tryM_run Let_def)
qed

text \<open>A conditional upload on the current etag, and one on an etag that is no longer current.\<close>

lemma store_session_current:
  assumes "sessions_laws env view" and "etag i = Some e"
    and "map_option snd (view w (session_key tenant (recordId (session i)) (sess_id (session i)))) = Some e"
  shows "\<exists>now e' w'. store_session env tenant i w =
       (Inr (i\<lparr>session := (session i)\<lparr>updatedTime := now\<rparr>, etag := Some e'\<rparr>), w')
    \<and> view w' = (view w)(session_key tenant (recordId (session i)) (sess_id (session i))
       \<mapsto> (ss_dump env ((session i)\<lparr>updatedTime := now\<rparr>, internal i), e'))
    \<and> e' \<noteq> e"
proof -
  let ?n = "build_session_complete_name (recordId (session i)) (sess_id (session i))"
  note laws = sessions_lawsD [OF assms(1)]
  obtain now w1 where w1: "utc_now (ss_runtime env) w = (Inr now, w1)" "view w1 = view w"
    using now_ok [OF laws(5)] by blast
  let ?c = "ss_dump env ((session i)\<lparr>updatedTime := now\<rparr>, internal i)"
  have "map_option snd (view w1 (tenant, ?n)) = Some e"
    using assms(3) w1(2) by (simp add: session_key_def)
  then obtain e' w' where u: "upload (ss_storage env) tenant ?n ?c (Some e) w1 = (Inr e', w')"
      "view w' = (view w1)((tenant, ?n) \<mapsto> (?c, e'))" "e' \<noteq> e"
    using upload_ok [OF laws(1), of "Some e" w1 tenant ?n ?c] by auto
  have "store_session env tenant i w =
       (Inr (i\<lparr>session := (session i)\<lparr>updatedTime := now\<rparr>, etag := Some e'\<rparr>), w')"
    using assms(2) w1(1) u(1) by (cases i) (simp add: store_session_def bindM_run tryM_run)
  moreover have "view w' = (view w)(session_key tenant (recordId (session i)) (sess_id (session i))
      \<mapsto> (?c, e'))"
    using u(2) w1(2) by (simp add: session_key_def)
  ultimately show ?thesis using u(3) by blast
qed

lemma store_session_stale:
  assumes "sessions_laws env view" and "etag i = Some e"
    and "map_option snd (view w (session_key tenant (recordId (session i)) (sess_id (session i)))) \<noteq> Some e"
  shows "\<exists>w'. store_session env tenant i w =
       (Inl (SessionErr (SessionUpdatedEtagUnmatched (recordId (session i)) (sess_id (session i)))), w')
    \<and> view w' = view w"
proof -
  let ?n = "build_session_complete_name (recordId (session i)) (sess_id (session i))"
  note laws = sessions_lawsD [OF assms(1)]
  obtain now w1 where w1: "utc_now (ss_runtime env) w = (Inr now, w1)" "view w1 = view w"
    using now_ok [OF laws(5)] by blast
  let ?c = "ss_dump env ((session i)\<lparr>updatedTime := now\<rparr>, internal i)"
  have "map_option snd (view w1 (tenant, ?n)) \<noteq> Some e"
    using assms(3) w1(2) by (simp add: session_key_def)
  then obtain w' where u: "upload (ss_storage env) tenant ?n ?c (Some e) w1 =
      (Inl PreconditionFailedException, w')" "view w' = view w1"
    using upload_refused [OF laws(1), of "Some e" w1 tenant ?n ?c] by auto
  have "store_session env tenant i w =
       (Inl (SessionErr (SessionUpdatedEtagUnmatched (recordId (session i)) (sess_id (session i)))), w')"
    using assms(2) w1(1) u(1) by (simp add: store_session_def bindM_run tryM_run)
  with u(2) w1(2) show ?thesis by auto
qed

section \<open>The state matrix\<close>

text \<open>The matrix of the comment of \<open>_update_session_state\<close>; \<open>idle\<close> is the detected time-out.\<close>

fun allowed :: "SessionState \<Rightarrow> SessionState \<Rightarrow> bool \<Rightarrow> bool" where
  "allowed Open Committing idle = True"
| "allowed Open Abandoning idle = True"
| "allowed Committing Committing idle = idle"
| "allowed Committing Committed idle = True"
| "allowed Committing Abandoning idle = idle"
| "allowed Abandoning Abandoning idle = idle"
| "allowed Abandoning Abandoned idle = True"
| "allowed _ _ idle = False"

lemma check_state_update_matrix:
  assumes "runtime_law (ss_runtime env) view" and "utc_now (ss_runtime env) w = (Inr now, w1)"
  shows "\<exists>w'. view w' = view w \<and>
     (if allowed (state (session i)) new_state (idle_timeout \<le> now - updatedTime (session i))
      then check_state_update env rid sid i new_state w = (Inr (), w')
      else check_state_update env rid sid i new_state w = (Inl AssertionError, w') \<or>
           check_state_update env rid sid i new_state w =
             (Inl (SessionErr (SessionInvalidState rid sid)), w'))"
proof -
  have v: "view w1 = view w" using now_ok [OF assms(1), of w] assms(2) by auto
  show ?thesis
    using assms(2) v
    by (cases "state (session i)"; cases new_state)
      (auto simp: check_state_update_def is_closed_def elapsed_since_update_def bindM_run Let_def)
qed

lemma apply_state_current:
  assumes "sessions_laws env view" and "session_at env view w tenant i"
    and "force_update \<or> check_state_update env rid sid i new_state w = (Inr (), w1) \<and> view w1 = view w"
  shows "\<exists>now e w'. apply_state env tenant rid sid new_state force_update i w =
       (Inr (i\<lparr>session := (session i)\<lparr>state := new_state, updatedTime := now\<rparr>, etag := Some e\<rparr>), w')
    \<and> view w' = (view w)(session_key tenant (recordId (session i)) (sess_id (session i))
       \<mapsto> (ss_dump env ((session i)\<lparr>state := new_state, updatedTime := now\<rparr>, internal i), e))
    \<and> etag i \<noteq> Some e"
proof -
  let ?i = "i\<lparr>session := (session i)\<lparr>state := new_state\<rparr>\<rparr>"
  define w0 where "w0 = (if force_update then w else w1)"
  from assms(2) obtain e0 where e0: "etag i = Some e0"
      "view w (session_key tenant (recordId (session i)) (sess_id (session i)))
         = Some (ss_dump env (session i, internal i), e0)"
    by (auto simp: session_at_def)
  have v0: "view w0 = view w" using assms(3) by (auto simp: w0_def)
  with e0 have "etag ?i = Some e0" "map_option snd (view w0
      (session_key tenant (recordId (session ?i)) (sess_id (session ?i)))) = Some e0"
    by simp_all
  from store_session_current [OF assms(1) this] obtain now e w' where
    st: "store_session env tenant ?i w0 =
       (Inr (i\<lparr>session := (session i)\<lparr>state := new_state, updatedTime := now\<rparr>, etag := Some e\<rparr>), w')"
      "view w' = (view w)(session_key tenant (recordId (session i)) (sess_id (session i))
       \<mapsto> (ss_dump env ((session i)\<lparr>state := new_state, updatedTime := now\<rparr>, internal i), e))"
      "e \<noteq> e0"
    by (auto simp: v0)
  have "apply_state env tenant rid sid new_state force_update i w = store_session env tenant ?i w0"
    using assms(3) by (auto simp: apply_state_def w0_def bindM_run)
  with st e0(1) show ?thesis by auto
qed

text \<open>C2: A state change obeys the documented matrix.  For a stored session, \<open>_update_session_state\<close>
  without \<open>force_update\<close> stores the new state (with a new etag, a fresh update time and everything
  else unchanged) exactly when the matrix allows it, where "time-out" means at least five minutes
  since the last update; otherwise it raises an assertion error or the invalid-state error and
  leaves the storage as it was.\<close>

theorem update_state_matrix:
  assumes "sessions_laws env view" and "session_at env view w tenant i"
    and "get_session env tenant (recordId (session i)) (sess_id (session i)) w = (Inr i, w1)"
    and "utc_now (ss_runtime env) w1 = (Inr now, w2)"
  shows "\<exists>r w'. update_session_state env tenant (recordId (session i)) (sess_id (session i)) new_state False w
        = (r, w') \<and>
     (if allowed (state (session i)) new_state (idle_timeout \<le> now - updatedTime (session i))
      then \<exists>t e. r = Inr (i\<lparr>session := (session i)\<lparr>state := new_state, updatedTime := t\<rparr>, etag := Some e\<rparr>)
             \<and> etag i \<noteq> Some e
             \<and> view w' = (view w)(session_key tenant (recordId (session i)) (sess_id (session i))
                 \<mapsto> (ss_dump env ((session i)\<lparr>state := new_state, updatedTime := t\<rparr>, internal i), e))
      else (r = Inl AssertionError
            \<or> r = Inl (SessionErr (SessionInvalidState (recordId (session i)) (sess_id (session i)))))
           \<and> view w' = view w)"
proof -
  let ?rid = "recordId (session i)" and ?sid = "sess_id (session i)"
  have v1: "view w1 = view w"
    using get_session_at [OF assms(1,2)] assms(3) by (metis prod.inject)
  with assms(2) have at1: "session_at env view w1 tenant i" by (simp add: session_at_def)
  have upd: "update_session_state env tenant ?rid ?sid new_state False w
      = apply_state env tenant ?rid ?sid new_state False i w1"
    using assms(3) by (simp add: update_session_state_def bindM_run)
  from check_state_update_matrix [OF sessions_lawsD(5) [OF assms(1)] assms(4), of i new_state ?rid ?sid]
  obtain w3 where w3: "view w3 = view w1"
    "if allowed (state (session i)) new_state (idle_timeout \<le> now - updatedTime (session i))
      then check_state_update env ?rid ?sid i new_state w1 = (Inr (), w3)
      else check_state_update env ?rid ?sid i new_state w1 = (Inl AssertionError, w3) \<or>
           check_state_update env ?rid ?sid i new_state w1 =
             (Inl (SessionErr (SessionInvalidState ?rid ?sid)), w3)"
    by blast
  show ?thesis
  proof (cases "allowed (state (session i)) new_state (idle_timeout \<le> now - updatedTime (session i))")
    case True
    with w3 have "False \<or> check_state_update env ?rid ?sid i new_state w1 = (Inr (), w3) \<and> view w3 = view w1"
      by simp
    from apply_state_current [OF assms(1) at1 this] True show ?thesis
      unfolding upd v1 by auto
  next
    case False
    with w3 show ?thesis
      unfolding upd by (auto simp: apply_state_def bindM_run v1)
  qed
qed

section \<open>Optimistic locking\<close>

lemma apply_state_stale:
  assumes "sessions_laws env view" and "etag i = Some e"
    and "map_option snd (view w (session_key tenant (recordId (session i)) (sess_id (session i)))) \<noteq> Some e"
  shows "\<exists>x w'. apply_state env tenant rid sid new_state force_update i w = (Inl x, w') \<and> view w' = view w"
proof (cases "force_update")
  case True
  then show ?thesis
    using store_session_stale [of env view "i\<lparr>session := (session i)\<lparr>state := new_state\<rparr>\<rparr>" e w tenant] assms
    by (auto simp: apply_state_def)
next
  case False
  obtain now w1 where "utc_now (ss_runtime env) w = (Inr now, w1)"
    using now_ok [OF sessions_lawsD(5) [OF assms(1)]] by blast
  from check_state_update_matrix [OF sessions_lawsD(5) [OF assms(1)] this, of i new_state rid sid]
  obtain r w2 where w2: "view w2 = view w" "check_state_update env rid sid i new_state w = (r, w2)"
    by (auto split: if_splits)
  then obtain w3 where "view w3 = view w2" "store_session env tenant (i\<lparr>session := (session i)\<lparr>state := new_state\<rparr>\<rparr>) w2 =
      (Inl (SessionErr (SessionUpdatedEtagUnmatched (recordId (session i)) (sess_id (session i)))), w3)"
    using store_session_stale [of env view "i\<lparr>session := (session i)\<lparr>state := new_state\<rparr>\<rparr>" e w2 tenant] assms
    by auto
  with w2 False show ?thesis
    by (cases r) (auto simp: apply_state_def bindM_run)
qed

text \<open>C3: Optimistic locking: when two requests have read the same version of a session, at most one
  of them changes it.  After the first has stored its new state, the state change of the second, made
  on the version it has read, raises an error and leaves the storage as the first one made it,
  whatever states and force flags the two use.\<close>

theorem optimistic_lock:
  assumes "sessions_laws env view" and "session_at env view w tenant i"
    and "apply_state env tenant rid sid state1 force1 i w = (Inr i1, w1)"
  shows "\<exists>x w2. apply_state env tenant rid sid state2 force2 i w1 = (Inl x, w2) \<and> view w2 = view w1"
proof -
  obtain e where e: "etag i = Some e" using assms(2) by (auto simp: session_at_def)
  have "force1 \<or> (\<exists>w0. check_state_update env rid sid i state1 w = (Inr (), w0) \<and> view w0 = view w)"
  proof (cases force1)
    case False
    obtain now u where "utc_now (ss_runtime env) w = (Inr now, u)"
      using now_ok [OF sessions_lawsD(5) [OF assms(1)]] by blast
    from check_state_update_matrix [OF sessions_lawsD(5) [OF assms(1)] this, of i state1 rid sid] assms(3) False
    show ?thesis by (auto simp: apply_state_def bindM_run split: if_splits)
  qed simp
  then obtain w0 where "force1 \<or> check_state_update env rid sid i state1 w = (Inr (), w0) \<and> view w0 = view w"
    by blast
  from apply_state_current [OF assms(1,2) this] assms(3) e
  have "map_option snd (view w1 (session_key tenant (recordId (session i)) (sess_id (session i)))) \<noteq> Some e"
    by auto
  then show ?thesis using apply_state_stale [OF assms(1) e] by blast
qed

section \<open>Creating and reading\<close>

lemma create_session_run:
  assumes "sessions_laws env view" and "utc_now (ss_runtime env) w = (Inr now, w0)"
  shows "if datetime_min \<le> now + ttl * 60000000 \<and> now + ttl * 60000000 \<le> datetime_max
    then \<exists>i w1 e. create_session env tenant record_id from_version ttl m mt x w = (Inr i, w1)
       \<and> session_at env view w1 tenant i
       \<and> recordId (session i) = record_id \<and> fromVersion (session i) = from_version
       \<and> state (session i) = Open \<and> mode (session i) = m \<and> meta (session i) = mt \<and> internal i = x
       \<and> createdTime (session i) = now \<and> updatedTime (session i) = now
       \<and> expiry (session i) = now + ttl * 60000000
       \<and> view w1 = (view w)(session_key tenant record_id (sess_id (session i)) \<mapsto> (ss_dump env (session i, x), e))
    else \<exists>w1. create_session env tenant record_id from_version ttl m mt x w = (Inl OverflowError, w1) \<and> view w1 = view w"
proof -
  note laws = sessions_lawsD [OF assms(1)]
  have a: "view w0 = view w" using now_ok [OF laws(5), of w] assms(2) by auto
  obtain u wb where b: "uuid4 (ss_runtime env) w0 = (Inr u, wb)" "view wb = view w0"
    using uuid4_ok [OF laws(5)] by blast
  show ?thesis
  proof (cases "datetime_min \<le> now + ttl * 60000000 \<and> now + ttl * 60000000 \<le> datetime_max")
    case True
    define s where "s = \<lparr>sess_id = u, recordId = record_id, fromVersion = from_version, mode = m,
      expiry = now + ttl * 60000000, createdTime = now, updatedTime = now, state = Open, meta = mt\<rparr>"
    obtain e w1 where c: "upload (ss_storage env) tenant (build_session_complete_name record_id u)
        (ss_dump env (s, x)) None wb = (Inr e, w1)"
        "view w1 = (view wb)((tenant, build_session_complete_name record_id u) \<mapsto> (ss_dump env (s, x), e))"
      using upload_ok [OF laws(1), of None wb tenant "build_session_complete_name record_id u" "ss_dump env (s, x)"]
      by auto
    let ?i = "\<lparr>session = s, etag = Some e, internal = x\<rparr>"
    have "create_session env tenant record_id from_version ttl m mt x w = (Inr ?i, w1)"
      using assms(2) b(1) c(1) True
      by (simp add: create_session_def datetime_plus_minutes_def liftM_def store_session_def bindM_run tryM_run s_def)
    moreover have v: "view w1 = (view w)(session_key tenant record_id u \<mapsto> (ss_dump env (s, x), e))"
      using c(2) b(2) a by (simp add: session_key_def)
    then have "session_at env view w1 tenant ?i" by (simp add: session_at_def s_def)
    ultimately show ?thesis
      using v unfolding if_P [OF True] by (intro exI [of _ ?i] exI [of _ w1] exI [of _ e]) (simp add: s_def)
  next
    case False
    then have "create_session env tenant record_id from_version ttl m mt x w = (Inl OverflowError, wb)"
      using assms(2) b(1) by (auto simp: create_session_def datetime_plus_minutes_def liftM_def bindM_run)
    with False a b(2) show ?thesis by auto
  qed
qed

text \<open>C8: A created session can be read back.  When the moment that lies the given number of minutes after the
  current time is a date of Python (of the years 1 to 9999), \<open>create_session\<close> stores a session in state open for the
  given record and version, created and updated at the current time and with that moment as its expiry, and
  \<open>get_session\<close> then returns exactly that session with the etag of the upload.  For any other number of minutes
  \<open>create_session\<close> raises an \<open>OverflowError\<close> and stores nothing.\<close>

theorem create_then_get:
  assumes "sessions_laws env view" and "utc_now (ss_runtime env) w = (Inr now, w0)"
  shows "if datetime_min \<le> now + ttl * 60000000 \<and> now + ttl * 60000000 \<le> datetime_max
    then \<exists>i w1 w2. create_session env tenant record_id from_version ttl m mt x w = (Inr i, w1)
       \<and> get_session env tenant record_id (sess_id (session i)) w1 = (Inr i, w2) \<and> view w2 = view w1
       \<and> recordId (session i) = record_id \<and> fromVersion (session i) = from_version
       \<and> state (session i) = Open \<and> mode (session i) = m \<and> meta (session i) = mt \<and> internal i = x
       \<and> createdTime (session i) = now \<and> updatedTime (session i) = now
       \<and> expiry (session i) = now + ttl * 60000000
    else \<exists>w1. create_session env tenant record_id from_version ttl m mt x w = (Inl OverflowError, w1) \<and> view w1 = view w"
proof (cases "datetime_min \<le> now + ttl * 60000000 \<and> now + ttl * 60000000 \<le> datetime_max")
  case True
  with create_session_run [OF assms, of ttl tenant record_id from_version m mt x] obtain i w1 where
    c: "create_session env tenant record_id from_version ttl m mt x w = (Inr i, w1)" "session_at env view w1 tenant i"
      "recordId (session i) = record_id \<and> fromVersion (session i) = from_version
       \<and> state (session i) = Open \<and> mode (session i) = m \<and> meta (session i) = mt \<and> internal i = x
       \<and> createdTime (session i) = now \<and> updatedTime (session i) = now
       \<and> expiry (session i) = now + ttl * 60000000"
    by auto
  from get_session_at [OF assms(1) c(2)] obtain w2 where
    "get_session env tenant (recordId (session i)) (sess_id (session i)) w1 = (Inr i, w2)" "view w2 = view w1" .
  with c True show ?thesis by auto
next
  case False
  with create_session_run [OF assms, of ttl tenant record_id from_version m mt x] show ?thesis by auto
qed

text \<open>C35: Deleting a session: without force, an unfinished session is kept and a runtime error is
  raised; a committed or abandoned session, or any session with force, is removed, and reading it
  afterwards raises the not-found error.\<close>

theorem delete_session_spec:
  assumes "sessions_laws env view" and "session_at env view w tenant i"
  shows "if is_closed (session i) \<or> force_delete
    then \<exists>w1 w2. delete_session env tenant (recordId (session i)) (sess_id (session i)) force_delete w = (Inr (), w1)
      \<and> view w1 = (view w)(session_key tenant (recordId (session i)) (sess_id (session i)) := None)
      \<and> get_session env tenant (recordId (session i)) (sess_id (session i)) w1 =
          (Inl (SessionErr (SessionNotFound (recordId (session i)) (sess_id (session i)))), w2)
    else \<exists>w1. delete_session env tenant (recordId (session i)) (sess_id (session i)) force_delete w
          = (Inl RuntimeError, w1) \<and> view w1 = view w"
proof -
  let ?rid = "recordId (session i)" and ?sid = "sess_id (session i)"
  let ?k = "session_key tenant ?rid ?sid"
  from get_session_at [OF assms] obtain w0 where
    g: "get_session env tenant ?rid ?sid w = (Inr i, w0)" "view w0 = view w" .
  have some: "view w0 ?k \<noteq> None" using assms(2) g(2) by (auto simp: session_at_def)
  obtain r w1 where d: "delete_object (ss_storage env) tenant (build_session_complete_name ?rid ?sid) w0 = (r, w1)"
      "if view w0 ?k = None then r = Inl ResourceNotFoundException \<and> view w1 = view w0
       else r = Inr () \<and> view w1 = (view w0)(?k := None)"
    using delete_ok [OF sessions_lawsD(3) [OF assms(1)]] unfolding session_key_def by blast
  with some have r: "r = Inr ()" "view w1 = (view w0)(?k := None)" by auto
  then have "view w1 ?k = None" by simp
  from get_session_missing [OF assms(1) this] obtain w2 where
    "get_session env tenant ?rid ?sid w1 = (Inl (SessionErr (SessionNotFound ?rid ?sid)), w2)" .
  with g d(1) r show ?thesis by (auto simp: delete_session_def bindM_run)
qed

section \<open>Completion\<close>

lemma update_state_allowed:
  assumes "sessions_laws env view" and "session_at env view w tenant i"
    and "force \<or> (\<forall>idle. allowed (state (session i)) new_state idle)"
  shows "\<exists>t e w'. update_session_state env tenant (recordId (session i)) (sess_id (session i)) new_state force w
        = (Inr (i\<lparr>session := (session i)\<lparr>state := new_state, updatedTime := t\<rparr>, etag := Some e\<rparr>), w')
     \<and> view w' = (view w)(session_key tenant (recordId (session i)) (sess_id (session i))
          \<mapsto> (ss_dump env ((session i)\<lparr>state := new_state, updatedTime := t\<rparr>, internal i), e))"
proof -
  let ?rid = "recordId (session i)" and ?sid = "sess_id (session i)"
  from get_session_at [OF assms(1,2)] obtain w1 where
    g: "get_session env tenant ?rid ?sid w = (Inr i, w1)" "view w1 = view w" .
  with assms(2) have at: "session_at env view w1 tenant i" by (simp add: session_at_def)
  obtain now w2 where "utc_now (ss_runtime env) w1 = (Inr now, w2)"
    using now_ok [OF sessions_lawsD(5) [OF assms(1)]] by blast
  from check_state_update_matrix [OF sessions_lawsD(5) [OF assms(1)] this, of i new_state ?rid ?sid] assms(3)
  obtain w3 where "force \<or> check_state_update env ?rid ?sid i new_state w1 = (Inr (), w3) \<and> view w3 = view w1"
    by metis
  from apply_state_current [OF assms(1) at this] g show ?thesis
    by (auto simp: update_session_state_def bindM_run)
qed

text \<open>After a forced or allowed change the session is stored under its own name again.\<close>

lemma session_at_updated:
  assumes "view w' (session_key tenant (recordId (session i)) (sess_id (session i)))
     = Some (ss_dump env ((session i)\<lparr>state := st, updatedTime := t\<rparr>, internal i), e)"
  shows "session_at env view w' tenant (i\<lparr>session := (session i)\<lparr>state := st, updatedTime := t\<rparr>, etag := Some e\<rparr>)"
  using assms by (simp add: session_at_def)

definition keeps_session :: "('w, 'c) view \<Rightarrow> string \<times> string \<Rightarrow> (exn, 'w, 'a) prog \<Rightarrow> bool" where
  \<comment> \<open>the program leaves the named object alone\<close>
  "keeps_session view k m \<longleftrightarrow> (\<forall>u. view (snd (m u)) k = view u k)"

lemma completion_entered:
  assumes "sessions_laws env view"
    and u1: "update_session_state env tenant (recordId (session i)) (sess_id (session i))
          (if commit then Committing else Abandoning) False w
        = (Inr (i\<lparr>session := (session i)\<lparr>state := if commit then Committing else Abandoning, updatedTime := t1\<rparr>,
            etag := Some e1\<rparr>), w1)"
      "view w1 (session_key tenant (recordId (session i)) (sess_id (session i))) = Some (ss_dump env
          ((session i)\<lparr>state := if commit then Committing else Abandoning, updatedTime := t1\<rparr>, internal i), e1)"
    and assms4: "\<And>guard. keeps_session view (session_key tenant (recordId (session i)) (sess_id (session i))) (body guard)"
  shows "\<exists>r w' i' t guard u.
     aenter env (initiate_completion tenant (recordId (session i)) (sess_id (session i)) commit) w = (Inr guard, u)
     \<and> with_completion env (initiate_completion tenant (recordId (session i)) (sess_id (session i)) commit) body w
        = (r, w')
     \<and> (\<exists>t1 e1. cm_session guard = Some (i\<lparr>session := (session i)\<lparr>state := if commit then Committing else Abandoning,
           updatedTime := t1\<rparr>, etag := Some e1\<rparr>))
     \<and> session_at env view w' tenant i' \<and> internal i' = internal i
     \<and> (case fst (body guard u) of
          Inr v \<Rightarrow> (\<exists>cm. r = Inr (v, cm) \<and> cm_session cm = Some i')
            \<and> session i' = (session i)\<lparr>state := if commit then Committed else Abandoned, updatedTime := t\<rparr>
        | Inl e \<Rightarrow> r = Inl e \<and> session i' = (session i)\<lparr>state := Open, updatedTime := t\<rparr>)"
proof -
  let ?rid = "recordId (session i)" and ?sid = "sess_id (session i)"
  let ?k = "session_key tenant ?rid ?sid"
  let ?cm = "initiate_completion tenant ?rid ?sid commit"
  let ?st = "if commit then Committing else Abandoning"
  define i1 where "i1 = i\<lparr>session := (session i)\<lparr>state := ?st, updatedTime := t1\<rparr>, etag := Some e1\<rparr>"
  define guard where "guard = ?cm\<lparr>cm_session := Some i1, cm_is_armed := True\<rparr>"
  have enter: "aenter env ?cm w = (Inr guard, w1)"
    using u1(1) by (simp add: aenter_def initiate_completion_def bindM_run guard_def i1_def)
  obtain rb w2 where body: "body guard w1 = (rb, w2)" by fastforce
  with assms4 u1(2) have "view w2 ?k = Some (ss_dump env ((session i)\<lparr>state := ?st, updatedTime := t1\<rparr>, internal i), e1)"
    by (metis keeps_session_def snd_conv)
  then have at: "session_at env view w2 tenant i1" unfolding i1_def by (rule session_at_updated)
  have ids: "recordId (session i1) = ?rid" "sess_id (session i1) = ?sid" by (simp_all add: i1_def)
  define fin where "fin = (case rb of Inr _ \<Rightarrow> if commit then Committed else Abandoned | Inl _ \<Rightarrow> Open)"
  define force where "force = (case rb of Inr _ \<Rightarrow> False | Inl _ \<Rightarrow> True)"
  have "force \<or> (\<forall>idle. allowed (state (session i1)) fin idle)"
    by (cases rb; cases commit) (simp_all add: force_def fin_def i1_def)
  from update_state_allowed [OF assms(1) at this, unfolded ids] obtain t e w' where
    u2: "update_session_state env tenant ?rid ?sid fin force w2
        = (Inr (i1\<lparr>session := (session i1)\<lparr>state := fin, updatedTime := t\<rparr>, etag := Some e\<rparr>), w')"
      "view w' = (view w2)(?k \<mapsto> (ss_dump env ((session i1)\<lparr>state := fin, updatedTime := t\<rparr>, internal i1), e))"
    by blast
  let ?i' = "i1\<lparr>session := (session i1)\<lparr>state := fin, updatedTime := t\<rparr>, etag := Some e\<rparr>"
  have at': "session_at env view w' tenant ?i'"
    by (rule session_at_updated) (simp add: u2(2) ids)
  have sess: "session ?i' = (session i)\<lparr>state := fin, updatedTime := t\<rparr>" "internal ?i' = internal i"
    by (simp_all add: i1_def)
  have gf: "cm_is_armed guard" "cm_tenant guard = tenant" "cm_record_id guard = ?rid"
      "cm_session_id guard = ?sid" "cm_commit guard = commit"
    by (simp_all add: guard_def initiate_completion_def)
  have "with_completion env ?cm body w =
      ((case rb of Inr v \<Rightarrow> Inr (v, guard\<lparr>cm_session := Some ?i', cm_is_armed := False\<rparr>) | Inl x \<Rightarrow> Inl x), w')"
    using u2(1) unfolding with_completion_def bindM_ok [of "aenter env ?cm" w, OF enter]
    by (cases rb) (simp_all add: body aexit_def gf bindM_run fin_def force_def)
  moreover have "cm_session guard = Some i1" by (simp add: guard_def)
  ultimately show ?thesis
    using at' sess body enter unfolding i1_def
    by (intro exI [of _ w'] exI [of _ ?i'] exI [of _ t] exI [of _ guard] exI [of _ w1] exI conjI)
      (auto simp: fin_def i1_def split: sum.splits)
qed

lemma completion_run:
  assumes "sessions_laws env view" and "session_at env view w tenant i" and "state (session i) = Open"
    and "\<And>guard. keeps_session view (session_key tenant (recordId (session i)) (sess_id (session i))) (body guard)"
  shows "\<exists>r w' i' t guard u.
     aenter env (initiate_completion tenant (recordId (session i)) (sess_id (session i)) commit) w = (Inr guard, u)
     \<and> with_completion env (initiate_completion tenant (recordId (session i)) (sess_id (session i)) commit) body w
        = (r, w')
     \<and> (\<exists>t1 e1. cm_session guard = Some (i\<lparr>session := (session i)\<lparr>state := if commit then Committing else Abandoning,
           updatedTime := t1\<rparr>, etag := Some e1\<rparr>))
     \<and> session_at env view w' tenant i' \<and> internal i' = internal i
     \<and> (case fst (body guard u) of
          Inr v \<Rightarrow> (\<exists>cm. r = Inr (v, cm) \<and> cm_session cm = Some i')
            \<and> session i' = (session i)\<lparr>state := if commit then Committed else Abandoned, updatedTime := t\<rparr>
        | Inl e \<Rightarrow> r = Inl e \<and> session i' = (session i)\<lparr>state := Open, updatedTime := t\<rparr>)"
proof -
  have "False \<or> (\<forall>idle. allowed (state (session i)) (if commit then Committing else Abandoning) idle)"
    using assms(3) by (cases commit) simp_all
  from update_state_allowed [OF assms(1,2) this] obtain t1 e1 w1 where
    "update_session_state env tenant (recordId (session i)) (sess_id (session i))
          (if commit then Committing else Abandoning) False w
        = (Inr (i\<lparr>session := (session i)\<lparr>state := if commit then Committing else Abandoning, updatedTime := t1\<rparr>,
            etag := Some e1\<rparr>), w1)"
    "view w1 (session_key tenant (recordId (session i)) (sess_id (session i))) = Some (ss_dump env
          ((session i)\<lparr>state := if commit then Committing else Abandoning, updatedTime := t1\<rparr>, internal i), e1)"
    by auto
  from completion_entered [where body = body, OF assms(1) this assms(4)] show ?thesis .
qed

text \<open>C4: The completion context manager: on an open session, when the body leaves the session's blob
  alone, a body that returns leaves the session committed (or abandoned), and a body that raises
  leaves it open again and its exception is raised; nothing but state, update time and etag of the
  session changes.\<close>

theorem completion_spec:
  assumes "sessions_laws env view" and "session_at env view w tenant i" and "state (session i) = Open"
    and "\<And>guard. keeps_session view (session_key tenant (recordId (session i)) (sess_id (session i))) (body guard)"
  shows "\<exists>r w' i' t guard u.
     aenter env (initiate_completion tenant (recordId (session i)) (sess_id (session i)) commit) w = (Inr guard, u)
     \<and> with_completion env (initiate_completion tenant (recordId (session i)) (sess_id (session i)) commit) body w
        = (r, w')
     \<and> session_at env view w' tenant i' \<and> internal i' = internal i
     \<and> (case fst (body guard u) of
          Inr v \<Rightarrow> (\<exists>cm. r = Inr (v, cm) \<and> cm_session cm = Some i')
            \<and> session i' = (session i)\<lparr>state := if commit then Committed else Abandoned, updatedTime := t\<rparr>
        | Inl e \<Rightarrow> r = Inl e \<and> session i' = (session i)\<lparr>state := Open, updatedTime := t\<rparr>)"
  using completion_run [of env view w tenant i body commit, OF assms(1-3)] assms(4) by blast

text \<open>C36: A session that is stuck is not lost.  When a request has died between entering and leaving the
  context manager, the session stays in state committing or abandoning; five minutes after its last update,
  abandoning it is accepted again, and so is committing it when it was being committed, and the session is then
  abandoned or committed as usual.\<close>

theorem stuck_session_recovers:
  assumes "sessions_laws env view" and "session_at env view w tenant i"
    and "state (session i) = Committing \<or> state (session i) = Abandoning \<and> \<not> commit"
    and "get_session env tenant (recordId (session i)) (sess_id (session i)) w = (Inr i, w1)"
    and "utc_now (ss_runtime env) w1 = (Inr now, w2)" and "idle_timeout \<le> now - updatedTime (session i)"
    and "\<And>guard. keeps_session view (session_key tenant (recordId (session i)) (sess_id (session i))) (body guard)"
    and "\<And>guard u. \<exists>v. fst (body guard u) = Inr v"
  shows "\<exists>v cm w' i' t. with_completion env
        (initiate_completion tenant (recordId (session i)) (sess_id (session i)) commit) body w = (Inr (v, cm), w')
     \<and> session_at env view w' tenant i'
     \<and> session i' = (session i)\<lparr>state := if commit then Committed else Abandoned, updatedTime := t\<rparr>"
proof -
  let ?rid = "recordId (session i)" and ?sid = "sess_id (session i)"
  let ?st = "if commit then Committing else Abandoning"
  have v1: "view w1 = view w" using get_session_at [OF assms(1,2)] assms(4) by (metis prod.inject)
  with assms(2) have at: "session_at env view w1 tenant i" by (simp add: session_at_def)
  have "allowed (state (session i)) ?st (idle_timeout \<le> now - updatedTime (session i))"
    using assms(3,6) by (cases commit) auto
  with check_state_update_matrix [OF sessions_lawsD(5) [OF assms(1)] assms(5), of i ?st ?rid ?sid]
  obtain w3 where "False \<or> check_state_update env ?rid ?sid i ?st w1 = (Inr (), w3) \<and> view w3 = view w1" by auto
  from apply_state_current [OF assms(1) at this] assms(4) obtain t1 e1 w' where
    "update_session_state env tenant ?rid ?sid ?st False w
        = (Inr (i\<lparr>session := (session i)\<lparr>state := ?st, updatedTime := t1\<rparr>, etag := Some e1\<rparr>), w')"
    "view w' (session_key tenant ?rid ?sid) = Some (ss_dump env ((session i)\<lparr>state := ?st, updatedTime := t1\<rparr>, internal i), e1)"
    by (auto simp: update_session_state_def bindM_run)
  from completion_entered [where body = body, OF assms(1) this assms(7)] obtain r w' i' t guard u where
    run: "with_completion env (initiate_completion tenant ?rid ?sid commit) body w = (r, w')"
      "session_at env view w' tenant i'"
    and out: "case fst (body guard u) of
          Inr v \<Rightarrow> (\<exists>cm. r = Inr (v, cm) \<and> cm_session cm = Some i')
            \<and> session i' = (session i)\<lparr>state := if commit then Committed else Abandoned, updatedTime := t\<rparr>
        | Inl e \<Rightarrow> r = Inl e \<and> session i' = (session i)\<lparr>state := Open, updatedTime := t\<rparr>"
    by blast
  from assms(8) [of guard u] out obtain v cm where "r = Inr (v, cm)"
    "session i' = (session i)\<lparr>state := if commit then Committed else Abandoned, updatedTime := t\<rparr>" by auto
  with run show ?thesis by blast
qed

text \<open>C28: The roll-back is unconditional: when the body of a context manager raises, the exit puts the
  stored session back to open whatever its state is by then, also when another request has
  meanwhile committed or abandoned it.\<close>

theorem rollback_reopens:
  assumes "sessions_laws env view" and "session_at env view w tenant i" and "is_closed (session i)"
    and "cm_is_armed guard" and "cm_tenant guard = tenant"
    and "cm_record_id guard = recordId (session i)" and "cm_session_id guard = sess_id (session i)"
  shows "\<exists>guard' w' i'. aexit env guard (Some exc) w = (Inr guard', w')
     \<and> session_at env view w' tenant i' \<and> sess_id (session i') = sess_id (session i)
     \<and> state (session i') = Open"
proof -
  have "True \<or> (\<forall>idle. allowed (state (session i)) Open idle)" by simp
  from update_state_allowed [OF assms(1,2) this] obtain t e w' where
    u: "update_session_state env tenant (recordId (session i)) (sess_id (session i)) Open True w
        = (Inr (i\<lparr>session := (session i)\<lparr>state := Open, updatedTime := t\<rparr>, etag := Some e\<rparr>), w')"
      "view w' (session_key tenant (recordId (session i)) (sess_id (session i)))
         = Some (ss_dump env ((session i)\<lparr>state := Open, updatedTime := t\<rparr>, internal i), e)"
    by auto
  let ?i = "i\<lparr>session := (session i)\<lparr>state := Open, updatedTime := t\<rparr>, etag := Some e\<rparr>"
  have "session_at env view w' tenant ?i" using u(2) by (rule session_at_updated)
  moreover have "aexit env guard (Some exc) w
      = (Inr (guard\<lparr>cm_session := Some ?i, cm_is_armed := False\<rparr>), w')"
    using u(1) assms(4-7) by (simp add: aexit_def bindM_run)
  ultimately show ?thesis by (intro exI [of _ ?i] exI [of _ w'] exI conjI) simp_all
qed

section \<open>Reading content and etag is not atomic\<close>

definition get_session_torn :: "('w, 'c) sessions_env \<Rightarrow> string \<Rightarrow> string \<Rightarrow> string \<Rightarrow> (exn, 'w, 'a) prog
    \<Rightarrow> (exn, 'w, SessionInternal) prog" where
  \<comment> \<open>\<open>_get_session\<close> in the interleaving in which the content is read first, then another request
      runs, and then the etag is read\<close>
  "get_session_torn env tenant record_id session_id other =
     (let object_name = build_session_complete_name record_id session_id in
      tryM (bindM (download (ss_storage env) tenant object_name) (\<lambda>blob_content.
            bindM other (\<lambda>_.
            bindM (download_metadata (ss_storage env) tenant object_name) (\<lambda>blob_etag.
            bindM (liftM (ss_load env blob_content)) (\<lambda>(s, int).
            returnM \<lparr>session = s, etag = Some blob_etag, internal = int\<rparr>)))))
        (\<lambda>e. case e of
           ResourceNotFoundException \<Rightarrow> raiseM (SessionErr (SessionNotFound record_id session_id))
         | _ \<Rightarrow> raiseM e))"

lemma get_session_torn_run:
  assumes "sessions_laws env view" and "session_at env view w tenant i"
    and "\<And>u. view u = view w \<Longrightarrow> \<exists>r w1 c e. other u = (Inr r, w1) \<and>
       view w1 (session_key tenant (recordId (session i)) (sess_id (session i))) = Some (c, e) \<and> P w1 e"
  shows "\<exists>w2 e. get_session_torn env tenant (recordId (session i)) (sess_id (session i)) other w
     = (Inr (i\<lparr>etag := Some e\<rparr>), w2) \<and> (\<exists>w1. view w2 = view w1 \<and> P w1 e)"
proof -
  let ?n = "build_session_complete_name (recordId (session i)) (sess_id (session i))"
  note laws = sessions_lawsD [OF assms(1)]
  from assms(2) obtain e0 where e0:
      "view w (tenant, ?n) = Some (ss_dump env (session i, internal i), e0)"
    by (auto simp: session_at_def session_key_def)
  obtain wa where wa: "view wa = view w" "download (ss_storage env) tenant ?n w =
      (Inr (ss_dump env (session i, internal i)), wa)"
    using download_ok [OF laws(2), of w tenant ?n] e0 by auto
  from assms(3) [OF wa(1)] obtain r w1 c e where w1: "other wa = (Inr r, w1)"
      "view w1 (tenant, ?n) = Some (c, e)" "P w1 e"
    by (auto simp: session_key_def)
  obtain w2 where w2: "view w2 = view w1" "download_metadata (ss_storage env) tenant ?n w1 = (Inr e, w2)"
    using metadata_ok [OF laws(2), of w1 tenant ?n] w1(2) by auto
  have "get_session_torn env tenant (recordId (session i)) (sess_id (session i)) other w
     = (Inr (i\<lparr>etag := Some e\<rparr>), w2)"
    using wa(2) w1(1) w2(2) laws(6)
    by (cases i) (simp add: get_session_torn_def bindM_run tryM_run Let_def)
  with w1(3) w2(1) show ?thesis by blast
qed

text \<open>C27: The lock does not cover a torn read.  \<open>_get_session\<close> reads content and etag with two
  separate requests; when the content is read before and the etag after another request has moved the
  session from open to committing, the reader holds an open session with the current etag, and its own
  change to committing is stored as well: two requests commit the same session without any time-out.\<close>

theorem torn_read_double_commit:
  assumes "sessions_laws env view" and "session_at env view w tenant i" and "state (session i) = Open"
  shows "\<exists>j w1 k w2.
     get_session_torn env tenant (recordId (session i)) (sess_id (session i))
       (update_session_state env tenant (recordId (session i)) (sess_id (session i)) Committing False) w
       = (Inr j, w1)
     \<and> apply_state env tenant (recordId (session i)) (sess_id (session i)) Committing False j w1 = (Inr k, w2)
     \<and> state (session j) = Open \<and> state (session k) = Committing"
proof -
  let ?rid = "recordId (session i)" and ?sid = "sess_id (session i)"
  let ?k = "session_key tenant ?rid ?sid"
  have "\<exists>r w1 c e. update_session_state env tenant ?rid ?sid Committing False u = (Inr r, w1)
      \<and> view w1 ?k = Some (c, e) \<and> map_option snd (view w1 ?k) = Some e" if "view u = view w" for u
  proof -
    have "session_at env view u tenant i" using that assms(2) by (simp add: session_at_def)
    from update_state_allowed [OF assms(1) this, of False Committing] assms(3)
    show ?thesis by auto
  qed
  from get_session_torn_run [OF assms(1,2), of "update_session_state env tenant ?rid ?sid Committing False"
      "\<lambda>w1 e. map_option snd (view w1 ?k) = Some e", OF this]
  obtain w1 e where g: "get_session_torn env tenant ?rid ?sid
       (update_session_state env tenant ?rid ?sid Committing False) w = (Inr (i\<lparr>etag := Some e\<rparr>), w1)"
      "map_option snd (view w1 ?k) = Some e"
    by auto
  let ?j = "i\<lparr>etag := Some e, session := (session i)\<lparr>state := Committing\<rparr>\<rparr>"
  from store_session_current [OF assms(1), of ?j e w1 tenant] g(2) obtain t e' w2 where
    "store_session env tenant ?j w1 = (Inr (?j\<lparr>session := (session ?j)\<lparr>updatedTime := t\<rparr>, etag := Some e'\<rparr>), w2)"
    by auto
  then have "apply_state env tenant ?rid ?sid Committing False (i\<lparr>etag := Some e\<rparr>) w1
      = (Inr (?j\<lparr>session := (session ?j)\<lparr>updatedTime := t\<rparr>, etag := Some e'\<rparr>), w2)"
    using assms(3) by (simp add: apply_state_def check_state_update_def is_closed_def Let_def)
  with g(1) assms(3) show ?thesis
    by (intro exI [of _ "i\<lparr>etag := Some e\<rparr>"] exI [of _ w1]
        exI [of _ "?j\<lparr>session := (session ?j)\<lparr>updatedTime := t\<rparr>, etag := Some e'\<rparr>"] exI [of _ w2]) simp
qed

section \<open>Refinement: the life of a session\<close>

text \<open>The abstract automaton of one session, which is absent or in one of the five states.  Every operation that
  succeeds makes the one move of its kind.\<close>

definition begun :: "bool \<Rightarrow> SessionState" where
  \<comment> \<open>the state in which a commit, or an abandon, starts\<close>
  "begun commit = (if commit then Committing else Abandoning)"

definition ended :: "bool \<Rightarrow> SessionState" where
  "ended commit = (if commit then Committed else Abandoned)"

datatype life_action = Create | Look | Begin bool | Finish bool | RollBack | Remove bool

inductive life_move :: "life_action \<Rightarrow> SessionState option \<Rightarrow> SessionState option \<Rightarrow> bool" where
  life_create: "life_move Create None (Some Open)"
| life_look: "life_move Look a a"
| life_begin: "allowed s (begun commit) idle \<Longrightarrow> life_move (Begin commit) (Some s) (Some (begun commit))"
| life_finish: "life_move (Finish commit) (Some (begun commit)) (Some (ended commit))"
| life_rollback: "life_move RollBack (Some s) (Some Open)"
| life_remove: "force \<or> s = Committed \<or> s = Abandoned \<Longrightarrow> life_move (Remove force) (Some s) None"

inductive_simps life_move_simps:
  "life_move Create a b" "life_move Look a b" "life_move (Begin commit) a b" "life_move (Finish commit) a b"
  "life_move RollBack a b" "life_move (Remove force) a b"

fun life_path :: "life_action list \<Rightarrow> SessionState option \<Rightarrow> SessionState option \<Rightarrow> bool" where
  "life_path [] a b = (a = b)"
| "life_path (x # xs) a c = (\<exists>b. life_move x a b \<and> life_path xs b c)"

lemma life_path_snoc: "life_path (xs @ [x]) a c \<longleftrightarrow> (\<exists>b. life_path xs a b \<and> life_move x b c)"
  by (induction xs arbitrary: a) auto

text \<open>What the automaton excludes: a commit or an abandon begins only from open or after a time-out, never on a closed
  session; a closed session stays closed until it is rolled back or removed.\<close>

lemma begin_not_closed: "life_move (Begin commit) (Some s) b \<Longrightarrow> s \<noteq> Committed \<and> s \<noteq> Abandoned"
  by (cases s; cases commit) (auto simp: life_move_simps begun_def)

lemma closed_stays:
  assumes "life_path xs (Some s) b" and "s = Committed \<or> s = Abandoned"
    and "\<forall>x\<in>set xs. x \<noteq> RollBack \<and> (\<forall>force. x \<noteq> Remove force)"
  shows "b = Some s"
  using assms
proof (induction xs)
  case (Cons x xs)
  then obtain c where "life_move x (Some s) c" and rest: "life_path xs c b" by auto
  then have "c = Some s"
    using Cons.prems(2,3) begin_not_closed by (cases x) (auto simp: life_move_simps begun_def split: if_splits)
  with Cons rest show ?case by simp
qed simp

text \<open>The operations that requests perform on the storage of a tenant, one after the other, each labelled with the
  session it addresses, with its kind and with whether it succeeds.  A new session has an identifier that is not in use;
  the exit of a context manager that was not armed does nothing.\<close>

type_synonym life_label = "(string \<times> string) \<times> life_action \<times> bool"

definition exit_action :: "CompletionContextManager \<Rightarrow> exn option \<Rightarrow> life_action" where
  "exit_action cm exc = (if \<not> cm_is_armed cm then Look else if exc = None then Finish (cm_commit cm) else RollBack)"

inductive sess_step :: "('w, 'c) sessions_env \<Rightarrow> ('w, 'c) view \<Rightarrow> string \<Rightarrow> life_label \<Rightarrow> 'w \<Rightarrow> 'w \<Rightarrow> bool"
  for env view tenant where
  step_create: "create_session env tenant rid fv ttl m mt x w = (Inr i, w') \<Longrightarrow>
     view w (session_key tenant rid (sess_id (session i))) = None \<Longrightarrow>
     sess_step env view tenant (session_key tenant rid (sess_id (session i)), Create, True) w w'"
| step_create_failed: "create_session env tenant rid fv ttl m mt x w = (Inl e, w') \<Longrightarrow>
     sess_step env view tenant (session_key tenant rid sid, Create, False) w w'"
| step_read: "get_session env tenant rid sid w = (r, w') \<Longrightarrow>
     sess_step env view tenant (session_key tenant rid sid, Look, isOk r) w w'"
| step_enter: "aenter env cm w = (r, w') \<Longrightarrow> cm_tenant cm = tenant \<Longrightarrow>
     sess_step env view tenant (session_key tenant (cm_record_id cm) (cm_session_id cm), Begin (cm_commit cm), isOk r) w w'"
| step_exit: "aexit env cm exc w = (r, w') \<Longrightarrow> cm_tenant cm = tenant \<Longrightarrow>
     sess_step env view tenant (session_key tenant (cm_record_id cm) (cm_session_id cm), exit_action cm exc, isOk r) w w'"
| step_delete: "delete_session env tenant rid sid force w = (r, w') \<Longrightarrow>
     sess_step env view tenant (session_key tenant rid sid, Remove force, isOk r) w w'"

inductive sess_run :: "('w, 'c) sessions_env \<Rightarrow> ('w, 'c) view \<Rightarrow> string \<Rightarrow> 'w \<Rightarrow> life_label list \<Rightarrow> 'w \<Rightarrow> bool"
  for env view tenant where
  run_nil: "sess_run env view tenant w [] w"
| run_snoc: "sess_run env view tenant w ls w1 \<Longrightarrow> sess_step env view tenant l w1 w2 \<Longrightarrow> sess_run env view tenant w (ls @ [l]) w2"

definition moves_of :: "string \<times> string \<Rightarrow> life_label list \<Rightarrow> life_action list" where
  \<comment> \<open>the operations on one session that have succeeded\<close>
  "moves_of k ls = map (\<lambda>(_, x, _). x) (filter (\<lambda>(k', _, ok). k' = k \<and> ok) ls)"

definition life :: "('w, 'c) sessions_env \<Rightarrow> ('w, 'c) view \<Rightarrow> 'w \<Rightarrow> string \<times> string \<Rightarrow> SessionState option" where
  "life env view w k = (case view w k of
       None \<Rightarrow> None
     | Some (c, _) \<Rightarrow> (case ss_load env c of Inr (s, _) \<Rightarrow> Some (state s) | Inl _ \<Rightarrow> None))"

definition sessions_inv :: "('w, 'c) sessions_env \<Rightarrow> ('w, 'c) view \<Rightarrow> string \<Rightarrow> 'w \<Rightarrow> bool" where
  \<comment> \<open>every session blob is a serialised session under its own name\<close>
  "sessions_inv env view tenant w \<longleftrightarrow> (\<forall>n c e. prefix ''sessions/'' n \<longrightarrow> view w (tenant, n) = Some (c, e) \<longrightarrow>
     (\<exists>s x. c = ss_dump env (s, x) \<and> n = build_session_complete_name (recordId s) (sess_id s)))"

definition session_change :: "('w, 'c) sessions_env \<Rightarrow> ('w, 'c) view \<Rightarrow> string \<Rightarrow> life_label \<Rightarrow> 'w \<Rightarrow> 'w \<Rightarrow> bool" where
  \<comment> \<open>what one operation does to the storage: nothing, when it fails or only looks; otherwise the move of its kind on the
      session it addresses, which keeps the blobs serialised under their own names\<close>
  "session_change env view tenant l w w' \<longleftrightarrow> (case l of (k, x, ok) \<Rightarrow>
     if \<not> ok \<or> x = Look then view w' = view w
     else \<exists>n b. k = (tenant, n) \<and> view w' = (view w)(k := b) \<and> life_move x (life env view w k) (life env view w' k)
        \<and> (\<forall>c e. b = Some (c, e) \<longrightarrow> (\<exists>s x. c = ss_dump env (s, x) \<and> n = build_session_complete_name (recordId s) (sess_id s))))"

lemma prefix_sessions [simp]: "prefix ''sessions/'' (build_session_complete_name rid sid)"
  by (simp add: build_session_complete_name_def)

lemma sessions_invD:
  assumes "sessions_inv env view tenant w" and "view w (session_key tenant rid sid) = Some (c, e)"
  obtains s x where "c = ss_dump env (s, x)"
    "session_key tenant (recordId s) (sess_id s) = session_key tenant rid sid"
  using assms unfolding sessions_inv_def session_key_def by (metis prefix_sessions)

lemma life_at:
  assumes "sessions_laws env view" and "view w k = Some (ss_dump env (s, x), e)"
  shows "life env view w k = Some (state s)"
  using assms by (simp add: life_def sessions_lawsD)

lemma session_change_refused: "view w' = view w \<Longrightarrow> session_change env view tenant (k, x, False) w w'"
  by (simp add: session_change_def)

lemma session_change_move:
  assumes "sessions_laws env view" and "view w' = (view w)(session_key tenant rid sid \<mapsto> (ss_dump env (s, x), e))"
    and "session_key tenant (recordId s) (sess_id s) = session_key tenant rid sid"
    and "life_move a (life env view w (session_key tenant rid sid)) (Some (state s))" and "a \<noteq> Look"
  shows "session_change env view tenant (session_key tenant rid sid, a, True) w w'"
proof -
  have "life env view w' (session_key tenant rid sid) = Some (state s)"
    using life_at [OF assms(1), of w' "session_key tenant rid sid" s x e] assms(2) by simp
  with assms show ?thesis
    unfolding session_change_def session_key_def
    by (auto intro!: exI [of _ "Some (ss_dump env (s, x), e)"])
qed

text \<open>An update of the state, forced or not, makes a move when the guard of the update gives one.\<close>

lemma update_state_change:
  assumes "sessions_laws env view" and "sessions_inv env view tenant w"
    and "\<And>s idle. force \<or> allowed s new_state idle \<Longrightarrow> life_move a (Some s) (Some new_state)" and "a \<noteq> Look"
    and "update_session_state env tenant rid sid new_state force w = (r, w')"
  shows "session_change env view tenant (session_key tenant rid sid, a, isOk r) w w'"
proof (cases "view w (session_key tenant rid sid)")
  case None
  from get_session_missing [OF assms(1) this] obtain w1 where
    "get_session env tenant rid sid w = (Inl (SessionErr (SessionNotFound rid sid)), w1)" "view w1 = view w" .
  with assms(5) show ?thesis by (auto simp: update_session_state_def bindM_run session_change_def)
next
  case (Some ce)
  then obtain c e where ce: "view w (session_key tenant rid sid) = Some (c, e)" by (cases ce) auto
  from sessions_invD [OF assms(2) ce] obtain s x where s: "c = ss_dump env (s, x)"
    "session_key tenant (recordId s) (sess_id s) = session_key tenant rid sid" .
  let ?i = "\<lparr>session = s, etag = Some e, internal = x\<rparr>"
  from get_session_stored [OF assms(1) ce [unfolded s(1)]] obtain w1 where
    g: "get_session env tenant rid sid w = (Inr ?i, w1)" "view w1 = view w" .
  have at: "session_at env view w1 tenant ?i" using ce s g(2) by (simp add: session_at_def)
  have run: "apply_state env tenant rid sid new_state force ?i w1 = (r, w')"
    using assms(5) g(1) by (simp add: update_session_state_def bindM_run)
  obtain now u where "utc_now (ss_runtime env) w1 = (Inr now, u)"
    using now_ok [OF sessions_lawsD(5) [OF assms(1)]] by blast
  note chk = check_state_update_matrix [OF sessions_lawsD(5) [OF assms(1)] this, of ?i new_state rid sid]
  let ?ok = "allowed (state s) new_state (idle_timeout \<le> now - updatedTime s)"
  show ?thesis
  proof (cases "force \<or> ?ok")
    case True
    with chk obtain w2 where "force \<or> check_state_update env rid sid ?i new_state w1 = (Inr (), w2) \<and> view w2 = view w1"
      by (cases force) auto
    from apply_state_current [OF assms(1) at this] run s(2) g(2) obtain t e' where
      v: "view w' = (view w)(session_key tenant rid sid \<mapsto> (ss_dump env (s\<lparr>state := new_state, updatedTime := t\<rparr>, x), e'))"
      and r: "isOk r"
      by auto
    have "life env view w (session_key tenant rid sid) = Some (state s)"
      using life_at [OF assms(1)] ce s(1) by blast
    with session_change_move [OF assms(1) v] s(2) assms(3,4) True r show ?thesis by auto
  next
    case False
    with chk run g(2) show ?thesis by (auto simp: apply_state_def bindM_run session_change_def)
  qed
qed

lemma create_change:
  assumes "sessions_laws env view"
    and "create_session env tenant rid fv ttl m mt x w = (Inr i, w')"
    and "view w (session_key tenant rid (sess_id (session i))) = None"
  shows "session_change env view tenant (session_key tenant rid (sess_id (session i)), Create, True) w w'"
proof -
  obtain now w0 where "utc_now (ss_runtime env) w = (Inr now, w0)"
    using now_ok [OF sessions_lawsD(5) [OF assms(1)]] by blast
  from create_session_run [OF assms(1) this, of ttl tenant rid fv m mt x] assms(2) obtain e where
    i: "recordId (session i) = rid" "state (session i) = Open"
    and v: "view w' = (view w)(session_key tenant rid (sess_id (session i)) \<mapsto> (ss_dump env (session i, x), e))"
    by (auto split: if_splits)
  have "life env view w (session_key tenant rid (sess_id (session i))) = None" using assms(3) by (simp add: life_def)
  with i show ?thesis by (intro session_change_move [OF assms(1) v]) (simp_all add: life_create)
qed

lemma create_failed_change:
  assumes "sessions_laws env view" and "create_session env tenant rid fv ttl m mt x w = (Inl e, w')"
  shows "view w' = view w"
proof -
  obtain now w0 where "utc_now (ss_runtime env) w = (Inr now, w0)"
    using now_ok [OF sessions_lawsD(5) [OF assms(1)]] by blast
  from create_session_run [OF assms(1) this, of ttl tenant rid fv m mt x] assms(2) show ?thesis
    by (auto split: if_splits)
qed

lemma read_change:
  assumes "sessions_laws env view" and "get_session env tenant rid sid w = (r, w')"
  shows "view w' = view w"
proof -
  let ?n = "build_session_complete_name rid sid"
  note laws = sessions_lawsD [OF assms(1)]
  obtain w1 r1 where w1: "view w1 = view w" "download_metadata (ss_storage env) tenant ?n w = (r1, w1)"
    using metadata_ok [OF laws(2)] by blast
  obtain w2 r2 where w2: "view w2 = view w1" "download (ss_storage env) tenant ?n w1 = (r2, w2)"
    using download_ok [OF laws(2)] by blast
  from assms(2) w1 w2 show ?thesis
    by (auto simp: get_session_def bindM_run tryM_run Let_def split: sum.splits exn.splits)
qed

lemma delete_change:
  assumes "sessions_laws env view" and "sessions_inv env view tenant w"
    and "delete_session env tenant rid sid force w = (r, w')"
  shows "session_change env view tenant (session_key tenant rid sid, Remove force, isOk r) w w'"
proof (cases "view w (session_key tenant rid sid)")
  case None
  from get_session_missing [OF assms(1) this] obtain w1 where
    "get_session env tenant rid sid w = (Inl (SessionErr (SessionNotFound rid sid)), w1)" "view w1 = view w" .
  with assms(3) show ?thesis by (auto simp: delete_session_def bindM_run session_change_def)
next
  case (Some ce)
  then obtain c e where ce: "view w (session_key tenant rid sid) = Some (c, e)" by (cases ce) auto
  from sessions_invD [OF assms(2) ce] obtain s x where s: "c = ss_dump env (s, x)" .
  from get_session_stored [OF assms(1) ce [unfolded s]] obtain w1 where
    g: "get_session env tenant rid sid w = (Inr \<lparr>session = s, etag = Some e, internal = x\<rparr>, w1)" "view w1 = view w" .
  obtain rd w2 where d: "delete_object (ss_storage env) tenant (build_session_complete_name rid sid) w1 = (rd, w2)"
      "if view w1 (session_key tenant rid sid) = None then rd = Inl ResourceNotFoundException \<and> view w2 = view w1
       else rd = Inr () \<and> view w2 = (view w1)(session_key tenant rid sid := None)"
    using delete_ok [OF sessions_lawsD(3) [OF assms(1)]] unfolding session_key_def by blast
  have l: "life env view w (session_key tenant rid sid) = Some (state s)" using life_at [OF assms(1)] ce s by blast
  show ?thesis
  proof (cases "is_closed s \<or> force")
    case True
    with assms(3) g(1) d(1) have "r = rd" "w' = w2" by (auto simp: delete_session_def bindM_run)
    with d(2) g(2) ce have v: "isOk r" "view w' = (view w)(session_key tenant rid sid := None)" by auto
    then have "life env view w' (session_key tenant rid sid) = None" by (simp add: life_def)
    moreover have "life_move (Remove force) (Some (state s)) None" using True by (auto simp: is_closed_def intro: life_remove)
    ultimately show ?thesis using v l unfolding session_change_def session_key_def by auto
  next
    case False
    with assms(3) g show ?thesis by (auto simp: delete_session_def bindM_run session_change_def)
  qed
qed

lemma exit_change:
  assumes "sessions_laws env view" and "sessions_inv env view tenant w"
    and "aexit env cm exc w = (r, w')" and "cm_tenant cm = tenant"
  shows "session_change env view tenant (session_key tenant (cm_record_id cm) (cm_session_id cm), exit_action cm exc, isOk r) w w'"
proof (cases "cm_is_armed cm")
  case True
  let ?new = "if exc = None then ended (cm_commit cm) else Open"
  obtain r' where u: "update_session_state env tenant (cm_record_id cm) (cm_session_id cm) ?new (exc \<noteq> None) w = (r', w')"
      "isOk r' = isOk r"
    using assms(3,4) True by (cases "exc = None") (auto simp: aexit_def ended_def bindM_run split: prod.splits sum.splits)
  have "life_move (exit_action cm exc) (Some s) (Some ?new)" if "exc \<noteq> None \<or> allowed s ?new idle" for s idle
    using that True
    by (cases s; cases "cm_commit cm") (auto simp: exit_action_def life_move_simps begun_def ended_def split: if_splits)
  from update_state_change [OF assms(1,2) this _ u(1)] u(2) True show ?thesis by (simp add: exit_action_def)
qed (use assms(3) in \<open>simp add: aexit_def session_change_def exit_action_def\<close>)

lemma sess_step_change:
  assumes "sessions_laws env view" and "sess_step env view tenant l w w'" and "sessions_inv env view tenant w"
  shows "session_change env view tenant l w w'"
  using assms(2)
proof cases
  case (step_create rid fv ttl m mt x i)
  then show ?thesis using create_change [OF assms(1)] by blast
next
  case (step_create_failed rid fv ttl m mt x e sid)
  then show ?thesis using session_change_refused [OF create_failed_change [OF assms(1)]] by simp
next
  case (step_read rid sid r)
  then show ?thesis using read_change [OF assms(1)] by (simp add: session_change_def)
next
  case (step_enter cm r)
  then obtain r' where u: "update_session_state env tenant (cm_record_id cm) (cm_session_id cm)
      (begun (cm_commit cm)) False w = (r', w')" "isOk r' = isOk r"
    by (auto simp: aenter_def begun_def bindM_run split: prod.splits sum.splits)
  have "life_move (Begin (cm_commit cm)) (Some s) (Some (begun (cm_commit cm)))"
    if "False \<or> allowed s (begun (cm_commit cm)) idle" for s idle
    using that by (auto intro: life_begin)
  from update_state_change [OF assms(1,3) this _ u(1)] u(2) step_enter(1) show ?thesis by simp
next
  case (step_exit cm exc r)
  then show ?thesis using exit_change [OF assms(1,3)] by blast
next
  case (step_delete rid sid force r)
  then show ?thesis using delete_change [OF assms(1,3)] by blast
qed

lemma session_change_inv:
  assumes "session_change env view tenant l w w'" and "sessions_inv env view tenant w"
  shows "sessions_inv env view tenant w'"
  using assms unfolding session_change_def sessions_inv_def by (auto split: if_splits prod.splits)

lemma session_change_life:
  assumes "session_change env view tenant (k', x, ok) w w'"
  shows "if k' = k \<and> ok then life_move x (life env view w k) (life env view w' k)
    else life env view w' k = life env view w k"
  using assms unfolding session_change_def
  by (cases "x = Look") (auto simp: life_look life_def split: if_splits)

text \<open>C1: Refinement of the session storage by the life of a session.  From a storage without sessions, every sequence of
  creations, reads, entries and exits of completion context managers and deletions keeps each session blob a serialised
  session under its own name.  The state of each session is the result of the automaton on the operations that
  addressed this session and succeeded, in their order: it is created open; a commit or an abandon begins only where the
  state matrix allows it, so never on a closed session; it finishes only the one that has begun; a roll-back opens the
  session; an unforced deletion removes it only when it is closed.  Operations that fail, and those on other sessions, do
  not change it.\<close>

theorem sessions_refine_life:
  assumes "sessions_laws env view" and "\<And>n. prefix ''sessions/'' n \<Longrightarrow> view w0 (tenant, n) = None"
    and "sess_run env view tenant w0 ls w"
  shows "sessions_inv env view tenant w \<and> life_path (moves_of k ls) (life env view w0 k) (life env view w k)"
  using assms(3,2)
proof induction
  case (run_nil w)
  then show ?case by (simp add: sessions_inv_def moves_of_def)
next
  case (run_snoc w ls w1 l w2)
  obtain k' x ok where l: "l = (k', x, ok)" by (cases l)
  have inv: "sessions_inv env view tenant w1" and path: "life_path (moves_of k ls) (life env view w k) (life env view w1 k)"
    using run_snoc by blast+
  have ch: "session_change env view tenant (k', x, ok) w1 w2"
    using sess_step_change [OF assms(1) run_snoc.hyps(2) inv] l by simp
  from session_change_life [OF ch, of k] path show ?case
    using session_change_inv [OF ch inv] by (auto simp: moves_of_def l life_path_snoc split: if_splits)
qed

section \<open>Witnesses\<close>

text \<open>A storage with one session in it, on the test store; the contents are the serialised sessions
  themselves.\<close>

definition test_env :: "((Session \<times> pyval option) test_world, Session \<times> pyval option) sessions_env" where
  "test_env = \<lparr>ss_storage = test_store, ss_runtime = test_runtime, ss_dump = (\<lambda>c. c), ss_load = Inr\<rparr>"

definition test_session :: "SessionState \<Rightarrow> SessionInternal" where
  "test_session st = \<lparr>session = \<lparr>sess_id = ''1'', recordId = ''a:b:c'', fromVersion = 7, mode = Update,
     expiry = 60, createdTime = 0, updatedTime = 0, state = st, meta = None\<rparr>,
     etag = Some ''0'', internal = None\<rparr>"

definition world0 :: "(Session \<times> pyval option) test_world" where
  "world0 = \<lparr>tw_blobs = [], tw_etag = 0, tw_clock = 0, tw_uuid = 1\<rparr>"

definition world1 :: "SessionState \<Rightarrow> (Session \<times> pyval option) test_world" where
  "world1 st = world0\<lparr>tw_blobs := [((''t'', ''sessions/a:b:c/1''), ((session (test_session st), None), ''0''))],
     tw_etag := 1\<rparr>"

lemma test_env_laws: "sessions_laws test_env test_view"
  by (simp add: sessions_laws_def test_env_def test_store_laws)

lemma test_session_at: "session_at test_env test_view (world1 st) ''t'' (test_session st)"
  by (simp add: session_at_def session_key_def build_session_complete_name_def test_env_def test_view_def
      test_session_def world1_def world0_def)

lemma test_get: "get_session test_env ''t'' ''a:b:c'' ''1'' (world1 st) = (Inr (test_session st), world1 st)"
  by (simp add: get_session_def build_session_complete_name_def test_env_def test_store_def bindM_run
      tryM_run Let_def world1_def world0_def test_session_def)

theorem update_state_matrix_witness:
  "\<exists>r w'. update_session_state test_env ''t'' ''a:b:c'' ''1'' Committing False (world1 Committed) = (r, w')
     \<and> (r = Inl AssertionError \<or> r = Inl (SessionErr (SessionInvalidState ''a:b:c'' ''1'')))
     \<and> test_view w' = test_view (world1 Committed)"
proof -
  have ids: "recordId (session (test_session Committed)) = ''a:b:c''"
    "sess_id (session (test_session Committed)) = ''1''" "state (session (test_session Committed)) = Committed"
    by (simp_all add: test_session_def)
  have now: "utc_now (ss_runtime test_env) (world1 Committed) = (Inr 0, (world1 Committed)\<lparr>tw_clock := 1\<rparr>)"
    by (simp add: test_env_def test_runtime_def world1_def world0_def)
  from update_state_matrix [OF test_env_laws test_session_at [of Committed], unfolded ids, OF test_get now,
      of Committing]
  show ?thesis by auto
qed

theorem optimistic_lock_witness:
  "\<exists>i1 w1 x w2. apply_state test_env ''t'' ''a:b:c'' ''1'' Committing False (test_session Open) (world1 Open)
       = (Inr i1, w1)
     \<and> apply_state test_env ''t'' ''a:b:c'' ''1'' Abandoning False (test_session Open) w1 = (Inl x, w2)
     \<and> test_view w2 = test_view w1"
proof -
  have "False \<or> check_state_update test_env ''a:b:c'' ''1'' (test_session Open) Committing (world1 Open)
      = (Inr (), world1 Open) \<and> test_view (world1 Open) = test_view (world1 Open)"
    by (simp add: check_state_update_def is_closed_def test_session_def Let_def)
  from apply_state_current [OF test_env_laws test_session_at this] obtain i1 w1 where
    a: "apply_state test_env ''t'' ''a:b:c'' ''1'' Committing False (test_session Open) (world1 Open) = (Inr i1, w1)"
    by auto
  from optimistic_lock [OF test_env_laws test_session_at a, of Abandoning False] a show ?thesis by blast
qed

lemma test_create: "\<exists>i w. create_session test_env ''t'' ''a:b:c'' 7 60 Update None None world0 = (Inr i, w)"
proof -
  have now: "utc_now (ss_runtime test_env) world0 = (Inr 0, world0\<lparr>tw_clock := 1\<rparr>)"
    by (simp add: test_env_def test_runtime_def world0_def)
  show ?thesis
    using create_session_run [OF test_env_laws now, of 60 "''t''" "''a:b:c''" 7 Update None None]
    by (auto simp: datetime_min_def datetime_max_def)
qed

theorem create_then_get_witness:
  "(\<exists>i w1. create_session test_env ''t'' ''a:b:c'' 7 60 Update None None world0 = (Inr i, w1)
     \<and> state (session i) = Open \<and> expiry (session i) = 60 * 60000000)
   \<and> (\<exists>w1. create_session test_env ''t'' ''a:b:c'' 7 9999999999 Update None None world0 = (Inl OverflowError, w1))"
proof -
  have now: "utc_now (ss_runtime test_env) world0 = (Inr 0, world0\<lparr>tw_clock := 1\<rparr>)"
    by (simp add: test_env_def test_runtime_def world0_def)
  show ?thesis
    using create_then_get [OF test_env_laws now, of 60 "''t''" "''a:b:c''" 7 Update None None]
      create_then_get [OF test_env_laws now, of 9999999999 "''t''" "''a:b:c''" 7 Update None None]
    by (auto simp: datetime_min_def datetime_max_def)
qed

theorem delete_session_spec_witness:
  "\<exists>w1 w2. delete_session test_env ''t'' ''a:b:c'' ''1'' False (world1 Committed) = (Inr (), w1)
     \<and> get_session test_env ''t'' ''a:b:c'' ''1'' w1 = (Inl (SessionErr (SessionNotFound ''a:b:c'' ''1'')), w2)"
  using delete_session_spec [OF test_env_laws test_session_at [of Committed], of False]
  by (simp add: test_session_def is_closed_def) blast

theorem completion_spec_witness:
  "\<exists>w' i'. with_completion test_env (initiate_commit ''t'' ''a:b:c'' ''1'')
       (\<lambda>_. raiseM (HTTPException 400) :: (exn, _, unit) prog) (world1 Open) = (Inl (HTTPException 400), w')
     \<and> session_at test_env test_view w' ''t'' i' \<and> state (session i') = Open"
proof -
  let ?b = "\<lambda>_ :: CompletionContextManager. raiseM (HTTPException 400) ::
      (exn, (Session \<times> pyval option) test_world, unit) prog"
  have st: "state (session (test_session Open)) = Open" by (simp add: test_session_def)
  have "keeps_session test_view k (?b g)" for k g by (simp add: keeps_session_def)
  from completion_spec [OF test_env_laws test_session_at st this, of True] show ?thesis
    by (fastforce simp: initiate_commit_def test_session_def)
qed

theorem stuck_session_recovers_witness:
  "\<exists>v cm w' i'. with_completion test_env (initiate_commit ''t'' ''a:b:c'' ''1'')
       (\<lambda>_. returnM () :: (exn, _, unit) prog) ((world1 Committing)\<lparr>tw_clock := 300000000\<rparr>) = (Inr (v, cm), w')
     \<and> session_at test_env test_view w' ''t'' i' \<and> state (session i') = Committed"
proof -
  let ?w = "(world1 Committing)\<lparr>tw_clock := 300000000\<rparr>"
  let ?b = "\<lambda>_ :: CompletionContextManager. returnM () ::
      (exn, (Session \<times> pyval option) test_world, unit) prog"
  have st: "state (session (test_session Committing)) = Committing \<or>
      state (session (test_session Committing)) = Abandoning \<and> \<not> True" by (simp add: test_session_def)
  have at: "session_at test_env test_view ?w ''t'' (test_session Committing)"
    using test_session_at [of Committing] by (simp add: session_at_def test_view_def)
  have get: "get_session test_env ''t'' (recordId (session (test_session Committing)))
      (sess_id (session (test_session Committing))) ?w = (Inr (test_session Committing), ?w)"
    by (simp add: get_session_def build_session_complete_name_def test_env_def test_store_def bindM_run
        tryM_run Let_def world1_def world0_def test_session_def)
  have now: "utc_now (ss_runtime test_env) ?w = (Inr 300000000, ?w\<lparr>tw_clock := 300000001\<rparr>)"
    by (simp add: test_env_def test_runtime_def)
  have idle: "idle_timeout \<le> 300000000 - updatedTime (session (test_session Committing))"
    by (simp add: idle_timeout_def test_session_def)
  have "keeps_session test_view k (?b g)" "\<exists>v. fst (?b g u) = Inr v" for k g u by (simp_all add: keeps_session_def)
  moreover have ids: "recordId (session (test_session Committing)) = ''a:b:c''" "sess_id (session (test_session Committing)) = ''1''"
    by (simp_all add: test_session_def)
  ultimately obtain v cm w' i' t where
    "with_completion test_env (initiate_completion ''t'' ''a:b:c'' ''1'' True) ?b ?w = (Inr (v, cm), w')"
    "session_at test_env test_view w' ''t'' i'"
    "session i' = (session (test_session Committing))\<lparr>state := Committed, updatedTime := t\<rparr>"
    using stuck_session_recovers [where body = ?b, OF test_env_laws at st get now idle, unfolded ids if_True] by blast
  then show ?thesis by (intro exI [of _ i'] exI conjI) (simp_all add: initiate_commit_def)
qed

theorem rollback_reopens_witness:
  "\<exists>guard w' i'. aexit test_env ((initiate_commit ''t'' ''a:b:c'' ''1'')\<lparr>cm_is_armed := True\<rparr>)
       (Some ValueError) (world1 Committed) = (Inr guard, w')
     \<and> session_at test_env test_view w' ''t'' i' \<and> state (session i') = Open"
proof -
  let ?g = "(initiate_commit ''t'' ''a:b:c'' ''1'')\<lparr>cm_is_armed := True\<rparr>"
  have "is_closed (session (test_session Committed))" by (simp add: is_closed_def test_session_def)
  from rollback_reopens [OF test_env_laws test_session_at this, of ?g ValueError]
  show ?thesis by (auto simp: initiate_commit_def initiate_completion_def test_session_def)
qed

theorem torn_read_double_commit_witness:
  "\<exists>j w1 k w2. apply_state test_env ''t'' ''a:b:c'' ''1'' Committing False j w1 = (Inr k, w2)
     \<and> state (session k) = Committing"
proof -
  have "state (session (test_session Open)) = Open" by (simp add: test_session_def)
  from torn_read_double_commit [OF test_env_laws test_session_at this] show ?thesis
    by (auto simp: test_session_def)
qed

theorem sessions_refine_life_witness:
  "\<exists>i w. create_session test_env ''t'' ''a:b:c'' 7 60 Update None None world0 = (Inr i, w)
     \<and> sessions_inv test_env test_view ''t'' w
     \<and> life test_env test_view w (session_key ''t'' ''a:b:c'' (sess_id (session i))) = Some Open"
proof -
  obtain i w where c: "create_session test_env ''t'' ''a:b:c'' 7 60 Update None None world0 = (Inr i, w)"
    using test_create by blast
  have e: "test_view world0 x = None" for x by (simp add: test_view_def world0_def)
  let ?k = "session_key ''t'' ''a:b:c'' (sess_id (session i))"
  have run: "sess_run test_env test_view ''t'' world0 ([] @ [(?k, Create, True)]) w"
    by (rule run_snoc [OF run_nil step_create [OF c]]) (rule e)
  have "life test_env test_view world0 ?k = None" using e by (simp add: life_def)
  with sessions_refine_life [OF test_env_laws e run, of ?k] c show ?thesis
    by (auto simp: moves_of_def life_move_simps)
qed

end
