(* ===== verification/Bulk_Uri.thy ===== *)
theory Bulk_Uri
  imports Exceptions
begin

text \<open>
  UUIDs as Python's \<open>uuid\<close> module reads and prints them, and the bulk URI of
  \<open>app/bulk_persistence/bulk_uri.py\<close>: the bulk identifier together with the storage version it
  was written with, its encodings and its decoding.
\<close>

section \<open>UUIDs\<close>

fun hex_digits :: "nat \<Rightarrow> nat \<Rightarrow> string" where
  "hex_digits 0 v = []"
| "hex_digits (Suc n) v = hex_digits n (v div 16) @ [digit_char (v mod 16)]"

definition uuid_of_str :: "string \<Rightarrow> nat res" where
  \<comment> \<open>\<open>uuid.UUID(s).int\<close>\<close>
  "uuid_of_str s =
     (let h = py_replace ''uuid:'' [] (py_replace ''urn:'' [] s);
          h' = py_replace ''-'' [] (strip_chars (\<lambda>c. c = CHR ''{'' \<or> c = CHR ''}'') h)
      in if length h' \<noteq> 32 then Inl ValueError
         else case py_int16 h' of
             None \<Rightarrow> Inl ValueError
           | Some i \<Rightarrow> if 0 \<le> i \<and> i < 2 ^ 128 then Inr (nat i) else Inl ValueError)"

definition uuid_to_str :: "nat \<Rightarrow> string" where
  \<comment> \<open>\<open>str(u)\<close>\<close>
  "uuid_to_str v = (let h = hex_digits 32 v in
     take 8 h @ ''-'' @ take 4 (drop 8 h) @ ''-'' @ take 4 (drop 12 h) @ ''-''
     @ take 4 (drop 16 h) @ ''-'' @ drop 20 h)"

definition uuid_urn :: "nat \<Rightarrow> string" where
  \<comment> \<open>\<open>u.urn\<close>\<close>
  "uuid_urn v = ''urn:uuid:'' @ uuid_to_str v"

lemma length_hex_digits [simp]: "length (hex_digits n v) = n"
  by (induction n arbitrary: v) simp_all

lemma set_hex_digits: "c \<in> set (hex_digits n v) \<Longrightarrow> \<exists>d<16. c = digit_char d"
  by (induction n arbitrary: v) (auto intro: exI [of _ "m mod 16" for m])

lemma parse_hex_digits:
  "parse_digits 16 0 False (hex_digits (Suc n) v) = Some (v mod 16 ^ Suc n)"
proof (induction n arbitrary: v)
  case 0
  have "v mod 16 < 16" by simp
  then show ?case by (simp del: digit_char_not)
next
  case (Suc n)
  have "parse_digits 16 0 False (hex_digits (Suc n) (v div 16) @ [digit_char (v mod 16)]) =
      Some ((v div 16) mod 16 ^ Suc n * 16 + v mod 16)"
    by (rule parse_digits_snoc [OF _ _ Suc.IH]) simp_all
  moreover have "(v div 16) mod 16 ^ Suc n * 16 + v mod 16 = v mod 16 ^ Suc (Suc n)"
    by (metis add.commute mod_mult2_eq mult.commute power_Suc)
  ultimately show ?case by (simp del: power_Suc)
qed

lemma hex_digits_notin:
  assumes "\<not> (48 \<le> code c \<and> code c \<le> 57 \<or> 97 \<le> code c \<and> code c \<le> 102)"
  shows "c \<notin> set (hex_digits n v)"
  using assms digit_char_not [of _ c] by (metis set_hex_digits)

lemma hex_digits_no_dash: "CHR ''-'' \<notin> set (hex_digits n v)"
  by (rule hex_digits_notin) (simp add: code_def)

text \<open>The characters of a printed UUID: hexadecimal digits and dashes.\<close>

lemma set_uuid_to_str:
  assumes "c \<in> set (uuid_to_str v)"
  shows "c = CHR ''-'' \<or> (\<exists>d<16. c = digit_char d)"
  using assms unfolding uuid_to_str_def Let_def
  by (auto dest!: in_set_takeD in_set_dropD set_hex_digits)

lemma uuid_to_str_codes:
  assumes "c \<in> set (uuid_to_str v)"
  shows "code c = 45 \<or> (48 \<le> code c \<and> code c \<le> 57) \<or> (97 \<le> code c \<and> code c \<le> 102)"
proof -
  have "code (CHR ''-'') = 45" by (simp add: code_def)
  with set_uuid_to_str [OF assms] show ?thesis
    by (auto simp: code_digit_char split: if_splits)
qed

lemma uuid_to_str_notin:
  "\<not> (code c = 45 \<or> (48 \<le> code c \<and> code c \<le> 57) \<or> (97 \<le> code c \<and> code c \<le> 102))
     \<Longrightarrow> c \<notin> set (uuid_to_str v)"
  using uuid_to_str_codes by blast

lemma uuid_to_str_no_colon [simp]: "CHR '':'' \<notin> set (uuid_to_str v)"
  by (rule uuid_to_str_notin) (simp add: code_def)

lemma uuid_to_str_not_Nil [simp]: "uuid_to_str v \<noteq> []"
  by (simp add: uuid_to_str_def Let_def)

lemma uuid_to_str_undash:
  "filter (\<lambda>c. c \<noteq> CHR ''-'') (uuid_to_str v) = hex_digits 32 v"
proof -
  let ?h = "hex_digits 32 v"
  have id: "filter (\<lambda>c. c \<noteq> CHR ''-'') s = s" if "set s \<subseteq> set ?h" for s
    using that hex_digits_no_dash by (auto simp: filter_id_conv)
  have ids: "filter (\<lambda>c. c \<noteq> CHR ''-'') (take n (drop m ?h)) = take n (drop m ?h)" for n m
    by (rule id) (meson in_set_dropD in_set_takeD subsetI)
  have "take 8 ?h @ take 4 (drop 8 ?h) @ take 4 (drop 12 ?h) @ take 4 (drop 16 ?h) @ drop 20 ?h = ?h"
    using append_take_drop_id [of 8 ?h] append_take_drop_id [of 4 "drop 8 ?h"]
      append_take_drop_id [of 4 "drop 12 ?h"] append_take_drop_id [of 4 "drop 16 ?h"]
    by simp
  moreover have "filter (\<lambda>c. c \<noteq> CHR ''-'') (take 8 ?h) = take 8 ?h"
    using ids [of 8 0] by simp
  moreover have "filter (\<lambda>c. c \<noteq> CHR ''-'') (drop 20 ?h) = drop 20 ?h"
    using ids [of 12 20] by simp
  ultimately show ?thesis
    by (simp add: uuid_to_str_def Let_def ids)
qed

lemma py_int16_hex_digits:
  "py_int16 (hex_digits (Suc (Suc n)) v) = Some (int (v mod 16 ^ Suc (Suc n)))"
proof -
  let ?h = "hex_digits (Suc (Suc n)) v"
  have nsp: "\<not> py_isspace c" if "c \<in> set ?h" for c
    using set_hex_digits [OF that] by (auto simp: py_isspace_def code_digit_char split: if_splits)
  have "strip ?h = ?h"
    unfolding strip_def by (rule strip_chars_id) (rule nsp)
  moreover obtain x y r where h: "?h = x # y # r"
    by (metis length_hex_digits length_Suc_conv)
  moreover have "x \<in> set ?h" "y \<in> set ?h" by (simp_all only: h) auto
  then have "x \<noteq> CHR ''-''" "x \<noteq> CHR ''+''" "y \<noteq> CHR ''x''" "y \<noteq> CHR ''X''"
    using hex_digits_notin [of _ "Suc (Suc n)" v] by (auto simp: code_def simp del: hex_digits.simps)
  ultimately show ?thesis
    using parse_hex_digits [of "Suc n" v]
    by (simp add: py_int16_def with_sign_def del: hex_digits.simps power_Suc)
qed

lemma uuid_of_bare:
  assumes "v < 2 ^ 128"
  shows "uuid_of_str (uuid_to_str v) = Inr v" "uuid_of_str (''urn:uuid:'' @ uuid_to_str v) = Inr v"
proof -
  let ?s = "uuid_to_str v"
  have notin: "CHR ''u'' \<notin> set ?s" "CHR ''{'' \<notin> set ?s" "CHR ''}'' \<notin> set ?s"
    by (rule uuid_to_str_notin; simp add: code_def)+
  then have r: "py_replace ''urn:'' [] ?s = ?s" "py_replace ''uuid:'' [] ?s = ?s"
    by (simp_all add: py_replace_absent)
  have st: "strip_chars (\<lambda>c. c = CHR ''{'' \<or> c = CHR ''}'') ?s = ?s"
    using notin by (intro strip_chars_id) auto
  have i: "py_int16 (hex_digits 32 v) = Some (int v)"
    using py_int16_hex_digits [of 30 v] assms by (simp del: hex_digits.simps)
  have u: "py_replace ''urn:'' [] (''urn:uuid:'' @ ?s) = ''uuid:'' @ ?s"
    using r by simp
  have u': "py_replace ''uuid:'' [] (''uuid:'' @ ?s) = ?s"
    using r by simp
  have v: "nat (int v) = v" "int v < 2 ^ 128"
    using assms by (simp_all add: of_nat_less_numeral_power_cancel_iff)
  show "uuid_of_str ?s = Inr v"
    unfolding uuid_of_str_def r st py_replace_single uuid_to_str_undash Let_def
    using v by (simp add: i)
  show "uuid_of_str (''urn:uuid:'' @ ?s) = Inr v"
    unfolding uuid_of_str_def u u' st py_replace_single uuid_to_str_undash Let_def
    using v by (simp add: i)
qed

lemma uuid_of_str_bound: "uuid_of_str s = Inr v \<Longrightarrow> v < 2 ^ 128"
  by (auto simp: uuid_of_str_def Let_def nat_less_iff split: if_splits option.splits)

section \<open>Storage versions (bulk_storage_version.py)\<close>

record BulkStorageVersion =
  bsv_version :: string
  uri_prefix :: "string option"

definition BulkStorageVersion_V0 :: BulkStorageVersion where
  "BulkStorageVersion_V0 = \<lparr>bsv_version = ''0'', uri_prefix = None\<rparr>"

definition BulkStorageVersion_V1 :: BulkStorageVersion where
  "BulkStorageVersion_V1 = \<lparr>bsv_version = ''1'', uri_prefix = Some ''wdms-1''\<rparr>"

definition BulkStorageVersion_Invalid :: BulkStorageVersion where
  "BulkStorageVersion_Invalid = \<lparr>bsv_version = [], uri_prefix = None\<rparr>"

lemmas storage_versions = BulkStorageVersion_V0_def BulkStorageVersion_V1_def
  BulkStorageVersion_Invalid_def

section \<open>Bulk URIs (bulk_uri.py)\<close>

record BulkURI =
  bulk_id :: string
  storage_version :: BulkStorageVersion

definition make_BulkURI :: "string \<Rightarrow> BulkStorageVersion \<Rightarrow> BulkURI res" where
  \<comment> \<open>\<open>__init__\<close>\<close>
  "make_BulkURI bid version =
     (if bid = [] \<or> version = BulkStorageVersion_Invalid
      then Inr \<lparr>bulk_id = [], storage_version = BulkStorageVersion_Invalid\<rparr>
      else bindR (uuid_of_str bid) (\<lambda>_. Inr \<lparr>bulk_id = bid, storage_version = version\<rparr>))"

definition invalid_uri :: BulkURI where
  "invalid_uri = \<lparr>bulk_id = [], storage_version = BulkStorageVersion_Invalid\<rparr>"

definition decode_uri_parts :: "string \<Rightarrow> (string \<times> string option) res" where
  \<comment> \<open>\<open>_decode_uri\<close>\<close>
  "decode_uri_parts uri =
     (let parts = split_char (CHR '':'') uri; n = length parts in
      if n < 4 then bindR (uuid_of_str uri) (\<lambda>u. Inr (uuid_to_str u, None))
      else bindR (uuid_of_str (parts ! 0 @ '':'' @ parts ! (n - 2) @ '':'' @ parts ! (n - 1)))
             (\<lambda>u. Inr (uuid_to_str u, Some (join '':'' (take (n - 3) (drop 1 parts))))))"

definition decode :: "string option \<Rightarrow> BulkURI res" where
  "decode uri = (case uri of
       None \<Rightarrow> Inr invalid_uri
     | Some s \<Rightarrow> if s = [] then Inr invalid_uri else
         bindR (decode_uri_parts s) (\<lambda>(bid, prefix).
           if prefix = None \<or> prefix = Some [] then make_BulkURI bid BulkStorageVersion_V0
           else if prefix = uri_prefix BulkStorageVersion_V1 then make_BulkURI bid BulkStorageVersion_V1
           else Inl ValueError))"

definition is_bulk_storage_V0 :: "BulkURI \<Rightarrow> bool" where
  "is_bulk_storage_V0 u \<longleftrightarrow> bsv_version (storage_version u) = bsv_version BulkStorageVersion_V0"

definition from_bulk_storage_V0 :: "string \<Rightarrow> BulkURI res" where
  "from_bulk_storage_V0 bid = make_BulkURI bid BulkStorageVersion_V0"

definition from_bulk_storage_V1 :: "string \<Rightarrow> BulkURI res" where
  "from_bulk_storage_V1 bid = make_BulkURI bid BulkStorageVersion_V1"

definition encode :: "BulkURI \<Rightarrow> string res" where
  "encode u = (case uri_prefix (storage_version u) of
       Some p \<Rightarrow> if p \<noteq> [] then Inr (''urn:'' @ p @ '':uuid:'' @ bulk_id u)
                 else bindR (uuid_of_str (bulk_id u)) (\<lambda>v. Inr (uuid_urn v))
     | None \<Rightarrow> bindR (uuid_of_str (bulk_id u)) (\<lambda>v. Inr (uuid_urn v)))"

definition encode_for_ddms_datasets :: "BulkURI \<Rightarrow> string" where
  "encode_for_ddms_datasets u = (case uri_prefix (storage_version u) of
       Some p \<Rightarrow> if p \<noteq> [] then ''urn://'' @ p @ ''/uuid:'' @ bulk_id u
                 else ''urn://uuid:'' @ bulk_id u
     | None \<Rightarrow> ''urn://uuid:'' @ bulk_id u)"

definition is_valid :: "BulkURI \<Rightarrow> bool" where
  "is_valid u \<longleftrightarrow> bulk_id u \<noteq> [] \<and> bsv_version (storage_version u) \<noteq> []"

text \<open>
  What the constructor guarantees: an invalid URI is \<^const>\<open>invalid_uri\<close>, and the identifier of
  every other one is a UUID.
\<close>

definition wf_uri :: "BulkURI \<Rightarrow> bool" where
  "wf_uri u \<longleftrightarrow> u = invalid_uri \<or>
     (storage_version u \<in> {BulkStorageVersion_V0, BulkStorageVersion_V1}
      \<and> isOk (uuid_of_str (bulk_id u)))"

lemma uuid_of_Nil: "uuid_of_str [] = Inl ValueError"
  by (simp add: uuid_of_str_def Let_def strip_chars_def)

lemma make_BulkURI_wf:
  "make_BulkURI bid ver = Inr u \<Longrightarrow> ver \<in> {BulkStorageVersion_V0, BulkStorageVersion_V1,
     BulkStorageVersion_Invalid} \<Longrightarrow> wf_uri u"
  by (auto simp: make_BulkURI_def wf_uri_def invalid_uri_def bindR_Inr_iff split: if_splits)

lemma decode_wf: "decode s = Inr u \<Longrightarrow> wf_uri u"
  by (auto simp: decode_def bindR_Inr_iff wf_uri_def
      split: option.splits if_splits prod.splits dest!: make_BulkURI_wf)

lemma decode_uri_parts_uuid:
  "decode_uri_parts s = Inr (b, p) \<Longrightarrow> \<exists>v<2 ^ 128. b = uuid_to_str v"
  unfolding decode_uri_parts_def Let_def using uuid_of_str_bound
  by (fastforce simp only: bindR_Inr_iff prod.inject sum.inject split: if_splits)

lemma make_BulkURI_bulk_id:
  "make_BulkURI b ver = Inr u \<Longrightarrow> bulk_id u \<noteq> [] \<Longrightarrow> bulk_id u = b"
  by (auto simp: make_BulkURI_def bindR_Inr_iff split: if_splits)

lemma decode_bulk_id:
  assumes "decode s = Inr u" and "is_valid u"
  shows "\<exists>v<2 ^ 128. bulk_id u = uuid_to_str v"
proof -
  from assms(2) have ne: "bulk_id u \<noteq> []" by (simp add: is_valid_def)
  with assms(1) obtain x b p ver where
    "decode_uri_parts x = Inr (b, p)" "make_BulkURI b ver = Inr u"
    by (auto simp: decode_def invalid_uri_def bindR_Inr_iff split: option.splits if_splits)
  with ne show ?thesis
    using decode_uri_parts_uuid make_BulkURI_bulk_id by metis
qed

lemma wf_uri_valid_iff: "wf_uri u \<Longrightarrow> is_valid u \<longleftrightarrow> u \<noteq> invalid_uri"
  by (auto simp: wf_uri_def is_valid_def invalid_uri_def storage_versions uuid_of_Nil)

lemma decode_encoded_V1:
  assumes "CHR '':'' \<notin> set b" and "uuid_of_str (''urn:uuid:'' @ b) = Inr v"
  shows "decode (Some (''urn:wdms-1:uuid:'' @ b)) = make_BulkURI (uuid_to_str v) BulkStorageVersion_V1"
proof -
  have "split_char (CHR '':'') (''urn:wdms-1:uuid:'' @ b) = [''urn'', ''wdms-1'', ''uuid'', b]"
    using split_char_none [OF assms(1)] by simp
  then show ?thesis
    using assms(2) by (simp add: decode_def decode_uri_parts_def Let_def storage_versions)
qed

lemma decode_encoded_V0:
  assumes "CHR '':'' \<notin> set b" and "uuid_of_str (''urn:uuid:'' @ b) = Inr v"
  shows "decode (Some (''urn:uuid:'' @ b)) = make_BulkURI (uuid_to_str v) BulkStorageVersion_V0"
proof -
  have "split_char (CHR '':'') (''urn:uuid:'' @ b) = [''urn'', ''uuid'', b]"
    using split_char_none [OF assms(1)] by simp
  then show ?thesis
    using assms(2) by (simp add: decode_def decode_uri_parts_def Let_def storage_versions)
qed

lemma uuid_of_urn:
  assumes "CHR '':'' \<notin> set b"
  shows "uuid_of_str (''urn:uuid:'' @ b) = uuid_of_str b"
proof -
  have r: "py_replace ''urn:'' [] b = b" "py_replace ''uuid:'' [] b = b"
    using assms by (auto intro: py_replace_absent_char [of "CHR '':''"])
  then have "py_replace ''urn:'' [] (''urn:uuid:'' @ b) = ''uuid:'' @ b"
    and "py_replace ''uuid:'' [] (''uuid:'' @ b) = b"
    by simp_all
  with r show ?thesis by (simp only: uuid_of_str_def)
qed

lemma decode_encode_valid:
  assumes "wf_uri u" and "is_valid u" and "CHR '':'' \<notin> set (bulk_id u)"
    and "uuid_of_str (bulk_id u) = Inr v"
  shows "\<exists>e. encode u = Inr e \<and>
             decode (Some e) = Inr (u\<lparr>bulk_id := uuid_to_str v\<rparr>)"
proof -
  have v: "v < 2 ^ 128" using assms(4) by (rule uuid_of_str_bound)
  have v': "make_BulkURI (uuid_to_str v) (storage_version u) = Inr (u\<lparr>bulk_id := uuid_to_str v\<rparr>)"
    using assms(2) uuid_of_bare(1) [OF v]
    by (auto simp: make_BulkURI_def is_valid_def storage_versions)
  from assms(1,2) consider "storage_version u = BulkStorageVersion_V0"
    | "storage_version u = BulkStorageVersion_V1"
    by (auto simp: wf_uri_def is_valid_def invalid_uri_def)
  then show ?thesis
  proof cases
    case 1
    then have "encode u = Inr (''urn:uuid:'' @ uuid_to_str v)"
      using assms(4) by (simp add: encode_def uuid_urn_def storage_versions)
    with v' 1 show ?thesis
      using decode_encoded_V0 [OF uuid_to_str_no_colon uuid_of_bare(2) [OF v]] by simp
  next
    case 2
    then have "encode u = Inr (''urn:wdms-1:uuid:'' @ bulk_id u)"
      by (simp add: encode_def storage_versions)
    with v' 2 show ?thesis
      using decode_encoded_V1 [OF assms(3), of v] uuid_of_urn [OF assms(3)] assms(4) by simp
  qed
qed

section \<open>Properties\<close>

text \<open>C22: Every valid bulk URI that \<open>BulkURI.decode\<close> returns is encoded by \<open>encode\<close> to a string
  that decodes to the very same URI, whatever spelling (URN or bare, braces, dashes, case) the
  first string had and for both storage versions.\<close>

theorem bulk_uri_decode_encode:
  assumes "decode s = Inr u" and "is_valid u"
  shows "\<exists>e. encode u = Inr e \<and> decode (Some e) = Inr u"
proof -
  from decode_bulk_id [OF assms] obtain v where v: "v < 2 ^ 128" "bulk_id u = uuid_to_str v"
    by blast
  then have "uuid_of_str (bulk_id u) = Inr v" by (simp only: uuid_of_bare)
  moreover have "u\<lparr>bulk_id := uuid_to_str v\<rparr> = u" using v(2) by simp
  ultimately show ?thesis
    using decode_encode_valid [OF decode_wf [OF assms(1)] assms(2), of v] v(2) by auto
qed

text \<open>Storing a bulk under a fresh identifier and reading the reference back: the URI that
  \<open>from_bulk_storage_V1\<close> builds from any spelling of a UUID without a colon encodes to
  \<open>urn:wdms-1:uuid:<id>\<close>, and that string decodes to a version 1 URI with the canonical spelling of
  the same UUID.\<close>

theorem bulk_uri_V1_roundtrip:
  assumes "uuid_of_str b = Inr v" and "CHR '':'' \<notin> set b"
  shows "\<exists>u. from_bulk_storage_V1 b = Inr u \<and> encode u = Inr (''urn:wdms-1:uuid:'' @ b)
           \<and> decode (Some (''urn:wdms-1:uuid:'' @ b))
               = Inr \<lparr>bulk_id = uuid_to_str v, storage_version = BulkStorageVersion_V1\<rparr>"
proof -
  let ?u = "\<lparr>bulk_id = b, storage_version = BulkStorageVersion_V1\<rparr>"
  have b: "b \<noteq> []" using assms(1) uuid_of_Nil by auto
  have u: "from_bulk_storage_V1 b = Inr ?u"
    using b assms(1) by (simp add: from_bulk_storage_V1_def make_BulkURI_def storage_versions)
  have e: "encode ?u = Inr (''urn:wdms-1:uuid:'' @ b)"
    by (simp add: encode_def storage_versions)
  moreover have "wf_uri ?u" "is_valid ?u"
    using assms(1) b by (simp_all add: wf_uri_def is_valid_def storage_versions)
  ultimately show ?thesis
    using decode_encode_valid [of ?u v] assms u by auto
qed

lemma hex_digits_numeral:
  "hex_digits (numeral k) v = hex_digits (pred_numeral k) (v div 16) @ [digit_char (v mod 16)]"
  unfolding numeral_eq_Suc [of k] by (rule hex_digits.simps)

lemmas uuid_eval = uuid_of_str_def uuid_to_str_def hex_digits_numeral py_int16_def with_sign_def
  digit_val_def code_def strip_chars_def strip_def py_isspace_def digit_char_def char_of_def bit_0 Let_def

lemma uuid_42:
  "uuid_of_str ''{00000000-0000-0000-0000-00000000002A}'' = Inr 42"
  "uuid_of_str ''0000000000000000000000000000002A'' = Inr 42"
  "uuid_to_str 42 = ''00000000-0000-0000-0000-00000000002a''"
  by (simp_all add: uuid_eval)

theorem bulk_uri_decode_encode_witness:
  "\<exists>u e. decode (Some ''{00000000-0000-0000-0000-00000000002A}'') = Inr u \<and> is_valid u
         \<and> encode u = Inr e \<and> decode (Some e) = Inr u"
proof -
  let ?s = "Some ''{00000000-0000-0000-0000-00000000002A}''"
  let ?u = "\<lparr>bulk_id = uuid_to_str 42, storage_version = BulkStorageVersion_V0\<rparr>"
  have d: "decode ?s = Inr ?u"
    by (simp add: decode_def decode_uri_parts_def uuid_42(1) make_BulkURI_def storage_versions
        uuid_of_bare)
  have v: "is_valid ?u" by (simp add: is_valid_def storage_versions)
  from bulk_uri_decode_encode [OF d v] d v show ?thesis by blast
qed

theorem bulk_uri_V1_roundtrip_witness:
  "\<exists>u. from_bulk_storage_V1 ''0000000000000000000000000000002A'' = Inr u
     \<and> decode (Some ''urn:wdms-1:uuid:0000000000000000000000000000002A'') =
         Inr \<lparr>bulk_id = ''00000000-0000-0000-0000-00000000002a'', storage_version = BulkStorageVersion_V1\<rparr>"
  using bulk_uri_V1_roundtrip [OF uuid_42(2)] unfolding uuid_42(3) by auto

end
