(* ===== verification/Records.thy ===== *)
theory Records
  imports Py_Values
begin

text \<open>
  The record of the OSDU storage service as the service sees it (\<open>odes_storage.models.Record\<close>): its
  identifier, kind, version and data, and the remaining fields (acl, legal, ancestry, meta) as one
  value that the service only passes on.
\<close>

record Record =
  rec_id :: "string option"
  rec_kind :: string
  rec_version :: "int option"
  rec_data :: pyval
  rec_rest :: pyval

definition get_data_partition_of_record :: "Record \<Rightarrow> string res" where
  \<comment> \<open>\<open>record.id.split(":")[0]\<close>\<close>
  "get_data_partition_of_record r = (case rec_id r of
       None \<Rightarrow> Inl AttributeError
     | Some i \<Rightarrow> Inr (hd (split_char (CHR '':'') i)))"

end
