(* ===== verification/Columns.thy ===== *)
theory Columns
  imports Py_Regex Py_Values "HOL-Library.Multiset"
begin

text \<open>
  Column labels of a bulk and the selection of columns: \<open>app/bulk_persistence/dataframe_columns.py\<close>,
  the column count of \<open>consistency_checks.py\<close>, the read filters of \<open>bulk_filter.py\<close> and the query
  parameters of \<open>model_chunking.py\<close>.  The natural sort (package \<open>natsort\<close>) is a parameter; what the
  code relies on is that it returns a permutation of its argument.
\<close>

section \<open>Array labels (dataframe_columns.py)\<close>

definition neq_colon :: "char \<Rightarrow> bool" where
  "neq_colon c \<longleftrightarrow> c \<noteq> CHR '':''"

definition re_column_array :: regex where
  "re_column_array = seqs
     [RGroup ''name'' (RPlus any_char), RLit ''['', RGroup ''start'' (RPlus neq_colon),
      ROpt (CHR '':''), RGroup ''stop'' (RStar any_char), RLit '']'', REnd]"

type_synonym 'v dict = "(string \<times> 'v) list"

definition dict_get :: "'v dict \<Rightarrow> string \<Rightarrow> 'v \<Rightarrow> 'v" where
  "dict_get d k v = (case map_of d k of None \<Rightarrow> v | Some w \<Rightarrow> w)"

definition match_name :: "string \<Rightarrow> string option" where
  \<comment> \<open>\<open>re_column_array.match(c)['name']\<close>, \<open>None\<close> when the label is not an array label\<close>
  "match_name c = (case re_match re_column_array c of None \<Rightarrow> None | Some m \<Rightarrow> group ''name'' m)"

fun group_curve_loop :: "bool \<Rightarrow> string list dict \<Rightarrow> string list \<Rightarrow> string list dict" where
  "group_curve_loop inc d [] = d"
| "group_curve_loop inc d (c # cs) =
     (case match_name c of
        Some n \<Rightarrow> group_curve_loop inc (AList.update n (dict_get d n [] @ [c]) d) cs
      | None \<Rightarrow> group_curve_loop inc (if inc then AList.update c [c] d else d) cs)"

definition group_curve_columns :: "string list \<Rightarrow> bool \<Rightarrow> string list dict" where
  "group_curve_columns all_columns include_non_array = group_curve_loop include_non_array [] all_columns"

definition get_array_columns :: "string list \<Rightarrow> string list dict" where
  "get_array_columns all_columns = group_curve_columns all_columns False"

definition match_full_slice_pattern :: "string \<Rightarrow> (string \<times> string \<times> string) option" where
  \<comment> \<open>\<open>None\<close> for \<open>(None, None, None)\<close>\<close>
  "match_full_slice_pattern column_label =
     (case re_match re_column_array column_label of
        None \<Rightarrow> None
      | Some m \<Rightarrow> (case (group ''name'' m, group ''start'' m, group ''stop'' m) of
           (Some n, Some start, Some stop) \<Rightarrow>
             if start \<noteq> [] \<and> stop \<noteq> [] then Some (n, start, stop) else None
         | _ \<Rightarrow> None))"

definition array_label :: "string \<Rightarrow> int \<Rightarrow> string" where
  "array_label n i = n @ ''['' @ show_int i @ '']''"

definition dict_add :: "string list \<Rightarrow> string \<Rightarrow> string list" where
  \<comment> \<open>the keys of a dictionary after \<open>d[k] = 1\<close>\<close>
  "dict_add ks k = (if k \<in> set ks then ks else ks @ [k])"

definition slice_columns :: "string \<Rightarrow> string list \<Rightarrow> string list option" where
  \<comment> \<open>the columns of a full slice expression; \<open>None\<close> where the conversion of a bound fails or the
      selection is not a full slice\<close>
  "slice_columns sel columns = (case match_full_slice_pattern sel of
       None \<Rightarrow> None
     | Some (n, start, stop) \<Rightarrow> (case (py_int start, py_int stop) of
         (Some a, Some b) \<Rightarrow> Some (filter (\<lambda>c. c \<in> set columns) (map (array_label n) [a..b]))
       | _ \<Rightarrow> None))"

definition matching_columns :: "string list dict \<Rightarrow> string \<Rightarrow> string list \<Rightarrow> string list" where
  "matching_columns curves_array sel columns =
     (case map_of curves_array sel of
        Some cs \<Rightarrow> cs
      | None \<Rightarrow> (case slice_columns sel columns of Some cs \<Rightarrow> cs | None \<Rightarrow> [sel]))"

definition sort_column_labels :: "(string list \<Rightarrow> string list) \<Rightarrow> string list \<Rightarrow> string list" where
  "sort_column_labels natsorted column_labels = natsorted column_labels"

fun select_loop :: "(string list \<Rightarrow> string list) \<Rightarrow> string list
    \<Rightarrow> string list \<times> string list \<Rightarrow> string list \<Rightarrow> string list \<times> string list" where
  "select_loop natsorted columns (selected, missing) [] = (selected, missing)"
| "select_loop natsorted columns (selected, missing) (sel # sels) =
     (if sel \<in> set columns
      then select_loop natsorted columns (dict_add selected sel, missing) sels
      else
        let ms = matching_columns (get_array_columns columns) sel columns in
        if \<not> set ms \<subseteq> set columns
        then select_loop natsorted columns
               (selected, missing @ remdups (filter (\<lambda>c. c \<notin> set columns) ms)) sels
        else select_loop natsorted columns
               (foldl dict_add selected (sort_column_labels natsorted ms), missing) sels)"

definition select_columns :: "(string list \<Rightarrow> string list) \<Rightarrow> string list \<Rightarrow> string list
    \<Rightarrow> string list \<times> string list" where
  \<comment> \<open>the set of columns is a list, in the order in which Python iterates it\<close>
  "select_columns natsorted column_selection columns =
     select_loop natsorted columns ([], []) column_selection"

section \<open>Column count (consistency_checks.py)\<close>

fun curve_count_loop :: "int dict \<Rightarrow> string list \<Rightarrow> int dict" where
  "curve_count_loop d [] = d"
| "curve_count_loop d (c # cs) =
     (case match_name c of
        Some n \<Rightarrow> curve_count_loop (AList.update n (dict_get d n 0 + 1) d) cs
      | None \<Rightarrow> curve_count_loop (if c \<noteq> [] then AList.update c 1 d else d) cs)"

definition get_curve_name_and_column_count :: "string list \<Rightarrow> int dict" where
  "get_curve_name_and_column_count col_labels = curve_count_loop [] col_labels"

section \<open>Read filters (bulk_filter.py)\<close>

datatype BulkReadFilterOperator = Less | LessOrEqual | Greater | GreaterOrEqual | Equal | NotEqual | In

fun operator_value :: "BulkReadFilterOperator \<Rightarrow> string" where
  "operator_value Less = ''lt''"
| "operator_value LessOrEqual = ''lte''"
| "operator_value Greater = ''gt''"
| "operator_value GreaterOrEqual = ''gte''"
| "operator_value Equal = ''eq''"
| "operator_value NotEqual = ''neq''"
| "operator_value In = ''in''"

definition all_operators :: "BulkReadFilterOperator list" where
  "all_operators = [Less, LessOrEqual, Greater, GreaterOrEqual, Equal, NotEqual, In]"

definition operator_values :: "string list" where
  "operator_values = map operator_value all_operators"

definition operator_from_string :: "string \<Rightarrow> BulkReadFilterOperator res" where
  "operator_from_string value = (case find (\<lambda>e. operator_value e = lower value) all_operators of
       Some op \<Rightarrow> Inr op
     | None \<Rightarrow> Inl (BulkErr (make_FilterError (''invalid operator: '' @ lower value))))"

record BulkFilter =
  filter_column :: string
  filter_operator :: BulkReadFilterOperator
  filter_value :: string

fun read_filters_loop :: "BulkReadFilterOperator list dict \<Rightarrow> BulkFilter list \<Rightarrow> BulkFilter list
    \<Rightarrow> (BulkReadFilterOperator list dict \<times> BulkFilter list) res" where
  "read_filters_loop ops acc [] = Inr (ops, acc)"
| "read_filters_loop ops acc (f # fs) =
     (let os = dict_get ops (filter_column f) [] in
      if filter_operator f \<in> set os
      then Inl (BulkErr (make_FilterError ''Same operator on the same column''))
      else read_filters_loop (AList.update (filter_column f) (os @ [filter_operator f]) ops)
             (acc @ [f]) fs)"

definition make_BulkReadFilters :: "BulkFilter list \<Rightarrow> BulkFilter list res" where
  "make_BulkReadFilters filters =
     bindR (read_filters_loop [] [] filters) (\<lambda>(ops, acc).
       if list_ex (\<lambda>(_, os). Equal \<in> set os \<and> In \<in> set os) ops
       then Inl (BulkErr (make_FilterError ([CHR 0x4F] @ ''perator '' @ [CHR 0x27] @ ''eq'' @ [CHR 0x27]
              @ '' and '' @ [CHR 0x27] @ ''in'' @ [CHR 0x27] @ '' can'' @ [CHR 0x27]
              @ ''t be applied on the same column'')))
       else Inr acc)"

definition filters_columns :: "BulkFilter list \<Rightarrow> string set" where
  "filters_columns fs = set (map filter_column fs)"

definition has_filter :: "BulkFilter list \<Rightarrow> bool" where
  "has_filter fs \<longleftrightarrow> fs \<noteq> []"

section \<open>Query parameters (model_chunking.py)\<close>

record GetDataParams =
  gdp_offset :: "int option"
  gdp_limit :: "int option"
  gdp_curves :: "string option"
  gdp_describe :: "bool option"
  gdp_bulk_filter :: "string list option"

definition re_bulk_filter :: regex where
  "re_bulk_filter = seqs
     [RAlt (seqs [RLit [CHR 0x22], RGroup ''enclosed_col'' (RPlus any_char), RLit [CHR 0x22]])
           (RGroup ''col'' (RPlus neq_colon)),
      RLit '':'', RGroup ''op'' (alts operator_values), RLit '':'',
      RGroup ''value'' (RStar any_char), REnd]"

definition get_curves_list :: "GetDataParams \<Rightarrow> string list" where
  "get_curves_list p = (case gdp_curves p of
       None \<Rightarrow> []
     | Some curves \<Rightarrow> if curves = [] then [] else
         foldl dict_add [] (filter (\<lambda>c. c \<noteq> []) (map strip (split_char (CHR '','') curves))))"

definition parse_bulk_filter :: "string \<Rightarrow> BulkFilter res" where
  "parse_bulk_filter f = (case re_match re_bulk_filter f of
       None \<Rightarrow> Inl (BulkErr (make_FilterError ''Invalid filter expression''))
     | Some m \<Rightarrow>
         (let column = (case group ''col'' m of Some c \<Rightarrow> if c \<noteq> [] then c else
                                 (case group ''enclosed_col'' m of Some e \<Rightarrow> e | None \<Rightarrow> [])
                        | None \<Rightarrow> (case group ''enclosed_col'' m of Some e \<Rightarrow> e | None \<Rightarrow> []))
          in bindR (operator_from_string (case group ''op'' m of Some o' \<Rightarrow> o' | None \<Rightarrow> []))
               (\<lambda>op. Inr \<lparr>filter_column = column, filter_operator = op,
                         filter_value = (case group ''value'' m of Some v \<Rightarrow> v | None \<Rightarrow> [])\<rparr>)))"

definition get_bulk_filters :: "GetDataParams \<Rightarrow> BulkFilter list res" where
  "get_bulk_filters p = (case gdp_bulk_filter p of
       None \<Rightarrow> Inr []
     | Some fs \<Rightarrow> mapR parse_bulk_filter fs)"

section \<open>Grouping columns into curves\<close>

lemma dict_get_update [simp]:
  "dict_get (AList.update k v d) k' w = (if k' = k then v else dict_get d k' w)"
  by (simp add: dict_get_def)

lemma group_curve_loop_arrays:
  "map_of (group_curve_loop False d cs) n =
     (let l = filter (\<lambda>c. match_name c = Some n) cs in
      if l = [] then map_of d n else Some (dict_get d n [] @ l))"
  by (induction cs arbitrary: d) (auto simp: Let_def dict_get_def split: option.splits)

lemma get_array_columns_lookup:
  "map_of (get_array_columns cs) n =
     (let l = filter (\<lambda>c. match_name c = Some n) cs in if l = [] then None else Some l)"
  by (simp add: get_array_columns_def group_curve_columns_def group_curve_loop_arrays dict_get_def
      Let_def)

lemma get_array_columns_subset: "map_of (get_array_columns cs) n = Some l \<Longrightarrow> set l \<subseteq> set cs \<and> l \<noteq> []"
  by (auto simp: get_array_columns_lookup Let_def split: if_splits)

lemma curve_count_loop_groups:
  assumes "[] \<notin> set cs" and "d = map (\<lambda>(k, l). (k, int (length l))) g"
  shows "curve_count_loop d cs = map (\<lambda>(k, l). (k, int (length l))) (group_curve_loop True g cs)"
  using assms
proof (induction cs arbitrary: d g)
  case (Cons c cs)
  let ?f = "\<lambda>(k, l). (k, int (length l))"
  have up: "AList.update k (int (length l)) (map ?f g) = map ?f (AList.update k l g)" for k l g
    by (induction g) auto
  have get: "dict_get (map ?f g) n 0 = int (length (dict_get g n []))" for n
    by (induction g) (auto simp: dict_get_def)
  show ?case
  proof (cases "match_name c")
    case None
    then show ?thesis
      using Cons.prems Cons.IH [OF _ up [of c "[c]" g]] by auto
  next
    case (Some n)
    then show ?thesis
      using Cons.prems Cons.IH [OF _ up [of n "dict_get g n [] @ [c]" g]]
      by (simp add: get add.commute)
  qed
qed simp

text \<open>The two groupings of column labels agree: for labels that are not empty, the number of
  columns per curve of \<open>DataConsistencyChecks._get_curve_name_and_column_count\<close> is the size of the
  groups of \<open>group_curve_columns\<close>, curve by curve and in the same order.\<close>

theorem column_count_is_group_size:
  assumes "[] \<notin> set col_labels"
  shows "get_curve_name_and_column_count col_labels =
     map (\<lambda>(curve, columns). (curve, int (length columns))) (group_curve_columns col_labels True)"
  using curve_count_loop_groups [OF assms, of "[]" "[]"]
  by (simp add: get_curve_name_and_column_count_def group_curve_columns_def)

theorem column_count_is_group_size_witness:
  "get_curve_name_and_column_count [''MD'', ''C[0]'', ''C[1]''] = [(''MD'', 1), (''C'', 2)]"
proof -
  have "[] \<notin> set [''MD'', ''C[0]'', ''C[1]'']" by simp
  moreover have "group_curve_columns [''MD'', ''C[0]'', ''C[1]''] True
      = [(''MD'', [''MD'']), (''C'', [''C[0]'', ''C[1]''])]"
    by code_simp
  ultimately show ?thesis
    using column_count_is_group_size [of "[''MD'', ''C[0]'', ''C[1]'']"] by simp
qed

section \<open>Selection\<close>

text \<open>
  What a selection means: a column by its label, all columns of an array curve by the name of the
  curve, or the columns of an integer slice that exist.
\<close>

definition slice_bounds :: "string \<Rightarrow> (string \<times> int \<times> int) option" where
  "slice_bounds sel = (case match_full_slice_pattern sel of
       None \<Rightarrow> None
     | Some (n, start, stop) \<Rightarrow> (case (py_int start, py_int stop) of
         (Some a, Some b) \<Rightarrow> Some (n, a, b)
       | _ \<Rightarrow> None))"

definition is_array_curve :: "string list \<Rightarrow> string \<Rightarrow> bool" where
  "is_array_curve columns n \<longleftrightarrow> list_ex (\<lambda>c. match_name c = Some n) columns"

definition selects :: "string list \<Rightarrow> string \<Rightarrow> string \<Rightarrow> bool" where
  "selects columns sel c \<longleftrightarrow> c \<in> set columns \<and>
     (if sel \<in> set columns then c = sel
      else if is_array_curve columns sel then match_name c = Some sel
      else case slice_bounds sel of
          Some (n, a, b) \<Rightarrow> (\<exists>i\<in>{a..b}. c = array_label n i)
        | None \<Rightarrow> False)"

definition resolvable :: "string list \<Rightarrow> string \<Rightarrow> bool" where
  "resolvable columns sel \<longleftrightarrow>
     sel \<in> set columns \<or> is_array_curve columns sel \<or> slice_bounds sel \<noteq> None"

definition is_permuting :: "(string list \<Rightarrow> string list) \<Rightarrow> bool" where
  \<comment> \<open>the documented behaviour of \<open>natsorted\<close>: the elements of its argument, reordered\<close>
  "is_permuting f \<longleftrightarrow> (\<forall>l. mset (f l) = mset l)"

lemma set_dict_add [simp]: "set (dict_add ks k) = insert k (set ks)"
  by (auto simp: dict_add_def)

lemma distinct_dict_add [simp]: "distinct (dict_add ks k) = distinct ks"
  by (simp add: dict_add_def)

lemma foldl_dict_add:
  "set (foldl dict_add ks xs) = set ks \<union> set xs" "distinct (foldl dict_add ks xs) = distinct ks"
  by (induction xs arbitrary: ks) auto

lemma matching_columns_cases:
  assumes "sel \<notin> set columns"
  shows "set (matching_columns (get_array_columns columns) sel columns) \<subseteq> set columns \<Longrightarrow>
           resolvable columns sel \<and>
           set (matching_columns (get_array_columns columns) sel columns) = {c. selects columns sel c}"
    and "\<not> set (matching_columns (get_array_columns columns) sel columns) \<subseteq> set columns \<Longrightarrow>
           \<not> resolvable columns sel \<and> matching_columns (get_array_columns columns) sel columns = [sel]
           \<and> (\<forall>c. \<not> selects columns sel c)"
proof -
  let ?l = "filter (\<lambda>c. match_name c = Some sel) columns"
  have arr: "is_array_curve columns sel \<longleftrightarrow> ?l \<noteq> []"
    by (auto simp: is_array_curve_def list_ex_iff filter_empty_conv)
  note defs = matching_columns_def get_array_columns_lookup Let_def resolvable_def selects_def
    slice_columns_def slice_bounds_def
  show "resolvable columns sel \<and>
      set (matching_columns (get_array_columns columns) sel columns) = {c. selects columns sel c}"
    if "set (matching_columns (get_array_columns columns) sel columns) \<subseteq> set columns"
    using that assms arr
    by (cases "?l = []"; cases "match_full_slice_pattern sel")
      (auto simp: defs split: option.splits if_splits, metis atLeastAtMost_iff)
  show "\<not> resolvable columns sel \<and> matching_columns (get_array_columns columns) sel columns = [sel]
      \<and> (\<forall>c. \<not> selects columns sel c)"
    if "\<not> set (matching_columns (get_array_columns columns) sel columns) \<subseteq> set columns"
    using that assms arr
    by (cases "?l = []"; cases "match_full_slice_pattern sel")
      (auto simp: defs split: option.splits if_splits)
qed

lemma select_loop_spec:
  assumes "is_permuting natsorted"
  shows "select_loop natsorted columns (sd, ms) sels = (selected, missing) \<Longrightarrow>
     set selected = set sd \<union> {c. \<exists>sel\<in>set sels. selects columns sel c}
     \<and> (distinct sd \<longrightarrow> distinct selected)
     \<and> missing = ms @ filter (\<lambda>sel. \<not> resolvable columns sel) sels"
proof (induction sels arbitrary: sd ms)
  case (Cons sel sels)
  let ?m = "matching_columns (get_array_columns columns) sel columns"
  have sorted: "set (sort_column_labels natsorted l) = set l" for l
    using assms unfolding is_permuting_def sort_column_labels_def by (metis set_mset_mset)
  consider "sel \<in> set columns" | "sel \<notin> set columns" "\<not> set ?m \<subseteq> set columns"
    | "sel \<notin> set columns" "set ?m \<subseteq> set columns" by blast
  then show ?case
  proof cases
    case 1
    then have "{c. selects columns sel c} = {sel}" "resolvable columns sel"
      by (auto simp: selects_def resolvable_def)
    with Cons.IH [of "dict_add sd sel" ms] Cons.prems 1 show ?thesis by auto
  next
    case 2
    note m = matching_columns_cases(2) [OF 2]
    then have "remdups (filter (\<lambda>c. c \<notin> set columns) ?m) = [sel]" using 2(1) by simp
    with Cons.IH [of sd "ms @ [sel]"] Cons.prems 2 m show ?thesis by (auto simp: Let_def)
  next
    case 3
    note m = matching_columns_cases(1) [OF 3]
    with Cons.IH [of "foldl dict_add sd (sort_column_labels natsorted ?m)" ms] Cons.prems 3
    show ?thesis by (auto simp: Let_def foldl_dict_add sorted)
  qed
qed auto

text \<open>C26: \<open>select_columns\<close> returns exactly the columns that the selection names and each of them
  once: a column by its label, every column of an array curve by the curve's name, and the existing
  columns of an integer slice; and it reports, in order, exactly the selections that are none of
  these.\<close>

theorem select_columns_spec:
  assumes "is_permuting natsorted" and "select_columns natsorted sels columns = (selected, missing)"
  shows "set selected = {c. \<exists>sel\<in>set sels. selects columns sel c} \<and> distinct selected
     \<and> missing = filter (\<lambda>sel. \<not> resolvable columns sel) sels"
  using select_loop_spec [OF assms(1), of columns "[]" "[]" sels selected missing] assms(2)
  by (simp add: select_columns_def)

theorem select_columns_spec_witness:
  "set [''MD'', ''C[1]'', ''C[2]''] =
     {c. \<exists>sel\<in>set [''MD'', ''C[1:7]'', ''X'']. selects [''MD'', ''C[0]'', ''C[1]'', ''C[2]''] sel c}"
proof -
  have p: "is_permuting (\<lambda>l. l)" by (simp add: is_permuting_def)
  have s: "select_columns (\<lambda>l. l) [''MD'', ''C[1:7]'', ''X''] [''MD'', ''C[0]'', ''C[1]'', ''C[2]''] =
      ([''MD'', ''C[1]'', ''C[2]''], [''X''])"
    by code_simp
  show ?thesis using select_columns_spec [OF p s] by blast
qed

text \<open>A slice that matches no column at all is neither selected nor reported: for every integer
  slice of an unknown curve \<open>select_columns\<close> returns two empty lists.\<close>

theorem select_columns_empty_slice:
  assumes "is_permuting natsorted" and "slice_bounds sel = Some (n, a, b)" and "sel \<notin> set columns"
    and "\<not> is_array_curve columns sel" and "\<And>i. a \<le> i \<Longrightarrow> i \<le> b \<Longrightarrow> array_label n i \<notin> set columns"
  shows "select_columns natsorted [sel] columns = ([], [])"
proof -
  obtain sd ms where s: "select_columns natsorted [sel] columns = (sd, ms)" by fastforce
  have "\<not> selects columns sel c" for c
    using assms by (auto simp: selects_def)
  moreover have "resolvable columns sel" using assms(2) by (simp add: resolvable_def)
  ultimately have "set sd = {}" "ms = []"
    using select_loop_spec [OF assms(1), of columns "[]" "[]" "[sel]" sd ms] s
    by (simp_all add: select_columns_def)
  with s show ?thesis by simp
qed

theorem select_columns_empty_slice_witness:
  "select_columns (\<lambda>l. l) [''Q[1:2]''] [''MD''] = ([], [])"
proof -
  have "is_permuting (\<lambda>l. l)" by (simp add: is_permuting_def)
  moreover have "slice_bounds ''Q[1:2]'' = Some (''Q'', 1, 2)" by code_simp
  moreover have "\<not> is_array_curve [''MD''] ''Q[1:2]''" by code_simp
  ultimately show ?thesis
    using select_columns_empty_slice [of "\<lambda>l. l" "''Q[1:2]''" "''Q''" 1 2 "[''MD'']"]
    by (simp add: array_label_def)
qed

section \<open>Filters\<close>

definition filter_keys :: "BulkFilter list \<Rightarrow> (string \<times> BulkReadFilterOperator) list" where
  "filter_keys fs = map (\<lambda>f. (filter_column f, filter_operator f)) fs"

definition ops_of :: "BulkReadFilterOperator list dict \<Rightarrow> BulkFilter list \<Rightarrow> bool" where
  \<comment> \<open>the invariant of the loop: the dictionary holds the operators seen for each column\<close>
  "ops_of ops acc \<longleftrightarrow> distinct (map fst ops) \<and>
     (\<forall>c o'. o' \<in> set (dict_get ops c []) \<longleftrightarrow> (c, o') \<in> set (filter_keys acc))"

lemma ops_of_add:
  assumes "ops_of ops acc"
  shows "ops_of (AList.update (filter_column f) (dict_get ops (filter_column f) [] @ [filter_operator f]) ops)
           (acc @ [f])"
  using assms by (auto simp: ops_of_def filter_keys_def distinct_update)

lemma read_filters_loop_spec:
  assumes "ops_of ops acc" and "distinct (filter_keys acc)"
  shows "if distinct (filter_keys (acc @ fs))
         then \<exists>ops'. read_filters_loop ops acc fs = Inr (ops', acc @ fs) \<and> ops_of ops' (acc @ fs)
         else read_filters_loop ops acc fs =
                Inl (BulkErr (make_FilterError ''Same operator on the same column''))"
  using assms
proof (induction fs arbitrary: ops acc)
  case (Cons f fs)
  let ?k = "(filter_column f, filter_operator f)"
  have seen: "filter_operator f \<in> set (dict_get ops (filter_column f) []) \<longleftrightarrow> ?k \<in> set (filter_keys acc)"
    using Cons.prems(1) by (simp add: ops_of_def)
  show ?case
  proof (cases "?k \<in> set (filter_keys acc)")
    case True
    then have "\<not> distinct (filter_keys (acc @ f # fs))" by (auto simp: filter_keys_def)
    with True seen show ?thesis by (simp add: Let_def)
  next
    case False
    then have "distinct (filter_keys (acc @ [f]))"
      using Cons.prems(2) by (auto simp: filter_keys_def)
    from Cons.IH [OF ops_of_add [OF Cons.prems(1)] this] False seen show ?thesis
      by (auto simp: Let_def split: if_splits)
  qed
qed simp

lemma dict_entry:
  assumes "distinct (map fst d)"
  shows "list_ex (\<lambda>(_, v). x \<in> set v \<and> y \<in> set v) d \<longleftrightarrow>
    (\<exists>c. x \<in> set (dict_get d c []) \<and> y \<in> set (dict_get d c []))"
proof
  assume "list_ex (\<lambda>(_, v). x \<in> set v \<and> y \<in> set v) d"
  then obtain c v where "(c, v) \<in> set d" "x \<in> set v" "y \<in> set v" by (auto simp: list_ex_iff)
  with assms show "\<exists>c. x \<in> set (dict_get d c []) \<and> y \<in> set (dict_get d c [])"
    by (auto simp: dict_get_def intro!: exI [of _ c])
next
  assume "\<exists>c. x \<in> set (dict_get d c []) \<and> y \<in> set (dict_get d c [])"
  then obtain c where "x \<in> set (dict_get d c [])" "y \<in> set (dict_get d c [])" by blast
  then obtain v where "map_of d c = Some v" "x \<in> set v" "y \<in> set v"
    by (cases "map_of d c") (simp_all add: dict_get_def)
  then show "list_ex (\<lambda>(_, v). x \<in> set v \<and> y \<in> set v) d"
    by (auto simp: list_ex_iff dest!: map_of_SomeD intro!: bexI [of _ "(c, v)"])
qed

text \<open>Read filters are accepted exactly when no operator is used twice on a column and no column
  has both \<open>eq\<close> and \<open>in\<close>; they are then kept in their order, and every refusal is a filter error,
  which the service answers with status 400.\<close>

theorem read_filters_spec:
  "(if distinct (filter_keys fs) \<and> \<not> (\<exists>c. (c, Equal) \<in> set (filter_keys fs) \<and> (c, In) \<in> set (filter_keys fs))
    then make_BulkReadFilters fs = Inr fs
    else \<exists>e. make_BulkReadFilters fs = Inl (BulkErr e) \<and> bulk_http_status e = 400)"
proof (cases "distinct (filter_keys fs)")
  case True
  have "ops_of [] []" by (simp add: ops_of_def dict_get_def filter_keys_def)
  with True obtain ops where r: "read_filters_loop [] [] fs = Inr (ops, fs)" and ops: "ops_of ops fs"
    using read_filters_loop_spec [of "[]" "[]" fs] by (auto simp: filter_keys_def)
  have "list_ex (\<lambda>(_, os). Equal \<in> set os \<and> In \<in> set os) ops \<longleftrightarrow>
      (\<exists>c. Equal \<in> set (dict_get ops c []) \<and> In \<in> set (dict_get ops c []))"
    using ops by (intro dict_entry) (simp add: ops_of_def)
  then show ?thesis
    using True r ops by (auto simp: make_BulkReadFilters_def ops_of_def make_FilterError_def)
next
  case False
  have "ops_of [] []" by (simp add: ops_of_def dict_get_def filter_keys_def)
  with False have "read_filters_loop [] [] fs =
      Inl (BulkErr (make_FilterError ''Same operator on the same column''))"
    using read_filters_loop_spec [of "[]" "[]" fs] by (simp add: filter_keys_def)
  with False show ?thesis by (simp add: make_BulkReadFilters_def make_FilterError_def)
qed

section \<open>Filter expressions\<close>

lemma operator_from_string_value [simp]: "operator_from_string (operator_value op) = Inr op"
  by (cases op) (simp_all add: operator_from_string_def all_operators_def lower_def lower_char_def
      code_def Let_def)

lemma filter_op_run:
  "re_run (RSeq (RGroup ''op'' (alts operator_values)) (RSeq (RLit '':'') b)) (operator_value op @ '':'' @ v)
     = map (\<lambda>(g, r). ((''op'', operator_value op) # g, r)) (re_run b v)"
proof -
  have "re_run (RSeq (RLit '':'') b) ('':'' @ v) = re_run b v"
    by (rule re_run_lit_seq)
  moreover have "re_run (RSeq (RLit '':'') b) (c # s) = []" if "c \<noteq> CHR '':''" for c s
    using that by simp
  ultimately show ?thesis
    by (cases op) (simp_all add: operator_values_def all_operators_def)
qed

lemma filter_tail_run:
  assumes "list_all any_char v"
  shows "\<exists>zs. re_run (seqs [RLit '':'', RGroup ''op'' (alts operator_values), RLit '':'',
                      RGroup ''value'' (RStar any_char), REnd]) ('':'' @ operator_value op @ '':'' @ v)
           = ([(''op'', operator_value op), (''value'', v)], []) # zs"
  using re_run_group_star_end [OF assms, of "''value''"]
  unfolding seqs.simps re_run_lit_seq filter_op_run by auto

text \<open>A filter expression \<open>column:operator:value\<close> is read back as its three parts, for every
  operator and every value on one line, when the column is not empty, has no colon and does not
  start with a double quote; the value may contain colons, quotes and operator names.\<close>

theorem filter_expression_roundtrip:
  assumes "c \<noteq> []" and "list_all neq_colon c" and "hd c \<noteq> CHR 0x22" and "list_all any_char v"
  shows "parse_bulk_filter (c @ '':'' @ operator_value op @ '':'' @ v) =
           Inr \<lparr>filter_column = c, filter_operator = op, filter_value = v\<rparr>"
proof -
  let ?s = "'':'' @ operator_value op @ '':'' @ v"
  let ?q = "seqs [RLit [CHR 0x22], RGroup ''enclosed_col'' (RPlus any_char), RLit [CHR 0x22]]"
  let ?t = "seqs [RLit '':'', RGroup ''op'' (alts operator_values), RLit '':'',
                      RGroup ''value'' (RStar any_char), REnd]"
  obtain z where z: "re_run (RPlus neq_colon) (c @ ?s) = ([], ?s) # z"
    using re_run_plus_first [of c neq_colon ?s] assms(1,2) by (auto simp: list_all_iff neq_colon_def)
  have "\<not> prefix [CHR 0x22] (c @ ?s)" using assms(1,3) by (cases c) auto
  then have "re_run ?q (c @ ?s) = []" by simp
  with z obtain z' where
    run: "re_run (RAlt ?q (RGroup ''col'' (RPlus neq_colon))) (c @ ?s) = [] @ ([(''col'', c)], ?s) # z'"
    by (auto simp del: re_run.simps(5))
  from filter_tail_run [OF assms(4)] obtain y where
    tail: "re_run ?t ?s = ([(''op'', operator_value op), (''value'', v)], []) # y" by blast
  from re_run_seq_first [OF run, of ?t] obtain w where
    "re_run re_bulk_filter (c @ ?s) = map (\<lambda>(g', r'). ([(''col'', c)] @ g', r')) (re_run ?t ?s) @ w"
    by (auto simp del: re_run.simps simp: re_bulk_filter_def)
  then have "re_match re_bulk_filter (c @ ?s)
      = Some [(''col'', c), (''op'', operator_value op), (''value'', v)]"
    unfolding re_match_def tail by (simp del: re_run.simps)
  then show ?thesis
    using assms(1) by (simp add: parse_bulk_filter_def group_def Let_def)
qed

theorem filter_expression_roundtrip_witness:
  "parse_bulk_filter ''MD:lte:10:lt:20'' =
     Inr \<lparr>filter_column = ''MD'', filter_operator = LessOrEqual, filter_value = ''10:lt:20''\<rparr>"
  using filter_expression_roundtrip [of "''MD''" "''10:lt:20''" LessOrEqual]
  by (simp add: neq_colon_def any_char_def)

end
