(* ===== verification/Bulk_Id_Access.thy ===== *)
theory Bulk_Id_Access
  imports Bulk_Uri Records Columns
begin

text \<open>
  Where a record keeps the reference to its bulk: \<open>OsduBulkIdAccess\<close> and \<open>LogBulkIdAccess\<close> of
  \<open>app/routers/bulk/bulk_routes_dependencies.py\<close> and \<open>app/model/log_bulk.py\<close>.  The comparison of
  version numbers (package \<open>packaging\<close>) and JSON paths (package \<open>jsonpath_ng\<close>) are parameters.
\<close>

section \<open>Decoding a value\<close>

definition decode_value :: "pyval \<Rightarrow> BulkURI res" where
  \<comment> \<open>\<open>BulkURI.decode\<close> of what a record holds in the place of the URI\<close>
  "decode_value v = (if \<not> truthy v then Inr invalid_uri else
     (case v of PStr s \<Rightarrow> decode (Some s) | _ \<Rightarrow> Inl AttributeError))"

lemma decode_value_str [simp]: "decode_value (PStr s) = decode (Some s)"
  by (simp add: decode_value_def decode_def)

section \<open>OSDU records (bulk_routes_dependencies.py)\<close>

definition BULK_URI_FIELD :: string where
  "BULK_URI_FIELD = ''bulkURI''"

definition EARLIEST_KIND_VERSION_INCLUDING_DDMSDATASETS :: "string dict" where
  "EARLIEST_KIND_VERSION_INCLUDING_DDMSDATASETS =
     [(''WellboreIntervalSet'', ''1.1.0''), (''WellboreTrajectory'', ''1.2.0''),
      (''WellboreMarkerSet'', ''1.3.0''), (''WellLog'', ''1.3.0''), (''PPFGDataset'', ''1.1.0''),
      (''WellPressureTestRawMeasurement'', ''1.0.0'')]"

definition osdu_get_bulk_uri :: "Record \<Rightarrow> BulkURI res" where
  "osdu_get_bulk_uri r = (case rec_data r of
       PDict d \<Rightarrow>
         bindR (v_get (PDict d) ''ExtensionProperties'') (\<lambda>ext.
           if \<not> truthy ext then decode_value PNone
           else bindR (v_get ext ''wdms'') (\<lambda>wdms.
             if \<not> truthy wdms then decode_value PNone
             else bindR (v_get wdms BULK_URI_FIELD) decode_value))
     | _ \<Rightarrow> decode_value PNone)"

definition includes_ddms_datasets :: "(string \<Rightarrow> string \<Rightarrow> bool res) \<Rightarrow> string \<Rightarrow> bool res" where
  \<comment> \<open>the condition of \<open>_set_bulk_uri_ddms_datasets\<close> on the kind of the record\<close>
  "includes_ddms_datasets version_ge kind =
     (case split_str ''--'' kind of
        [_, kind_version] \<Rightarrow>
          (case split_char (CHR '':'') kind_version of
             [entity, version] \<Rightarrow>
               (case map_of EARLIEST_KIND_VERSION_INCLUDING_DDMSDATASETS entity of
                  Some earliest \<Rightarrow> version_ge version earliest
                | None \<Rightarrow> Inr False)
           | _ \<Rightarrow> Inr False)
      | _ \<Rightarrow> Inr False)"

definition set_bulk_uri_ddms_datasets ::
    "(string \<Rightarrow> string \<Rightarrow> bool res) \<Rightarrow> string \<Rightarrow> pyval \<Rightarrow> BulkURI \<Rightarrow> pyval res" where
  "set_bulk_uri_ddms_datasets version_ge kind data bulk_uri =
     bindR (includes_ddms_datasets version_ge kind) (\<lambda>included.
       if \<not> included then Inr data
       else bindR (v_get data ''DDMSDatasets'') (\<lambda>ds.
         case (if truthy ds then ds else PList []) of
           PList l \<Rightarrow> v_setitem data ''DDMSDatasets'' (PList (l @ [PStr (encode_for_ddms_datasets bulk_uri)]))
         | _ \<Rightarrow> Inl AttributeError))"

definition osdu_set_bulk_uri ::
    "(string \<Rightarrow> string \<Rightarrow> bool res) \<Rightarrow> Record \<Rightarrow> string \<Rightarrow> Record res" where
  "osdu_set_bulk_uri version_ge r bid =
     bindR (v_get (rec_data r) ''ExtensionProperties'') (\<lambda>ext.
     bindR (if \<not> truthy ext then Inr (PDict [])
            else bindR (v_get ext ''wdms'') (\<lambda>wdms.
              if \<not> truthy wdms then v_setitem ext ''wdms'' (PDict []) else Inr ext)) (\<lambda>ext.
     bindR (from_bulk_storage_V1 bid) (\<lambda>bulk_uri.
     bindR (v_get_default ext ''wdms'' (PDict [])) (\<lambda>wdms.
     bindR (encode bulk_uri) (\<lambda>uri.
     bindR (v_setitem wdms BULK_URI_FIELD (PStr uri)) (\<lambda>wdms.
     bindR (v_setitem ext ''wdms'' wdms) (\<lambda>ext.
     bindR (v_setitem (rec_data r) ''ExtensionProperties'' ext) (\<lambda>data.
     bindR (set_bulk_uri_ddms_datasets version_ge (rec_kind r) data bulk_uri) (\<lambda>data.
       Inr (r\<lparr>rec_data := data\<rparr>))))))))))"

section \<open>Log records (log_bulk.py)\<close>

record json_path =
  jp_find :: "string \<Rightarrow> pyval \<Rightarrow> pyval list"
    \<comment> \<open>the values at a path\<close>
  jp_set :: "string \<Rightarrow> string \<Rightarrow> pyval \<Rightarrow> pyval \<Rightarrow> pyval res"
    \<comment> \<open>path, field, value: the document with the field of the parent of the first match set\<close>

definition get_record_data_dict :: "Record \<Rightarrow> pyval" where
  "get_record_data_dict r = (if rec_data r = PNone then PDict [] else rec_data r)"

definition get_bulk_uri_from_wks :: "Record \<Rightarrow> pyval res" where
  "get_bulk_uri_from_wks r =
     bindR (v_get_default (get_record_data_dict r) ''log'' (PDict [])) (\<lambda>log. v_get log ''bulkURI'')"

definition log_update_bulk_uri :: "json_path \<Rightarrow> Record \<Rightarrow> BulkURI \<Rightarrow> string option \<Rightarrow> Record res" where
  "log_update_bulk_uri jp r bulk_uri custom_bulk_id_path =
     bindR (encode bulk_uri) (\<lambda>uri_value.
       case custom_bulk_id_path of
         None \<Rightarrow>
           bindR (v_get_default (get_record_data_dict r) ''log'' (PDict [])) (\<lambda>log.
           bindR (v_setitem log ''bulkURI'' (PStr uri_value)) (\<lambda>log.
           bindR (v_setitem (get_record_data_dict r) ''log'' log) (\<lambda>data. Inr (r\<lparr>rec_data := data\<rparr>))))
       | Some path \<Rightarrow>
           bindR (jp_set jp path (last (split_char (CHR ''.'') path)) (PStr uri_value)
                    (PDict [(''data'', rec_data r)])) (\<lambda>doc.
           bindR (v_index doc ''data'') (\<lambda>data. Inr (r\<lparr>rec_data := data\<rparr>))))"

definition log_get_bulk_uri :: "json_path \<Rightarrow> Record \<Rightarrow> string option \<Rightarrow> BulkURI res" where
  "log_get_bulk_uri jp r custom_bulk_id_path = (case custom_bulk_id_path of
       None \<Rightarrow> bindR (get_bulk_uri_from_wks r) decode_value
     | Some path \<Rightarrow> (case jp_find jp path (PDict [(''data'', rec_data r)]) of
         m # _ \<Rightarrow> decode_value m
       | [] \<Rightarrow> Inr invalid_uri))"

definition log_access_get_bulk_uri :: "json_path \<Rightarrow> Record \<Rightarrow> BulkURI res" where
  "log_access_get_bulk_uri jp r = log_get_bulk_uri jp r None"

definition log_access_set_bulk_uri :: "json_path \<Rightarrow> Record \<Rightarrow> string \<Rightarrow> Record res" where
  "log_access_set_bulk_uri jp r bid =
     bindR (from_bulk_storage_V1 bid) (\<lambda>bulk_uri. log_update_bulk_uri jp r bulk_uri None)"

section \<open>Query parameters and dependencies\<close>

definition get_data_parameters :: "int option \<Rightarrow> int option \<Rightarrow> string option \<Rightarrow> bool option \<Rightarrow> string list option
    \<Rightarrow> GetDataParams" where
  "get_data_parameters offset limit curves describe bulk_filter =
     \<lparr>gdp_offset = offset, gdp_limit = limit, gdp_curves = curves, gdp_describe = describe,
      gdp_bulk_filter = bulk_filter\<rparr>"

section \<open>The contract of the access\<close>

text \<open>
  \<open>BulkIdAccess\<close>: the URI that is read after a bulk identifier has been set is the version 1 URI of
  that identifier, and setting it changes nothing but the data of the record.
\<close>

locale bulk_id_access =
  fixes get_uri :: "Record \<Rightarrow> BulkURI res"
    and set_uri :: "Record \<Rightarrow> string \<Rightarrow> Record res"
  assumes get_set: "\<lbrakk>set_uri r b = Inr r'; CHR '':'' \<notin> set b\<rbrakk> \<Longrightarrow>
      \<exists>v. uuid_of_str b = Inr v \<and>
          get_uri r' = Inr \<lparr>bulk_id = uuid_to_str v, storage_version = BulkStorageVersion_V1\<rparr>"
    and set_frame: "set_uri r b = Inr r' \<Longrightarrow> r' = r\<lparr>rec_data := rec_data r'\<rparr>"
begin

lemma get_set_canonical:
  assumes "set_uri r (uuid_to_str v) = Inr r'" and "v < 2 ^ 128"
  shows "get_uri r' = Inr \<lparr>bulk_id = uuid_to_str v, storage_version = BulkStorageVersion_V1\<rparr>"
  using get_set [OF assms(1) uuid_to_str_no_colon] uuid_of_bare(1) [OF assms(2)] by simp

lemma get_set_last:
  assumes "set_uri r b = Inr r1" and "set_uri r1 b' = Inr r2" and "CHR '':'' \<notin> set b'"
  shows "\<exists>v. uuid_of_str b' = Inr v \<and> rec_id r2 = rec_id r \<and>
     get_uri r2 = Inr \<lparr>bulk_id = uuid_to_str v, storage_version = BulkStorageVersion_V1\<rparr>"
proof -
  have "rec_id r2 = rec_id r"
    using set_frame [OF assms(1)] set_frame [OF assms(2)]
    by (metis Record.select_convs(1) Record.surjective Record.update_convs(4))
  with get_set [OF assms(2,3)] show ?thesis by blast
qed

end

lemma V1_encode:
  assumes "from_bulk_storage_V1 b = Inr u" and "encode u = Inr s" and "CHR '':'' \<notin> set b"
  shows "\<exists>v. uuid_of_str b = Inr v \<and>
     decode (Some s) = Inr \<lparr>bulk_id = uuid_to_str v, storage_version = BulkStorageVersion_V1\<rparr>"
proof -
  have ne: "b \<noteq> []"
    using assms(1,2) by (auto simp: from_bulk_storage_V1_def make_BulkURI_def encode_def storage_versions uuid_of_Nil)
  with assms(1) obtain v where v: "uuid_of_str b = Inr v" "u = \<lparr>bulk_id = b, storage_version = BulkStorageVersion_V1\<rparr>"
    by (auto simp: from_bulk_storage_V1_def make_BulkURI_def bindR_Inr_iff storage_versions split: if_splits)
  have "wf_uri u" "is_valid u" using v ne by (simp_all add: wf_uri_def is_valid_def storage_versions)
  from decode_encode_valid [OF this, of v] v assms(2,3) show ?thesis by auto
qed

lemma v_setitem_Inr: "v_setitem v k w = Inr x \<longleftrightarrow> (\<exists>al. v = PDict al \<and> x = PDict (AList.update k w al))"
  by (cases v) (auto simp: v_setitem_def)

lemma update_not_Nil [simp]: "AList.update k v al \<noteq> []"
  by (cases al) auto

lemma ddms_datasets_frame:
  assumes "set_bulk_uri_ddms_datasets ge kind (PDict d) u = Inr data"
  shows "\<exists>d'. data = PDict d' \<and> (\<forall>k. k \<noteq> ''DDMSDatasets'' \<longrightarrow> map_of d' k = map_of d k)"
  using assms
  by (auto simp: set_bulk_uri_ddms_datasets_def bindR_Inr_iff split: if_splits pyval.splits option.splits)

text \<open>What a successful \<open>set_bulk_uri\<close> leaves in the data of a record.\<close>

lemma osdu_set_data:
  assumes "osdu_set_bulk_uri ge r b = Inr r'"
  obtains u uri d e w where "from_bulk_storage_V1 b = Inr u" "encode u = Inr uri"
    "r' = r\<lparr>rec_data := PDict d\<rparr>" "map_of d ''ExtensionProperties'' = Some (PDict e)" "e \<noteq> []"
    "map_of e ''wdms'' = Some (PDict w)" "w \<noteq> []" "map_of w BULK_URI_FIELD = Some (PStr uri)"
proof -
  from assms obtain u uri d0 e0 w0 data where 1: "from_bulk_storage_V1 b = Inr u" "encode u = Inr uri"
      "rec_data r = PDict d0" "r' = r\<lparr>rec_data := data\<rparr>"
      "set_bulk_uri_ddms_datasets ge (rec_kind r)
         (PDict (AList.update ''ExtensionProperties'' (PDict (AList.update ''wdms''
            (PDict (AList.update BULK_URI_FIELD (PStr uri) w0)) e0)) d0)) u = Inr data"
    unfolding osdu_set_bulk_uri_def bindR_Inr_iff v_setitem_Inr by blast
  from ddms_datasets_frame [OF 1(5)] obtain d where d: "data = PDict d"
    "map_of d ''ExtensionProperties'' = Some (PDict (AList.update ''wdms''
       (PDict (AList.update BULK_URI_FIELD (PStr uri) w0)) e0))"
    by auto
  show thesis
    by (rule that [OF 1(1,2) _ d(2), of "AList.update BULK_URI_FIELD (PStr uri) w0"]) (use 1(4) d(1) in simp_all)
qed

interpretation osdu: bulk_id_access osdu_get_bulk_uri "osdu_set_bulk_uri version_ge"
proof (unfold_locales, goal_cases)
  case (1 r b r')
  from osdu_set_data [OF 1(1)] obtain u uri d e w where s: "from_bulk_storage_V1 b = Inr u" "encode u = Inr uri"
    "r' = r\<lparr>rec_data := PDict d\<rparr>" "map_of d ''ExtensionProperties'' = Some (PDict e)" "e \<noteq> []"
    "map_of e ''wdms'' = Some (PDict w)" "w \<noteq> []" "map_of w BULK_URI_FIELD = Some (PStr uri)" .
  then have "osdu_get_bulk_uri r' = decode (Some uri)"
    by (simp add: osdu_get_bulk_uri_def)
  with V1_encode [OF s(1,2) 1(2)] show ?case by simp
next
  case (2 r b r')
  then show ?case by (elim osdu_set_data) simp
qed

interpretation log: bulk_id_access "log_access_get_bulk_uri jp" "log_access_set_bulk_uri jp"
proof (unfold_locales, goal_cases)
  case (1 r b r')
  then obtain u uri where u: "from_bulk_storage_V1 b = Inr u" "encode u = Inr uri"
    and get: "log_access_get_bulk_uri jp r' = decode (Some uri)"
    by (auto simp: log_access_set_bulk_uri_def log_update_bulk_uri_def log_access_get_bulk_uri_def
        log_get_bulk_uri_def get_bulk_uri_from_wks_def get_record_data_dict_def bindR_Inr_iff v_setitem_Inr)
  with V1_encode [OF u 1(2)] show ?case by simp
next
  case (2 r b r')
  then show ?case
    by (auto simp: log_access_set_bulk_uri_def log_update_bulk_uri_def bindR_Inr_iff)
qed

section \<open>Properties\<close>

text \<open>C29: The bulk reference of a record round-trips: after \<open>set_bulk_uri\<close> with the printed form of a UUID,
  in the place of an OSDU record or in the place of a log record, \<open>get_bulk_uri\<close> returns exactly the
  version 1 URI of that identifier, and identifier, kind, version and the other fields of the record are
  unchanged.\<close>

theorem bulk_reference_roundtrip:
  assumes "v < 2 ^ 128"
    and "osdu_set_bulk_uri version_ge r (uuid_to_str v) = Inr r1"
    and "log_access_set_bulk_uri jp r' (uuid_to_str v) = Inr r2"
  shows "osdu_get_bulk_uri r1 = Inr \<lparr>bulk_id = uuid_to_str v, storage_version = BulkStorageVersion_V1\<rparr>
    \<and> log_access_get_bulk_uri jp r2 = Inr \<lparr>bulk_id = uuid_to_str v, storage_version = BulkStorageVersion_V1\<rparr>
    \<and> r1 = r\<lparr>rec_data := rec_data r1\<rparr> \<and> r2 = r'\<lparr>rec_data := rec_data r2\<rparr>"
  using osdu.get_set_canonical [OF assms(2,1)] log.get_set_canonical [OF assms(3,1)]
    osdu.set_frame [OF assms(2)] log.set_frame [OF assms(3)] by blast

text \<open>The dataset list of newer kinds: \<open>set_bulk_uri\<close> appends the URI of the new bulk to
  \<open>DDMSDatasets\<close> exactly for the kinds and versions that have this field, keeps the entries that are
  already there, and leaves all other data but \<open>ExtensionProperties\<close> alone.\<close>

theorem ddms_datasets_appended:
  assumes "osdu_set_bulk_uri version_ge r b = Inr r'" and "includes_ddms_datasets version_ge (rec_kind r) = Inr inc"
    and "from_bulk_storage_V1 b = Inr u"
  shows "\<exists>d d'. rec_data r = PDict d \<and> rec_data r' = PDict d' \<and>
    (\<forall>k. k \<noteq> ''ExtensionProperties'' \<longrightarrow> k \<noteq> ''DDMSDatasets'' \<longrightarrow> map_of d' k = map_of d k) \<and>
    (if inc then \<exists>l. map_of d' ''DDMSDatasets'' = Some (PList (l @ [PStr (encode_for_ddms_datasets u)]))
         \<and> (\<forall>l0. map_of d ''DDMSDatasets'' = Some (PList l0) \<longrightarrow> l = l0)
     else map_of d' ''DDMSDatasets'' = map_of d ''DDMSDatasets'')"
proof -
  from assms(1,3) obtain d ext data where 1: "rec_data r = PDict d" "r' = r\<lparr>rec_data := data\<rparr>"
      "set_bulk_uri_ddms_datasets version_ge (rec_kind r)
         (PDict (AList.update ''ExtensionProperties'' ext d)) u = Inr data"
    unfolding osdu_set_bulk_uri_def bindR_Inr_iff v_setitem_Inr by auto
  from ddms_datasets_frame [OF 1(3)] obtain d' where d': "data = PDict d'"
    "\<And>k. k \<noteq> ''ExtensionProperties'' \<Longrightarrow> k \<noteq> ''DDMSDatasets'' \<Longrightarrow> map_of d' k = map_of d k"
    by auto
  have "if inc then \<exists>l. map_of d' ''DDMSDatasets'' = Some (PList (l @ [PStr (encode_for_ddms_datasets u)]))
         \<and> (\<forall>l0. map_of d ''DDMSDatasets'' = Some (PList l0) \<longrightarrow> l = l0)
     else map_of d' ''DDMSDatasets'' = map_of d ''DDMSDatasets''"
    using 1(3) d'(1) assms(2)
    by (cases "map_of d ''DDMSDatasets''")
      (auto simp: set_bulk_uri_ddms_datasets_def bindR_Inr_iff split: if_splits pyval.splits)
  with 1 d' show ?thesis by simp
qed

definition test_version_ge :: "string \<Rightarrow> string \<Rightarrow> bool res" where
  "test_version_ge a b = Inr (a = b)"

definition test_json_path :: json_path where
  "test_json_path = \<lparr>jp_find = (\<lambda>_ _. []), jp_set = (\<lambda>_ _ _ doc. Inr doc)\<rparr>"

definition test_welllog :: Record where
  "test_welllog = \<lparr>rec_id = Some ''a:b:1'', rec_kind = ''osdu:wks:work-product-component--WellLog:1.3.0'',
     rec_version = None, rec_data = PDict [(''Name'', PStr ''x'')], rec_rest = PNone\<rparr>"

lemma test_from_V1:
  "from_bulk_storage_V1 (uuid_to_str 42) = Inr \<lparr>bulk_id = uuid_to_str 42, storage_version = BulkStorageVersion_V1\<rparr>"
  by (simp add: from_bulk_storage_V1_def make_BulkURI_def storage_versions uuid_of_bare)

lemma test_encode:
  "encode \<lparr>bulk_id = b, storage_version = BulkStorageVersion_V1\<rparr> = Inr (''urn:wdms-1:uuid:'' @ b)"
  by (simp add: encode_def storage_versions)

lemma test_includes: "includes_ddms_datasets test_version_ge (rec_kind test_welllog) = Inr True"
  by code_simp

lemma test_set_ok:
  "\<exists>r1. osdu_set_bulk_uri test_version_ge test_welllog (uuid_to_str 42) = Inr r1"
  "\<exists>r2. log_access_set_bulk_uri test_json_path test_welllog (uuid_to_str 42) = Inr r2"
proof -
  have d: "rec_data test_welllog = PDict [(''Name'', PStr ''x'')]" by (simp add: test_welllog_def)
  show "\<exists>r1. osdu_set_bulk_uri test_version_ge test_welllog (uuid_to_str 42) = Inr r1"
    by (simp add: osdu_set_bulk_uri_def d test_from_V1 test_encode set_bulk_uri_ddms_datasets_def test_includes)
  show "\<exists>r2. log_access_set_bulk_uri test_json_path test_welllog (uuid_to_str 42) = Inr r2"
    by (simp add: log_access_set_bulk_uri_def log_update_bulk_uri_def d test_from_V1 test_encode
        get_record_data_dict_def)
qed

theorem bulk_reference_roundtrip_witness:
  "\<exists>r1. osdu_set_bulk_uri test_version_ge test_welllog (uuid_to_str 42) = Inr r1
     \<and> osdu_get_bulk_uri r1 = Inr \<lparr>bulk_id = uuid_to_str 42, storage_version = BulkStorageVersion_V1\<rparr>"
proof -
  from test_set_ok obtain r1 r2 where r: "osdu_set_bulk_uri test_version_ge test_welllog (uuid_to_str 42) = Inr r1"
    "log_access_set_bulk_uri test_json_path test_welllog (uuid_to_str 42) = Inr r2" by blast
  have "(42::nat) < 2 ^ 128" by simp
  from bulk_reference_roundtrip [OF this r] r(1) show ?thesis by blast
qed

theorem ddms_datasets_appended_witness:
  "\<exists>r1 d' l. osdu_set_bulk_uri test_version_ge test_welllog (uuid_to_str 42) = Inr r1
     \<and> rec_data r1 = PDict d' \<and> map_of d' ''DDMSDatasets'' = Some (PList l) \<and> l \<noteq> []"
proof -
  from test_set_ok(1) obtain r1 where r: "osdu_set_bulk_uri test_version_ge test_welllog (uuid_to_str 42) = Inr r1" by blast
  from ddms_datasets_appended [OF r test_includes test_from_V1] r show ?thesis by auto
qed

end
