(* ===== verification/Storage_Paths.thy ===== *)
theory Storage_Paths
  imports Bulk_Uri
begin

text \<open>
  Paths of the bulk storage: \<open>app/bulk_persistence/storage_path_builder.py\<close>, with the functions of
  \<open>os.path\<close> it uses on a POSIX system.  The SHA-1 digest of a record identifier is a parameter; what
  is relied upon is that its hexadecimal form consists of hexadecimal digits.
\<close>

section \<open>POSIX paths\<close>

fun path_join :: "string \<Rightarrow> string list \<Rightarrow> string" where
  \<comment> \<open>\<open>os.path.join(path, *paths)\<close>\<close>
  "path_join p [] = p"
| "path_join p (q # qs) =
     (if startswith q ''/'' then path_join q qs
      else if p = [] \<or> endswith p ''/'' then path_join (p @ q) qs
      else path_join (p @ ''/'' @ q) qs)"

definition path_basename :: "string \<Rightarrow> string" where
  "path_basename p = last (split_char (CHR ''/'') p)"

fun norm_parts :: "string list \<Rightarrow> string list \<Rightarrow> string list" where
  \<comment> \<open>the components of a normalised absolute path, in reverse\<close>
  "norm_parts acc [] = acc"
| "norm_parts acc (c # cs) =
     (if c = [] \<or> c = ''.'' then norm_parts acc cs
      else if c = ''..'' then norm_parts (tl acc) cs
      else norm_parts (c # acc) cs)"

definition abs_parts :: "string \<Rightarrow> string \<Rightarrow> string list" where
  \<comment> \<open>the components of \<open>abspath(p)\<close> in the working directory \<open>cwd\<close>\<close>
  "abs_parts cwd p = rev (norm_parts [] (split_char (CHR ''/'') (path_join cwd [p])))"

definition relpath :: "string \<Rightarrow> string \<Rightarrow> string \<Rightarrow> string res" where
  "relpath cwd path start =
     (if path = [] then Inl ValueError else
      let ss = abs_parts cwd start; ps = abs_parts cwd path;
          i = length (longest_common_prefix ss ps);
          rel = replicate (length ss - i) ''..'' @ drop i ps
      in Inr (if rel = [] then ''.'' else join ''/'' rel))"

section \<open>Paths of a record (storage_path_builder.py)\<close>

definition spb_join :: "string \<Rightarrow> string list \<Rightarrow> string" where
  "spb_join path paths = map (\<lambda>c. if c = CHR 0x5C then CHR ''/'' else c) (path_join path paths)"

definition basename :: "string \<Rightarrow> string" where
  "basename path = path_basename path"

definition hash_record_id :: "(string \<Rightarrow> string) \<Rightarrow> string \<Rightarrow> string" where
  "hash_record_id sha1 record_id = sha1 record_id"

definition build_base_path :: "string \<Rightarrow> string option \<Rightarrow> string" where
  "build_base_path base_directory protocol = (case protocol of
       Some p \<Rightarrow> if p \<noteq> [] then p @ ''://'' @ base_directory else base_directory
     | None \<Rightarrow> base_directory)"

definition add_protocol :: "string \<Rightarrow> string \<Rightarrow> string" where
  "add_protocol path protocol =
     (let pre = protocol @ ''://'' in if \<not> startswith path pre then pre @ path else path)"

fun remove_protocol :: "string \<Rightarrow> string \<times> string" where
  "remove_protocol [] = ([], [])"
| "remove_protocol (c # cs) =
     (if prefix ''://'' (c # cs) then (drop 3 (c # cs), [])
      else if py_in ''://'' cs then (let (p, proto) = remove_protocol cs in (p, c # proto))
      else (c # cs, []))"

definition record_path :: "(string \<Rightarrow> string) \<Rightarrow> string \<Rightarrow> string \<Rightarrow> string option \<Rightarrow> string" where
  "record_path sha1 base_directory record_id protocol =
     (let encoded_id = hash_record_id sha1 record_id; base_path = build_base_path base_directory protocol
      in if base_path \<noteq> [] then spb_join base_path [encoded_id] else encoded_id)"

definition record_bulk_path :: "(string \<Rightarrow> string) \<Rightarrow> string \<Rightarrow> string \<Rightarrow> string \<Rightarrow> string option \<Rightarrow> string" where
  "record_bulk_path sha1 base_directory record_id bid protocol =
     spb_join (record_path sha1 base_directory record_id protocol) [''bulk'', bid, ''data'']"

definition record_statistics_base_path ::
    "(string \<Rightarrow> string) \<Rightarrow> string \<Rightarrow> string \<Rightarrow> string \<Rightarrow> string \<Rightarrow> string option \<Rightarrow> string" where
  "record_statistics_base_path sha1 base_directory record_id bid statistics_suffix protocol =
     spb_join (record_path sha1 base_directory record_id protocol) [''bulk'', bid, statistics_suffix]"

definition record_session_path :: "(string \<Rightarrow> string) \<Rightarrow> string \<Rightarrow> string \<Rightarrow> string \<Rightarrow> string option \<Rightarrow> string" where
  "record_session_path sha1 base_directory session_id record_id protocol =
     spb_join (record_path sha1 base_directory record_id protocol) [''session'', session_id, ''data'']"

definition record_relative_path :: "string \<Rightarrow> (string \<Rightarrow> string) \<Rightarrow> string \<Rightarrow> string \<Rightarrow> string \<Rightarrow> string res" where
  "record_relative_path cwd sha1 base_directory record_id path =
     (let base_path = record_path sha1 base_directory record_id None; (p, _) = remove_protocol path
      in relpath cwd p base_path)"

definition full_path :: "(string \<Rightarrow> string) \<Rightarrow> string \<Rightarrow> string \<Rightarrow> string \<Rightarrow> string option \<Rightarrow> string" where
  "full_path sha1 base_directory record_id relative_path protocol =
     spb_join (record_path sha1 base_directory record_id protocol) [relative_path]"

section \<open>Relative and full paths\<close>

lemma split_char_mid: "split_char c (s @ c # t) = split_char c s @ split_char c t"
proof (induction s)
  case (Cons x xs)
  have "split_char c xs \<noteq> []" by simp
  with Cons show ?case by (cases "split_char c xs") auto
qed simp

lemma norm_parts_append: "norm_parts acc (xs @ ys) = norm_parts (norm_parts acc xs) ys"
  by (induction xs arbitrary: acc) auto

definition plain :: "string \<Rightarrow> bool" where
  \<comment> \<open>an ordinary path component\<close>
  "plain s \<longleftrightarrow> s \<noteq> [] \<and> s \<noteq> ''.'' \<and> s \<noteq> ''..'' \<and> CHR ''/'' \<notin> set s \<and> CHR 0x5C \<notin> set s \<and> CHR '':'' \<notin> set s"

lemma norm_parts_plain: "list_all plain cs \<Longrightarrow> norm_parts acc cs = rev cs @ acc"
  by (induction cs arbitrary: acc) (auto simp: plain_def)

lemma path_join_extend: "p \<noteq> [] \<Longrightarrow> path_join cwd [p @ x] = path_join cwd [p] @ x"
  by (cases p) (auto simp: startswith_def)

lemma abs_parts_extend:
  assumes "p \<noteq> []" and "list_all plain cs" and "cs \<noteq> []"
  shows "abs_parts cwd (p @ ''/'' @ join ''/'' cs) = abs_parts cwd p @ cs"
proof -
  have "split_char (CHR ''/'') (join ''/'' cs) = cs"
    using assms(2,3) by (intro split_char_join) (auto simp: list_all_iff plain_def)
  then have "split_char (CHR ''/'') (path_join cwd [p @ ''/'' @ join ''/'' cs])
      = split_char (CHR ''/'') (path_join cwd [p]) @ cs"
    unfolding path_join_extend [OF assms(1)] by (simp add: split_char_mid)
  then show ?thesis
    using assms(2) by (simp add: abs_parts_def norm_parts_append norm_parts_plain)
qed

lemma relpath_below:
  assumes "p \<noteq> []" and "list_all plain cs" and "cs \<noteq> []"
  shows "relpath cwd (p @ ''/'' @ join ''/'' cs) p = Inr (join ''/'' cs)"
proof -
  have "longest_common_prefix ss (ss @ cs) = ss" for ss :: "string list"
    by (induction ss) simp_all
  then show ?thesis
    unfolding relpath_def Let_def abs_parts_extend [OF assms] using assms(1,3) by simp
qed

definition no_backslash :: "string \<Rightarrow> bool" where
  "no_backslash s \<longleftrightarrow> CHR 0x5C \<notin> set s"

lemma unslash_id: "no_backslash s \<Longrightarrow> map (\<lambda>c. if c = CHR 0x5C then CHR ''/'' else c) s = s"
  by (induction s) (auto simp: no_backslash_def)

lemma path_join_plain:
  assumes "list_all plain cs" and "p \<noteq> []" and "\<not> endswith p ''/''" and "cs \<noteq> []"
  shows "path_join p cs = p @ ''/'' @ join ''/'' cs"
  using assms
proof (induction cs arbitrary: p)
  case (Cons c cs)
  have c: "c \<noteq> []" "CHR ''/'' \<notin> set c" using Cons.prems(1) by (auto simp: plain_def)
  then have "\<not> startswith c ''/''" by (cases c) (auto simp: startswith_def)
  moreover have "\<not> endswith (p @ ''/'' @ c) ''/''"
  proof -
    obtain y z where "c = y @ [z]" using c(1) by (metis rev_exhaust)
    with c(2) show ?thesis by (auto simp: endswith_def suffix_def)
  qed
  ultimately have "\<not> startswith c ''/''" "\<not> endswith (p @ ''/'' @ c) ''/''" .
  then show ?case
    using Cons.prems Cons.IH [of "p @ ''/'' @ c"] by (cases "cs = []") (auto simp: join_cons)
qed simp

text \<open>The path of a record: an optional directory in front of the digest.\<close>

definition record_base :: "string \<Rightarrow> string" where
  "record_base base = (if base = [] \<or> endswith base ''/'' then base else base @ ''/'')"

definition protocol_prefix :: "string option \<Rightarrow> string" where
  "protocol_prefix protocol = (case protocol of Some p \<Rightarrow> if p \<noteq> [] then p @ ''://'' else [] | None \<Rightarrow> [])"

lemma plain_not_slash: "plain h \<Longrightarrow> \<not> endswith (s @ h) ''/'' \<and> \<not> startswith h ''/''"
proof -
  assume "plain h"
  then obtain y z where h: "h = y @ [z]" "z \<noteq> CHR ''/''"
    unfolding plain_def by (metis rev_exhaust last_in_set last_snoc)
  moreover have "\<not> startswith h ''/''"
    using \<open>plain h\<close> by (cases h) (auto simp: plain_def startswith_def)
  ultimately show ?thesis by (auto simp: endswith_def suffix_def)
qed

lemma record_path_form:
  assumes "plain (sha1 rid)" and "no_backslash base" and "no_backslash (protocol_prefix protocol)"
  shows "record_path sha1 base rid protocol = protocol_prefix protocol @ record_base base @ sha1 rid"
proof -
  let ?h = "sha1 rid"
  have nb: "no_backslash ?h" using assms(1) by (simp add: plain_def no_backslash_def)
  have h: "\<not> startswith ?h ''/''" using plain_not_slash [OF assms(1)] by blast
  have bb: "build_base_path base protocol = protocol_prefix protocol @ base"
    by (simp add: build_base_path_def protocol_prefix_def split: option.splits)
  have slash: "endswith (protocol_prefix protocol) ''/'' \<or> protocol_prefix protocol = []"
    by (auto simp: protocol_prefix_def endswith_def suffix_def split: option.splits)
  have one: "spb_join p [?h] = (if endswith p ''/'' then p @ ?h else p @ ''/'' @ ?h)"
    if "p \<noteq> []" "no_backslash p" for p
    using that h nb by (auto simp: spb_join_def unslash_id no_backslash_def)
  have nbp: "no_backslash (protocol_prefix protocol @ base)"
    using assms(2,3) by (simp add: no_backslash_def)
  have ends: "endswith (protocol_prefix protocol @ base) ''/'' = endswith base ''/''" if "base \<noteq> []"
    using that by (cases base rule: rev_cases) (simp_all add: endswith_def suffix_def)
  show ?thesis
    unfolding record_path_def Let_def bb hash_record_id_def
    using one [OF _ nbp] ends slash by (cases "base = []") (auto simp: record_base_def)
qed

lemma set_join: "set (join sep ps) \<subseteq> set sep \<union> (\<Union>p\<in>set ps. set p)"
  by (induction sep ps rule: join.induct) auto

lemma below_record:
  assumes "plain (sha1 rid)" and "no_backslash base" and "no_backslash (protocol_prefix protocol)"
    and "list_all plain cs" and "cs \<noteq> []"
  shows "spb_join (record_path sha1 base rid protocol) cs =
    protocol_prefix protocol @ record_base base @ sha1 rid @ ''/'' @ join ''/'' cs"
proof -
  let ?p = "protocol_prefix protocol @ record_base base @ sha1 rid"
  have p: "?p \<noteq> []" "\<not> endswith ?p ''/''"
    using assms(1) plain_not_slash [OF assms(1), of "protocol_prefix protocol @ record_base base"]
    by (auto simp: plain_def)
  have "no_backslash (join ''/'' cs)"
    using assms(4) set_join [of "''/''" cs] by (auto simp: list_all_iff plain_def no_backslash_def)
  then have "no_backslash (path_join ?p cs)"
    using assms(1-3) path_join_plain [OF assms(4) p assms(5)]
    by (auto simp: no_backslash_def record_base_def plain_def)
  then show ?thesis
    unfolding spb_join_def record_path_form [of sha1 rid, OF assms(1-3)]
    using path_join_plain [OF assms(4) p assms(5)] by (simp only: unslash_id append_assoc)
qed

lemma remove_protocol_none: "CHR '':'' \<notin> set s \<Longrightarrow> remove_protocol s = (s, [])"
proof (cases s)
  case (Cons c cs)
  assume "CHR '':'' \<notin> set s"
  then have "\<not> py_in ''://'' s" using py_in_set [of "''://''" s] by auto
  with Cons show ?thesis by auto
qed simp

lemma remove_protocol_add:
  assumes "CHR '':'' \<notin> set p"
  shows "remove_protocol (p @ ''://'' @ s) = (s, p)"
  using assms
proof (induction p)
  case (Cons c cs)
  have "py_in ''://'' (cs @ ''://'' @ s)" by (auto simp: py_in_iff)
  with Cons show ?case by simp
qed simp

lemma remove_protocol_prefix:
  assumes "CHR '':'' \<notin> set s" and "\<And>p. protocol = Some p \<Longrightarrow> CHR '':'' \<notin> set p"
  shows "fst (remove_protocol (protocol_prefix protocol @ s)) = s"
  using assms remove_protocol_none [OF assms(1)] remove_protocol_add [of _ s]
  by (cases protocol) (auto simp: protocol_prefix_def)

section \<open>Properties\<close>

text \<open>C30: Paths of a bulk below its record: with or without a protocol, the path of a bulk made relative
  to its record is \<open>bulk/<id>/data\<close>, for every working directory, and the full path of that relative path
  is the path of the bulk again.\<close>

theorem bulk_path_roundtrip:
  assumes "plain (sha1 rid)" and "plain bid"
    and "no_backslash base" and "CHR '':'' \<notin> set base"
    and "no_backslash (protocol_prefix protocol)" and "\<And>p. protocol = Some p \<Longrightarrow> CHR '':'' \<notin> set p"
  shows "record_relative_path cwd sha1 base rid (record_bulk_path sha1 base rid bid protocol)
           = Inr (''bulk/'' @ bid @ ''/data'')
    \<and> full_path sha1 base rid (''bulk/'' @ bid @ ''/data'') protocol = record_bulk_path sha1 base rid bid protocol"
proof -
  let ?cs = "[''bulk'', bid, ''data'']" and ?r = "record_base base @ sha1 rid"
  have cs: "list_all plain ?cs" "?cs \<noteq> []" using assms(2) by (simp_all add: plain_def)
  have j: "join ''/'' ?cs = ''bulk/'' @ bid @ ''/data''" by simp
  have path: "record_bulk_path sha1 base rid bid protocol =
      protocol_prefix protocol @ ?r @ ''/'' @ join ''/'' ?cs"
    unfolding record_bulk_path_def using below_record [of sha1 rid, OF assms(1,3,5) cs] by simp
  have "CHR '':'' \<notin> set (?r @ ''/'' @ join ''/'' ?cs)"
    using assms(1,2,4) by (auto simp: record_base_def plain_def)
  then have rm: "fst (remove_protocol (record_bulk_path sha1 base rid bid protocol)) = ?r @ ''/'' @ join ''/'' ?cs"
    unfolding path using assms(6) by (rule remove_protocol_prefix)
  have "record_path sha1 base rid None = ?r"
    using record_path_form [of sha1 rid, OF assms(1,3), of None] by (simp add: protocol_prefix_def no_backslash_def)
  then have rel: "record_relative_path cwd sha1 base rid (record_bulk_path sha1 base rid bid protocol)
      = Inr (join ''/'' ?cs)"
    using rm relpath_below [OF _ cs, of ?r cwd] assms(1)
    by (simp add: record_relative_path_def Let_def case_prod_beta plain_def)
  have "path_join (protocol_prefix protocol @ ?r) [join ''/'' ?cs] = path_join (protocol_prefix protocol @ ?r) ?cs"
    using path_join_plain [OF cs(1) _ _ cs(2), of "protocol_prefix protocol @ ?r"]
      plain_not_slash [OF assms(1), of "protocol_prefix protocol @ record_base base"] assms(1)
    by (auto simp: startswith_def plain_def)
  then have "full_path sha1 base rid (join ''/'' ?cs) protocol = record_bulk_path sha1 base rid bid protocol"
    unfolding full_path_def record_bulk_path_def spb_join_def
      record_path_form [of sha1 rid, OF assms(1,3,5)] by (simp only: append_assoc)
  with rel show ?thesis unfolding j by simp
qed

theorem bulk_path_roundtrip_witness:
  "record_relative_path ''/work'' (\<lambda>_. ''0a1b'') ''data/x'' ''a:b:c''
     (record_bulk_path (\<lambda>_. ''0a1b'') ''data/x'' ''a:b:c'' ''42'' (Some ''s3'')) = Inr ''bulk/42/data''"
  using bulk_path_roundtrip [of "\<lambda>_. ''0a1b''" "''a:b:c''" "''42''" "''data/x''" "Some ''s3''" "''/work''"]
  by (simp add: plain_def no_backslash_def protocol_prefix_def)

end
