(* ===== verification/Record_Storage.thy ===== *)
theory Record_Storage
  imports Blob_Store Bulk_Id_Access Storage_Paths "HOL-Library.Char_ord" "HOL-Library.List_Lexorder"
begin

text \<open>
  Records and their versions.  \<open>storage_client\<close> is the interface of the storage service as the routers
  use it; \<open>app/clients/storage_service_blob_storage.py\<close> implements it on a blob storage and is modelled
  in full, over the blob storage of the environment, the digest of an identifier (MD5), the source of new
  versions (ULID) and the serialisation of a record.  \<open>app/routers/record_utils.py\<close> and
  \<open>app/routers/delete/delete_bulk_data.py\<close> are the helpers that the routers build on it.
\<close>

section \<open>The storage client\<close>

record CreateUpdateRecordsResponse =
  resp_recordCount :: int
  resp_recordIds :: "string list"
  resp_recordIdVersions :: "string list"

record 'w storage_client =
  sc_get_record_version :: "string \<Rightarrow> int option \<Rightarrow> string option \<Rightarrow> string list option \<Rightarrow> (exn, 'w, Record) prog"
  sc_get_record :: "string \<Rightarrow> string option \<Rightarrow> string list option \<Rightarrow> (exn, 'w, Record) prog"
  sc_get_all_record_versions :: "string \<Rightarrow> string option \<Rightarrow> (exn, 'w, int list) prog"
  sc_create_or_update_records :: "Record list \<Rightarrow> string option \<Rightarrow> (exn, 'w, CreateUpdateRecordsResponse) prog"
  sc_delete_record :: "string \<Rightarrow> string option \<Rightarrow> (exn, 'w, unit) prog"
  sc_purge_record :: "string \<Rightarrow> string option \<Rightarrow> (exn, 'w, unit) prog"

section \<open>Records on a blob storage (storage_service_blob_storage.py)\<close>

record ('w, 'c) record_env =
  rs_storage :: "('w, 'c) blob_storage"
  rs_runtime :: "'w runtime"
  rs_tenant :: "string option \<Rightarrow> string"
    \<comment> \<open>the tenant of the service's project and container for a data partition\<close>
  rs_md5 :: "string \<Rightarrow> string"
  rs_ulid :: "(exn, 'w, nat) prog"
  rs_dump :: "Record \<Rightarrow> 'c"
    \<comment> \<open>\<open>model_utils.record_to_json\<close>\<close>
  rs_load :: "'c \<Rightarrow> Record res"
  rs_auth_check :: "(exn, 'w, unit) prog"

definition get_record_folder :: "('w, 'c) record_env \<Rightarrow> string \<Rightarrow> string option \<Rightarrow> string" where
  "get_record_folder env record_id data_partition =
     (case data_partition of Some p \<Rightarrow> if p \<noteq> [] then p else ''global'' | None \<Rightarrow> ''global'')
     @ ''_r_'' @ rs_md5 env record_id"

definition get_all_version_object ::
    "('w, 'c) record_env \<Rightarrow> string \<Rightarrow> string option \<Rightarrow> (exn, 'w, string list) prog" where
  "get_all_version_object env rid data_partition =
     bindM (list_objects (rs_storage env) (rs_tenant env data_partition) (get_record_folder env rid data_partition))
       (\<lambda>names. returnM (sort names))"

definition build_record_path ::
    "('w, 'c) record_env \<Rightarrow> string \<Rightarrow> string option \<Rightarrow> int option \<Rightarrow> (exn, 'w, string option) prog" where
  "build_record_path env rid data_partition version =
     (let folder = get_record_folder env rid data_partition in
      case version of
        Some v \<Rightarrow> if v \<noteq> 0 then returnM (Some (folder @ ''/'' @ show_int v))
                 else bindM (get_all_version_object env rid data_partition)
                        (\<lambda>objects. returnM (if objects = [] then None else Some (last objects)))
      | None \<Rightarrow> bindM (get_all_version_object env rid data_partition)
                  (\<lambda>objects. returnM (if objects = [] then None else Some (last objects))))"

definition get_new_id_for_record :: "('w, 'c) record_env \<Rightarrow> Record \<Rightarrow> (exn, 'w, string) prog" where
  \<comment> \<open>the hexadecimal form of the fresh identifier\<close>
  "get_new_id_for_record env r = (case split_char (CHR '':'') (rec_kind r) of
       k0 # k1 # k2 # _ \<Rightarrow> bindM (uuid4 (rs_runtime env)) (\<lambda>u.
         returnM (join '':'' [k0, k2, filter (\<lambda>c. c \<noteq> CHR ''-'') u]))
     | _ \<Rightarrow> raiseM IndexError)"

definition stamp_record :: "('w, 'c) record_env \<Rightarrow> Record \<Rightarrow> (exn, 'w, Record) prog" where
  \<comment> \<open>the identifier of a new record and the new version\<close>
  "stamp_record env r =
     bindM (case rec_id r of None \<Rightarrow> get_new_id_for_record env r | Some i \<Rightarrow> returnM i) (\<lambda>i.
     bindM (rs_ulid env) (\<lambda>v. returnM (r\<lparr>rec_id := Some i, rec_version := Some (int v)\<rparr>)))"

definition upload_record :: "('w, 'c) record_env \<Rightarrow> string option \<Rightarrow> Record \<Rightarrow> (exn, 'w, unit) prog" where
  "upload_record env data_partition r =
     bindM (build_record_path env (the (rec_id r)) data_partition (rec_version r)) (\<lambda>path.
       case path of
         Some p \<Rightarrow> bindM (upload (rs_storage env) (rs_tenant env data_partition) p (rs_dump env r) None) (\<lambda>_. returnM ())
       | None \<Rightarrow> raiseM TypeError)"

definition records_response :: "Record list \<Rightarrow> CreateUpdateRecordsResponse" where
  "records_response rs = \<lparr>resp_recordCount = int (length rs), resp_recordIds = map (the \<circ> rec_id) rs,
     resp_recordIdVersions = map (\<lambda>r. the (rec_id r) @ '':'' @ show_int (the (rec_version r))) rs\<rparr>"

definition bs_create_or_update_records ::
    "('w, 'c) record_env \<Rightarrow> Record list \<Rightarrow> string option \<Rightarrow> (exn, 'w, CreateUpdateRecordsResponse) prog" where
  "bs_create_or_update_records env records data_partition =
     bindM (rs_auth_check env) (\<lambda>_.
     bindM (mapM (stamp_record env) records) (\<lambda>stamped.
     bindM (forM (upload_record env data_partition) stamped) (\<lambda>_.
       returnM (records_response stamped))))"

fun walk_path :: "pyval \<Rightarrow> string list \<Rightarrow> pyval res" where
  "walk_path node [] = Inr node"
| "walk_path node (tk # tks) =
     bindR (v_get node tk) (\<lambda>next. if next = PNone then Inr PNone else walk_path next tks)"

fun restrict_data :: "pyval \<Rightarrow> (string \<times> pyval) list \<Rightarrow> string list \<Rightarrow> (string \<times> pyval) list res" where
  "restrict_data full acc [] = Inr acc"
| "restrict_data full acc (attribute_path # rest) =
     (let path_token = split_char (CHR ''.'') attribute_path in
      if hd path_token \<noteq> ''data'' then Inl KeyError
      else bindR (walk_path full (tl path_token)) (\<lambda>node.
        restrict_data full (if node = PNone then acc else AList.update (join ''.'' (tl path_token)) node acc) rest))"

definition not_found_as_404 :: "(exn, 'w, 'a) prog \<Rightarrow> (exn, 'w, 'a) prog" where
  "not_found_as_404 m = tryM m (\<lambda>e. case e of
       FileNotFoundError \<Rightarrow> raiseM (UnexpectedResponse 404)
     | ResourceNotFoundException \<Rightarrow> raiseM (UnexpectedResponse 404)
     | _ \<Rightarrow> raiseM e)"

definition bs_get_record_version :: "('w, 'c) record_env \<Rightarrow> string \<Rightarrow> int option \<Rightarrow> string option
    \<Rightarrow> string list option \<Rightarrow> (exn, 'w, Record) prog" where
  "bs_get_record_version env rid version data_partition attribute =
     bindM (rs_auth_check env) (\<lambda>_. not_found_as_404
       (bindM (build_record_path env rid data_partition version) (\<lambda>object_name.
          case object_name of
            None \<Rightarrow> raiseM ResourceNotFoundException
          | Some n \<Rightarrow>
              bindM (download (rs_storage env) (rs_tenant env data_partition) n) (\<lambda>bin_data.
              bindM (liftM (rs_load env bin_data)) (\<lambda>r.
                case attribute of
                  None \<Rightarrow> returnM r
                | Some attrs \<Rightarrow> bindM (liftM (restrict_data (rec_data r) [] attrs))
                                 (\<lambda>d. returnM (r\<lparr>rec_data := PDict d\<rparr>)))))))"

definition bs_get_record ::
    "('w, 'c) record_env \<Rightarrow> string \<Rightarrow> string option \<Rightarrow> string list option \<Rightarrow> (exn, 'w, Record) prog" where
  "bs_get_record env rid data_partition attribute = bs_get_record_version env rid None data_partition attribute"

definition bs_get_all_record_versions ::
    "('w, 'c) record_env \<Rightarrow> string \<Rightarrow> string option \<Rightarrow> (exn, 'w, int list) prog" where
  "bs_get_all_record_versions env rid data_partition =
     bindM (get_all_version_object env rid data_partition) (\<lambda>objects.
       liftM (mapR (\<lambda>n. ofOption ValueError (py_int (last (split_char (CHR ''/'') n)))) objects))"

definition bs_delete_record :: "('w, 'c) record_env \<Rightarrow> string \<Rightarrow> string option \<Rightarrow> (exn, 'w, unit) prog" where
  "bs_delete_record env rid data_partition =
     bindM (rs_auth_check env) (\<lambda>_.
     bindM (get_all_version_object env rid data_partition) (\<lambda>objects.
       forM (\<lambda>n. tryM (delete_object (rs_storage env) (rs_tenant env data_partition) n)
                   (\<lambda>e. case e of FileNotFoundError \<Rightarrow> raiseM (UnexpectedResponse 404) | _ \<Rightarrow> raiseM e))
         objects))"

definition bs_purge_record :: "('w, 'c) record_env \<Rightarrow> string \<Rightarrow> string option \<Rightarrow> (exn, 'w, unit) prog" where
  "bs_purge_record env rid data_partition = bs_delete_record env rid data_partition"

definition bs_delete_records :: "('w, 'c) record_env \<Rightarrow> string option \<Rightarrow> string list \<Rightarrow> (exn, 'w, unit) prog" where
  "bs_delete_records env data_partition request_body =
     forM (\<lambda>rid. delete_object (rs_storage env) (rs_tenant env data_partition) rid) request_body"

definition bs_get_schema :: "(exn, 'w, 'a) prog" where
  "bs_get_schema = raiseM NotImplementedError"

definition blob_storage_client :: "('w, 'c) record_env \<Rightarrow> 'w storage_client" where
  "blob_storage_client env = \<lparr>sc_get_record_version = bs_get_record_version env, sc_get_record = bs_get_record env,
     sc_get_all_record_versions = bs_get_all_record_versions env,
     sc_create_or_update_records = bs_create_or_update_records env,
     sc_delete_record = bs_delete_record env, sc_purge_record = bs_purge_record env\<rparr>"

section \<open>Fetching and updating records (record_utils.py)\<close>

definition fetch_record :: "'w storage_client \<Rightarrow> string option \<Rightarrow> string \<Rightarrow> int option \<Rightarrow> string list option
    \<Rightarrow> (exn, 'w, Record) prog" where
  \<comment> \<open>the client of the context and its partition, then the arguments\<close>
  "fetch_record sc partition_id record_id version attribute =
     (if version \<noteq> None \<and> version \<noteq> Some 0
      then sc_get_record_version sc record_id version partition_id attribute
      else sc_get_record sc record_id partition_id attribute)"

definition fetch_record_dependency ::
    "'w storage_client \<Rightarrow> string option \<Rightarrow> string \<Rightarrow> int option \<Rightarrow> (exn, 'w, Record) prog" where
  "fetch_record_dependency sc partition_id record_id version = fetch_record sc partition_id record_id version None"

definition fetch_latest_version_record_dependency ::
    "'w storage_client \<Rightarrow> string option \<Rightarrow> string \<Rightarrow> (exn, 'w, Record) prog" where
  "fetch_latest_version_record_dependency sc partition_id record_id = fetch_record sc partition_id record_id None None"

definition Attribute_record_wdms_extension_properties :: "string list" where
  "Attribute_record_wdms_extension_properties = [''data.ExtensionProperties.wdms'']"

fun update_pairs :: "(string \<times> pyval) list \<Rightarrow> pyval list \<Rightarrow> (string \<times> pyval) list res" where
  \<comment> \<open>\<open>dict.update\<close> of a sequence of pairs; the keys of a JSON document are strings\<close>
  "update_pairs d [] = Inr d"
| "update_pairs d (x # xs) = bindR (v_iter x) (\<lambda>el. case el of
       [PStr k, v] \<Rightarrow> update_pairs (AList.update k v d) xs
     | [_, _] \<Rightarrow> Inl TypeError
     | _ \<Rightarrow> Inl ValueError)"

definition v_update :: "pyval \<Rightarrow> pyval \<Rightarrow> pyval res" where
  \<comment> \<open>\<open>v.update(w)\<close>\<close>
  "v_update v w = (case v of
       PDict d \<Rightarrow> (case w of
           PDict d' \<Rightarrow> Inr (PDict (foldl (\<lambda>d (k, x). AList.update k x d) d d'))
         | _ \<Rightarrow> bindR (v_iter w) (\<lambda>xs. bindR (update_pairs d xs) (\<lambda>d. Inr (PDict d))))
     | _ \<Rightarrow> Inl AttributeError)"

definition v_setdefault :: "pyval \<Rightarrow> string \<Rightarrow> pyval \<Rightarrow> pyval res" where
  \<comment> \<open>the value that \<open>v.setdefault(k, w)\<close> returns\<close>
  "v_setdefault v k w = v_get_default v k w"

definition restore_extension :: "pyval \<Rightarrow> pyval res" where
  \<comment> \<open>the data with \<open>ExtensionProperties.wdms\<close> moved back into place\<close>
  "restore_extension data = (case data of
       PDict d \<Rightarrow>
         (let wdms_ext = (case map_of d ''ExtensionProperties.wdms'' of Some w \<Rightarrow> w | None \<Rightarrow> PDict []);
              d1 = AList.delete ''ExtensionProperties.wdms'' d
          in bindR (v_setdefault (PDict d1) ''ExtensionProperties'' (PDict [])) (\<lambda>ext.
             bindR (v_setdefault ext ''wdms'' (PDict [])) (\<lambda>wdms.
             bindR (v_update wdms wdms_ext) (\<lambda>wdms.
             bindR (v_setitem ext ''wdms'' wdms) (\<lambda>ext.
               v_setitem (PDict d1) ''ExtensionProperties'' ext)))))
     | _ \<Rightarrow> Inl AttributeError)"

definition fetch_record_partial_with_wdms_extension ::
    "'w storage_client \<Rightarrow> string option \<Rightarrow> string \<Rightarrow> int option \<Rightarrow> (exn, 'w, Record) prog" where
  "fetch_record_partial_with_wdms_extension sc partition_id record_id version =
     bindM (fetch_record sc partition_id record_id version (Some Attribute_record_wdms_extension_properties)) (\<lambda>r.
     bindM (liftM (restore_extension (rec_data r))) (\<lambda>data. returnM (r\<lparr>rec_data := data\<rparr>)))"

definition update_records ::
    "'w storage_client \<Rightarrow> string option \<Rightarrow> Record list \<Rightarrow> (exn, 'w, CreateUpdateRecordsResponse) prog" where
  "update_records sc partition_id records = sc_create_or_update_records sc records partition_id"

section \<open>Deleting a record and its bulk (delete_bulk_data.py)\<close>

definition get_bulk_uri_from_version :: "'w storage_client \<Rightarrow> string option \<Rightarrow> (Record \<Rightarrow> BulkURI res)
    \<Rightarrow> string \<Rightarrow> int \<Rightarrow> (exn, 'w, string option) prog" where
  "get_bulk_uri_from_version sc partition_id get_uri record_id version =
     (\<lambda>w. case fetch_record sc partition_id record_id (Some version) None w of
        (Inl e, w') \<Rightarrow> if e = UnexpectedResponse 404 then (Inr None, w') else (Inl e, w')
      | (Inr r, w') \<Rightarrow>
          bindM (liftM (get_uri r)) (\<lambda>u.
            if is_valid u then bindM (liftM (encode u)) (\<lambda>s. returnM (Some s)) else returnM None) w')"

definition get_bulk_uris_of_versions_from_record_id :: "'w storage_client \<Rightarrow> string option
    \<Rightarrow> (Record \<Rightarrow> BulkURI res) \<Rightarrow> string \<Rightarrow> (exn, 'w, string list) prog" where
  "get_bulk_uris_of_versions_from_record_id sc partition_id get_uri record_id =
     bindM (sc_get_all_record_versions sc record_id partition_id) (\<lambda>versions.
     bindM (mapM (get_bulk_uri_from_version sc partition_id get_uri record_id) versions) (\<lambda>uris.
       returnM (List.map_filter (\<lambda>u. u) uris)))"

definition purge_targets :: "string list \<Rightarrow> string list \<Rightarrow> string list" where
  \<comment> \<open>the objects that the purge deletes\<close>
  "purge_targets bulk_file_names record_bulk_uris =
     concat (map (\<lambda>n. map (\<lambda>_. n) (filter (\<lambda>u. py_in u n) record_bulk_uris)) bulk_file_names)"

definition delete_record :: "'w storage_client \<Rightarrow> string option \<Rightarrow> (Record \<Rightarrow> BulkURI res) \<Rightarrow> (exn, 'w, string) prog
    \<Rightarrow> ('w, 'c) blob_storage \<Rightarrow> (string \<Rightarrow> string) \<Rightarrow> string \<Rightarrow> bool \<Rightarrow> (exn, 'w, unit) prog" where
  \<comment> \<open>the deletions run as tasks of their own, whose errors are logged only\<close>
  "delete_record sc partition_id get_uri resolve_tenant blob sha1 record_id purge =
     (if \<not> purge then sc_delete_record sc record_id partition_id
      else
        bindM (get_bulk_uris_of_versions_from_record_id sc partition_id get_uri record_id) (\<lambda>record_bulk_uris.
        bindM (sc_purge_record sc record_id partition_id) (\<lambda>_.
        bindM resolve_tenant (\<lambda>tenant.
        bindM (list_objects blob tenant (hash_record_id sha1 record_id)) (\<lambda>bulk_file_names.
          forM (\<lambda>n. tryM (delete_object blob tenant n) (\<lambda>_. returnM ()))
            (purge_targets bulk_file_names record_bulk_uris))))))"

section \<open>What the record storage promises\<close>

definition record_laws :: "('w, 'c) record_env \<Rightarrow> ('w, 'c) view \<Rightarrow> bool" where
  "record_laws env view \<longleftrightarrow>
     upload_law (rs_storage env) view \<and> read_law (rs_storage env) view \<and> delete_law (rs_storage env) view
     \<and> list_law (rs_storage env) view \<and> runtime_law (rs_runtime env) view
     \<and> (\<forall>w. \<exists>w'. rs_auth_check env w = (Inr (), w') \<and> view w' = view w)
     \<and> (\<forall>w. \<exists>v w'. rs_ulid env w = (Inr v, w') \<and> view w' = view w \<and> 0 < v)
     \<and> (\<forall>r. rs_load env (rs_dump env r) = Inr r)"

lemma record_lawsD:
  assumes "record_laws env view"
  shows "upload_law (rs_storage env) view" "read_law (rs_storage env) view" "delete_law (rs_storage env) view"
    "list_law (rs_storage env) view" "runtime_law (rs_runtime env) view"
    "\<exists>w'. rs_auth_check env w = (Inr (), w') \<and> view w' = view w"
    "\<exists>v w'. rs_ulid env w = (Inr v, w') \<and> view w' = view w \<and> 0 < v"
    "rs_load env (rs_dump env r) = Inr r"
  using assms unfolding record_laws_def by auto

definition record_object :: "('w, 'c) record_env \<Rightarrow> string \<Rightarrow> string option \<Rightarrow> int \<Rightarrow> string" where
  "record_object env rid part v = get_record_folder env rid part @ ''/'' @ show_int v"

lemma get_all_version_object_run:
  assumes "record_laws env view"
  obtains w' ns where "get_all_version_object env rid part w = (Inr ns, w')" "view w' = view w" "sorted ns"
    "distinct ns" "set ns = {n. view w (rs_tenant env part, n) \<noteq> None \<and> prefix (get_record_folder env rid part) n}"
proof -
  obtain ns w' where "list_objects (rs_storage env) (rs_tenant env part) (get_record_folder env rid part) w = (Inr ns, w')"
    "view w' = view w" "set ns = {n. view w (rs_tenant env part, n) \<noteq> None \<and> prefix (get_record_folder env rid part) n}"
    "distinct ns"
    using list_ok [OF record_lawsD(4) [OF assms]] by blast
  then show thesis
    by (intro that [of "sort ns" w']) (simp_all add: get_all_version_object_def bindM_run)
qed

lemma get_version_stored:
  assumes "record_laws env view" and "build_record_path env rid part version w1 = (Inr (Some n), w2)" and "view w2 = view w"
    and "view w (rs_tenant env part, n) = Some (rs_dump env r, e)"
    and "rs_auth_check env w = (Inr (), w1)"
  obtains w3 where "bs_get_record_version env rid version part None w = (Inr r, w3)" "view w3 = view w"
proof -
  obtain w3 where "view w3 = view w2" "download (rs_storage env) (rs_tenant env part) n w2 = (Inr (rs_dump env r), w3)"
    using download_ok [OF record_lawsD(2) [OF assms(1)], of w2 "rs_tenant env part" n] assms(3,4) by auto
  with assms(2,3,5) record_lawsD(8) [OF assms(1)] show thesis
    by (intro that [of w3]) (simp_all add: bs_get_record_version_def not_found_as_404_def bindM_run tryM_run)
qed

lemma create_one:
  assumes "record_laws env view" and "rec_id r = Some i"
  obtains v e w' where
    "bs_create_or_update_records env [r] part w = (Inr (records_response [r\<lparr>rec_version := Some (int v)\<rparr>]), w')"
    "0 < v" "view w' = (view w)((rs_tenant env part, record_object env i part (int v))
        \<mapsto> (rs_dump env (r\<lparr>rec_version := Some (int v)\<rparr>), e))"
proof -
  note laws = record_lawsD [OF assms(1)]
  obtain w1 where a: "rs_auth_check env w = (Inr (), w1)" "view w1 = view w" using laws(6) by blast
  obtain v w2 where u: "rs_ulid env w1 = (Inr v, w2)" "view w2 = view w1" "0 < v" using laws(7) by blast
  let ?r = "r\<lparr>rec_version := Some (int v)\<rparr>" and ?n = "record_object env i part (int v)"
  have r: "r\<lparr>rec_id := Some i, rec_version := Some (int v)\<rparr> = ?r" using assms(2) by (cases r) simp
  obtain e w3 where up: "upload (rs_storage env) (rs_tenant env part) ?n (rs_dump env ?r) None w2 = (Inr e, w3)"
    "view w3 = (view w2)((rs_tenant env part, ?n) \<mapsto> (rs_dump env ?r, e))"
    using upload_ok [OF laws(1), of None w2 "rs_tenant env part" ?n "rs_dump env ?r"] by auto
  have "bs_create_or_update_records env [r] part w = (Inr (records_response [?r]), w3)"
    using a(1) u(1,3) up(1) assms(2)
    by (simp add: bs_create_or_update_records_def stamp_record_def upload_record_def build_record_path_def
        bindM_run r record_object_def Let_def)
  then show thesis by (rule that [OF _ u(3)]) (use a(2) u(2) up(2) in simp)
qed

lemma last_sorted_Max:
  fixes ns :: "string list"
  assumes "sorted ns" and "n \<in> set ns" and "\<And>m. m \<in> set ns \<Longrightarrow> m \<le> n"
  shows "ns \<noteq> [] \<and> last ns = n"
proof -
  have ne: "ns \<noteq> []" using assms(2) by auto
  then obtain ys y where y: "ns = ys @ [y]" by (metis rev_exhaust)
  with assms(1,2) have "n \<le> y" by (auto simp: sorted_append)
  moreover have "y \<le> n" using assms(3) y by simp
  ultimately show ?thesis using y by simp
qed

text \<open>C31: A stored record can be read back: after \<open>create_or_update_records\<close> with one record that has an
  identifier, the version in the response reads back exactly the record that was sent, with its new
  version; and it is also the latest version when its object name is the greatest of the record's
  objects, as the time-ordered version numbers make it.\<close>

theorem record_create_then_get:
  assumes "record_laws env view" and "rec_id r = Some i"
  shows "\<exists>v w1 w2. bs_create_or_update_records env [r] part w
        = (Inr (records_response [r\<lparr>rec_version := Some (int v)\<rparr>]), w1)
     \<and> bs_get_record_version env i (Some (int v)) part None w1 = (Inr (r\<lparr>rec_version := Some (int v)\<rparr>), w2)
     \<and> ((\<forall>n. view w (rs_tenant env part, n) \<noteq> None \<longrightarrow> prefix (get_record_folder env i part) n \<longrightarrow>
              n \<le> record_object env i part (int v))
         \<longrightarrow> (\<exists>w3. bs_get_record env i part None w1 = (Inr (r\<lparr>rec_version := Some (int v)\<rparr>), w3)))"
proof -
  note laws = record_lawsD [OF assms(1)]
  from create_one [OF assms] obtain v e w1 where c:
    "bs_create_or_update_records env [r] part w = (Inr (records_response [r\<lparr>rec_version := Some (int v)\<rparr>]), w1)"
    "0 < v" "view w1 = (view w)((rs_tenant env part, record_object env i part (int v))
        \<mapsto> (rs_dump env (r\<lparr>rec_version := Some (int v)\<rparr>), e))" .
  let ?r = "r\<lparr>rec_version := Some (int v)\<rparr>" and ?n = "record_object env i part (int v)"
  obtain wa where a: "rs_auth_check env w1 = (Inr (), wa)" "view wa = view w1" using laws(6) by blast
  have n: "view w1 (rs_tenant env part, ?n) = Some (rs_dump env ?r, e)" using c(3) by simp
  have p: "build_record_path env i part (Some (int v)) wa = (Inr (Some ?n), wa)"
    using c(2) by (simp add: build_record_path_def record_object_def Let_def)
  from get_version_stored [OF assms(1) p a(2) n a(1)] obtain w2 where
    g: "bs_get_record_version env i (Some (int v)) part None w1 = (Inr ?r, w2)" .
  have "\<exists>w3. bs_get_record env i part None w1 = (Inr ?r, w3)"
    if max: "\<forall>n. view w (rs_tenant env part, n) \<noteq> None \<longrightarrow> prefix (get_record_folder env i part) n \<longrightarrow> n \<le> ?n"
  proof -
    from get_all_version_object_run [OF assms(1)] obtain wb ns where
      l: "get_all_version_object env i part wa = (Inr ns, wb)" "view wb = view wa" "sorted ns" "distinct ns"
        "set ns = {n. view wa (rs_tenant env part, n) \<noteq> None \<and> prefix (get_record_folder env i part) n}" .
    have "?n \<in> set ns" using l(5) a(2) n by (simp add: record_object_def)
    moreover have "m \<le> ?n" if "m \<in> set ns" for m
      using that max l(5) a(2) c(3) by (auto split: if_splits)
    ultimately have "ns \<noteq> []" "last ns = ?n" using last_sorted_Max [OF l(3)] by blast+
    then have "build_record_path env i part None wa = (Inr (Some ?n), wb)"
      using l(1) by (simp add: build_record_path_def bindM_run Let_def)
    from get_version_stored [OF assms(1) this _ n a(1)] l(2) a(2) show ?thesis
      by (metis bs_get_record_def)
  qed
  with c(1) g show ?thesis by blast
qed

definition test_record_env :: "(Record test_world, Record) record_env" where
  "test_record_env = \<lparr>rs_storage = test_store, rs_runtime = test_runtime, rs_tenant = (\<lambda>_. ''t''), rs_md5 = (\<lambda>s. s),
     rs_ulid = (\<lambda>w. (Inr (Suc (tw_uuid w)), w\<lparr>tw_uuid := Suc (tw_uuid w)\<rparr>)), rs_dump = (\<lambda>r. r), rs_load = Inr,
     rs_auth_check = returnM ()\<rparr>"

lemma test_record_laws: "record_laws test_record_env test_view"
  using test_store_laws by (simp add: record_laws_def test_record_env_def test_view_def)

definition test_stored_record :: Record where
  "test_stored_record = \<lparr>rec_id = Some ''r1'', rec_kind = ''a:b:c:1.0.0'', rec_version = None, rec_data = PDict [], rec_rest = PDict []\<rparr>"

theorem record_create_then_get_witness:
  "record_laws test_record_env test_view \<and> rec_id test_stored_record = Some ''r1'' \<and>
   (\<exists>v w1 w2. bs_create_or_update_records test_record_env [test_stored_record] None
          \<lparr>tw_blobs = [], tw_etag = 0, tw_clock = 0, tw_uuid = 0\<rparr>
        = (Inr (records_response [test_stored_record\<lparr>rec_version := Some (int v)\<rparr>]), w1)
     \<and> bs_get_record_version test_record_env ''r1'' (Some (int v)) None None w1
        = (Inr (test_stored_record\<lparr>rec_version := Some (int v)\<rparr>), w2)
     \<and> (\<exists>w3. bs_get_record test_record_env ''r1'' None None w1 = (Inr (test_stored_record\<lparr>rec_version := Some (int v)\<rparr>), w3)))"
proof -
  have r: "rec_id test_stored_record = Some ''r1''" by (simp add: test_stored_record_def)
  have "\<forall>n. (test_view :: (Record test_world, Record) view) \<lparr>tw_blobs = [], tw_etag = 0, tw_clock = 0, tw_uuid = 0\<rparr> (t, n) = None" for t
    by (simp add: test_view_def)
  with record_create_then_get [OF test_record_laws r, of None "\<lparr>tw_blobs = [], tw_etag = 0, tw_clock = 0, tw_uuid = 0\<rparr>"]
  show ?thesis using test_record_laws r by metis
qed

lemma delete_all_run:
  assumes "\<And>n w. view w (t, n) \<noteq> None \<Longrightarrow> \<exists>w'. f n w = (Inr (), w') \<and> view w' = (view w)((t, n) := None)"
    and "distinct ns" and "\<forall>n\<in>set ns. view w (t, n) \<noteq> None"
  shows "\<exists>w'. forM f ns w = (Inr (), w')
     \<and> view w' = (\<lambda>(t', n). if t' = t \<and> n \<in> set ns then None else view w (t', n))"
  using assms(2,3)
proof (induction ns arbitrary: w)
  case Nil
  then show ?case by auto
next
  case (Cons n ns)
  then obtain w1 where r: "f n w = (Inr (), w1)" "view w1 = (view w)((t, n) := None)" using assms(1) [of w n] by auto
  have "\<forall>m\<in>set ns. view w1 (t, m) \<noteq> None"
    using r(2) Cons.prems by auto
  with Cons.IH [of w1] Cons.prems(1) obtain w2 where
    "forM f ns w1 = (Inr (), w2)"
    "view w2 = (\<lambda>(t', n). if t' = t \<and> n \<in> set ns then None else view w1 (t', n))" by auto
  with r show ?case
    by (intro exI [of _ w2]) (auto simp: bindM_run fun_eq_iff)
qed

lemma delete_existing:
  assumes "delete_law st view" and "view w (t, n) \<noteq> None"
  shows "\<exists>w'. tryM (delete_object st t n) h w = (Inr (), w') \<and> view w' = (view w)((t, n) := None)"
proof -
  obtain r w1 where "delete_object st t n w = (r, w1)"
    "if view w (t, n) = None then r = Inl ResourceNotFoundException \<and> view w1 = view w
     else r = Inr () \<and> view w1 = (view w)((t, n) := None)"
    using delete_ok [OF assms(1)] .
  with assms(2) show ?thesis by (simp add: tryM_run)
qed

lemma delete_all_existing:
  assumes "delete_law st view" and "distinct ns" and "\<forall>n\<in>set ns. view w (t, n) \<noteq> None"
  shows "\<exists>w'. forM (\<lambda>n. tryM (delete_object st t n) h) ns w = (Inr (), w')
     \<and> view w' = (\<lambda>(t', n). if t' = t \<and> n \<in> set ns then None else view w (t', n))"
  by (rule delete_all_run) (use assms delete_existing [OF assms(1)] in auto)

text \<open>Deleting a record removes all its versions and nothing else: \<open>delete_record\<close> succeeds, every object
  outside the record's folder is unchanged, and afterwards the record has no version and reading it
  is the storage service's not-found response.\<close>

theorem record_delete_then_get:
  assumes "record_laws env view"
  shows "\<exists>w1. bs_delete_record env rid part w = (Inr (), w1)
     \<and> view w1 = (\<lambda>(t, n). if t = rs_tenant env part \<and> prefix (get_record_folder env rid part) n then None
                           else view w (t, n))
     \<and> (\<exists>w2. bs_get_all_record_versions env rid part w1 = (Inr [], w2))
     \<and> (\<exists>w3. bs_get_record env rid part attribute w1 = (Inl (UnexpectedResponse 404), w3))"
proof -
  note laws = record_lawsD [OF assms]
  obtain wa where a: "rs_auth_check env w = (Inr (), wa)" "view wa = view w" using laws(6) by blast
  from get_all_version_object_run [OF assms] obtain wb ns where
    l: "get_all_version_object env rid part wa = (Inr ns, wb)" "view wb = view wa" "sorted ns" "distinct ns"
      "set ns = {n. view wa (rs_tenant env part, n) \<noteq> None \<and> prefix (get_record_folder env rid part) n}" .
  have "\<forall>n\<in>set ns. view wb (rs_tenant env part, n) \<noteq> None" using l(2,5) by auto
  from delete_all_existing [OF laws(3) l(4) this] obtain w1 where
    d: "forM (\<lambda>n. tryM (delete_object (rs_storage env) (rs_tenant env part) n)
          (\<lambda>e. case e of FileNotFoundError \<Rightarrow> raiseM (UnexpectedResponse 404) | _ \<Rightarrow> raiseM e)) ns wb = (Inr (), w1)"
      "view w1 = (\<lambda>(t, n). if t = rs_tenant env part \<and> n \<in> set ns then None else view wb (t, n))" by blast
  have v: "view w1 = (\<lambda>(t, n). if t = rs_tenant env part \<and> prefix (get_record_folder env rid part) n then None
                           else view w (t, n))"
    using d(2) l(2,5) a(2) by (auto simp: fun_eq_iff simp del: not_None_eq)
  have none: "\<exists>w'. get_all_version_object env rid part u = (Inr [], w')" if "view u = view w1" for u
  proof -
    from get_all_version_object_run [OF assms] obtain wc ms where
      "get_all_version_object env rid part u = (Inr ms, wc)"
      "set ms = {n. view u (rs_tenant env part, n) \<noteq> None \<and> prefix (get_record_folder env rid part) n}" .
    moreover from this(2) have "set ms = {}" using that v by (auto split: if_splits)
    ultimately show ?thesis by auto
  qed
  obtain wd where g: "rs_auth_check env w1 = (Inr (), wd)" "view wd = view w1" using laws(6) by blast
  from none [OF g(2)] obtain we where "get_all_version_object env rid part wd = (Inr [], we)" by blast
  then have "bs_get_record env rid part attribute w1 = (Inl (UnexpectedResponse 404), we)"
    using g(1) by (simp add: bs_get_record_def bs_get_record_version_def not_found_as_404_def build_record_path_def
        bindM_run tryM_run Let_def)
  moreover from none [of w1] have "\<exists>w2. bs_get_all_record_versions env rid part w1 = (Inr [], w2)"
    by (auto simp: bs_get_all_record_versions_def bindM_run)
  moreover have "bs_delete_record env rid part w = (Inr (), w1)"
    using a(1) l(1) d(1) by (simp add: bs_delete_record_def bindM_run)
  ultimately show ?thesis using v by blast
qed

theorem record_delete_then_get_witness:
  "record_laws test_record_env test_view \<and>
   (\<exists>w1. bs_delete_record test_record_env ''r1'' None
          \<lparr>tw_blobs = [((''t'', ''global_r_r1/7''), (test_stored_record, ''0''))], tw_etag = 0, tw_clock = 0, tw_uuid = 0\<rparr>
        = (Inr (), w1)
     \<and> (\<exists>w3. bs_get_record test_record_env ''r1'' None None w1 = (Inl (UnexpectedResponse 404), w3)))"
  using record_delete_then_get [OF test_record_laws, of "''r1''" None
      "\<lparr>tw_blobs = [((''t'', ''global_r_r1/7''), (test_stored_record, ''0''))], tw_etag = 0, tw_clock = 0, tw_uuid = 0\<rparr>" None]
    test_record_laws by blast

end
