(* ===== verification/Record_Access.thy ===== *)
theory Record_Access
  imports Record_Storage
begin

text \<open>
  How the routers use the record storage: the partial read that only fetches the extension properties
  gives the same bulk URI as the full record, and what a purge of a record deletes.
\<close>

section \<open>Partial reads\<close>

lemma foldl_update_map_of:
  assumes "distinct (map fst ys)"
  shows "map_of (foldl (\<lambda>d (k, x). AList.update k x d) xs ys) = map_of xs ++ map_of ys"
  using assms
proof (induction ys arbitrary: xs)
  case (Cons y ys)
  obtain k v where y: "y = (k, v)" by force
  have "map_of ys k = None" using Cons.prems y by (simp add: map_of_eq_None_iff)
  moreover have "(\<lambda>k'. if k' = k then Some v else map_of xs k') = (map_of xs)(k \<mapsto> v)" by (auto simp: fun_eq_iff)
  moreover have "map_of (AList.update k v xs) = (map_of xs)(k \<mapsto> v)" by (auto simp: fun_eq_iff)
  ultimately show ?case using Cons y by (simp add: map_add_def fun_eq_iff split: option.splits)
qed simp

lemma foldl_update_Nil_iff: "foldl (\<lambda>d (k, x). AList.update k x d) xs ys = [] \<longleftrightarrow> xs = [] \<and> ys = []"
proof (induction ys arbitrary: xs)
  case (Cons y ys)
  obtain k v where "y = (k, v)" by force
  with Cons show ?case by simp
qed simp

definition extension_shape :: "pyval \<Rightarrow> bool" where
  \<comment> \<open>\<open>ExtensionProperties\<close> and \<open>ExtensionProperties.wdms\<close> are objects where they are present\<close>
  "extension_shape data = (case data of
       PDict d \<Rightarrow> (case map_of d ''ExtensionProperties'' of
           None \<Rightarrow> True
         | Some (PDict e) \<Rightarrow> (case map_of e ''wdms'' of None \<Rightarrow> True | Some (PDict w) \<Rightarrow> distinct (map fst w) | _ \<Rightarrow> False)
         | Some _ \<Rightarrow> False)
     | _ \<Rightarrow> False)"

lemma wdms_path: "split_char (CHR ''.'') ''data.ExtensionProperties.wdms'' = [''data'', ''ExtensionProperties'', ''wdms'']"
  by code_simp

lemma extension_shape_cases:
  assumes "extension_shape data"
  obtains d where "data = PDict d" "map_of d ''ExtensionProperties'' = None"
  | d e where "data = PDict d" "map_of d ''ExtensionProperties'' = Some (PDict e)" "map_of e ''wdms'' = None"
  | d e w where "data = PDict d" "map_of d ''ExtensionProperties'' = Some (PDict e)" "map_of e ''wdms'' = Some (PDict w)"
      "distinct (map fst w)"
proof -
  from assms obtain d where d: "data = PDict d" by (auto simp: extension_shape_def split: pyval.splits)
  show thesis
  proof (cases "map_of d ''ExtensionProperties''")
    case (Some x)
    then obtain e where e: "x = PDict e" using assms d by (cases x) (auto simp: extension_shape_def)
    show thesis
    proof (cases "map_of e ''wdms''")
      case (Some y)
      then obtain w where "y = PDict w" "distinct (map fst w)"
        using assms d e \<open>map_of d ''ExtensionProperties'' = Some x\<close> by (cases y) (auto simp: extension_shape_def)
      then show thesis using that(3) d e Some \<open>map_of d ''ExtensionProperties'' = Some x\<close> by blast
    qed (use that(2) d e Some in blast)
  qed (use that(1) d in blast)
qed

lemma restrict_wdms:
  assumes "extension_shape data"
  shows "\<exists>d. restrict_data data [] Attribute_record_wdms_extension_properties = Inr d \<and>
     (d = [] \<and> osdu_get_bulk_uri (r\<lparr>rec_data := data\<rparr>) = Inr invalid_uri
      \<or> (\<exists>w. d = [(''ExtensionProperties.wdms'', PDict w)] \<and> distinct (map fst w) \<and>
           osdu_get_bulk_uri (r\<lparr>rec_data := data\<rparr>)
             = (if w = [] then Inr invalid_uri else bindR (v_get (PDict w) BULK_URI_FIELD) decode_value)))"
  using assms
proof (cases rule: extension_shape_cases)
  case (1 d)
  then show ?thesis
    by (simp add: Attribute_record_wdms_extension_properties_def wdms_path osdu_get_bulk_uri_def decode_value_def)
next
  case (2 d e)
  then show ?thesis
    by (simp add: Attribute_record_wdms_extension_properties_def wdms_path osdu_get_bulk_uri_def decode_value_def)
next
  case (3 d e w)
  then show ?thesis
    by (auto simp: Attribute_record_wdms_extension_properties_def wdms_path osdu_get_bulk_uri_def decode_value_def)
qed

lemma restored_bulk_uri:
  assumes "extension_shape (rec_data r)"
  shows "\<exists>d data. restrict_data (rec_data r) [] Attribute_record_wdms_extension_properties = Inr d
     \<and> restore_extension (PDict d) = Inr data \<and> osdu_get_bulk_uri (r\<lparr>rec_data := data\<rparr>) = osdu_get_bulk_uri r"
proof -
  from restrict_wdms [OF assms, of r] obtain d where
    d: "restrict_data (rec_data r) [] Attribute_record_wdms_extension_properties = Inr d" and
    cases: "d = [] \<and> osdu_get_bulk_uri r = Inr invalid_uri
      \<or> (\<exists>w. d = [(''ExtensionProperties.wdms'', PDict w)] \<and> distinct (map fst w) \<and>
           osdu_get_bulk_uri r = (if w = [] then Inr invalid_uri else bindR (v_get (PDict w) BULK_URI_FIELD) decode_value))"
    by auto
  from cases have "\<exists>data. restore_extension (PDict d) = Inr data
     \<and> osdu_get_bulk_uri (r\<lparr>rec_data := data\<rparr>) = osdu_get_bulk_uri r"
  proof (elim disjE exE conjE)
    assume "d = []" and "osdu_get_bulk_uri r = Inr invalid_uri"
    then show ?thesis
      by (simp add: restore_extension_def v_setdefault_def v_update_def osdu_get_bulk_uri_def decode_value_def)
  next
    fix w assume w: "d = [(''ExtensionProperties.wdms'', PDict w)]" "distinct (map fst w)"
      and g: "osdu_get_bulk_uri r = (if w = [] then Inr invalid_uri else bindR (v_get (PDict w) BULK_URI_FIELD) decode_value)"
    define w' where "w' = foldl (\<lambda>d (k, x). AList.update k x d) [] w"
    have w': "map_of w' = map_of w" "w' = [] \<longleftrightarrow> w = []"
      using foldl_update_map_of [OF w(2), of "[]"] foldl_update_Nil_iff [of "[]" w] by (simp_all add: w'_def)
    have "restore_extension (PDict d) = Inr (PDict [(''ExtensionProperties'', PDict [(''wdms'', PDict w')])])"
      using w(1) by (simp add: restore_extension_def v_setdefault_def v_update_def w'_def)
    then show ?thesis using g w' by (simp add: osdu_get_bulk_uri_def decode_value_def)
  qed
  with d show ?thesis by blast
qed

lemma version_zero_is_latest:
  "bs_get_record_version env rid (Some 0) part attribute = bs_get_record_version env rid None part attribute"
  by (simp add: bs_get_record_version_def build_record_path_def)

lemma fetch_record_blob:
  "fetch_record (blob_storage_client env) part rid version attribute = bs_get_record_version env rid version part attribute"
  by (auto simp: fetch_record_def blob_storage_client_def bs_get_record_def version_zero_is_latest)

lemma read_with_attribute:
  assumes "bs_get_record_version env rid version part None w = (Inr r, w')"
    and "restrict_data (rec_data r) [] attrs = Inr d"
  shows "bs_get_record_version env rid version part (Some attrs) w = (Inr (r\<lparr>rec_data := PDict d\<rparr>), w')"
  using assms
  by (auto simp: bs_get_record_version_def not_found_as_404_def bindM_run tryM_run
      split: prod.splits sum.splits option.splits exn.splits)

text \<open>C32: The partial read that the bulk routes use is enough for them: when the full record can be read from the
  blob storage and its extension properties are objects, \<open>fetch_record_partial_with_wdms_extension\<close>
  succeeds and gives the same bulk URI as the full record.\<close>

theorem partial_fetch_same_bulk_uri:
  assumes "fetch_record (blob_storage_client env) part rid version None w = (Inr r, w')"
    and "extension_shape (rec_data r)"
  shows "\<exists>r'. fetch_record_partial_with_wdms_extension (blob_storage_client env) part rid version w = (Inr r', w')
     \<and> osdu_get_bulk_uri r' = osdu_get_bulk_uri r"
proof -
  from restored_bulk_uri [OF assms(2)] obtain d data where
    d: "restrict_data (rec_data r) [] Attribute_record_wdms_extension_properties = Inr d"
      "restore_extension (PDict d) = Inr data" "osdu_get_bulk_uri (r\<lparr>rec_data := data\<rparr>) = osdu_get_bulk_uri r" by blast
  from read_with_attribute [OF assms(1) [unfolded fetch_record_blob] d(1)] d(2,3) show ?thesis
    by (simp add: fetch_record_partial_with_wdms_extension_def fetch_record_blob bindM_run)
qed

definition test_bulk_record :: Record where
  "test_bulk_record = \<lparr>rec_id = Some ''r1'', rec_kind = ''a:b:c:1.0.0'', rec_version = Some 7,
     rec_data = PDict [(''Name'', PStr ''x''), (''ExtensionProperties'', PDict [(''wdms'', PDict
       [(''bulkURI'', PStr ''urn:wdms-1:uuid:00000000-0000-0000-0000-00000000002a'')])])], rec_rest = PDict []\<rparr>"

definition test_bulk_world :: "Record test_world" where
  "test_bulk_world = \<lparr>tw_blobs = [((''t'', ''global_r_r1/7''), (test_bulk_record, ''0''))], tw_etag = 0, tw_clock = 0, tw_uuid = 0\<rparr>"

lemma test_bulk_read:
  "fetch_record (blob_storage_client test_record_env) None ''r1'' (Some 7) None test_bulk_world
     = (Inr test_bulk_record, test_bulk_world)"
  by code_simp

theorem partial_fetch_same_bulk_uri_witness:
  "extension_shape (rec_data test_bulk_record) \<and>
   (\<exists>r'. fetch_record_partial_with_wdms_extension (blob_storage_client test_record_env) None ''r1'' (Some 7) test_bulk_world
        = (Inr r', test_bulk_world) \<and> osdu_get_bulk_uri r' = osdu_get_bulk_uri test_bulk_record)"
proof -
  have "extension_shape (rec_data test_bulk_record)" by (simp add: extension_shape_def test_bulk_record_def)
  with partial_fetch_same_bulk_uri [OF test_bulk_read this] show ?thesis by blast
qed

section \<open>What a purge deletes\<close>

lemma encode_has_colon: "encode u = Inr s \<Longrightarrow> CHR '':'' \<in> set s"
  by (auto simp: encode_def uuid_urn_def bindR_Inr_iff split: option.splits if_splits)

lemma mapM_elements:
  assumes "mapM f xs w = (Inr ys, w')" and "y \<in> set ys"
  shows "\<exists>x u u'. f x u = (Inr y, u')"
  using assms by (induction xs arbitrary: w ys) (auto simp: bindM_Inr_iff, blast)

lemma collected_uris_have_colon:
  assumes "get_bulk_uris_of_versions_from_record_id sc part get_uri rid w = (Inr uris, w')" and "u \<in> set uris"
  shows "CHR '':'' \<in> set u"
proof -
  from assms obtain versions w1 us w2 where m: "mapM (get_bulk_uri_from_version sc part get_uri rid) versions w1 = (Inr us, w2)"
    "uris = List.map_filter (\<lambda>u. u) us"
    by (auto simp: get_bulk_uris_of_versions_from_record_id_def bindM_Inr_iff)
  with assms(2) have "Some u \<in> set us" by (auto simp: map_filter_def)
  from mapM_elements [OF m(1) this] obtain v u1 u2 where
    g: "get_bulk_uri_from_version sc part get_uri rid v u1 = (Inr (Some u), u2)" by blast
  obtain x u3 where x: "fetch_record sc part rid (Some v) None u1 = (x, u3)" by force
  show ?thesis
    using g x by (cases x)
      (auto simp: get_bulk_uri_from_version_def bindM_Inr_iff liftM_def encode_has_colon split: if_splits)
qed

lemma path_join_chars: "set (path_join p qs) \<subseteq> insert (CHR ''/'') (set p \<union> (\<Union>q\<in>set qs. set q))"
proof (induction p qs rule: path_join.induct)
  case (2 p q qs)
  then show ?case
    by (cases "startswith q ''/''"; cases "p = [] \<or> endswith p ''/''") (simp; blast)+
qed auto

lemma spb_join_chars: "set (spb_join p qs) \<subseteq> insert (CHR ''/'') (set p \<union> (\<Union>q\<in>set qs. set q))"
  using path_join_chars [of p qs] by (auto simp: spb_join_def)

lemma bulk_file_no_colon:
  assumes "CHR '':'' \<notin> set (sha1 rid)" and "CHR '':'' \<notin> set bid" and "CHR '':'' \<notin> set fname"
  shows "CHR '':'' \<notin> set (spb_join (record_bulk_path sha1 [] rid bid None) [fname])"
  using assms spb_join_chars [of "record_bulk_path sha1 [] rid bid None" "[fname]"]
    spb_join_chars [of "sha1 rid" "[''bulk'', bid, ''data'']"]
  by (auto simp: record_bulk_path_def record_path_def build_base_path_def hash_record_id_def)

text \<open>C33: A purge deletes no bulk data.  The purge compares the encoded URIs of the record's versions, which all contain
  a colon, with the names of the stored objects, in which no colon occurs; so for files in the bulk
  folder of the record, whose digest, bulk identifiers and fname names have none, no fname is selected
  for deletion.\<close>

theorem purge_deletes_no_bulk:
  assumes "get_bulk_uris_of_versions_from_record_id sc part get_uri rid w = (Inr uris, w')"
    and "CHR '':'' \<notin> set (sha1 rid)"
    and "\<forall>(bid, fname)\<in>set files. CHR '':'' \<notin> set bid \<and> CHR '':'' \<notin> set fname"
  shows "purge_targets (map (\<lambda>(bid, fname). spb_join (record_bulk_path sha1 [] rid bid None) [fname]) files) uris = []"
proof -
  have "\<not> py_in u (spb_join (record_bulk_path sha1 [] rid bid None) [fname])"
    if "(bid, fname) \<in> set files" and "u \<in> set uris" for bid fname u
    using py_in_set [of u] collected_uris_have_colon [OF assms(1) that(2)]
      bulk_file_no_colon [of sha1 rid bid fname] assms(2,3) that(1) by fastforce
  then show ?thesis by (auto simp: purge_targets_def filter_empty_conv split: prod.splits)
qed

lemma client_versions: "sc_get_all_record_versions (blob_storage_client env) = bs_get_all_record_versions env"
  by (simp add: blob_storage_client_def)

theorem purge_deletes_no_bulk_witness:
  "\<exists>uris w'. get_bulk_uris_of_versions_from_record_id (blob_storage_client test_record_env) None osdu_get_bulk_uri
        ''r1'' test_bulk_world = (Inr uris, w') \<and> uris \<noteq> []
     \<and> purge_targets [''r1/bulk/00000000-0000-0000-0000-00000000002a/data/f.parquet''] uris = []"
proof -
  have u: "osdu_get_bulk_uri test_bulk_record
      = Inr \<lparr>bulk_id = ''00000000-0000-0000-0000-00000000002a'', storage_version = BulkStorageVersion_V1\<rparr>"
  proof -
    have i: "uuid_of_str (uuid_to_str 42) = Inr 42" "uuid_of_str (''urn:uuid:'' @ uuid_to_str 42) = Inr 42" using uuid_of_bare [of 42] by simp_all
    have "decode (Some (''urn:wdms-1:uuid:'' @ uuid_to_str 42))
        = Inr \<lparr>bulk_id = uuid_to_str 42, storage_version = BulkStorageVersion_V1\<rparr>"
      using decode_encoded_V1 [OF uuid_to_str_no_colon i(2)] i(1) by (simp add: make_BulkURI_def storage_versions)
    then show ?thesis
      unfolding uuid_42(3) by (simp add: osdu_get_bulk_uri_def test_bulk_record_def BULK_URI_FIELD_def)
  qed
  have v: "bs_get_all_record_versions test_record_env ''r1'' None test_bulk_world = (Inr [7], test_bulk_world)"
    by code_simp
  have g: "get_bulk_uris_of_versions_from_record_id (blob_storage_client test_record_env) None osdu_get_bulk_uri
        ''r1'' test_bulk_world = (Inr [''urn:wdms-1:uuid:00000000-0000-0000-0000-00000000002a''], test_bulk_world)"
    using v u test_bulk_read
    by (simp add: get_bulk_uris_of_versions_from_record_id_def get_bulk_uri_from_version_def bindM_run client_versions
        is_valid_def storage_versions encode_def)
  have f: "map (\<lambda>(bid, fname). spb_join (record_bulk_path (\<lambda>s. s) [] ''r1'' bid None) [fname])
      [(''00000000-0000-0000-0000-00000000002a'', ''f.parquet'')]
     = [''r1/bulk/00000000-0000-0000-0000-00000000002a/data/f.parquet'']" by code_simp
  from purge_deletes_no_bulk [OF g, of "\<lambda>s. s" "[(''00000000-0000-0000-0000-00000000002a'', ''f.parquet'')]"]
  have "purge_targets [''r1/bulk/00000000-0000-0000-0000-00000000002a/data/f.parquet'']
      [''urn:wdms-1:uuid:00000000-0000-0000-0000-00000000002a''] = []"
    unfolding f by simp
  with g show ?thesis by blast
qed

end
