(* ===== verification/Request_Context.thy ===== *)
theory Request_Context
  imports Py_Values
begin

text \<open>
  The context of a request, \<open>app/context.py\<close>: an immutable object with the tracing, authentication and
  partition of the request, the context variable that holds the current one, and the headers that the
  service forwards to other services.  Objects of other packages (tracer, user, injector, tenant) are
  values of a type \<open>'o\<close>; the headers that the tracing package adds are a parameter.
\<close>

section \<open>The context\<close>

record 'o Context =
  ctx_tracer :: "'o option"
  ctx_correlation_id :: "string option"
  ctx_request_id :: "string option"
  ctx_dev_mode :: "bool option"
  ctx_auth :: "string option"
  ctx_partition_id :: "string option"
  ctx_app_key :: "string option"
  ctx_api_key :: "string option"
  ctx_user :: "'o option"
  ctx_app_injector :: "'o option"
  ctx_tenant :: "'o option"
  ctx_x_user_id :: "string option"
  ctx_x_collaboration :: "string option"
  ctx_x_app_id :: "string option"
  ctx_attr_dict :: "(string \<times> pyval) list"

definition empty_Context :: "'o Context" where
  \<comment> \<open>\<open>Context()\<close>\<close>
  "empty_Context = \<lparr>ctx_tracer = None, ctx_correlation_id = None, ctx_request_id = None, ctx_dev_mode = None,
     ctx_auth = None, ctx_partition_id = None, ctx_app_key = None, ctx_api_key = None, ctx_user = None,
     ctx_app_injector = None, ctx_tenant = None, ctx_x_user_id = None, ctx_x_collaboration = None,
     ctx_x_app_id = None, ctx_attr_dict = []\<rparr>"

definition or_str :: "string option \<Rightarrow> string option \<Rightarrow> string option" where
  \<comment> \<open>\<open>a or b\<close>\<close>
  "or_str a b = (case a of Some (c # cs) \<Rightarrow> a | _ \<Rightarrow> b)"

definition or_bool :: "bool option \<Rightarrow> bool option \<Rightarrow> bool option" where
  "or_bool a b = (if a = Some True then a else b)"

definition or_obj :: "'o option \<Rightarrow> 'o option \<Rightarrow> 'o option" where
  "or_obj a b = (if a \<noteq> None then a else b)"

definition dict_update :: "(string \<times> pyval) list \<Rightarrow> (string \<times> pyval) list \<Rightarrow> (string \<times> pyval) list" where
  "dict_update d keys = foldl (\<lambda>d (k, v). AList.update k v d) d keys"

definition with_value :: "'o Context \<Rightarrow> 'o Context \<Rightarrow> 'o Context" where
  \<comment> \<open>the arguments of the call as a context, an argument that is not given being \<open>None\<close>\<close>
  "with_value self arg = \<lparr>ctx_tracer = or_obj (ctx_tracer arg) (ctx_tracer self),
     ctx_correlation_id = or_str (ctx_correlation_id arg) (ctx_correlation_id self),
     ctx_request_id = or_str (ctx_request_id arg) (ctx_request_id self),
     ctx_dev_mode = or_bool (ctx_dev_mode arg) (ctx_dev_mode self),
     ctx_auth = or_str (ctx_auth arg) (ctx_auth self),
     ctx_partition_id = or_str (ctx_partition_id arg) (ctx_partition_id self),
     ctx_app_key = or_str (ctx_app_key arg) (ctx_app_key self),
     ctx_api_key = or_str (ctx_api_key arg) (ctx_api_key self),
     ctx_user = or_obj (ctx_user arg) (ctx_user self),
     ctx_app_injector = or_obj (ctx_app_injector arg) (ctx_app_injector self),
     ctx_tenant = or_obj (ctx_tenant arg) (ctx_tenant self),
     ctx_x_user_id = or_str (ctx_x_user_id arg) (ctx_x_user_id self),
     ctx_x_collaboration = or_str (ctx_x_collaboration arg) (ctx_x_collaboration self),
     ctx_x_app_id = or_str (ctx_x_app_id arg) (ctx_x_app_id self),
     ctx_attr_dict = dict_update (ctx_attr_dict self) (ctx_attr_dict arg)\<rparr>"

definition with_correlation_id :: "'o Context \<Rightarrow> string option \<Rightarrow> 'o Context" where
  "with_correlation_id self v = self\<lparr>ctx_correlation_id := v\<rparr>"

definition with_request_id :: "'o Context \<Rightarrow> string option \<Rightarrow> 'o Context" where
  "with_request_id self v = self\<lparr>ctx_request_id := v\<rparr>"

definition with_auth :: "'o Context \<Rightarrow> string option \<Rightarrow> 'o Context" where
  "with_auth self v = self\<lparr>ctx_auth := v\<rparr>"

definition with_partition_id :: "'o Context \<Rightarrow> string option \<Rightarrow> 'o Context" where
  "with_partition_id self v = self\<lparr>ctx_partition_id := v\<rparr>"

definition with_x_user_id :: "'o Context \<Rightarrow> string option \<Rightarrow> 'o Context" where
  "with_x_user_id self v = self\<lparr>ctx_x_user_id := v\<rparr>"

definition with_user :: "'o Context \<Rightarrow> 'o option \<Rightarrow> 'o Context" where
  "with_user self v = self\<lparr>ctx_user := v\<rparr>"

definition with_app_key :: "'o Context \<Rightarrow> string option \<Rightarrow> 'o Context" where
  "with_app_key self v = self\<lparr>ctx_app_key := v\<rparr>"

definition with_api_key :: "'o Context \<Rightarrow> string option \<Rightarrow> 'o Context" where
  "with_api_key self v = self\<lparr>ctx_api_key := v\<rparr>"

definition with_injector :: "'o Context \<Rightarrow> 'o option \<Rightarrow> 'o Context" where
  "with_injector self v = self\<lparr>ctx_app_injector := v\<rparr>"

section \<open>The current context\<close>

text \<open>The context variable is a state with the current context, \<open>None\<close> before the first one is set.\<close>

definition ctx_current :: "(exn, 'o Context option, 'o Context) prog" where
  "ctx_current v = (case v of Some c \<Rightarrow> (Inr c, v) | None \<Rightarrow> (Inl LookupError, v))"

definition set_current :: "'o Context \<Rightarrow> (exn, 'o Context option, unit) prog" where
  "set_current self v = (Inr (), Some self)"

definition clear_current :: "(exn, 'o Context option, unit) prog" where
  "clear_current = set_current empty_Context"

definition set_current_with_value :: "'o Context \<Rightarrow> (exn, 'o Context option, 'o Context) prog" where
  "set_current_with_value arg = bindM ctx_current (\<lambda>c.
     let new_ctx = with_value c arg in bindM (set_current new_ctx) (\<lambda>_. returnM new_ctx))"

definition get_ctx :: "(exn, 'o Context option, 'o Context) prog" where
  "get_ctx = ctx_current"

definition get_or_create_ctx :: "(exn, 'o Context option, 'o Context) prog" where
  "get_or_create_ctx = tryM get_ctx (\<lambda>e. case e of
       LookupError \<Rightarrow> bindM (set_current empty_Context) (\<lambda>_. returnM empty_Context)
     | _ \<Rightarrow> raiseM e)"

section \<open>Headers for other services\<close>

definition AUTHORIZATION_HEADER_NAME :: string where
  "AUTHORIZATION_HEADER_NAME = ''Authorization''"

definition APP_ID_HEADER_NAME :: string where
  "APP_ID_HEADER_NAME = ''x-app-id''"

definition CORRELATION_ID_HEADER_NAME :: string where
  "CORRELATION_ID_HEADER_NAME = ''correlation-id''"

definition PARTITION_ID_HEADER_NAME :: string where
  "PARTITION_ID_HEADER_NAME = ''data-partition-id''"

definition X_USER_ID_HEADER_NAME :: string where
  "X_USER_ID_HEADER_NAME = ''x-user-id''"

lemmas header_names = AUTHORIZATION_HEADER_NAME_def APP_ID_HEADER_NAME_def CORRELATION_ID_HEADER_NAME_def
  PARTITION_ID_HEADER_NAME_def X_USER_ID_HEADER_NAME_def

definition str_or_None :: "string option \<Rightarrow> string" where
  \<comment> \<open>an optional string in an f-string\<close>
  "str_or_None v = (case v of Some s \<Rightarrow> s | None \<Rightarrow> ''None'')"

definition get_headers_from_ctx :: "(string \<times> string) list \<Rightarrow> 'o Context \<Rightarrow> (string \<times> string) list" where
  \<comment> \<open>\<open>tracing_headers\<close> is what the propagator injects\<close>
  "get_headers_from_ctx tracing_headers ctx =
     (let headers = [(PARTITION_ID_HEADER_NAME, ctx_partition_id ctx),
                     (AUTHORIZATION_HEADER_NAME, Some (''Bearer '' @ str_or_None (ctx_auth ctx))),
                     (CORRELATION_ID_HEADER_NAME, ctx_correlation_id ctx),
                     (X_USER_ID_HEADER_NAME, ctx_x_user_id ctx),
                     (APP_ID_HEADER_NAME, ctx_x_app_id ctx)];
          headers = foldl (\<lambda>d (k, v). AList.update k (Some v) d) headers tracing_headers
      in List.map_filter (\<lambda>(k, v). map_option (Pair k) v) headers)"

section \<open>Properties\<close>

lemma foldl_update_Some:
  "map_of (foldl (\<lambda>d (k, v). AList.update k (f v) d) xs ys) k
     = (case map_of (rev ys) k of Some v \<Rightarrow> Some (f v) | None \<Rightarrow> map_of xs k)"
proof (induction ys arbitrary: xs)
  case (Cons y ys)
  obtain k' v where "y = (k', v)" by force
  with Cons show ?case by (auto simp: map_add_def split: option.splits)
qed simp

lemma foldl_update_distinct:
  "distinct (map fst xs) \<Longrightarrow> distinct (map fst (foldl (\<lambda>d (k, v). AList.update k (f v) d) xs ys))"
proof (induction ys arbitrary: xs)
  case (Cons y ys)
  obtain k' v where "y = (k', v)" by force
  with Cons distinct_update [of xs k'] show ?case by simp
qed simp

lemma map_of_map_filter:
  "distinct (map fst xs) \<Longrightarrow>
     map_of (List.map_filter (\<lambda>(k, v). map_option (Pair k) v) xs) k = Option.bind (map_of xs k) (\<lambda>v. v)"
proof (induction xs)
  case (Cons x xs)
  obtain k' v where x: "x = (k', v)" by force
  have "k \<notin> fst ` set xs \<Longrightarrow> map_of xs k = None" by (simp add: map_of_eq_None_iff)
  with Cons x show ?case by (cases v) (auto simp: map_filter_simps)
qed (simp add: map_filter_simps)

text \<open>The identity of a request reaches the services that are called: a value of the context is forwarded under
  its header whenever it is set and tracing does not claim that header, no header is sent without a
  value, and the authorization header always carries the bearer token.\<close>

theorem headers_forward_context:
  assumes "k \<notin> set (map fst tracing)"
  shows "map_of (get_headers_from_ctx tracing ctx) k =
     (if k = PARTITION_ID_HEADER_NAME then ctx_partition_id ctx
      else if k = AUTHORIZATION_HEADER_NAME then Some (''Bearer '' @ str_or_None (ctx_auth ctx))
      else if k = CORRELATION_ID_HEADER_NAME then ctx_correlation_id ctx
      else if k = X_USER_ID_HEADER_NAME then ctx_x_user_id ctx
      else if k = APP_ID_HEADER_NAME then ctx_x_app_id ctx
      else None)"
proof -
  let ?h = "[(PARTITION_ID_HEADER_NAME, ctx_partition_id ctx),
             (AUTHORIZATION_HEADER_NAME, Some (''Bearer '' @ str_or_None (ctx_auth ctx))),
             (CORRELATION_ID_HEADER_NAME, ctx_correlation_id ctx),
             (X_USER_ID_HEADER_NAME, ctx_x_user_id ctx), (APP_ID_HEADER_NAME, ctx_x_app_id ctx)]"
  have d: "distinct (map fst ?h)" by (simp add: header_names)
  have "map_of (rev tracing) k = None" using assms by (simp add: map_of_eq_None_iff)
  then have "map_of (get_headers_from_ctx tracing ctx) k = Option.bind (map_of ?h k) (\<lambda>v. v)"
    unfolding get_headers_from_ctx_def Let_def
    by (simp only: map_of_map_filter [OF foldl_update_distinct [OF d]] foldl_update_Some option.case)
  then show ?thesis by (simp add: header_names)
qed

theorem headers_forward_context_witness:
  "map_of (get_headers_from_ctx [(''traceparent'', ''00-1'')]
     ((empty_Context :: nat Context)\<lparr>ctx_partition_id := Some ''opendes''\<rparr>)) ''data-partition-id'' = Some ''opendes''"
  using headers_forward_context [of "''data-partition-id''" "[(''traceparent'', ''00-1'')]"
      "(empty_Context :: nat Context)\<lparr>ctx_partition_id := Some ''opendes''\<rparr>"]
  by (simp add: header_names)

text \<open>Middleware can rely on the current context: \<open>get_or_create_ctx\<close> always succeeds and leaves a
  current context, which a later \<open>set_current_with_value\<close> extends: it keeps every value for which no
  truthy value is given and every extra attribute that is not overwritten.\<close>

theorem current_context_extended:
  "\<exists>c c' v1 v2. get_or_create_ctx v = (Inr c, v1) \<and> (v \<noteq> None \<longrightarrow> v = Some c) \<and> v1 = Some c
     \<and> set_current_with_value arg v1 = (Inr c', v2) \<and> get_ctx v2 = (Inr c', v2)
     \<and> ctx_partition_id c' = or_str (ctx_partition_id arg) (ctx_partition_id c)
     \<and> ctx_auth c' = or_str (ctx_auth arg) (ctx_auth c)
     \<and> (\<forall>k. map_of (ctx_attr_dict c') k = (case map_of (rev (ctx_attr_dict arg)) k of
            Some x \<Rightarrow> Some x | None \<Rightarrow> map_of (ctx_attr_dict c) k))"
  using foldl_update_Some [of "\<lambda>v. v"]
  by (cases v) (auto simp: get_or_create_ctx_def get_ctx_def ctx_current_def set_current_def tryM_run bindM_run
      set_current_with_value_def Let_def with_value_def dict_update_def)

theorem current_context_extended_witness:
  "\<exists>c c' v1 v2. get_or_create_ctx (None :: nat Context option) = (Inr c, v1)
     \<and> set_current_with_value (empty_Context\<lparr>ctx_auth := Some ''t''\<rparr>) v1 = (Inr c', v2) \<and> ctx_auth c' = Some ''t''"
proof -
  from current_context_extended [of "None :: nat Context option" "empty_Context\<lparr>ctx_auth := Some ''t''\<rparr>"]
  obtain c c' v1 v2 where "get_or_create_ctx (None :: nat Context option) = (Inr c, v1)"
    "set_current_with_value (empty_Context\<lparr>ctx_auth := Some ''t''\<rparr>) v1 = (Inr c', v2)"
    "ctx_auth c' = or_str (Some ''t'') (ctx_auth c)" by auto
  then show ?thesis by (auto simp: or_str_def)
qed

end
