(* ===== verification/Schema_Manager.thy ===== *)
theory Schema_Manager
  imports Records Request_Context
begin

text \<open>
  Validation of records against the schemas of their kinds: \<open>app/schemas/schema_manager.py\<close>.  The state
  is the four libraries of the class, which are kept as a part of the world; the manipulation of schemas
  and the JSON schema validation (package \<open>wellbore_schema_manipulation\<close>), the schema service and the
  encoding of a record are parameters.  \<open>'v\<close> is the type of the compiled validators.
\<close>

datatype SchemaMode = ORIGINAL | OPTIMISED | EXTRA_FORBID | EXTRA_FORBID_OPTIMISED

datatype 'v schema = JsonSchema pyval | Validator 'v

record 'v schema_libraries =
  schema_library :: "(string \<times> pyval) list"
  optimised_schema_library :: "(string \<times> 'v) list"
  schema_forbid_extra_library :: "(string \<times> pyval) list"
  optimised_schema_forbid_extra_library :: "(string \<times> 'v) list"

record ('w, 'v) schema_env =
  sm_libraries :: "'w \<Rightarrow> 'v schema_libraries"
  sm_set_libraries :: "'v schema_libraries \<Rightarrow> 'w \<Rightarrow> 'w"
  sm_remove_unsupported_id :: "pyval \<Rightarrow> pyval"
  sm_optimise_schema :: "pyval \<Rightarrow> 'v"
  sm_forbid_extra :: "pyval \<Rightarrow> pyval"
  sm_fetch_schema :: "string \<Rightarrow> (exn, 'w, pyval) prog"
    \<comment> \<open>\<open>schema_client.get_schema\<close> with the partition of the context\<close>
  sm_encode :: "Record \<Rightarrow> pyval"
    \<comment> \<open>\<open>jsonable_encoder\<close>\<close>
  sm_validate :: "pyval \<Rightarrow> pyval \<Rightarrow> unit res"
  sm_validate_optimized :: "pyval \<Rightarrow> 'v \<Rightarrow> unit res"

section \<open>GeoJSON constraints\<close>

fun list_remove :: "string \<Rightarrow> pyval list \<Rightarrow> pyval list" where
  \<comment> \<open>\<open>l.remove(s)\<close>, without the error when \<open>s\<close> is missing\<close>
  "list_remove s [] = []"
| "list_remove s (v # vs) = (if v = PStr s then vs else v # list_remove s vs)"

definition relax_collection :: "pyval \<Rightarrow> pyval res" where
  \<comment> \<open>one definition with the two names removed from its list of required fields\<close>
  "relax_collection c =
     bindR (v_get c ''properties'') (\<lambda>properties.
     bindR (v_get properties ''features'') (\<lambda>features.
     bindR (v_get features ''items'') (\<lambda>items.
     bindR (v_get items ''required'') (\<lambda>required. case required of
       PList l \<Rightarrow>
         bindR (v_setitem items ''required'' (PList (list_remove ''geometry'' (list_remove ''properties'' l)))) (\<lambda>items.
         bindR (v_setitem features ''items'' items) (\<lambda>features.
         bindR (v_setitem properties ''features'' features) (\<lambda>properties.
           v_setitem c ''properties'' properties)))
     | _ \<Rightarrow> Inl AttributeError))))"

definition geojson_definitions :: "string list" where
  "geojson_definitions = [''osdu:wks:AbstractFeatureCollection:1.0.0'',
     ''osdu:wks:AbstractAnyCrsFeatureCollection:1.0.0'', ''osdu:wks:AbstractAnyCrsFeatureCollection:1.1.0'']"

definition relax_definition :: "string \<Rightarrow> pyval \<Rightarrow> pyval res" where
  "relax_definition name defs =
     bindR (v_get defs name) (\<lambda>c.
       if truthy c then bindR (relax_collection c) (v_setitem defs name) else Inr defs)"

definition relax_geojson_constraint :: "pyval \<Rightarrow> pyval res" where
  \<comment> \<open>the schema after the update in place\<close>
  "relax_geojson_constraint sch =
     bindR (v_get_default sch ''definitions'' (PDict [])) (\<lambda>defs.
     bindR (relax_definition (geojson_definitions ! 0) defs) (\<lambda>defs1.
     bindR (relax_definition (geojson_definitions ! 1) defs1) (\<lambda>defs2.
     bindR (relax_definition (geojson_definitions ! 2) defs2) (\<lambda>defs3.
       if defs3 = defs then Inr sch else v_setitem sch ''definitions'' defs3))))"

section \<open>The library of schemas\<close>

definition create_versions_of_schema :: "('w, 'v) schema_env \<Rightarrow> pyval \<Rightarrow> (pyval \<times> 'v \<times> pyval \<times> 'v) res" where
  "create_versions_of_schema env original_schema =
     bindR (relax_geojson_constraint (sm_remove_unsupported_id env original_schema)) (\<lambda>sch.
       let forbid_extra = sm_forbid_extra env sch
       in Inr (sch, sm_optimise_schema env sch, forbid_extra, sm_optimise_schema env forbid_extra))"

definition select_mode :: "SchemaMode \<Rightarrow> pyval \<times> 'v \<times> pyval \<times> 'v \<Rightarrow> 'v schema" where
  \<comment> \<open>\<open>schemas[mode]\<close>\<close>
  "select_mode m s = (case s of (original, optimised, forbid, forbid_optimised) \<Rightarrow>
     (case m of ORIGINAL \<Rightarrow> JsonSchema original | OPTIMISED \<Rightarrow> Validator optimised
      | EXTRA_FORBID \<Rightarrow> JsonSchema forbid | EXTRA_FORBID_OPTIMISED \<Rightarrow> Validator forbid_optimised))"

definition add_schema :: "string \<Rightarrow> pyval \<times> 'v \<times> pyval \<times> 'v \<Rightarrow> 'v schema_libraries \<Rightarrow> 'v schema_libraries" where
  "add_schema kind s libs = (case s of (original, optimised, forbid, forbid_optimised) \<Rightarrow>
     \<lparr>schema_library = AList.update kind original (schema_library libs),
      optimised_schema_library = AList.update kind optimised (optimised_schema_library libs),
      schema_forbid_extra_library = AList.update kind forbid (schema_forbid_extra_library libs),
      optimised_schema_forbid_extra_library =
        AList.update kind forbid_optimised (optimised_schema_forbid_extra_library libs)\<rparr>)"

definition schema_source :: "pyval \<Rightarrow> string res" where
  "schema_source sch = bindR (v_index sch ''x-osdu-schema-source'') (\<lambda>k.
     case k of PStr s \<Rightarrow> Inr s | _ \<Rightarrow> Inl AttributeError)"

fun load_schemas :: "('w, 'v) schema_env \<Rightarrow> pyval list \<Rightarrow> 'v schema_libraries \<Rightarrow> 'v schema_libraries res" where
  \<comment> \<open>\<open>load_known_schemas\<close>, given the contents of the files\<close>
  "load_schemas env [] libs = Inr libs"
| "load_schemas env (c # cs) libs =
     bindR (create_versions_of_schema env c) (\<lambda>s.
     bindR (schema_source (fst s)) (\<lambda>kind. load_schemas env cs (add_schema kind s libs)))"

definition get_known_schema :: "'v schema_libraries \<Rightarrow> string \<Rightarrow> SchemaMode \<Rightarrow> 'v schema option" where
  "get_known_schema libs kind m = (case m of
       ORIGINAL \<Rightarrow> map_option JsonSchema (map_of (schema_library libs) kind)
     | OPTIMISED \<Rightarrow> map_option Validator (map_of (optimised_schema_library libs) kind)
     | EXTRA_FORBID \<Rightarrow> map_option JsonSchema (map_of (schema_forbid_extra_library libs) kind)
     | EXTRA_FORBID_OPTIMISED \<Rightarrow> map_option Validator (map_of (optimised_schema_forbid_extra_library libs) kind))"

definition load_unknown_schema :: "('w, 'v) schema_env \<Rightarrow> string \<Rightarrow> (exn, 'w, pyval) prog" where
  "load_unknown_schema env kind = sm_fetch_schema env kind"

definition get_schema :: "('w, 'v) schema_env \<Rightarrow> string \<Rightarrow> SchemaMode \<Rightarrow> (exn, 'w, 'v schema) prog" where
  "get_schema env kind m = (\<lambda>w.
     case get_known_schema (sm_libraries env w) kind m of
       Some s \<Rightarrow> (Inr s, w)
     | None \<Rightarrow>
         bindM (load_unknown_schema env kind) (\<lambda>sch.
         bindM (liftM (create_versions_of_schema env sch)) (\<lambda>schemas.
         bindM (liftM (schema_source (fst schemas))) (\<lambda>source w.
           (Inr (select_mode m schemas),
            if startswith (lower source) ''osdu:wks''
            then sm_set_libraries env (add_schema source schemas (sm_libraries env w)) w else w)))) w)"

section \<open>Validation\<close>

definition is_optimised :: "SchemaMode \<Rightarrow> bool" where
  "is_optimised m \<longleftrightarrow> m = OPTIMISED \<or> m = EXTRA_FORBID_OPTIMISED"

definition validate_entity :: "('w, 'v) schema_env \<Rightarrow> SchemaMode \<Rightarrow> pyval \<Rightarrow> (exn, 'w, unit) prog" where
  "validate_entity env m entity =
     bindM (liftM (v_index entity ''kind'')) (\<lambda>kind. case kind of
       PStr k \<Rightarrow> bindM (get_schema env k m) (\<lambda>validator. liftM (case validator of
           Validator v \<Rightarrow> if is_optimised m then sm_validate_optimized env entity v else Inl TypeError
         | JsonSchema s \<Rightarrow> if is_optimised m then Inl TypeError else sm_validate env entity s))
     | _ \<Rightarrow> raiseM TypeError)"

definition validate_entities :: "('w, 'v) schema_env \<Rightarrow> SchemaMode \<Rightarrow> pyval list \<Rightarrow> (exn, 'w, unit) prog" where
  "validate_entities env m entities = forM (validate_entity env m) entities"

definition validate_records :: "('w, 'v) schema_env \<Rightarrow> Record list \<Rightarrow> (exn, 'w, unit) prog" where
  "validate_records env rs = validate_entities env EXTRA_FORBID_OPTIMISED (map (sm_encode env) rs)"

section \<open>The invariant of the libraries\<close>

definition libraries_agree :: "('w, 'v) schema_env \<Rightarrow> 'v schema_libraries \<Rightarrow> bool" where
  \<comment> \<open>the four libraries have the same kinds, and each entry is derived from the original schema\<close>
  "libraries_agree env libs \<longleftrightarrow> (\<forall>k.
     map_of (optimised_schema_library libs) k = map_option (sm_optimise_schema env) (map_of (schema_library libs) k)
   \<and> map_of (schema_forbid_extra_library libs) k = map_option (sm_forbid_extra env) (map_of (schema_library libs) k)
   \<and> map_of (optimised_schema_forbid_extra_library libs) k
       = map_option (sm_optimise_schema env \<circ> sm_forbid_extra env) (map_of (schema_library libs) k))"

definition schema_laws :: "('w, 'v) schema_env \<Rightarrow> bool" where
  \<comment> \<open>the libraries are a part of the world, which the schema service does not touch\<close>
  "schema_laws env \<longleftrightarrow> (\<forall>w l. sm_libraries env (sm_set_libraries env l w) = l)
     \<and> (\<forall>k w r w'. sm_fetch_schema env k w = (r, w') \<longrightarrow> sm_libraries env w' = sm_libraries env w)"

definition known :: "('w, 'v) schema_env \<Rightarrow> 'w \<Rightarrow> string \<Rightarrow> bool" where
  "known env w kind \<longleftrightarrow> map_of (schema_library (sm_libraries env w)) kind \<noteq> None"

definition schema_versions :: "('w, 'v) schema_env \<Rightarrow> pyval \<Rightarrow> pyval \<times> 'v \<times> pyval \<times> 'v" where
  "schema_versions env s = (s, sm_optimise_schema env s, sm_forbid_extra env s, sm_optimise_schema env (sm_forbid_extra env s))"

lemma create_versions: "create_versions_of_schema env c = Inr s \<Longrightarrow> s = schema_versions env (fst s)"
  by (auto simp: create_versions_of_schema_def schema_versions_def bindR_Inr_iff Let_def)

lemma known_schema:
  assumes "libraries_agree env libs"
  shows "get_known_schema libs kind m = map_option (\<lambda>s. select_mode m (schema_versions env s)) (map_of (schema_library libs) kind)"
  using assms
  by (cases m; cases "map_of (schema_library libs) kind")
    (auto simp: get_known_schema_def libraries_agree_def select_mode_def schema_versions_def)

lemma add_schema_agree:
  "libraries_agree env libs \<Longrightarrow> libraries_agree env (add_schema kind (schema_versions env s) libs)"
  by (simp add: libraries_agree_def add_schema_def schema_versions_def)

lemma add_schema_library:
  "map_of (schema_library (add_schema kind (schema_versions env s) libs)) k
     = (if k = kind then Some s else map_of (schema_library libs) k)"
  by (simp add: add_schema_def schema_versions_def)

lemma load_schemas_agree:
  "\<lbrakk>libraries_agree env libs; load_schemas env cs libs = Inr libs'\<rbrakk> \<Longrightarrow> libraries_agree env libs'"
proof (induction cs arbitrary: libs)
  case (Cons c cs)
  from Cons.prems(2) obtain s kind where s: "create_versions_of_schema env c = Inr s"
    "load_schemas env cs (add_schema kind s libs) = Inr libs'"
    by (auto simp: bindR_Inr_iff)
  from add_schema_agree [OF Cons.prems(1)] create_versions [OF s(1)] have "libraries_agree env (add_schema kind s libs)"
    by metis
  from Cons.IH [OF this s(2)] show ?case .
qed simp

lemma get_schema_miss:
  assumes "libraries_agree env (sm_libraries env w)" and "schema_laws env"
    and "get_schema env kind m w = (Inr s, w1)" and "\<not> known env w kind"
  shows "\<exists>c source w0. sm_fetch_schema env kind w = (Inr c, w0) \<and> sm_libraries env w0 = sm_libraries env w
     \<and> (\<exists>c'. create_versions_of_schema env c = Inr (schema_versions env c') \<and> schema_source c' = Inr source
        \<and> s = select_mode m (schema_versions env c')
        \<and> (if startswith (lower source) ''osdu:wks''
           then w1 = sm_set_libraries env (add_schema source (schema_versions env c') (sm_libraries env w)) w0
           else w1 = w0))"
proof -
  have "get_known_schema (sm_libraries env w) kind m = None"
    using known_schema [OF assms(1)] assms(4) by (simp add: known_def)
  with assms(3) obtain c w0 s' source where c: "sm_fetch_schema env kind w = (Inr c, w0)"
      "create_versions_of_schema env c = Inr s'" "schema_source (fst s') = Inr source" "s = select_mode m s'"
      "w1 = (if startswith (lower source) ''osdu:wks''
         then sm_set_libraries env (add_schema source s' (sm_libraries env w0)) w0 else w0)"
    by (auto simp: get_schema_def load_unknown_schema_def bindM_Inr_iff)
  from c(2) have v: "s' = schema_versions env (fst s')" by (rule create_versions)
  have "sm_libraries env w0 = sm_libraries env w"
    using assms(2) c(1) by (auto simp: schema_laws_def)
  with c v show ?thesis
    by (intro exI [of _ c] exI [of _ source] exI [of _ w0] conjI exI [of _ "fst s'"]) auto
qed

text \<open>C37: The schema libraries stay consistent and work as a cache.  From consistent libraries, such as the ones
  that are loaded at start, \<open>get_schema\<close> leaves consistent libraries; a kind that is known afterwards is
  then answered without the schema service, in every mode and for the mode of the first call with the
  same schema; and only schemas of the OSDU authority are ever added.\<close>

theorem schema_cache:
  assumes "schema_laws env" and "libraries_agree env (sm_libraries env w)"
    and "get_schema env kind m w = (Inr s, w1)"
  shows "libraries_agree env (sm_libraries env w1)
     \<and> (known env w1 kind \<longrightarrow> get_schema env kind m w1 = (Inr s, w1)
          \<and> (\<forall>m'. \<exists>s'. get_schema env kind m' w1 = (Inr s', w1)))
     \<and> (\<forall>k. known env w1 k \<longrightarrow> known env w k \<or> startswith (lower k) ''osdu:wks'')"
proof (cases "known env w kind")
  case True
  then obtain c where c: "map_of (schema_library (sm_libraries env w)) kind = Some c" by (auto simp: known_def)
  have "get_schema env kind m' w = (Inr (select_mode m' (schema_versions env c)), w)" for m'
    using known_schema [OF assms(2), of kind m'] c by (simp add: get_schema_def)
  then show ?thesis using assms(2,3) by auto
next
  case False
  from get_schema_miss [OF assms(2,1,3) False] obtain c source w0 where
    f: "sm_libraries env w0 = sm_libraries env w" "s = select_mode m (schema_versions env c)"
      "if startswith (lower source) ''osdu:wks''
       then w1 = sm_set_libraries env (add_schema source (schema_versions env c) (sm_libraries env w)) w0 else w1 = w0"
    by auto
  have libs: "sm_libraries env w1 = (if startswith (lower source) ''osdu:wks''
      then add_schema source (schema_versions env c) (sm_libraries env w) else sm_libraries env w)"
    using f(1,3) assms(1) by (auto simp: schema_laws_def split: if_splits)
  have agree: "libraries_agree env (sm_libraries env w1)"
    using libs assms(2) add_schema_agree by auto
  have hit: "get_schema env kind m' w1 = (Inr (select_mode m' (schema_versions env c)), w1)" if "known env w1 kind" for m'
  proof -
    have "map_of (schema_library (sm_libraries env w1)) kind = Some c"
      using that False libs by (auto simp: known_def add_schema_library split: if_splits)
    with known_schema [OF agree, of kind m'] show ?thesis by (simp add: get_schema_def)
  qed
  have "known env w k \<or> startswith (lower k) ''osdu:wks''" if "known env w1 k" for k
    using that libs by (auto simp: known_def add_schema_library split: if_splits)
  with agree hit f(2) show ?thesis by blast
qed

lemma validate_entity_ok:
  assumes "validate_entity env EXTRA_FORBID_OPTIMISED e w = (Inr (), w')"
  shows "\<exists>k v w1. v_index e ''kind'' = Inr (PStr k)
     \<and> get_schema env k EXTRA_FORBID_OPTIMISED w = (Inr (Validator v), w1) \<and> w' = w1 \<and> sm_validate_optimized env e v = Inr ()"
proof -
  from assms obtain x where x: "v_index e ''kind'' = Inr x"
    by (auto simp: validate_entity_def bindM_Inr_iff)
  with assms obtain k where k: "x = PStr k" by (cases x) (simp_all add: validate_entity_def)
  with assms x obtain s where s: "get_schema env k EXTRA_FORBID_OPTIMISED w = (Inr s, w')"
    by (auto simp: validate_entity_def bindM_Inr_iff)
  with assms x k show ?thesis by (cases s) (simp_all add: validate_entity_def bindM_run is_optimised_def)
qed

definition test_schema_env :: "(nat schema_libraries \<times> nat, nat) schema_env" where
  "test_schema_env = \<lparr>sm_libraries = fst, sm_set_libraries = (\<lambda>l w. (l, snd w)), sm_remove_unsupported_id = (\<lambda>s. s),
     sm_optimise_schema = (\<lambda>_. 0), sm_forbid_extra = (\<lambda>s. s),
     sm_fetch_schema = (\<lambda>k w. (Inr (PDict [(''x-osdu-schema-source'', PStr k)]), (fst w, Suc (snd w)))),
     sm_encode = (\<lambda>r. PDict [(''kind'', PStr (rec_kind r))]), sm_validate = (\<lambda>_ _. Inr ()),
     sm_validate_optimized = (\<lambda>_ _. Inr ())\<rparr>"

definition no_schemas :: "nat schema_libraries" where
  "no_schemas = \<lparr>schema_library = [], optimised_schema_library = [], schema_forbid_extra_library = [],
     optimised_schema_forbid_extra_library = []\<rparr>"

theorem schema_cache_witness:
  "\<exists>s w1. get_schema test_schema_env ''osdu:wks:well:1.0.0'' ORIGINAL (no_schemas, 0) = (Inr s, w1)
     \<and> get_schema test_schema_env ''osdu:wks:well:1.0.0'' ORIGINAL w1 = (Inr s, w1)"
proof -
  have l: "schema_laws test_schema_env" by (auto simp: schema_laws_def test_schema_env_def)
  have a: "libraries_agree test_schema_env (sm_libraries test_schema_env (no_schemas, 0))"
    by (simp add: libraries_agree_def test_schema_env_def no_schemas_def)
  obtain s w1 where g: "get_schema test_schema_env ''osdu:wks:well:1.0.0'' ORIGINAL (no_schemas, 0) = (Inr s, w1)"
    and k: "known test_schema_env w1 ''osdu:wks:well:1.0.0''"
  proof -
    have "fst (get_schema test_schema_env ''osdu:wks:well:1.0.0'' ORIGINAL (no_schemas, 0))
        = Inr (JsonSchema (PDict [(''x-osdu-schema-source'', PStr ''osdu:wks:well:1.0.0'')]))"
      "known test_schema_env (snd (get_schema test_schema_env ''osdu:wks:well:1.0.0'' ORIGINAL (no_schemas, 0)))
         ''osdu:wks:well:1.0.0''" by code_simp+
    then show thesis using that by (metis prod.collapse)
  qed
  from schema_cache [OF l a g] g k show ?thesis by blast
qed

end
