(* ===== verification/Ddms_Utils.thy ===== *)
theory Ddms_Utils
  imports Record_Access Record_Ids Schema_Manager
begin

text \<open>
  The checks that the routes of \<open>app/routers/ddms_v3\<close> share, \<open>ddms_v3_utils.py\<close>: the kind of a record
  must belong to the entity of the route, and the bulk URI of a record is not a user's to choose.
\<close>

section \<open>Kinds\<close>

definition entity_names :: "string dict" where
  "entity_names = [
     (''well'', ''master-data--Well''),
     (''wellbore'', ''master-data--Wellbore''),
     (''welllog'', ''work-product-component--WellLog''),
     (''trajectory'', ''work-product-component--WellboreTrajectory''),
     (''marker'', ''work-product-component--WellboreMarkerSet''),
     (''wellboreintervalset'', ''work-product-component--WellboreIntervalSet''),
     (''ppfgdatset'', ''work-product-component--PPFGDataset''),
     (''wellpressuretestrawmeasurement'', ''work-product-component--WellPressureTestRawMeasurement'')]"

record request_state =
  st_version :: "string option"
  st_entity_type :: "Entity option"

definition raise_if_not_osdu_right_entity_kind :: "Record \<Rightarrow> request_state \<Rightarrow> nat \<Rightarrow> unit res" where
  "raise_if_not_osdu_right_entity_kind r st status_code = (case st_entity_type st of
       None \<Rightarrow> Inr ()
     | Some entity \<Rightarrow>
         if st_version st = Some ''V3'' then
           bindR (get_kind_meta (rec_kind r)) (\<lambda>kind_elements.
             case map_of entity_names (entity_value entity) of
               None \<Rightarrow> Inr ()
             | Some name \<Rightarrow> if name = kind_entity_type kind_elements then Inr () else Inl (HTTPException status_code))
         else Inr ())"

fun raise_if_not_osdu_right_entities_kind :: "Record list \<Rightarrow> request_state \<Rightarrow> unit res" where
  "raise_if_not_osdu_right_entities_kind [] st = Inr ()"
| "raise_if_not_osdu_right_entities_kind (r # rs) st =
     bindR (raise_if_not_osdu_right_entity_kind r st 422) (\<lambda>_. raise_if_not_osdu_right_entities_kind rs st)"

section \<open>Bulk URIs\<close>

definition uri_text :: "BulkURI \<Rightarrow> string option res" where
  \<comment> \<open>\<open>u.encode() if u.is_valid() else None\<close>\<close>
  "uri_text u = (if is_valid u then bindR (encode u) (\<lambda>s. Inr (Some s)) else Inr None)"

definition no_text :: "string option \<Rightarrow> bool" where
  "no_text t \<longleftrightarrow> t = None \<or> t = Some []"

definition raise_if_invalid_bulk_uri_task ::
    "'w storage_client \<Rightarrow> string option \<Rightarrow> (Record \<Rightarrow> BulkURI res) \<Rightarrow> Record \<Rightarrow> (exn, 'w, unit) prog" where
  "raise_if_invalid_bulk_uri_task sc partition_id get_uri r =
     bindM (liftM (bindR (get_uri r) uri_text)) (\<lambda>bulk_uri.
       if no_text (rec_id r) then (if no_text bulk_uri then returnM () else raiseM (HTTPException 400))
       else (\<lambda>w. case fetch_record sc partition_id (the (rec_id r)) None None w of
           (Inl e, w') \<Rightarrow>
             (if e = UnexpectedResponse 404 then (if no_text bulk_uri then Inr () else Inl (HTTPException 400)) else Inl e, w')
         | (Inr previous_version_record, w') \<Rightarrow>
             bindM (liftM (bindR (get_uri previous_version_record) uri_text)) (\<lambda>previous_version_bulk_uri.
               if no_text previous_version_bulk_uri \<and> \<not> no_text bulk_uri then raiseM (HTTPException 400)
               else if bulk_uri \<noteq> previous_version_bulk_uri then raiseM (HTTPException 400)
               else returnM ()) w'))"

definition raise_if_invalid_bulk_uri ::
    "'w storage_client \<Rightarrow> string option \<Rightarrow> (Record \<Rightarrow> BulkURI res) \<Rightarrow> Record list \<Rightarrow> (exn, 'w, unit) prog" where
  \<comment> \<open>the tasks of \<open>gather\<close> only read; they run one after the other\<close>
  "raise_if_invalid_bulk_uri sc partition_id get_uri rs =
     forM (raise_if_invalid_bulk_uri_task sc partition_id get_uri) rs"

section \<open>Which kinds are checked\<close>

definition checked_entity :: "Entity \<Rightarrow> string option" where
  \<comment> \<open>the entity type that the records of a route have to have\<close>
  "checked_entity e = (case e of
       WELL \<Rightarrow> Some ''master-data--Well''
     | WELLBORE \<Rightarrow> Some ''master-data--Wellbore''
     | WELL_LOG \<Rightarrow> Some ''work-product-component--WellLog''
     | TRAJECTORY \<Rightarrow> Some ''work-product-component--WellboreTrajectory''
     | MARKER \<Rightarrow> Some ''work-product-component--WellboreMarkerSet''
     | WELLBOREINTERVALSET \<Rightarrow> Some ''work-product-component--WellboreIntervalSet''
     | WELLPRESSURETESTRAWMEASUREMENT \<Rightarrow> Some ''work-product-component--WellPressureTestRawMeasurement''
     | _ \<Rightarrow> None)"

lemma entity_names_checked: "map_of entity_names (entity_value e) = checked_entity e"
  by (cases e) (simp_all add: entity_names_def checked_entity_def)

text \<open>The kind check of the version 3 routes: a record passes exactly when its kind has four parts and its entity
  type is the one of the route, and a foreign entity type is refused with the status the route asks for.
  It never refuses a well-formed kind on the routes of PPFG data sets and of well log acquisitions, whose
  names are not in the table of the service.\<close>

theorem kind_check_spec:
  "(raise_if_not_osdu_right_entity_kind r \<lparr>st_version = Some ''V3'', st_entity_type = Some e\<rparr> status = Inr ()
     \<longleftrightarrow> (\<exists>k. get_kind_meta (rec_kind r) = Inr k \<and> checked_entity e \<in> {None, Some (kind_entity_type k)}))
   \<and> (raise_if_not_osdu_right_entity_kind r \<lparr>st_version = Some ''V3'', st_entity_type = Some e\<rparr> status
        = Inl (HTTPException status)
     \<longleftrightarrow> (\<exists>k n. get_kind_meta (rec_kind r) = Inr k \<and> checked_entity e = Some n \<and> n \<noteq> kind_entity_type k))
   \<and> checked_entity PPFGDATASET = None \<and> checked_entity WELLLOGACQUISITION = None"
proof -
  have "get_kind_meta k \<noteq> Inl (HTTPException status)" for k
    by (auto simp: get_kind_meta_def split: list.splits)
  then show ?thesis
    by (cases "get_kind_meta (rec_kind r)"; cases "checked_entity e")
      (auto simp: raise_if_not_osdu_right_entity_kind_def entity_names_checked checked_entity_def)
qed

section \<open>What a passed check of the bulk URIs means\<close>

definition same_bulk ::
    "'w storage_client \<Rightarrow> string option \<Rightarrow> (Record \<Rightarrow> BulkURI res) \<Rightarrow> 'w \<Rightarrow> Record \<Rightarrow> bool" where
  \<comment> \<open>a new record has no bulk, and an update refers to the bulk of the latest version\<close>
  "same_bulk sc partition_id get_uri w r \<longleftrightarrow>
     (if no_text (rec_id r) \<or> fst (fetch_record sc partition_id (the (rec_id r)) None None w) = Inl (UnexpectedResponse 404)
      then bindR (get_uri r) uri_text = Inr None
      else \<exists>p t. fst (fetch_record sc partition_id (the (rec_id r)) None None w) = Inr p
             \<and> bindR (get_uri p) uri_text = Inr t \<and> bindR (get_uri r) uri_text = Inr t)"

lemma uri_text_not_Nil: "uri_text u = Inr (Some t) \<Longrightarrow> t \<noteq> []"
  by (auto simp: uri_text_def bindR_Inr_iff split: if_splits dest: encode_has_colon)

lemma get_uri_text: "bindR (get_uri r) uri_text = Inr t \<Longrightarrow> no_text t \<longleftrightarrow> t = None"
  by (auto simp: bindR_Inr_iff no_text_def dest: uri_text_not_Nil)

lemma task_run:
  assumes "bindR (get_uri r) uri_text = Inr t"
  shows "raise_if_invalid_bulk_uri_task sc p get_uri r w =
    (if no_text (rec_id r) then (if t = None then Inr () else Inl (HTTPException 400), w)
     else case fetch_record sc p (the (rec_id r)) None None w of
        (Inl e, w') \<Rightarrow> (if e = UnexpectedResponse 404 then (if t = None then Inr () else Inl (HTTPException 400)) else Inl e, w')
      | (Inr prev, w') \<Rightarrow> (case bindR (get_uri prev) uri_text of
            Inl e \<Rightarrow> Inl e | Inr t' \<Rightarrow> if t = t' then Inr () else Inl (HTTPException 400), w'))"
proof -
  have "\<And>prev t'. bindR (get_uri prev) uri_text = Inr t' \<Longrightarrow> no_text t' \<longleftrightarrow> t' = None" by (rule get_uri_text)
  then show ?thesis
    using assms get_uri_text [of get_uri r t, OF assms]
    by (auto simp: raise_if_invalid_bulk_uri_task_def bindM_run split: prod.splits sum.splits)
qed

lemma task_ok_iff:
  "fst (raise_if_invalid_bulk_uri_task sc p get_uri r w) = Inr () \<longleftrightarrow> same_bulk sc p get_uri w r"
proof (cases "bindR (get_uri r) uri_text")
  case (Inl e)
  then show ?thesis by (auto simp: raise_if_invalid_bulk_uri_task_def same_bulk_def)
next
  case (Inr t)
  show ?thesis
    unfolding task_run [of get_uri r t, OF Inr]
    by (auto simp: same_bulk_def Inr split: prod.splits sum.splits if_splits)
qed

lemma readonly_task:
  assumes "\<And>i. readonly (fetch_record sc p i None None)"
  shows "readonly (raise_if_invalid_bulk_uri_task sc p get_uri r)"
proof -
  have "snd (fetch_record sc p i None None w) = w" for i w
    using assms [of i] by (simp add: readonly_def)
  then show ?thesis
    unfolding readonly_def raise_if_invalid_bulk_uri_task_def
    by (auto simp: bindM_run split: prod.splits sum.splits) (metis snd_conv)+
qed

lemma all_same_bulk:
  assumes "\<And>i. readonly (fetch_record sc p i None None)"
  shows "fst (raise_if_invalid_bulk_uri sc p get_uri rs w) = Inr () \<longleftrightarrow> (\<forall>r\<in>set rs. same_bulk sc p get_uri w r)"
proof (induction rs)
  case Nil
  then show ?case by (simp add: raise_if_invalid_bulk_uri_def)
next
  case (Cons r rs)
  obtain x w' where x: "raise_if_invalid_bulk_uri_task sc p get_uri r w = (x, w')" by force
  then have "w' = w" by (rule readonlyD [OF readonly_task [OF assms]])
  with x Cons task_ok_iff [of sc p get_uri r w] show ?case
    by (cases x) (auto simp: raise_if_invalid_bulk_uri_def bindM_run)
qed

text \<open>The bulk URI of a record is not a user's to choose.  The check of the create and update routes accepts a list
  of records exactly when every new record comes without a bulk URI and every update refers to the same
  bulk as the latest stored version, or to none where that has none; and it changes nothing.\<close>

theorem bulk_uri_check_spec:
  assumes "\<forall>i. readonly (fetch_record sc p i None None)"
  shows "(fst (raise_if_invalid_bulk_uri sc p get_uri rs w) = Inr () \<longleftrightarrow> (\<forall>r\<in>set rs. same_bulk sc p get_uri w r))
    \<and> snd (raise_if_invalid_bulk_uri sc p get_uri rs w) = w"
proof -
  have "readonly (raise_if_invalid_bulk_uri sc p get_uri rs)"
    unfolding raise_if_invalid_bulk_uri_def using readonly_task assms by blast
  then show ?thesis using all_same_bulk [of sc p get_uri rs w] assms unfolding readonly_def by blast
qed

lemma test_fetch_readonly: "\<forall>i. readonly (fetch_record (blob_storage_client test_record_env) p i None None)"
proof -
  have "readonly (rs_auth_check test_record_env)" "readonly (list_objects (rs_storage test_record_env) t n)"
    "readonly (download (rs_storage test_record_env) t n)" for t n
    by (auto simp: test_record_env_def test_store_def readonly_def)
  then show ?thesis
    unfolding fetch_record_blob bs_get_record_version_def not_found_as_404_def build_record_path_def
      get_all_version_object_def Let_def
    by (auto split: option.splits exn.splits intro!: readonly_bind readonly_try)
qed

theorem bulk_uri_check_spec_witness:
  "(\<forall>i. readonly (fetch_record (blob_storage_client test_record_env) None i None None)) \<and>
   fst (raise_if_invalid_bulk_uri (blob_storage_client test_record_env) None osdu_get_bulk_uri
     [test_bulk_record\<lparr>rec_id := Some ''r2'', rec_data := PDict []\<rparr>] test_bulk_world) = Inr ()"
proof -
  have f: "fst (fetch_record (blob_storage_client test_record_env) None ''r2'' None None test_bulk_world)
      = Inl (UnexpectedResponse 404)" by code_simp
  have "same_bulk (blob_storage_client test_record_env) None osdu_get_bulk_uri test_bulk_world
     (test_bulk_record\<lparr>rec_id := Some ''r2'', rec_data := PDict []\<rparr>)"
    using f by (simp add: same_bulk_def osdu_get_bulk_uri_def decode_value_def uri_text_def is_valid_def invalid_uri_def)
  with bulk_uri_check_spec [OF test_fetch_readonly] test_fetch_readonly show ?thesis by auto
qed

end
