(* ===== verification/Consistency.thy ===== *)
theory Consistency
  imports Columns Records
begin

text \<open>
  The consistency checks of \<open>app/consistency\<close> between the metadata of a record and its bulk: unique
  curve identifiers, matching of columns and curves, and the reference curve.  The description of a
  bulk is that of \<open>app/bulk_persistence/consistency_checks.py\<close>; the operations of pandas on a column
  (monotonicity, uniqueness, missing values) are parameters.
\<close>

section \<open>Description of a bulk (consistency_checks.py)\<close>

datatype Monotonicity = Increasing | Decreasing

record ColumnDescribe =
  cd_name :: string
  cd_start :: pyval
  cd_end :: pyval
  cd_monotonicity :: "Monotonicity option"
  cd_hasDuplicate :: bool
  cd_hasNan :: bool
  cd_dataType :: "string option"

definition is_monotonic :: "ColumnDescribe \<Rightarrow> bool" where
  "is_monotonic c \<longleftrightarrow> cd_monotonicity c \<noteq> None"

definition is_monotonic_increasing :: "ColumnDescribe \<Rightarrow> bool" where
  "is_monotonic_increasing c \<longleftrightarrow> cd_monotonicity c = Some Increasing"

definition is_monotonic_decreasing :: "ColumnDescribe \<Rightarrow> bool" where
  "is_monotonic_decreasing c \<longleftrightarrow> cd_monotonicity c = Some Decreasing"

definition WDMS_INDEX_NAME :: string where
  "WDMS_INDEX_NAME = ''_wdms_index_''"

record DataFrame =
  df_columns :: "(string \<times> pyval list) list"
  df_index :: "pyval list"

record series_ops =
  \<comment> \<open>the attributes of a pandas series\<close>
  so_increasing :: "pyval list \<Rightarrow> bool"
  so_decreasing :: "pyval list \<Rightarrow> bool"
  so_unique :: "pyval list \<Rightarrow> bool"
  so_hasnans :: "pyval list \<Rightarrow> bool"

definition df_empty :: "DataFrame \<Rightarrow> bool" where
  "df_empty df \<longleftrightarrow> df_columns df = [] \<or> df_index df = []"

definition make_ColumnDescribe :: "string \<Rightarrow> pyval list \<Rightarrow> Monotonicity option \<Rightarrow> bool \<Rightarrow> bool \<Rightarrow> ColumnDescribe" where
  \<comment> \<open>\<open>__init__\<close>: start and end are the first and the last of the values of the reduced frame; no
      caller inside the service gives \<open>dataType\<close>\<close>
  "make_ColumnDescribe name values monoton dup nan =
     \<lparr>cd_name = name, cd_start = (if values = [] then PNone else hd values),
      cd_end = (if values = [] then PNone else last values), cd_monotonicity = monoton,
      cd_hasDuplicate = dup, cd_hasNan = nan, cd_dataType = None\<rparr>"

definition from_column :: "series_ops \<Rightarrow> DataFrame \<Rightarrow> string option \<Rightarrow> ColumnDescribe" where
  "from_column so df reference_name =
     (let known = (case reference_name of
            Some r \<Rightarrow> r \<noteq> [] \<and> r \<in> set (map fst (df_columns df)) | None \<Rightarrow> False);
          name = (if df_empty df \<or> \<not> known then WDMS_INDEX_NAME else the reference_name);
          series = (if df_empty df then []
                    else case map_of (df_columns df) name of Some vs \<Rightarrow> vs | None \<Rightarrow> df_index df);
          reduced = (if df_empty df then []
                     else if name = WDMS_INDEX_NAME then [hd (df_index df), last (df_index df)]
                     else [hd series, last series])
      in make_ColumnDescribe name reduced
           (if so_increasing so series then Some Increasing
            else if so_decreasing so series then Some Decreasing else None)
           (\<not> so_unique so series) (so_hasnans so series))"

record BulkInfoForConsistency =
  bi_rowCount :: int
  bi_curves :: "int dict"
  bi_reference :: "ColumnDescribe option"

definition from_dataframe :: "series_ops \<Rightarrow> DataFrame \<Rightarrow> string option \<Rightarrow> BulkInfoForConsistency" where
  "from_dataframe so df reference_curve =
     \<lparr>bi_rowCount = int (length (df_index df)),
      bi_curves = map (\<lambda>(c, v). (c, int (length v))) (group_curve_columns (map fst (df_columns df)) True),
      bi_reference = Some (from_column so df reference_curve)\<rparr>"

definition column_count :: "BulkInfoForConsistency \<Rightarrow> int" where
  "column_count b = sum_list (map snd (bi_curves b))"

section \<open>Unique values (unique.py)\<close>

definition v_in :: "pyval \<Rightarrow> pyval list \<Rightarrow> bool" where
  \<comment> \<open>membership in a set of values\<close>
  "v_in v vs = list_ex (\<lambda>w. py_eq w v) vs"

fun unique_loop :: "(pyval \<Rightarrow> pyval res) \<Rightarrow> pyval list \<Rightarrow> pyval list \<Rightarrow> (pyval list \<times> bool) res" where
  "unique_loop get values [] = Inr (values, False)"
| "unique_loop get values (obj # objs) =
     bindR (get obj) (\<lambda>value.
       if \<not> truthy value then unique_loop get values objs
       else if \<not> hashable value then Inl TypeError
       else if v_in value values then Inr (values, True)
       else unique_loop get (values @ [value]) objs)"

definition get_unique_dict_attr_values :: "pyval \<Rightarrow> string \<Rightarrow> (pyval list \<times> bool) res" where
  \<comment> \<open>the values, and whether a \<open>DuplicatedIdError\<close> is returned\<close>
  "get_unique_dict_attr_values object_list attr_name =
     (if truthy object_list
      then bindR (v_iter object_list) (unique_loop (\<lambda>obj. v_get obj attr_name) [])
      else Inr ([], False))"

definition get_unique_attr_values :: "pyval \<Rightarrow> string \<Rightarrow> (pyval list \<times> bool) res" where
  \<comment> \<open>the attributes of an object as a dictionary\<close>
  "get_unique_attr_values object_list attr_name =
     (if truthy object_list
      then bindR (v_iter object_list) (unique_loop
             (\<lambda>obj. case obj of PDict al \<Rightarrow> ofOption AttributeError (map_of al attr_name) | _ \<Rightarrow> Inl AttributeError) [])
      else Inr ([], False))"

section \<open>Reference curve (reference_check.py)\<close>

definition consistency :: "consistency_exn \<Rightarrow> exn" where
  "consistency e = BulkErr (ConsistencyException e)"

definition check_reference_is_strictly_monotonic :: "ColumnDescribe \<Rightarrow> unit res" where
  "check_reference_is_strictly_monotonic ref =
     (if cd_hasDuplicate ref then Inl (consistency ReferenceCurveException)
      else if \<not> is_monotonic_increasing ref \<and> \<not> is_monotonic_decreasing ref
      then Inl (consistency ReferenceCurveException)
      else Inr ())"

definition raise_if_dict_value_is_different :: "pyval \<Rightarrow> string \<Rightarrow> pyval \<Rightarrow> unit res" where
  "raise_if_dict_value_is_different record_data attr_name reference_value =
     bindR (v_get record_data attr_name) (\<lambda>attr_value.
       if attr_value = PNone then Inr ()
       else bindR (py_float attr_value) (\<lambda>a.
            bindR (py_float reference_value) (\<lambda>b.
              if \<not> isclose a b then Inl (consistency ReferenceCurveException) else Inr ())))"

section \<open>Columns and curves\<close>

fun curve_sizes_loop :: "(pyval \<Rightarrow> pyval res) \<Rightarrow> pyval dict \<Rightarrow> pyval list \<Rightarrow> pyval dict res" where
  \<comment> \<open>the dictionary from the identifier of each curve to its number of columns; an identifier that is
      not a string never equals a column label and is left out\<close>
  "curve_sizes_loop ncols d [] = Inr d"
| "curve_sizes_loop ncols d (c # cs) =
     bindR (v_index c ''CurveID'') (\<lambda>k. bindR (ncols c) (\<lambda>n.
       if \<not> hashable k then Inl TypeError
       else curve_sizes_loop ncols (case k of PStr s \<Rightarrow> AList.update s n d | _ \<Rightarrow> d) cs))"

definition not_matching :: "int dict \<Rightarrow> string list \<Rightarrow> string list" where
  "not_matching curve_sizes names = filter (\<lambda>c. c \<notin> set names) (map fst curve_sizes)"

definition any_str :: "string list \<Rightarrow> bool" where
  \<comment> \<open>\<open>any(...)\<close> over strings: one of them is not empty\<close>
  "any_str ss = list_ex (\<lambda>s. s \<noteq> []) ss"

definition not_matching_size :: "int dict \<Rightarrow> pyval dict \<Rightarrow> string list" where
  "not_matching_size curve_sizes meta = map fst (filter (\<lambda>(c, size_in_meta).
     case map_of curve_sizes c of None \<Rightarrow> False | Some n \<Rightarrow> \<not> py_eq (PInt n) size_in_meta) meta)"

section \<open>Well logs (welllog_consistency.py)\<close>

definition check_welllog_consistency :: "Record \<Rightarrow> unit res" where
  "check_welllog_consistency wl =
     (if \<not> truthy (rec_data wl) then Inr () else
      bindR (v_get (rec_data wl) ''Curves'') (\<lambda>cv.
      bindR (v_get (rec_data wl) ''ReferenceCurveID'') (\<lambda>reference_curve_id.
      bindR (get_unique_dict_attr_values (if truthy cv then cv else PDict []) ''CurveID'')
        (\<lambda>(curve_ids, duplicated_error).
        if duplicated_error then Inl (consistency WL_DuplicatedCurveIdException)
        else if \<not> truthy reference_curve_id then Inr ()
        else if \<not> hashable reference_curve_id then Inl TypeError
        else if \<not> v_in reference_curve_id curve_ids
        then Inl (consistency WL_ReferenceCurveIdNotFoundException)
        else Inr ()))))"

definition wl_get_reference_curve :: "Record \<Rightarrow> pyval res" where
  "wl_get_reference_curve r =
     (if \<not> truthy (rec_data r) then Inr PNone else v_get (rec_data r) ''ReferenceCurveID'')"

definition wl_check_columns_consistency :: "pyval \<Rightarrow> int dict \<Rightarrow> unit res" where
  "wl_check_columns_consistency wl_data curve_sizes =
     bindR (v_get wl_data ''Curves'') (\<lambda>curves.
       if \<not> truthy curves \<and> curve_sizes \<noteq> [] then Inl (consistency WL_ColumnDoesNotMatchCurveIdException)
       else bindR (v_iter curves) (\<lambda>cs.
         bindR (mapR (\<lambda>c. v_get c ''CurveID'') cs) (\<lambda>ids.
           if \<not> list_all truthy ids then Inl (consistency WL_ColumnDoesNotMatchCurveIdException)
           else bindR (curve_sizes_loop (\<lambda>c. v_get_default c ''NumberOfColumns'' (PInt 1)) [] cs) (\<lambda>meta.
             if any_str (not_matching curve_sizes (map fst meta))
             then Inl (consistency WL_ColumnDoesNotMatchCurveIdException)
             else if any_str (not_matching_size curve_sizes meta)
             then Inl (consistency WL_TotalOfColumnsDoesNotMatchFieldNumberOfColumnsException)
             else Inr ()))))"

definition wl_check_reference :: "Record \<Rightarrow> ColumnDescribe \<Rightarrow> unit res" where
  "wl_check_reference wl ref =
     bindR (check_reference_is_strictly_monotonic ref) (\<lambda>_.
     bindR (raise_if_dict_value_is_different (rec_data wl) ''SamplingStart'' (cd_start ref)) (\<lambda>_.
     raise_if_dict_value_is_different (rec_data wl) ''SamplingStop'' (cd_end ref)))"

fun family_loop :: "pyval \<Rightarrow> string \<Rightarrow> pyval list \<Rightarrow> bool res" where
  "family_loop ref_id expected [] = Inr False"
| "family_loop ref_id expected (c # cs) =
     bindR (v_index c ''CurveID'') (\<lambda>k.
       if \<not> py_eq k ref_id then family_loop ref_id expected cs
       else bindR (v_get c ''LogCurveFamilyID'') (\<lambda>f.
         if py_eq f (PStr expected) then Inr True else family_loop ref_id expected cs))"

definition is_curve_reference_family_measured_depth :: "pyval \<Rightarrow> string \<Rightarrow> bool res" where
  "is_curve_reference_family_measured_depth data data_partition =
     bindR (v_index data ''Curves'') (\<lambda>curves. bindR (v_iter curves) (\<lambda>cs.
       if cs = [] then Inr False
       else bindR (v_index data ''ReferenceCurveID'') (\<lambda>ref_id.
         family_loop ref_id (data_partition @ '':reference-data--LogCurveFamily:Measured%20Depth:'') cs)))"

definition wl_check_bulk_consistency :: "Record \<Rightarrow> BulkInfoForConsistency \<Rightarrow> unit res" where
  "wl_check_bulk_consistency r bulk_info =
     (if \<not> truthy (rec_data r) then Inr () else
      bindR (wl_check_columns_consistency (rec_data r) (bi_curves bulk_info)) (\<lambda>_.
      bindR (v_get (rec_data r) ''ReferenceCurveID'') (\<lambda>reference_name.
        if \<not> hashable reference_name then Inl TypeError
        else if reference_name \<notin> PStr ` set (map fst (bi_curves bulk_info)) then Inr ()
        else bindR (get_data_partition_of_record r) (\<lambda>data_partition.
             bindR (is_curve_reference_family_measured_depth (rec_data r) data_partition) (\<lambda>md.
               if \<not> md then Inr ()
               else case bi_reference bulk_info of
                   Some ref \<Rightarrow> if reference_name = PStr (cd_name ref) then wl_check_reference r ref else Inr ()
                 | None \<Rightarrow> Inr ())))))"

definition known_reference :: "DataFrame \<Rightarrow> pyval \<Rightarrow> string option res" where
  \<comment> \<open>\<open>if reference_name not in df.columns: reference_name = None\<close>, and its truth value after that\<close>
  "known_reference df reference_name =
     (if \<not> hashable reference_name then Inl TypeError
      else case reference_name of
          PStr s \<Rightarrow> Inr (if s \<in> set (map fst (df_columns df)) \<and> s \<noteq> [] then Some s else None)
        | _ \<Rightarrow> Inr None)"

definition post_bulk_info :: "series_ops \<Rightarrow> DataFrame \<Rightarrow> string option \<Rightarrow> BulkInfoForConsistency" where
  "post_bulk_info so df reference_name =
     \<lparr>bi_rowCount = int (length (df_index df)),
      bi_curves = get_curve_name_and_column_count (map fst (df_columns df)),
      bi_reference = (case reference_name of Some s \<Rightarrow> Some (from_column so df (Some s)) | None \<Rightarrow> None)\<rparr>"

definition wl_check_bulk_consistency_on_post_bulk :: "series_ops \<Rightarrow> Record \<Rightarrow> DataFrame \<Rightarrow> unit res" where
  "wl_check_bulk_consistency_on_post_bulk so r df =
     (if \<not> truthy (rec_data r) then Inr () else
      bindR (v_get (rec_data r) ''ReferenceCurveID'') (\<lambda>n.
      bindR (known_reference df n) (\<lambda>reference_name.
        wl_check_bulk_consistency r (post_bulk_info so df reference_name))))"

section \<open>Trajectories (trajectory_consistency.py)\<close>

definition stations_key :: string where
  "stations_key = ''AvailableTrajectoryStationProperties''"

definition check_trajectory_consistency :: "Record \<Rightarrow> unit res" where
  "check_trajectory_consistency t =
     (if \<not> truthy (rec_data t) then Inr () else
      bindR (v_contains stations_key (rec_data t)) (\<lambda>present.
        if \<not> present then Inr () else
        bindR (v_index (rec_data t) stations_key) (\<lambda>stations.
        bindR (get_unique_dict_attr_values stations ''Name'') (\<lambda>(_, duplicated_error).
          if duplicated_error then Inl DuplicatedStationProperties else Inr ()))))"

fun md_station_loop :: "pyval list \<Rightarrow> pyval res" where
  "md_station_loop [] = Inr PNone"
| "md_station_loop (station # stations) =
     (if \<not> truthy station then md_station_loop stations else
      bindR (v_contains ''TrajectoryStationPropertyTypeID'' station) (\<lambda>has_type.
        if \<not> has_type then md_station_loop stations else
        bindR (v_index station ''TrajectoryStationPropertyTypeID'') (\<lambda>ty.
          if \<not> truthy ty then md_station_loop stations else
          bindR (v_contains '':reference-data--TrajectoryStationPropertyType:MD:'' ty) (\<lambda>is_md.
            if \<not> is_md then md_station_loop stations else
            bindR (v_contains ''Name'' station) (\<lambda>has_name.
              if \<not> has_name then md_station_loop stations else
              bindR (v_index station ''Name'') (\<lambda>n.
                if truthy n then Inr n else md_station_loop stations))))))"

definition trj_get_reference_curve :: "Record \<Rightarrow> pyval res" where
  "trj_get_reference_curve r =
     (if rec_data r = PNone then Inr PNone else
      bindR (v_get (rec_data r) stations_key) (\<lambda>stations.
        if stations = PNone then Inr PNone else bindR (v_iter stations) md_station_loop))"

definition trj_check_columns_consistency :: "pyval \<Rightarrow> int dict \<Rightarrow> unit res" where
  "trj_check_columns_consistency record_data curve_sizes =
     bindR (if curve_sizes = [] then Inr True else v_contains stations_key record_data) (\<lambda>present.
       if \<not> present then Inl (consistency TRJ_MissingTrajectoryStationPropertyException) else
       bindR (v_index record_data stations_key) (\<lambda>stations.
       bindR (get_unique_dict_attr_values stations ''Name'') (\<lambda>(curve_ids, _).
         if any_str (filter (\<lambda>c. \<not> v_in (PStr c) curve_ids) (map fst curve_sizes))
         then Inl (consistency TRJ_ColumnDoesNotMatchTrajectoryStationException)
         else Inr ())))"

definition trj_check_reference :: "Record \<Rightarrow> ColumnDescribe \<Rightarrow> unit res" where
  "trj_check_reference r ref =
     bindR (check_reference_is_strictly_monotonic ref) (\<lambda>_.
     bindR (raise_if_dict_value_is_different (rec_data r) ''TopDepthMeasuredDepth'' (cd_start ref)) (\<lambda>_.
     raise_if_dict_value_is_different (rec_data r) ''BaseDepthMeasuredDepth'' (cd_end ref)))"

definition trj_check_bulk_consistency :: "Record \<Rightarrow> BulkInfoForConsistency \<Rightarrow> unit res" where
  "trj_check_bulk_consistency r bulk_info =
     (if \<not> truthy (rec_data r) then Inr () else
      bindR (trj_check_columns_consistency (rec_data r) (bi_curves bulk_info)) (\<lambda>_.
      bindR (trj_get_reference_curve r) (\<lambda>reference_name.
        if \<not> truthy reference_name then Inr ()
        else case bi_reference bulk_info of
            Some ref \<Rightarrow> if reference_name = PStr (cd_name ref) then trj_check_reference r ref else Inr ()
          | None \<Rightarrow> Inr ())))"

definition trj_check_bulk_consistency_on_post_bulk :: "series_ops \<Rightarrow> Record \<Rightarrow> DataFrame \<Rightarrow> unit res" where
  "trj_check_bulk_consistency_on_post_bulk so r df =
     (if \<not> truthy (rec_data r) then Inr () else
      bindR (trj_get_reference_curve r) (\<lambda>n.
      bindR (known_reference df n) (\<lambda>reference_name.
        trj_check_bulk_consistency r (post_bulk_info so df reference_name))))"

section \<open>Pore pressure datasets (ppfgdataset_consistency.py)\<close>

definition check_ppfgdataset_consistency :: "Record \<Rightarrow> unit res" where
  "check_ppfgdataset_consistency p =
     (if \<not> truthy (rec_data p) then Inr () else
      bindR (v_get (rec_data p) ''ContextTypeID'') (\<lambda>context_type.
      if \<not> truthy context_type then Inl (consistency PPFG_ContextTypeIdMissingException) else
      bindR (v_get (rec_data p) ''ReferenceWellTrajectoryID'') (\<lambda>trajectory.
      if \<not> truthy trajectory then Inl (consistency PPFG_ReferenceWellTrajectoryIdMissingException) else
      bindR (v_get_default (rec_data p) ''Curves'' (PList [])) (\<lambda>curves.
      bindR (v_get (rec_data p) ''PrimaryReferenceCurveID'') (\<lambda>primary_id.
      bindR (get_unique_dict_attr_values curves ''CurveID'') (\<lambda>(curve_ids, duplicated_error).
        if duplicated_error then Inl (consistency PPFG_DuplicatedCurveIdException)
        else if \<not> truthy primary_id then Inr ()
        else if \<not> hashable primary_id then Inl TypeError
        else if \<not> v_in primary_id curve_ids
        then Inl (consistency PPFG_PrimaryReferenceCurveIdNotFoundException)
        else Inr ()))))))"

definition ppfg_get_reference_curve :: "Record \<Rightarrow> pyval res" where
  "ppfg_get_reference_curve r =
     (if \<not> truthy (rec_data r) then Inr PNone else v_get (rec_data r) ''PrimaryReferenceCurveID'')"

definition ppfg_check_columns_consistency :: "pyval \<Rightarrow> int dict \<Rightarrow> unit res" where
  "ppfg_check_columns_consistency ppfg_data curve_sizes =
     bindR (v_get ppfg_data ''Curves'') (\<lambda>curves.
       if \<not> truthy curves \<and> curve_sizes \<noteq> [] then Inl (consistency PPFG_ColumnDoesNotMatchCurveIdException)
       else bindR (v_iter curves) (\<lambda>cs.
         bindR (curve_sizes_loop (\<lambda>_. Inr (PInt 1)) [] cs) (\<lambda>meta.
           if any_str (not_matching curve_sizes (map fst meta))
           then Inl (consistency PPFG_ColumnDoesNotMatchCurveIdException)
           else Inr ())))"

definition ppfg_check_bulk_consistency :: "Record \<Rightarrow> BulkInfoForConsistency \<Rightarrow> unit res" where
  "ppfg_check_bulk_consistency r bulk_info =
     (if \<not> truthy (rec_data r) then Inr ()
      else ppfg_check_columns_consistency (rec_data r) (bi_curves bulk_info))"

definition ppfg_check_bulk_consistency_on_post_bulk :: "series_ops \<Rightarrow> Record \<Rightarrow> DataFrame \<Rightarrow> unit res" where
  "ppfg_check_bulk_consistency_on_post_bulk so r df =
     (if \<not> truthy (rec_data r) then Inr () else
      bindR (v_get (rec_data r) ''PrimaryReferenceCurveID'') (\<lambda>n.
      bindR (known_reference df n) (\<lambda>reference_name.
        ppfg_check_bulk_consistency r (post_bulk_info so df reference_name))))"

section \<open>Pressure tests (wellpressuretestrawmeasurement_consistency.py)\<close>

definition check_well_pressure_test_raw_measurement_consistency :: "Record \<Rightarrow> unit res" where
  "check_well_pressure_test_raw_measurement_consistency w =
     (if \<not> truthy (rec_data w) then Inr () else
      bindR (v_get_default (rec_data w) ''Curves'' (PList [])) (\<lambda>curves.
      bindR (get_unique_dict_attr_values curves ''CurveID'') (\<lambda>(_, duplicated_error).
        if duplicated_error then Inl (consistency WPT_DuplicatedCurveIdException) else Inr ())))"

definition wpt_get_reference_curve :: "Record \<Rightarrow> pyval res" where
  "wpt_get_reference_curve r = Inr PNone"

definition wpt_check_columns_consistency :: "pyval \<Rightarrow> int dict \<Rightarrow> unit res" where
  "wpt_check_columns_consistency data curve_sizes =
     bindR (v_get data ''Curves'') (\<lambda>curves.
       if \<not> truthy curves \<and> curve_sizes \<noteq> [] then Inl (consistency WPT_ColumnDoesNotMatchCurveIdException)
       else bindR (v_iter curves) (\<lambda>cs.
         bindR (curve_sizes_loop (\<lambda>c. v_get_default c ''NumberOfColumns'' (PInt 1)) [] cs) (\<lambda>meta.
           if any_str (not_matching curve_sizes (map fst meta))
           then Inl (consistency WPT_ColumnDoesNotMatchCurveIdException)
           else if any_str (not_matching_size curve_sizes meta)
           then Inl (consistency WPT_TotalOfColumnsDoesNotMatchFieldNumberOfColumnsException)
           else Inr ())))"

definition wpt_check_bulk_consistency :: "Record \<Rightarrow> BulkInfoForConsistency \<Rightarrow> unit res" where
  "wpt_check_bulk_consistency r bulk_info =
     (if \<not> truthy (rec_data r) then Inr ()
      else wpt_check_columns_consistency (rec_data r) (bi_curves bulk_info))"

definition wpt_check_bulk_consistency_on_post_bulk :: "series_ops \<Rightarrow> Record \<Rightarrow> DataFrame \<Rightarrow> unit res" where
  "wpt_check_bulk_consistency_on_post_bulk so r df =
     (if \<not> truthy (rec_data r) then Inr () else wpt_check_bulk_consistency r (post_bulk_info so df None))"

section \<open>No checks (no_consistency.py)\<close>

definition no_get_reference_curve :: "Record \<Rightarrow> pyval res" where
  "no_get_reference_curve r = Inr PNone"

definition no_check_bulk_consistency :: "Record \<Rightarrow> BulkInfoForConsistency \<Rightarrow> unit res" where
  "no_check_bulk_consistency r bulk_info = Inr ()"

definition no_check_bulk_consistency_on_post_bulk :: "series_ops \<Rightarrow> Record \<Rightarrow> DataFrame \<Rightarrow> unit res" where
  "no_check_bulk_consistency_on_post_bulk so r df = Inr ()"

section \<open>The contract of the checks\<close>

text \<open>
  \<open>DataConsistencyChecks\<close> is the interface the bulk routes use.  What every implementation promises:
  a record without data passes, the check on a posted bulk is the check of its description, and a
  bulk that passes has no column that the record does not declare.
\<close>

locale data_consistency_checks =
  fixes check_bulk :: "Record \<Rightarrow> BulkInfoForConsistency \<Rightarrow> unit res"
    and check_post :: "series_ops \<Rightarrow> Record \<Rightarrow> DataFrame \<Rightarrow> unit res"
    and declares :: "Record \<Rightarrow> string \<Rightarrow> bool"
  assumes no_data: "\<not> truthy (rec_data r) \<Longrightarrow> check_bulk r b = Inr () \<and> check_post so r df = Inr ()"
    and post_is_check: "\<lbrakk>truthy (rec_data r); check_post so r df = Inr ()\<rbrakk> \<Longrightarrow>
      \<exists>ref. check_bulk r (post_bulk_info so df ref) = Inr ()"
    and check_declared: "\<lbrakk>truthy (rec_data r); check_bulk r b = Inr ();
      c \<in> set (map fst (bi_curves b)); c \<noteq> []\<rbrakk> \<Longrightarrow> declares r c"
begin

lemma post_declared:
  assumes "truthy (rec_data r)" and "check_post so r df = Inr ()"
    and "c \<in> set (map fst (get_curve_name_and_column_count (map fst (df_columns df))))" and "c \<noteq> []"
  shows "declares r c"
proof -
  from post_is_check [OF assms(1,2)] obtain ref where
    "check_bulk r (post_bulk_info so df ref) = Inr ()" by blast
  with assms(1,3,4) show ?thesis
    using check_declared [of r "post_bulk_info so df ref" c] by (simp add: post_bulk_info_def)
qed

lemma undeclared_refused:
  assumes "truthy (rec_data r)" and "\<not> declares r c" and "c \<noteq> []"
    and "c \<in> set (map fst (get_curve_name_and_column_count (map fst (df_columns df))))"
  shows "\<exists>e. check_post so r df = Inl e"
  using post_declared [OF assms(1) _ assms(4,3)] assms(2) by (cases "check_post so r df") auto

end

definition declared_in :: "string \<Rightarrow> string \<Rightarrow> Record \<Rightarrow> string \<Rightarrow> bool" where
  \<comment> \<open>an element of the list \<open>data[key]\<close> has the value \<open>c\<close> for \<open>attr\<close>\<close>
  "declared_in key attr r c \<longleftrightarrow> (case v_get (rec_data r) key of
       Inl _ \<Rightarrow> False
     | Inr objs \<Rightarrow> (case v_iter objs of
         Inl _ \<Rightarrow> False
       | Inr os \<Rightarrow> list_ex (\<lambda>ob. v_get ob attr = Inr (PStr c)) os))"

lemma v_index_get: "v_index v k = Inr x \<Longrightarrow> v_get v k = Inr x"
  by (cases v) (auto simp: v_index_def ofOption_def split: option.splits)

lemma curve_sizes_loop_keys:
  assumes "curve_sizes_loop f d cs = Inr meta" and "s \<in> set (map fst meta)"
  shows "s \<in> set (map fst d) \<or> (\<exists>c\<in>set cs. v_index c ''CurveID'' = Inr (PStr s))"
  using assms
proof (induction cs arbitrary: d)
  case (Cons c cs)
  from Cons.prems(1) obtain k n where k: "v_index c ''CurveID'' = Inr k" "hashable k"
      "curve_sizes_loop f (case k of PStr s \<Rightarrow> AList.update s n d | _ \<Rightarrow> d) cs = Inr meta"
    by (auto simp: bindR_Inr_iff split: if_splits)
  from Cons.IH [OF k(3) Cons.prems(2)] k(1) show ?case
    by (auto simp: dom_update split: pyval.splits)
qed simp

lemma unique_loop_values:
  assumes "unique_loop get vs objs = Inr (vals, dup)" and "v \<in> set vals"
  shows "v \<in> set vs \<or> (\<exists>ob\<in>set objs. get ob = Inr v)"
  using assms
  by (induction objs arbitrary: vs) (fastforce simp: bindR_Inr_iff split: if_splits)+

lemma any_not_matching:
  assumes "\<not> any_str (not_matching sizes names)" and "c \<in> set (map fst sizes)" and "c \<noteq> []"
  shows "c \<in> set names"
  using assms by (auto simp: any_str_def not_matching_def list_ex_iff)

text \<open>The dictionary of curve sizes has only declared identifiers as keys.\<close>

lemma sizes_declared:
  assumes "v_get (rec_data r) ''Curves'' = Inr curves" and "v_iter curves = Inr cs"
    and "curve_sizes_loop f [] cs = Inr meta" and "c \<in> set (map fst meta)"
  shows "declared_in ''Curves'' ''CurveID'' r c"
  using curve_sizes_loop_keys [OF assms(3,4)] assms(1,2)
  by (auto simp: declared_in_def list_ex_iff dest: v_index_get)

lemma wl_columns_declared:
  assumes "wl_check_columns_consistency (rec_data r) sizes = Inr ()" and "c \<in> set (map fst sizes)" and "c \<noteq> []"
  shows "declared_in ''Curves'' ''CurveID'' r c"
proof -
  from assms(1) obtain curves cs meta where "v_get (rec_data r) ''Curves'' = Inr curves" "v_iter curves = Inr cs"
    "curve_sizes_loop (\<lambda>c. v_get_default c ''NumberOfColumns'' (PInt 1)) [] cs = Inr meta"
    "\<not> any_str (not_matching sizes (map fst meta))"
    by (auto simp: wl_check_columns_consistency_def bindR_Inr_iff split: if_splits)
  then show ?thesis using sizes_declared any_not_matching [OF _ assms(2,3)] by blast
qed

lemma ppfg_columns_declared:
  assumes "ppfg_check_columns_consistency (rec_data r) sizes = Inr ()" and "c \<in> set (map fst sizes)" and "c \<noteq> []"
  shows "declared_in ''Curves'' ''CurveID'' r c"
proof -
  from assms(1) obtain curves cs meta where "v_get (rec_data r) ''Curves'' = Inr curves" "v_iter curves = Inr cs"
    "curve_sizes_loop (\<lambda>_. Inr (PInt 1)) [] cs = Inr meta" "\<not> any_str (not_matching sizes (map fst meta))"
    by (auto simp: ppfg_check_columns_consistency_def bindR_Inr_iff split: if_splits)
  then show ?thesis using sizes_declared any_not_matching [OF _ assms(2,3)] by blast
qed

lemma wpt_columns_declared:
  assumes "wpt_check_columns_consistency (rec_data r) sizes = Inr ()" and "c \<in> set (map fst sizes)" and "c \<noteq> []"
  shows "declared_in ''Curves'' ''CurveID'' r c"
proof -
  from assms(1) obtain curves cs meta where "v_get (rec_data r) ''Curves'' = Inr curves" "v_iter curves = Inr cs"
    "curve_sizes_loop (\<lambda>c. v_get_default c ''NumberOfColumns'' (PInt 1)) [] cs = Inr meta"
    "\<not> any_str (not_matching sizes (map fst meta))"
    by (auto simp: wpt_check_columns_consistency_def bindR_Inr_iff split: if_splits)
  then show ?thesis using sizes_declared any_not_matching [OF _ assms(2,3)] by blast
qed

lemma trj_columns_declared:
  assumes "trj_check_columns_consistency (rec_data r) sizes = Inr ()" and "c \<in> set (map fst sizes)" and "c \<noteq> []"
  shows "declared_in stations_key ''Name'' r c"
proof -
  from assms(1) obtain stations vals dup where s: "v_index (rec_data r) stations_key = Inr stations"
    "get_unique_dict_attr_values stations ''Name'' = Inr (vals, dup)"
    "\<not> any_str (filter (\<lambda>c. \<not> v_in (PStr c) vals) (map fst sizes))"
    by (auto simp: trj_check_columns_consistency_def bindR_Inr_iff split: if_splits)
  from s(3) assms(2,3) have v: "PStr c \<in> set vals"
    by (auto simp: any_str_def list_ex_iff v_in_def)
  with s(2) obtain os where os: "v_iter stations = Inr os" "unique_loop (\<lambda>ob. v_get ob ''Name'') [] os = Inr (vals, dup)"
    by (auto simp: get_unique_dict_attr_values_def bindR_Inr_iff split: if_splits)
  from unique_loop_values [OF os(2) v] os(1) v_index_get [OF s(1)] show ?thesis
    by (auto simp: declared_in_def list_ex_iff)
qed

interpretation wl: data_consistency_checks wl_check_bulk_consistency wl_check_bulk_consistency_on_post_bulk
  "declared_in ''Curves'' ''CurveID''"
proof (unfold_locales, goal_cases)
  case (1 r b so df)
  then show ?case by (simp add: wl_check_bulk_consistency_def wl_check_bulk_consistency_on_post_bulk_def)
next
  case (2 r so df)
  then show ?case by (auto simp: wl_check_bulk_consistency_on_post_bulk_def bindR_Inr_iff)
next
  case (3 r b c)
  then have "wl_check_columns_consistency (rec_data r) (bi_curves b) = Inr ()"
    by (auto simp: wl_check_bulk_consistency_def bindR_Inr_iff)
  then show ?case using 3(3,4) by (rule wl_columns_declared)
qed

interpretation trj: data_consistency_checks trj_check_bulk_consistency trj_check_bulk_consistency_on_post_bulk
  "declared_in stations_key ''Name''"
proof (unfold_locales, goal_cases)
  case (1 r b so df)
  then show ?case by (simp add: trj_check_bulk_consistency_def trj_check_bulk_consistency_on_post_bulk_def)
next
  case (2 r so df)
  then show ?case by (auto simp: trj_check_bulk_consistency_on_post_bulk_def bindR_Inr_iff)
next
  case (3 r b c)
  then have "trj_check_columns_consistency (rec_data r) (bi_curves b) = Inr ()"
    by (auto simp: trj_check_bulk_consistency_def bindR_Inr_iff)
  then show ?case using 3(3,4) by (rule trj_columns_declared)
qed

interpretation ppfg: data_consistency_checks ppfg_check_bulk_consistency ppfg_check_bulk_consistency_on_post_bulk
  "declared_in ''Curves'' ''CurveID''"
proof (unfold_locales, goal_cases)
  case (1 r b so df)
  then show ?case by (simp add: ppfg_check_bulk_consistency_def ppfg_check_bulk_consistency_on_post_bulk_def)
next
  case (2 r so df)
  then show ?case by (auto simp: ppfg_check_bulk_consistency_on_post_bulk_def bindR_Inr_iff)
next
  case (3 r b c)
  then have "ppfg_check_columns_consistency (rec_data r) (bi_curves b) = Inr ()"
    by (auto simp: ppfg_check_bulk_consistency_def bindR_Inr_iff)
  then show ?case using 3(3,4) by (rule ppfg_columns_declared)
qed

interpretation wpt: data_consistency_checks wpt_check_bulk_consistency wpt_check_bulk_consistency_on_post_bulk
  "declared_in ''Curves'' ''CurveID''"
proof (unfold_locales, goal_cases)
  case (1 r b so df)
  then show ?case by (simp add: wpt_check_bulk_consistency_def wpt_check_bulk_consistency_on_post_bulk_def)
next
  case (2 r so df)
  then show ?case by (auto simp: wpt_check_bulk_consistency_on_post_bulk_def bindR_Inr_iff)
next
  case (3 r b c)
  then have "wpt_check_columns_consistency (rec_data r) (bi_curves b) = Inr ()"
    by (auto simp: wpt_check_bulk_consistency_def bindR_Inr_iff)
  then show ?case using 3(3,4) by (rule wpt_columns_declared)
qed

interpretation no_checks: data_consistency_checks no_check_bulk_consistency
  no_check_bulk_consistency_on_post_bulk "\<lambda>_ _. True"
  by unfold_locales (simp_all add: no_check_bulk_consistency_def no_check_bulk_consistency_on_post_bulk_def)

section \<open>Unique identifiers\<close>

definition str_attr :: "string \<Rightarrow> (string \<times> pyval) list \<Rightarrow> string option" where
  \<comment> \<open>the non-empty string value of an attribute\<close>
  "str_attr attr d = (case map_of d attr of Some (PStr s) \<Rightarrow> if s = [] then None else Some s | _ \<Rightarrow> None)"

definition str_attr_ok :: "string \<Rightarrow> (string \<times> pyval) list \<Rightarrow> bool" where
  \<comment> \<open>the attribute is missing, null or a string\<close>
  "str_attr_ok attr d \<longleftrightarrow> (case map_of d attr of None \<Rightarrow> True | Some PNone \<Rightarrow> True | Some (PStr _) \<Rightarrow> True | _ \<Rightarrow> False)"

definition attr_ids :: "string \<Rightarrow> (string \<times> pyval) list list \<Rightarrow> string list" where
  "attr_ids attr ds = List.map_filter (str_attr attr) ds"

lemma unique_loop_strings:
  assumes "list_all (str_attr_ok attr) ds" and "distinct vs"
  shows "\<exists>vals. unique_loop (\<lambda>ob. v_get ob attr) (map PStr vs) (map PDict ds) =
           Inr (map PStr vals, \<not> distinct (vs @ attr_ids attr ds))
         \<and> (distinct (vs @ attr_ids attr ds) \<longrightarrow> vals = vs @ attr_ids attr ds)"
  using assms
proof (induction ds arbitrary: vs)
  case Nil
  then show ?case by (simp add: attr_ids_def List.map_filter_def)
next
  case (Cons d ds)
  have vin: "v_in (PStr s) (map PStr vs) \<longleftrightarrow> s \<in> set vs" for s
    by (auto simp: v_in_def list_ex_iff)
  show ?case
  proof (cases "str_attr attr d")
    case None
    with Cons.prems have "\<exists>v. v_get (PDict d) attr = Inr v \<and> \<not> truthy v"
      by (auto simp: str_attr_def str_attr_ok_def split: option.splits pyval.splits if_splits)
    moreover have "attr_ids attr (d # ds) = attr_ids attr ds"
      using None by (simp add: attr_ids_def List.map_filter_def)
    ultimately show ?thesis using Cons.IH [of vs] Cons.prems by auto
  next
    case (Some s)
    then have g: "v_get (PDict d) attr = Inr (PStr s)" "s \<noteq> []"
      by (auto simp: str_attr_def split: option.splits pyval.splits if_splits)
    have ids: "attr_ids attr (d # ds) = s # attr_ids attr ds"
      using Some by (simp add: attr_ids_def List.map_filter_def)
    show ?thesis
    proof (cases "s \<in> set vs")
      case True
      with g ids vin show ?thesis by auto
    next
      case False
      with Cons.prems Cons.IH [of "vs @ [s]"] g ids vin show ?thesis by (auto simp del: v_access_simps)
    qed
  qed
qed

lemma unique_dict_strings:
  assumes "list_all (str_attr_ok attr) ds"
  shows "\<exists>vals. get_unique_dict_attr_values (PList (map PDict ds)) attr = Inr (map PStr vals, \<not> distinct (attr_ids attr ds))
     \<and> (distinct (attr_ids attr ds) \<longrightarrow> vals = attr_ids attr ds)"
  using unique_loop_strings [OF assms, of "[]"]
  by (auto simp: get_unique_dict_attr_values_def attr_ids_def List.map_filter_def)

text \<open>C25: The metadata check of a well log: for a list of curves whose identifiers are strings (or
  missing), a well log passes if and only if the identifiers are pairwise different and the reference
  curve, when it is given, is one of them; a repeated identifier is reported before a missing
  reference.\<close>

theorem welllog_metadata_check:
  assumes "rec_data r = PDict d" and "map_of d ''Curves'' = Some (PList (map PDict ds))"
    and "list_all (str_attr_ok ''CurveID'') ds" and "str_attr_ok ''ReferenceCurveID'' d"
  shows "check_welllog_consistency r =
    (if \<not> distinct (attr_ids ''CurveID'' ds) then Inl (consistency WL_DuplicatedCurveIdException)
     else case str_attr ''ReferenceCurveID'' d of
         Some ref \<Rightarrow> if ref \<in> set (attr_ids ''CurveID'' ds) then Inr ()
                    else Inl (consistency WL_ReferenceCurveIdNotFoundException)
       | None \<Rightarrow> Inr ())"
proof -
  let ?ids = "attr_ids ''CurveID'' ds"
  from unique_dict_strings [OF assms(3)] obtain vals where
    u: "get_unique_dict_attr_values (PList (map PDict ds)) ''CurveID'' = Inr (map PStr vals, \<not> distinct ?ids)"
      "distinct ?ids \<longrightarrow> vals = ?ids" by blast
  have nil: "get_unique_dict_attr_values (PDict []) ''CurveID'' = Inr ([], False)"
    "ds = [] \<Longrightarrow> ?ids = []"
    by (simp_all add: get_unique_dict_attr_values_def attr_ids_def List.map_filter_def)
  have vin: "v_in (PStr s) (map PStr vs) \<longleftrightarrow> s \<in> set vs" for s vs
    by (auto simp: v_in_def list_ex_iff)
  have dne: "d \<noteq> []" using assms(2) by auto
  have ref: "(case map_of d ''ReferenceCurveID'' of None \<Rightarrow> PNone | Some w \<Rightarrow> w) =
      (case str_attr ''ReferenceCurveID'' d of Some s \<Rightarrow> PStr s
       | None \<Rightarrow> if map_of d ''ReferenceCurveID'' = Some (PStr []) then PStr [] else PNone)"
    using assms(4) by (auto simp: str_attr_def str_attr_ok_def split: option.splits pyval.splits)
  have neq: "str_attr ''ReferenceCurveID'' d = Some s \<Longrightarrow> s \<noteq> []" for s
    by (auto simp: str_attr_def split: option.splits pyval.splits if_splits)
  show ?thesis
    using assms(1,2) u nil dne
    by (cases "ds = []"; cases "str_attr ''ReferenceCurveID'' d")
      (auto simp: check_welllog_consistency_def ref vin v_in_def [of _ "[]"] dest: neq)
qed

text \<open>C24: A bulk that is posted for a record with data and passes the checks has only declared columns: for each kind
  of record with bulk data (well log, trajectory, pore pressure dataset, pressure test), if the record has data and the
  check of the posted frame passes, then every curve with a name that the column labels of the frame form is declared in
  the metadata of the record, as the identifier of a curve or as the name of a station property.  For a record
  without data all four checks pass, whatever the columns of the frame are.\<close>

theorem posted_columns_declared:
  assumes "c \<noteq> []" and "c \<in> set (map fst (get_curve_name_and_column_count (map fst (df_columns df))))"
  shows "if truthy (rec_data r)
    then (wl_check_bulk_consistency_on_post_bulk so r df = Inr () \<longrightarrow> declared_in ''Curves'' ''CurveID'' r c)
      \<and> (trj_check_bulk_consistency_on_post_bulk so r df = Inr () \<longrightarrow> declared_in stations_key ''Name'' r c)
      \<and> (ppfg_check_bulk_consistency_on_post_bulk so r df = Inr () \<longrightarrow> declared_in ''Curves'' ''CurveID'' r c)
      \<and> (wpt_check_bulk_consistency_on_post_bulk so r df = Inr () \<longrightarrow> declared_in ''Curves'' ''CurveID'' r c)
    else wl_check_bulk_consistency_on_post_bulk so r df = Inr () \<and> trj_check_bulk_consistency_on_post_bulk so r df = Inr ()
      \<and> ppfg_check_bulk_consistency_on_post_bulk so r df = Inr () \<and> wpt_check_bulk_consistency_on_post_bulk so r df = Inr ()"
proof (cases "truthy (rec_data r)")
  case True
  then show ?thesis
    using wl.post_declared [OF True _ assms(2,1)] trj.post_declared [OF True _ assms(2,1)]
      ppfg.post_declared [OF True _ assms(2,1)] wpt.post_declared [OF True _ assms(2,1)] by simp
next
  case False
  then show ?thesis using wl.no_data trj.no_data ppfg.no_data wpt.no_data by simp
qed

text \<open>A bulk with any columns passes the checks of a record without data.\<close>

lemma undeclared_without_data:
  assumes "\<not> truthy (rec_data r)"
  shows "wl_check_bulk_consistency_on_post_bulk so r df = Inr () \<and> \<not> declared_in ''Curves'' ''CurveID'' r c"
  using assms wl.no_data
  by (cases "rec_data r") (auto simp: declared_in_def truthy_def v_get_def v_get_default_def v_iter_def)

section \<open>The reference curve\<close>

definition f_lt :: "pyfloat \<Rightarrow> pyfloat \<Rightarrow> bool" where
  "f_lt a b \<longleftrightarrow> f_le a b \<and> \<not> f_eq a b"

definition numbers :: "pyval list \<Rightarrow> pyfloat list option" where
  "numbers xs = (if list_all (\<lambda>v. as_num v \<noteq> None) xs then Some (map (the \<circ> as_num) xs) else None)"

text \<open>The documented behaviour of pandas on a column of numbers.\<close>

definition series_law :: "series_ops \<Rightarrow> bool" where
  "series_law so \<longleftrightarrow> (\<forall>xs ns. numbers xs = Some ns \<longrightarrow>
     so_increasing so xs = (FNaN \<notin> set ns \<and> sorted_wrt f_le ns)
     \<and> so_decreasing so xs = (FNaN \<notin> set ns \<and> sorted_wrt (\<lambda>a b. f_le b a) ns)
     \<and> so_unique so xs = distinct ns \<and> so_hasnans so xs = (FNaN \<in> set ns))"

lemma sorted_strict:
  assumes "sorted_wrt P ns" and "distinct ns"
  shows "sorted_wrt (\<lambda>a b. P a b \<and> a \<noteq> b) ns"
  using assms by (induction ns) auto

lemma strictly_monotonic_column:
  assumes "series_law so" and "numbers series = Some ns"
    and "check_reference_is_strictly_monotonic (make_ColumnDescribe name vs
           (if so_increasing so series then Some Increasing
            else if so_decreasing so series then Some Decreasing else None)
           (\<not> so_unique so series) nan) = Inr ()"
  shows "FNaN \<notin> set ns \<and> (sorted_wrt f_lt ns \<or> sorted_wrt (\<lambda>a b. f_lt b a) ns)"
proof -
  have lt: "f_le a b \<and> a \<noteq> b \<Longrightarrow> f_lt a b" "f_le b a \<and> a \<noteq> b \<Longrightarrow> f_lt b a" for a b
    by (auto simp: f_lt_def f_eq_def)
  from assms(3) have u: "so_unique so series" and m: "so_increasing so series \<or> so_decreasing so series"
    by (auto simp: check_reference_is_strictly_monotonic_def make_ColumnDescribe_def
        is_monotonic_increasing_def is_monotonic_decreasing_def split: if_splits)
  from assms(1,2) u m have "distinct ns" "FNaN \<notin> set ns" "sorted_wrt f_le ns \<or> sorted_wrt (\<lambda>a b. f_le b a) ns"
    unfolding series_law_def by blast+
  moreover have "sorted_wrt f_lt ns" if "sorted_wrt f_le ns"
    using sorted_strict [OF that \<open>distinct ns\<close>] by (rule sorted_wrt_mono_rel [rotated]) (rule lt)
  moreover have "sorted_wrt (\<lambda>a b. f_lt b a) ns" if "sorted_wrt (\<lambda>a b. f_le b a) ns"
    using sorted_strict [OF that \<open>distinct ns\<close>] by (rule sorted_wrt_mono_rel [rotated]) (rule lt)
  ultimately show ?thesis by blast
qed

lemma curve_count_loop_keys:
  "fst ` set (curve_count_loop d cs) =
     fst ` set d \<union> {n. \<exists>c\<in>set cs. match_name c = Some n} \<union> {c \<in> set cs. match_name c = None \<and> c \<noteq> []}"
proof (induction cs arbitrary: d)
  case (Cons c cs)
  then show ?case by (auto simp: dom_update split: option.splits)
qed simp

lemma from_column_known:
  assumes "map_of (df_columns df) ref = Some series" and "ref \<noteq> []" and "df_index df \<noteq> []"
    and "ref \<noteq> WDMS_INDEX_NAME"
  shows "from_column so df (Some ref) = make_ColumnDescribe ref [hd series, last series]
     (if so_increasing so series then Some Increasing
      else if so_decreasing so series then Some Decreasing else None)
     (\<not> so_unique so series) (so_hasnans so series)"
proof -
  have "ref \<in> set (map fst (df_columns df))" "df_columns df \<noteq> []"
    using assms(1) by (auto dest: map_of_SomeD simp: image_iff intro: rev_bexI)
  with assms show ?thesis
    by (simp add: from_column_def df_empty_def Let_def)
qed

lemma value_close:
  assumes "raise_if_dict_value_is_different (PDict d) attr v = Inr ()" and "map_of d attr = Some x" and "x \<noteq> PNone"
  shows "\<exists>a b. py_float x = Inr a \<and> py_float v = Inr b \<and> isclose a b"
  using assms by (auto simp: raise_if_dict_value_is_different_def bindR_Inr_iff split: if_splits)

text \<open>C23: A posted well log whose reference curve is a measured depth has a strictly monotonic reference:
  when the check of the posted frame passes, the values of the reference column contain no missing value
  and are strictly increasing or strictly decreasing, and \<open>SamplingStart\<close> and \<open>SamplingStop\<close>, when given,
  are close to its first and last value.  The monotonicity flags that the frame library computes are not
  strict; the check makes them so.\<close>

theorem welllog_reference_monotonic:
  assumes "series_law so" and "rec_data r = PDict d" and "rec_id r = Some rid"
    and "wl_check_bulk_consistency_on_post_bulk so r df = Inr ()"
    and "map_of d ''ReferenceCurveID'' = Some (PStr ref)" and "ref \<noteq> []" and "ref \<noteq> WDMS_INDEX_NAME"
    and "match_name ref = None" and "map_of (df_columns df) ref = Some series" and "df_index df \<noteq> []"
    and "is_curve_reference_family_measured_depth (PDict d) (hd (split_char (CHR '':'') rid)) = Inr True"
    and "numbers series = Some ns"
  shows "FNaN \<notin> set ns \<and> (sorted_wrt f_lt ns \<or> sorted_wrt (\<lambda>a b. f_lt b a) ns)
    \<and> (\<forall>x. map_of d ''SamplingStart'' = Some x \<longrightarrow> x \<noteq> PNone \<longrightarrow>
         (\<exists>a b. py_float x = Inr a \<and> py_float (hd series) = Inr b \<and> isclose a b))
    \<and> (\<forall>x. map_of d ''SamplingStop'' = Some x \<longrightarrow> x \<noteq> PNone \<longrightarrow>
         (\<exists>a b. py_float x = Inr a \<and> py_float (last series) = Inr b \<and> isclose a b))"
proof -
  have ref: "ref \<in> set (map fst (df_columns df))"
    using assms(9) by (metis map_of_eq_None_iff option.distinct(1) set_map)
  have known: "known_reference df (PStr ref) = Inr (Some ref)"
    using ref assms(6) by (simp add: known_reference_def)
  have data: "truthy (rec_data r)" using assms(2,5) by auto
  note cd = from_column_known [OF assms(9,6,10,7), of so]
  let ?b = "post_bulk_info so df (Some ref)"
  have "ref \<in> fst ` set (bi_curves ?b)"
    using ref assms(6,8)
    by (simp add: post_bulk_info_def get_curve_name_and_column_count_def curve_count_loop_keys)
  then have "PStr ref \<in> PStr ` set (map fst (bi_curves ?b))" by simp
  moreover have "cd_name (from_column so df (Some ref)) = ref" by (simp add: cd make_ColumnDescribe_def)
  moreover have "wl_check_bulk_consistency r ?b = Inr ()"
    using assms(2,4,5) data known by (simp add: wl_check_bulk_consistency_on_post_bulk_def)
  ultimately have chk: "wl_check_reference r (from_column so df (Some ref)) = Inr ()"
    using assms(2,3,5,11) data
    by (auto simp: wl_check_bulk_consistency_def bindR_Inr_iff get_data_partition_of_record_def
        post_bulk_info_def)
  then have "check_reference_is_strictly_monotonic (from_column so df (Some ref)) = Inr ()"
    and vals: "raise_if_dict_value_is_different (PDict d) ''SamplingStart'' (hd series) = Inr ()"
      "raise_if_dict_value_is_different (PDict d) ''SamplingStop'' (last series) = Inr ()"
    using assms(2) by (auto simp: wl_check_reference_def bindR_Inr_iff cd make_ColumnDescribe_def)
  from this(1) have "FNaN \<notin> set ns \<and> (sorted_wrt f_lt ns \<or> sorted_wrt (\<lambda>a b. f_lt b a) ns)"
    unfolding cd by (rule strictly_monotonic_column [OF assms(1,12)])
  with vals value_close show ?thesis by blast
qed

text \<open>A record without curves cannot take an empty bulk: when the metadata has no list of curves and
  the bulk has no columns, the column checks of well logs, pore pressure datasets and pressure tests
  iterate over the missing value and raise a type error instead of passing or reporting a consistency
  error.\<close>

theorem empty_bulk_without_curves:
  assumes "map_of d ''Curves'' = None"
  shows "wl_check_columns_consistency (PDict d) [] = Inl TypeError
    \<and> ppfg_check_columns_consistency (PDict d) [] = Inl TypeError
    \<and> wpt_check_columns_consistency (PDict d) [] = Inl TypeError"
  using assms
  by (simp add: wl_check_columns_consistency_def ppfg_check_columns_consistency_def
      wpt_check_columns_consistency_def v_iter_def)

section \<open>Witnesses\<close>

definition test_series :: series_ops where
  "test_series = \<lparr>
     so_increasing = (\<lambda>xs. case numbers xs of Some ns \<Rightarrow> FNaN \<notin> set ns \<and> sorted_wrt f_le ns | None \<Rightarrow> False),
     so_decreasing = (\<lambda>xs. case numbers xs of Some ns \<Rightarrow> FNaN \<notin> set ns \<and> sorted_wrt (\<lambda>a b. f_le b a) ns | None \<Rightarrow> False),
     so_unique = (\<lambda>xs. case numbers xs of Some ns \<Rightarrow> distinct ns | None \<Rightarrow> False),
     so_hasnans = (\<lambda>xs. case numbers xs of Some ns \<Rightarrow> FNaN \<in> set ns | None \<Rightarrow> False)\<rparr>"

lemma test_series_law: "series_law test_series"
  by (simp add: series_law_def test_series_def)

definition md_curve :: "(string \<times> pyval) list" where
  "md_curve = [(''CurveID'', PStr ''MD''),
     (''LogCurveFamilyID'', PStr ''a:reference-data--LogCurveFamily:Measured%20Depth:'')]"

definition gr_curve :: "(string \<times> pyval) list" where
  "gr_curve = [(''CurveID'', PStr ''GR'')]"

definition test_data :: "(string \<times> pyval) list" where
  "test_data = [(''Curves'', PList (map PDict [md_curve, gr_curve])), (''ReferenceCurveID'', PStr ''MD''),
     (''SamplingStart'', PInt 1)]"

definition test_record :: Record where
  "test_record = \<lparr>rec_id = Some ''a:work-product-component--WellLog:1'', rec_kind = ''osdu:wks:work-product-component--WellLog:1.0.0'',
     rec_version = None, rec_data = PDict test_data, rec_rest = PNone\<rparr>"

definition test_frame :: DataFrame where
  "test_frame = \<lparr>df_columns = [(''MD'', [PInt 1, PInt 2]), (''GR'', [PInt 5, PInt 5])], df_index = [PInt 0, PInt 1]\<rparr>"

lemma test_frame_curves:
  "get_curve_name_and_column_count (map fst (df_columns test_frame)) = [(''MD'', 1), (''GR'', 1)]"
  "match_name ''MD'' = None"
  by code_simp+

lemma test_numbers: "numbers [PInt 1, PInt 2] = Some [FFin 1, FFin 2]"
  by (simp add: numbers_def as_num_def)

lemma to_double_1: "to_double 1 = FFin 1"
  by code_simp

lemma test_post_ok: "wl_check_bulk_consistency_on_post_bulk test_series test_record test_frame = Inr ()"
proof -
  have k: "known_reference test_frame (PStr ''MD'') = Inr (Some ''MD'')"
    by (simp add: known_reference_def test_frame_def)
  have c: "from_column test_series test_frame (Some ''MD'') =
      make_ColumnDescribe ''MD'' [PInt 1, PInt 2] (Some Increasing) False False"
    by (simp add: from_column_def test_frame_def df_empty_def test_series_def test_numbers f_le_def Let_def
        WDMS_INDEX_NAME_def)
  have b: "post_bulk_info test_series test_frame (Some ''MD'') = \<lparr>bi_rowCount = 2,
      bi_curves = [(''MD'', 1), (''GR'', 1)],
      bi_reference = Some (make_ColumnDescribe ''MD'' [PInt 1, PInt 2] (Some Increasing) False False)\<rparr>"
    unfolding post_bulk_info_def test_frame_curves by (simp add: c) (simp add: test_frame_def)
  have cols: "wl_check_columns_consistency (PDict test_data) [(''MD'', 1), (''GR'', 1)] = Inr ()"
    by code_simp
  have fam: "is_curve_reference_family_measured_depth (PDict test_data) ''a'' = Inr True"
    by code_simp
  have ref: "wl_check_reference test_record (make_ColumnDescribe ''MD'' [PInt 1, PInt 2] (Some Increasing) False False) = Inr ()"
    using to_double_1 isclose_refl [of "FFin 1"]
    by (simp add: wl_check_reference_def check_reference_is_strictly_monotonic_def make_ColumnDescribe_def
        is_monotonic_increasing_def raise_if_dict_value_is_different_def test_record_def test_data_def py_float_def)
  have part: "get_data_partition_of_record test_record = Inr ''a''" by code_simp
  have d: "rec_data test_record = PDict test_data" "map_of test_data ''ReferenceCurveID'' = Some (PStr ''MD'')" "test_data \<noteq> []"
    by (simp_all add: test_record_def test_data_def)
  show ?thesis
    by (simp add: wl_check_bulk_consistency_on_post_bulk_def wl_check_bulk_consistency_def d k b cols fam part ref)
qed

theorem welllog_metadata_check_witness: "check_welllog_consistency test_record = Inr ()"
proof -
  have "rec_data test_record = PDict test_data"
    "map_of test_data ''Curves'' = Some (PList (map PDict [md_curve, gr_curve]))"
    "list_all (str_attr_ok ''CurveID'') [md_curve, gr_curve]" "str_attr_ok ''ReferenceCurveID'' test_data"
    by (simp_all add: test_record_def test_data_def str_attr_ok_def md_curve_def gr_curve_def)
  from welllog_metadata_check [OF this] show ?thesis
    by (simp add: attr_ids_def List.map_filter_def str_attr_def md_curve_def gr_curve_def test_data_def)
qed

theorem posted_columns_declared_witness: "declared_in ''Curves'' ''CurveID'' test_record ''GR''"
proof -
  have "truthy (rec_data test_record)" by (simp add: test_record_def test_data_def)
  moreover have "''GR'' \<in> set (map fst (get_curve_name_and_column_count (map fst (df_columns test_frame))))"
    unfolding test_frame_curves by simp
  ultimately show ?thesis
    using posted_columns_declared [of "''GR''" test_frame test_record test_series] test_post_ok by simp
qed

theorem welllog_reference_monotonic_witness:
  "\<exists>a b. py_float (PInt 1) = Inr a \<and> py_float (hd [PInt 1, PInt 2]) = Inr b \<and> isclose a b"
proof -
  have d: "rec_data test_record = PDict test_data" "rec_id test_record = Some ''a:work-product-component--WellLog:1''"
    "map_of test_data ''ReferenceCurveID'' = Some (PStr ''MD'')" "map_of test_data ''SamplingStart'' = Some (PInt 1)"
    by (simp_all add: test_record_def test_data_def)
  have f: "map_of (df_columns test_frame) ''MD'' = Some [PInt 1, PInt 2]" "df_index test_frame \<noteq> []"
    by (simp_all add: test_frame_def)
  have fam: "is_curve_reference_family_measured_depth (PDict test_data)
      (hd (split_char (CHR '':'') ''a:work-product-component--WellLog:1'')) = Inr True"
    by code_simp
  have w: "''MD'' \<noteq> WDMS_INDEX_NAME" by (simp add: WDMS_INDEX_NAME_def)
  from welllog_reference_monotonic [OF test_series_law d(1,2) test_post_ok d(3) _ w test_frame_curves(2)
      f fam test_numbers] d(4)
  show ?thesis by blast
qed

theorem empty_bulk_without_curves_witness: "wl_check_columns_consistency (PDict [(''a'', PInt 1)]) [] = Inl TypeError"
  using empty_bulk_without_curves [of "[(''a'', PInt 1)]"] by simp

end
