(* ===== verification/Ddms_Routes.thy ===== *)
theory Ddms_Routes
  imports Ddms_Utils Consistency
begin

text \<open>
  The record routes of \<open>app/routers/ddms_v3\<close>: wells, wellbores, well logs, trajectories, marker sets,
  interval sets, well log acquisitions, and the generic routes that serve the other kinds by
  configuration.  A handler is given what its dependencies provide as an environment, and the path and
  body parameters; a path parameter that does not match its pattern is refused before the handler runs.
\<close>

section \<open>The environment of a route\<close>

record ('w, 'c) router_env =
  re_client :: "'w storage_client"
  re_partition :: "string option"
  re_validate :: "Record list \<Rightarrow> (exn, 'w, unit) prog"
    \<comment> \<open>\<open>schema_library.validate_records\<close> in the context of the request\<close>
  re_state :: request_state
  re_get_uri :: "Record \<Rightarrow> BulkURI res"
  re_resolve_tenant :: "(exn, 'w, string) prog"
  re_blob :: "('w, 'c) blob_storage"
  re_sha1 :: "string \<Rightarrow> string"

definition with_path_id :: "(string \<Rightarrow> bool) \<Rightarrow> string \<Rightarrow> (string \<Rightarrow> (exn, 'w, 'a) prog) \<Rightarrow> (exn, 'w, 'a) prog" where
  \<comment> \<open>a validated path parameter whose version is dropped\<close>
  "with_path_id id_ok record_id k =
     (if \<not> id_ok record_id then raiseM (HTTPException 422)
      else bindM (liftM (split_record_id_version record_id)) (\<lambda>(i, _). k (str_or_None i)))"

definition check_kind :: "('w, 'c) router_env \<Rightarrow> Record \<Rightarrow> (exn, 'w, unit) prog" where
  "check_kind env r = liftM (raise_if_not_osdu_right_entity_kind r (re_state env) 400)"

definition validated :: "('w, 'c) router_env \<Rightarrow> Record \<Rightarrow> (exn, 'w, Record) prog" where
  "validated env r = bindM (re_validate env [r]) (\<lambda>_. returnM r)"

definition latest_record :: "('w, 'c) router_env \<Rightarrow> string \<Rightarrow> (exn, 'w, Record) prog" where
  "latest_record env i = sc_get_record (re_client env) i (re_partition env) None"

definition record_version :: "('w, 'c) router_env \<Rightarrow> string \<Rightarrow> int \<Rightarrow> (exn, 'w, Record) prog" where
  "record_version env i version = sc_get_record_version (re_client env) i (Some version) (re_partition env) None"

definition all_versions :: "('w, 'c) router_env \<Rightarrow> string \<Rightarrow> (exn, 'w, int list) prog" where
  "all_versions env i = sc_get_all_record_versions (re_client env) i (re_partition env)"

definition delete_with_bulk :: "('w, 'c) router_env \<Rightarrow> string \<Rightarrow> bool \<Rightarrow> (exn, 'w, unit) prog" where
  "delete_with_bulk env i purge =
     delete_record (re_client env) (re_partition env) (re_get_uri env) (re_resolve_tenant env) (re_blob env)
       (re_sha1 env) i purge"

definition store_records ::
    "('w, 'c) router_env \<Rightarrow> Record list \<Rightarrow> (exn, 'w, CreateUpdateRecordsResponse) prog" where
  "store_records env rs = sc_create_or_update_records (re_client env) rs (re_partition env)"

definition check_kinds :: "('w, 'c) router_env \<Rightarrow> Record list \<Rightarrow> (exn, 'w, unit) prog" where
  "check_kinds env rs = liftM (raise_if_not_osdu_right_entities_kind rs (re_state env))"

definition check_bulk_uris :: "('w, 'c) router_env \<Rightarrow> Record list \<Rightarrow> (exn, 'w, unit) prog" where
  "check_bulk_uris env rs = raise_if_invalid_bulk_uri (re_client env) (re_partition env) (re_get_uri env) rs"

definition check_each :: "(Record \<Rightarrow> unit res) \<Rightarrow> Record list \<Rightarrow> (exn, 'w, unit) prog" where
  "check_each f rs = liftM (bindR (mapR f rs) (\<lambda>_. Inr ()))"

section \<open>Wells (well_ddms_v3.py)\<close>

definition get_well_osdu :: "('w, 'c) router_env \<Rightarrow> string \<Rightarrow> (exn, 'w, Record) prog" where
  "get_well_osdu env record_id = with_path_id WellId record_id (\<lambda>i.
     bindM (latest_record env i) (\<lambda>r. validated env r))"

definition del_osdu_well :: "('w, 'c) router_env \<Rightarrow> string \<Rightarrow> (exn, 'w, unit) prog" where
  "del_osdu_well env record_id = with_path_id WellId record_id (\<lambda>i.
     sc_delete_record (re_client env) i (re_partition env))"

definition get_osdu_well_versions :: "('w, 'c) router_env \<Rightarrow> string \<Rightarrow> (exn, 'w, int list) prog" where
  "get_osdu_well_versions env record_id = with_path_id WellId record_id (\<lambda>i.
     bindM (fetch_record (re_client env) (re_partition env) i None None) (\<lambda>r.
     bindM (check_kind env r) (\<lambda>_. all_versions env i)))"

definition get_osdu_well_version :: "('w, 'c) router_env \<Rightarrow> string \<Rightarrow> int \<Rightarrow> (exn, 'w, Record) prog" where
  "get_osdu_well_version env record_id version = with_path_id WellId record_id (\<lambda>i.
     bindM (record_version env i version) (\<lambda>r.
     bindM (check_kind env r) (\<lambda>_. validated env r)))"

definition post_well_osdu ::
    "('w, 'c) router_env \<Rightarrow> Record list \<Rightarrow> (exn, 'w, CreateUpdateRecordsResponse) prog" where
  "post_well_osdu env wells =
     bindM (re_validate env wells) (\<lambda>_.
     bindM (check_kinds env wells) (\<lambda>_. store_records env wells))"

section \<open>Wellbores (wellbore_ddms_v3.py)\<close>

definition get_wellbore_osdu :: "('w, 'c) router_env \<Rightarrow> string \<Rightarrow> (exn, 'w, Record) prog" where
  "get_wellbore_osdu env record_id = with_path_id WellboreId record_id (\<lambda>i.
     bindM (latest_record env i) (\<lambda>r. validated env r))"

definition del_osdu_wellbore :: "('w, 'c) router_env \<Rightarrow> string \<Rightarrow> (exn, 'w, unit) prog" where
  "del_osdu_wellbore env record_id = with_path_id WellboreId record_id (\<lambda>i.
     sc_delete_record (re_client env) i (re_partition env))"

definition get_osdu_wellbore_versions :: "('w, 'c) router_env \<Rightarrow> string \<Rightarrow> (exn, 'w, int list) prog" where
  "get_osdu_wellbore_versions env record_id = with_path_id WellboreId record_id (\<lambda>i.
     bindM (fetch_record (re_client env) (re_partition env) i None None) (\<lambda>r.
     bindM (check_kind env r) (\<lambda>_. all_versions env i)))"

definition get_osdu_wellbore_version :: "('w, 'c) router_env \<Rightarrow> string \<Rightarrow> int \<Rightarrow> (exn, 'w, Record) prog" where
  "get_osdu_wellbore_version env record_id version = with_path_id WellboreId record_id (\<lambda>i.
     bindM (record_version env i version) (\<lambda>r.
     bindM (check_kind env r) (\<lambda>_. validated env r)))"

definition post_wellbore_osdu ::
    "('w, 'c) router_env \<Rightarrow> Record list \<Rightarrow> (exn, 'w, CreateUpdateRecordsResponse) prog" where
  "post_wellbore_osdu env wellbores =
     bindM (re_validate env wellbores) (\<lambda>_.
     bindM (check_kinds env wellbores) (\<lambda>_. store_records env wellbores))"

section \<open>Marker sets (markerset_ddms_v3.py)\<close>

definition get_wellbore_markerset_osdu :: "('w, 'c) router_env \<Rightarrow> string \<Rightarrow> (exn, 'w, Record) prog" where
  "get_wellbore_markerset_osdu env record_id = with_path_id WellboreMarkerSetId record_id (\<lambda>i.
     bindM (latest_record env i) (\<lambda>r. bindM (check_kind env r) (\<lambda>_. validated env r)))"

definition del_osdu_wellboremarkerset :: "('w, 'c) router_env \<Rightarrow> string \<Rightarrow> (exn, 'w, unit) prog" where
  "del_osdu_wellboremarkerset env record_id = with_path_id WellboreMarkerSetId record_id (\<lambda>i.
     sc_delete_record (re_client env) i (re_partition env))"

definition get_osdu_wellboremarkerset_versions :: "('w, 'c) router_env \<Rightarrow> string \<Rightarrow> (exn, 'w, int list) prog" where
  "get_osdu_wellboremarkerset_versions env record_id = with_path_id WellboreMarkerSetId record_id (\<lambda>i.
     bindM (fetch_record (re_client env) (re_partition env) i None None) (\<lambda>r.
     bindM (check_kind env r) (\<lambda>_. all_versions env i)))"

definition get_osdu_wellboremarkerset_version :: "('w, 'c) router_env \<Rightarrow> string \<Rightarrow> int \<Rightarrow> (exn, 'w, Record) prog" where
  "get_osdu_wellboremarkerset_version env record_id version = with_path_id WellboreMarkerSetId record_id (\<lambda>i.
     bindM (record_version env i version) (\<lambda>r.
     bindM (check_kind env r) (\<lambda>_. validated env r)))"

definition post_wellboremarkerset_osdu ::
    "('w, 'c) router_env \<Rightarrow> Record list \<Rightarrow> (exn, 'w, CreateUpdateRecordsResponse) prog" where
  "post_wellboremarkerset_osdu env wellboremarkersets =
     bindM (re_validate env wellboremarkersets) (\<lambda>_.
     bindM (check_kinds env wellboremarkersets) (\<lambda>_. store_records env wellboremarkersets))"

section \<open>Interval sets (wellbore_interval_set_ddms_v3.py)\<close>

definition get_wellboreintervalsetid_osdu :: "('w, 'c) router_env \<Rightarrow> string \<Rightarrow> (exn, 'w, Record) prog" where
  "get_wellboreintervalsetid_osdu env record_id = with_path_id WellboreIntervalSetId record_id (\<lambda>i.
     bindM (latest_record env i) (\<lambda>r. validated env r))"

definition del_osdu_wellboreintervalsetid :: "('w, 'c) router_env \<Rightarrow> string \<Rightarrow> (exn, 'w, unit) prog" where
  "del_osdu_wellboreintervalsetid env record_id = with_path_id WellboreIntervalSetId record_id (\<lambda>i.
     sc_delete_record (re_client env) i (re_partition env))"

definition get_osdu_wellboreintervalsetid_versions :: "('w, 'c) router_env \<Rightarrow> string \<Rightarrow> (exn, 'w, int list) prog" where
  "get_osdu_wellboreintervalsetid_versions env record_id = with_path_id WellboreIntervalSetId record_id (\<lambda>i.
     bindM (fetch_record (re_client env) (re_partition env) i None None) (\<lambda>r.
     bindM (check_kind env r) (\<lambda>_. all_versions env i)))"

definition get_osdu_wellboreintervalsetid_version :: "('w, 'c) router_env \<Rightarrow> string \<Rightarrow> int \<Rightarrow> (exn, 'w, Record) prog" where
  "get_osdu_wellboreintervalsetid_version env record_id version = with_path_id WellboreIntervalSetId record_id (\<lambda>i.
     bindM (record_version env i version) (\<lambda>r.
     bindM (check_kind env r) (\<lambda>_. validated env r)))"

definition post_wellboreintervalsetid_osdu ::
    "('w, 'c) router_env \<Rightarrow> Record list \<Rightarrow> (exn, 'w, CreateUpdateRecordsResponse) prog" where
  "post_wellboreintervalsetid_osdu env wellboreintervalsets =
     bindM (re_validate env wellboreintervalsets) (\<lambda>_.
     bindM (check_kinds env wellboreintervalsets) (\<lambda>_. store_records env wellboreintervalsets))"

section \<open>Well log acquisitions (welllog_acquisition_v3.py)\<close>

definition get_welllogacquisitionid_osdu :: "('w, 'c) router_env \<Rightarrow> string \<Rightarrow> (exn, 'w, Record) prog" where
  "get_welllogacquisitionid_osdu env record_id = with_path_id WellLogAcquisitionId record_id (\<lambda>i.
     bindM (latest_record env i) (\<lambda>r. validated env r))"

definition del_osdu_welllogacquisitionid :: "('w, 'c) router_env \<Rightarrow> string \<Rightarrow> (exn, 'w, unit) prog" where
  "del_osdu_welllogacquisitionid env record_id = with_path_id WellLogAcquisitionId record_id (\<lambda>i.
     sc_delete_record (re_client env) i (re_partition env))"

definition get_osdu_welllogacquisitionid_versions :: "('w, 'c) router_env \<Rightarrow> string \<Rightarrow> (exn, 'w, int list) prog" where
  "get_osdu_welllogacquisitionid_versions env record_id = with_path_id WellLogAcquisitionId record_id (\<lambda>i.
     bindM (fetch_record (re_client env) (re_partition env) i None None) (\<lambda>r.
     bindM (check_kind env r) (\<lambda>_. all_versions env i)))"

definition get_osdu_welllogacquisitionid_version :: "('w, 'c) router_env \<Rightarrow> string \<Rightarrow> int \<Rightarrow> (exn, 'w, Record) prog" where
  "get_osdu_welllogacquisitionid_version env record_id version = with_path_id WellLogAcquisitionId record_id (\<lambda>i.
     bindM (record_version env i version) (\<lambda>r.
     bindM (check_kind env r) (\<lambda>_. validated env r)))"

definition post_welllogacquisitionid_osdu ::
    "('w, 'c) router_env \<Rightarrow> Record list \<Rightarrow> (exn, 'w, CreateUpdateRecordsResponse) prog" where
  "post_welllogacquisitionid_osdu env welllogacquisitions =
     bindM (re_validate env welllogacquisitions) (\<lambda>_.
     bindM (check_kinds env welllogacquisitions) (\<lambda>_. store_records env welllogacquisitions))"

section \<open>Well logs (welllog_ddms_v3.py)\<close>

definition get_welllog_osdu :: "('w, 'c) router_env \<Rightarrow> string \<Rightarrow> (exn, 'w, Record) prog" where
  "get_welllog_osdu env record_id = with_path_id WellLogId record_id (\<lambda>i.
     bindM (latest_record env i) (\<lambda>r. bindM (check_kind env r) (\<lambda>_. validated env r)))"

definition del_osdu_welllog :: "('w, 'c) router_env \<Rightarrow> string \<Rightarrow> bool \<Rightarrow> (exn, 'w, unit) prog" where
  "del_osdu_welllog env record_id purge = with_path_id WellLogId record_id (\<lambda>i. delete_with_bulk env i purge)"

definition get_osdu_welllog_versions :: "('w, 'c) router_env \<Rightarrow> string \<Rightarrow> (exn, 'w, int list) prog" where
  \<comment> \<open>the record is fetched under the identifier as it was given\<close>
  "get_osdu_welllog_versions env record_id =
     (if \<not> WellLogId record_id then raiseM (HTTPException 422)
      else bindM (fetch_record (re_client env) (re_partition env) record_id None None) (\<lambda>r.
           bindM (check_kind env r) (\<lambda>_.
           bindM (liftM (split_record_id_version record_id)) (\<lambda>(i, _). all_versions env (str_or_None i)))))"

definition get_osdu_welllog_version :: "('w, 'c) router_env \<Rightarrow> string \<Rightarrow> int \<Rightarrow> (exn, 'w, Record) prog" where
  "get_osdu_welllog_version env record_id version = with_path_id WellLogId record_id (\<lambda>i.
     bindM (record_version env i version) (\<lambda>r.
     bindM (check_kind env r) (\<lambda>_. validated env r)))"

definition welllog_consistency :: "Record \<Rightarrow> unit res" where
  "welllog_consistency r = (case check_welllog_consistency r of
       Inl (BulkErr (ConsistencyException WL_DuplicatedCurveIdException)) \<Rightarrow> Inl (HTTPException 400)
     | Inl (BulkErr (ConsistencyException WL_ReferenceCurveIdNotFoundException)) \<Rightarrow> Inl (HTTPException 400)
     | x \<Rightarrow> x)"

definition post_welllog_osdu ::
    "('w, 'c) router_env \<Rightarrow> Record list \<Rightarrow> (exn, 'w, CreateUpdateRecordsResponse) prog" where
  "post_welllog_osdu env welllogs =
     bindM (re_validate env welllogs) (\<lambda>_.
     bindM (check_kinds env welllogs) (\<lambda>_.
     bindM (check_bulk_uris env welllogs) (\<lambda>_.
     bindM (check_each welllog_consistency welllogs) (\<lambda>_. store_records env welllogs))))"

section \<open>Trajectories (wellbore_trajectory_ddms_v3.py)\<close>

definition get_wellbore_trajectory_osdu :: "('w, 'c) router_env \<Rightarrow> string \<Rightarrow> (exn, 'w, Record) prog" where
  "get_wellbore_trajectory_osdu env record_id = with_path_id WellboreTrajectoryId record_id (\<lambda>i.
     bindM (latest_record env i) (\<lambda>r. bindM (check_kind env r) (\<lambda>_. validated env r)))"

definition del_osdu_wellboretrajectory :: "('w, 'c) router_env \<Rightarrow> string \<Rightarrow> bool \<Rightarrow> (exn, 'w, unit) prog" where
  "del_osdu_wellboretrajectory env record_id purge =
     with_path_id WellboreTrajectoryId record_id (\<lambda>i. delete_with_bulk env i purge)"

definition get_osdu_wellboretrajectory_versions :: "('w, 'c) router_env \<Rightarrow> string \<Rightarrow> (exn, 'w, int list) prog" where
  \<comment> \<open>the record is fetched under the identifier as it was given\<close>
  "get_osdu_wellboretrajectory_versions env record_id =
     (if \<not> WellboreTrajectoryId record_id then raiseM (HTTPException 422)
      else bindM (fetch_record (re_client env) (re_partition env) record_id None None) (\<lambda>r.
           bindM (check_kind env r) (\<lambda>_.
           bindM (liftM (split_record_id_version record_id)) (\<lambda>(i, _). all_versions env (str_or_None i)))))"

definition get_osdu_wellboretrajectory_version :: "('w, 'c) router_env \<Rightarrow> string \<Rightarrow> int \<Rightarrow> (exn, 'w, Record) prog" where
  "get_osdu_wellboretrajectory_version env record_id version = with_path_id WellboreTrajectoryId record_id (\<lambda>i.
     bindM (record_version env i version) (\<lambda>r.
     bindM (check_kind env r) (\<lambda>_. validated env r)))"

definition trajectory_consistency :: "Record \<Rightarrow> unit res" where
  "trajectory_consistency r = (case check_trajectory_consistency r of
       Inl DuplicatedStationProperties \<Rightarrow> Inl (HTTPException 400)
     | x \<Rightarrow> x)"

definition post_wellboretrajectory_osdu ::
    "('w, 'c) router_env \<Rightarrow> Record list \<Rightarrow> (exn, 'w, CreateUpdateRecordsResponse) prog" where
  "post_wellboretrajectory_osdu env wellboretrajectories =
     bindM (re_validate env wellboretrajectories) (\<lambda>_.
     bindM (check_kinds env wellboretrajectories) (\<lambda>_.
     bindM (check_bulk_uris env wellboretrajectories) (\<lambda>_.
     bindM (check_each trajectory_consistency wellboretrajectories) (\<lambda>_. store_records env wellboretrajectories))))"

section \<open>Generic routes (generic_ddms_v3.py, api_configuration.py)\<close>

record APIConfiguration =
  api_tag :: string
  api_entity_uri :: string
  api_entity :: Entity
  record_id_constraint :: "string \<Rightarrow> bool"
  record_consistency_check_function :: "Record \<Rightarrow> unit res"

definition PPFGDatasetAPI :: APIConfiguration where
  "PPFGDatasetAPI = \<lparr>api_tag = ''PPFGDataset v3'', api_entity_uri = ''/ppfgdataset'', api_entity = PPFGDATASET,
     record_id_constraint = PPFGDatasetId, record_consistency_check_function = check_ppfgdataset_consistency\<rparr>"

definition WellPressureTestRawMeasurementAPI :: APIConfiguration where
  "WellPressureTestRawMeasurementAPI = \<lparr>api_tag = ''WellPressureTestRawMeasurement v3'',
     api_entity_uri = ''/wellpressuretestrawmeasurement'', api_entity = WELLPRESSURETESTRAWMEASUREMENT,
     record_id_constraint = WellPressureTestRawMeasurementId,
     record_consistency_check_function = check_well_pressure_test_raw_measurement_consistency\<rparr>"

definition get_api_config :: "APIConfiguration option \<Rightarrow> APIConfiguration res" where
  \<comment> \<open>the argument is the attribute \<open>api_config\<close> of the request state\<close>
  "get_api_config api_config = ofOption RuntimeError api_config"

definition validate_record_id :: "APIConfiguration \<Rightarrow> string \<Rightarrow> string res" where
  "validate_record_id api_config record_id =
     (if record_id_constraint api_config record_id then Inr record_id else Inl (HTTPException 422))"

definition with_api_id :: "APIConfiguration option \<Rightarrow> string \<Rightarrow> (string \<Rightarrow> (exn, 'w, 'a) prog) \<Rightarrow> (exn, 'w, 'a) prog" where
  "with_api_id cfg record_id k =
     bindM (liftM (get_api_config cfg)) (\<lambda>api_config.
     bindM (liftM (validate_record_id api_config record_id)) (\<lambda>record_id.
     bindM (liftM (split_record_id_version record_id)) (\<lambda>(i, _). k (str_or_None i))))"

definition get_osdu_record :: "('w, 'c) router_env \<Rightarrow> APIConfiguration option \<Rightarrow> string \<Rightarrow> (exn, 'w, Record) prog" where
  "get_osdu_record env cfg record_id = with_api_id cfg record_id (\<lambda>i.
     bindM (latest_record env i) (\<lambda>r. bindM (check_kind env r) (\<lambda>_. validated env r)))"

definition delete_osdu_record ::
    "('w, 'c) router_env \<Rightarrow> APIConfiguration option \<Rightarrow> string \<Rightarrow> bool \<Rightarrow> (exn, 'w, unit) prog" where
  "delete_osdu_record env cfg record_id purge = with_api_id cfg record_id (\<lambda>i. delete_with_bulk env i purge)"

definition get_record_versions ::
    "('w, 'c) router_env \<Rightarrow> APIConfiguration option \<Rightarrow> string \<Rightarrow> (exn, 'w, int list) prog" where
  "get_record_versions env cfg record_id = with_api_id cfg record_id (\<lambda>i.
     bindM (fetch_record (re_client env) (re_partition env) i None None) (\<lambda>r.
     bindM (check_kind env r) (\<lambda>_. all_versions env i)))"

definition get_specific_record_version ::
    "('w, 'c) router_env \<Rightarrow> APIConfiguration option \<Rightarrow> string \<Rightarrow> int \<Rightarrow> (exn, 'w, Record) prog" where
  "get_specific_record_version env cfg record_id version = with_api_id cfg record_id (\<lambda>i.
     bindM (record_version env i version) (\<lambda>r.
     bindM (check_kind env r) (\<lambda>_. validated env r)))"

definition api_consistency :: "APIConfiguration \<Rightarrow> Record \<Rightarrow> unit res" where
  "api_consistency api_config r = (case record_consistency_check_function api_config r of
       Inl (BulkErr (ConsistencyException _)) \<Rightarrow> Inl (HTTPException 400)
     | x \<Rightarrow> x)"

definition create_or_update_osdu_record :: "('w, 'c) router_env \<Rightarrow> APIConfiguration option \<Rightarrow> Record list
    \<Rightarrow> (exn, 'w, CreateUpdateRecordsResponse) prog" where
  "create_or_update_osdu_record env cfg input_records =
     bindM (liftM (get_api_config cfg)) (\<lambda>api_config.
     bindM (re_validate env input_records) (\<lambda>_.
     bindM (check_kinds env input_records) (\<lambda>_.
     bindM (check_bulk_uris env input_records) (\<lambda>_.
     bindM (check_each (api_consistency api_config) input_records) (\<lambda>_. store_records env input_records)))))"

section \<open>The contract of the record routes\<close>

text \<open>
  What all the routers promise: an identifier that does not match the pattern of the route is refused
  before anything is read, a version is only returned when its kind belongs to the route, and records are
  only stored after all of them were validated and had the right kind: a list that the check of kinds refuses ends with
  its error right after the validation.
\<close>

definition foreign_kind :: "request_state \<Rightarrow> Record \<Rightarrow> bool" where
  \<comment> \<open>a record that the check of kinds refuses, with whatever status\<close>
  "foreign_kind st r \<longleftrightarrow> (\<forall>status. raise_if_not_osdu_right_entity_kind r st status \<noteq> Inr ())"

definition kinds_error :: "Record list \<Rightarrow> request_state \<Rightarrow> exn" where
  "kinds_error rs st = (case raise_if_not_osdu_right_entities_kind rs st of Inl x \<Rightarrow> x | Inr _ \<Rightarrow> HTTPException 422)"

lemma foreign_kindI:
  assumes "st = \<lparr>st_version = Some ''V3'', st_entity_type = Some e\<rparr>" and "checked_entity e = Some n"
    and "get_kind_meta (rec_kind r) = Inr k" and "kind_entity_type k \<noteq> n"
  shows "foreign_kind st r"
  using assms by (auto simp: foreign_kind_def raise_if_not_osdu_right_entity_kind_def entity_names_checked)

lemma foreign_list_error:
  assumes "foreign_kind st r" and "r \<in> set rs"
  shows "raise_if_not_osdu_right_entities_kind rs st = Inl (kinds_error rs st)"
proof -
  have "raise_if_not_osdu_right_entities_kind rs st = Inr () \<Longrightarrow> r \<in> set rs \<Longrightarrow>
      raise_if_not_osdu_right_entity_kind r st 422 = Inr ()"
    by (induction rs) (auto simp: bindR_Inr_iff)
  then show ?thesis
    using assms by (cases "raise_if_not_osdu_right_entities_kind rs st") (auto simp: kinds_error_def foreign_kind_def)
qed

locale record_routes =
  fixes env :: "('w, 'c) router_env"
    and id_ok :: "string \<Rightarrow> bool"
    and get_version :: "string \<Rightarrow> int \<Rightarrow> (exn, 'w, Record) prog"
    and versions :: "string \<Rightarrow> (exn, 'w, int list) prog"
    and post :: "Record list \<Rightarrow> (exn, 'w, CreateUpdateRecordsResponse) prog"
  assumes bad_id: "\<not> id_ok i \<Longrightarrow>
      get_version i v w = (Inl (HTTPException 422), w) \<and> versions i w = (Inl (HTTPException 422), w)"
    and version_kind: "get_version i v w = (Inr r, w') \<Longrightarrow>
      raise_if_not_osdu_right_entity_kind r (re_state env) 400 = Inr ()"
    and post_checks: "post rs w = (Inr resp, w') \<Longrightarrow>
      raise_if_not_osdu_right_entities_kind rs (re_state env) = Inr ()
      \<and> (\<exists>w0. re_validate env rs w = (Inr (), w0)) \<and> (\<exists>w1. store_records env rs w1 = (Inr resp, w'))"
    and post_refused: "raise_if_not_osdu_right_entities_kind rs (re_state env) = Inl x \<Longrightarrow>
      post rs w = bindM (re_validate env rs) (\<lambda>_. raiseM x) w"
begin

lemma version_not_foreign:
  "foreign_kind (re_state env) r \<Longrightarrow> get_version i v w \<noteq> (Inr r, w')"
  using version_kind unfolding foreign_kind_def by blast

lemma foreign_list_refused:
  assumes "foreign_kind (re_state env) r" and "r \<in> set rs"
  shows "post rs w = bindM (re_validate env rs) (\<lambda>_. raiseM (kinds_error rs (re_state env))) w"
  using post_refused foreign_list_error [OF assms] by blast

end

lemmas route_defs = with_path_id_def check_kind_def validated_def check_kinds_def

lemma version_route:
  assumes "with_path_id id_ok i (\<lambda>i. bindM (record_version env i v) (\<lambda>r. bindM (check_kind env r) (\<lambda>_. validated env r))) w
     = (Inr r, w')"
  shows "raise_if_not_osdu_right_entity_kind r (re_state env) 400 = Inr ()"
  using assms by (auto simp: route_defs bindM_Inr_iff split: if_splits)

lemma latest_route:
  assumes "with_path_id id_ok i (\<lambda>i. bindM (latest_record env i) (\<lambda>r. bindM (check_kind env r) (\<lambda>_. validated env r))) w
     = (Inr r, w')"
  shows "\<not> foreign_kind (re_state env) r"
  using assms by (auto simp: route_defs foreign_kind_def bindM_Inr_iff split: if_splits)

lemma plain_post_refused:
  "raise_if_not_osdu_right_entities_kind rs (re_state env) = Inl x \<Longrightarrow>
     bindM (re_validate env rs) (\<lambda>_. bindM (check_kinds env rs) (\<lambda>_. store_records env rs))
       = bindM (re_validate env rs) (\<lambda>_. raiseM x)"
  by (simp add: check_kinds_def)

lemma plain_post_route:
  assumes "bindM (re_validate env rs) (\<lambda>_. bindM (check_kinds env rs) (\<lambda>_. store_records env rs)) w = (Inr resp, w')"
  shows "raise_if_not_osdu_right_entities_kind rs (re_state env) = Inr ()
      \<and> (\<exists>w0. re_validate env rs w = (Inr (), w0)) \<and> (\<exists>w1. store_records env rs w1 = (Inr resp, w'))"
  using assms by (auto simp: route_defs bindM_Inr_iff)

definition bulk_post_route ::
    "('w, 'c) router_env \<Rightarrow> (Record \<Rightarrow> unit res) \<Rightarrow> Record list \<Rightarrow> (exn, 'w, CreateUpdateRecordsResponse) prog" where
  \<comment> \<open>the sequence of checks that the routes with bulk share\<close>
  "bulk_post_route env f rs =
     bindM (re_validate env rs) (\<lambda>_.
     bindM (check_kinds env rs) (\<lambda>_.
     bindM (check_bulk_uris env rs) (\<lambda>_.
     bindM (check_each f rs) (\<lambda>_. store_records env rs))))"

lemma bulk_post_refused:
  "raise_if_not_osdu_right_entities_kind rs (re_state env) = Inl x \<Longrightarrow>
     bulk_post_route env f rs = bindM (re_validate env rs) (\<lambda>_. raiseM x)"
  by (simp add: bulk_post_route_def check_kinds_def)

lemma mapR_unit_ok: "mapR f rs = Inr us \<Longrightarrow> \<forall>r\<in>set rs. f r = Inr ()"
  by (induction rs arbitrary: us) (auto simp: bindR_Inr_iff)

lemma bulk_post_route_ok:
  assumes "bulk_post_route env f rs w = (Inr resp, w')"
  shows "\<exists>w0 w1. re_validate env rs w = (Inr (), w0) \<and> raise_if_not_osdu_right_entities_kind rs (re_state env) = Inr ()
     \<and> raise_if_invalid_bulk_uri (re_client env) (re_partition env) (re_get_uri env) rs w0 = (Inr (), w1)
     \<and> (\<forall>r\<in>set rs. f r = Inr ()) \<and> store_records env rs w1 = (Inr resp, w')"
  using assms mapR_unit_ok [of f rs]
  by (auto simp: bulk_post_route_def route_defs check_bulk_uris_def check_each_def bindM_Inr_iff bindR_Inr_iff)

lemma routesI:
  assumes "\<And>i v. get_version i v = with_path_id id_ok i (\<lambda>i. bindM (record_version env i v) (\<lambda>r.
        bindM (check_kind env r) (\<lambda>_. validated env r)))"
    and "\<And>i w. \<not> id_ok i \<Longrightarrow> versions i w = (Inl (HTTPException 422), w)"
    and "(\<forall>rs. post rs = bindM (re_validate env rs) (\<lambda>_. bindM (check_kinds env rs) (\<lambda>_. store_records env rs)))
         \<or> (\<exists>f. \<forall>rs. post rs = bulk_post_route env f rs)"
  shows "record_routes env id_ok get_version versions post"
proof
  show "get_version i v w = (Inl (HTTPException 422), w) \<and> versions i w = (Inl (HTTPException 422), w)"
    if "\<not> id_ok i" for i v w
    using assms(2) [OF that] that by (simp add: assms(1) with_path_id_def)
  show "raise_if_not_osdu_right_entity_kind r (re_state env) 400 = Inr ()" if "get_version i v w = (Inr r, w')" for i v w r w'
    using version_route that unfolding assms(1) .
  show "raise_if_not_osdu_right_entities_kind rs (re_state env) = Inr ()
      \<and> (\<exists>w0. re_validate env rs w = (Inr (), w0)) \<and> (\<exists>w1. store_records env rs w1 = (Inr resp, w'))"
    if "post rs w = (Inr resp, w')" for rs w resp w'
    using assms(3) that plain_post_route [of env rs w resp w'] bulk_post_route_ok [of env _ rs w resp w'] by metis
  show "post rs w = bindM (re_validate env rs) (\<lambda>_. raiseM x) w"
    if "raise_if_not_osdu_right_entities_kind rs (re_state env) = Inl x" for rs x w
    using assms(3) plain_post_refused [OF that] bulk_post_refused [OF that] by metis
qed

interpretation well: record_routes env WellId "get_osdu_well_version env" "get_osdu_well_versions env" "post_well_osdu env"
  by (rule routesI) (simp_all add: get_osdu_well_version_def get_osdu_well_versions_def post_well_osdu_def with_path_id_def)

interpretation wellbore: record_routes env WellboreId "get_osdu_wellbore_version env" "get_osdu_wellbore_versions env"
    "post_wellbore_osdu env"
  by (rule routesI) (simp_all add: get_osdu_wellbore_version_def get_osdu_wellbore_versions_def post_wellbore_osdu_def
      with_path_id_def)

interpretation markerset: record_routes env WellboreMarkerSetId "get_osdu_wellboremarkerset_version env"
    "get_osdu_wellboremarkerset_versions env" "post_wellboremarkerset_osdu env"
  by (rule routesI) (simp_all add: get_osdu_wellboremarkerset_version_def get_osdu_wellboremarkerset_versions_def
      post_wellboremarkerset_osdu_def with_path_id_def)

interpretation intervalset: record_routes env WellboreIntervalSetId "get_osdu_wellboreintervalsetid_version env"
    "get_osdu_wellboreintervalsetid_versions env" "post_wellboreintervalsetid_osdu env"
  by (rule routesI) (simp_all add: get_osdu_wellboreintervalsetid_version_def get_osdu_wellboreintervalsetid_versions_def
      post_wellboreintervalsetid_osdu_def with_path_id_def)

interpretation acquisition: record_routes env WellLogAcquisitionId "get_osdu_welllogacquisitionid_version env"
    "get_osdu_welllogacquisitionid_versions env" "post_welllogacquisitionid_osdu env"
  by (rule routesI) (simp_all add: get_osdu_welllogacquisitionid_version_def get_osdu_welllogacquisitionid_versions_def
      post_welllogacquisitionid_osdu_def with_path_id_def)

section \<open>Routes with bulk\<close>

text \<open>
  The routes of the entities with bulk also check the metadata of the records and their bulk URIs.
\<close>

locale bulk_record_routes = record_routes +
  fixes consistent :: "Record \<Rightarrow> unit res"
  assumes post_bulk: "post rs = bulk_post_route env consistent rs"
begin

lemma posted_consistent:
  "post rs w = (Inr resp, w') \<Longrightarrow> r \<in> set rs \<Longrightarrow> consistent r = Inr ()"
  using bulk_post_route_ok [of env consistent rs w resp w'] unfolding post_bulk by blast

lemma posted_same_bulk:
  assumes "\<forall>i. readonly (fetch_record (re_client env) (re_partition env) i None None)"
    and "\<forall>w0. re_validate env rs w = (Inr (), w0) \<longrightarrow>
        (\<forall>i. fst (fetch_record (re_client env) (re_partition env) i None None w0)
             = fst (fetch_record (re_client env) (re_partition env) i None None w))"
    and "post rs w = (Inr resp, w')" and "r \<in> set rs"
  shows "same_bulk (re_client env) (re_partition env) (re_get_uri env) w r"
proof -
  from bulk_post_route_ok [OF assms(3) [unfolded post_bulk]] obtain w0 w1 where
    v: "re_validate env rs w = (Inr (), w0)" and
    u: "raise_if_invalid_bulk_uri (re_client env) (re_partition env) (re_get_uri env) rs w0 = (Inr (), w1)" by blast
  have "same_bulk (re_client env) (re_partition env) (re_get_uri env) w0 r"
    using all_same_bulk [of "re_client env" "re_partition env" "re_get_uri env" rs w0] u assms(1,4) by auto
  with assms(2) [rule_format, OF v] show ?thesis by (simp only: same_bulk_def)
qed

end

interpretation welllog: bulk_record_routes env WellLogId "get_osdu_welllog_version env" "get_osdu_welllog_versions env"
    "post_welllog_osdu env" welllog_consistency
proof (intro bulk_record_routes.intro bulk_record_routes_axioms.intro)
  have "\<forall>rs. post_welllog_osdu env rs = bulk_post_route env welllog_consistency rs"
    by (simp add: post_welllog_osdu_def bulk_post_route_def)
  then show "post_welllog_osdu env rs = bulk_post_route env welllog_consistency rs"
    "record_routes env WellLogId (get_osdu_welllog_version env) (get_osdu_welllog_versions env) (post_welllog_osdu env)" for rs
    by (blast, intro routesI) (auto simp: get_osdu_welllog_version_def get_osdu_welllog_versions_def)
qed

interpretation trajectory: bulk_record_routes env WellboreTrajectoryId "get_osdu_wellboretrajectory_version env"
    "get_osdu_wellboretrajectory_versions env" "post_wellboretrajectory_osdu env" trajectory_consistency
proof (intro bulk_record_routes.intro bulk_record_routes_axioms.intro)
  have "\<forall>rs. post_wellboretrajectory_osdu env rs = bulk_post_route env trajectory_consistency rs"
    by (simp add: post_wellboretrajectory_osdu_def bulk_post_route_def)
  then show "post_wellboretrajectory_osdu env rs = bulk_post_route env trajectory_consistency rs"
    "record_routes env WellboreTrajectoryId (get_osdu_wellboretrajectory_version env)
       (get_osdu_wellboretrajectory_versions env) (post_wellboretrajectory_osdu env)" for rs
    by (blast, intro routesI) (auto simp: get_osdu_wellboretrajectory_version_def get_osdu_wellboretrajectory_versions_def)
qed

lemma with_api_id_path: "with_api_id (Some cfg) i k = with_path_id (record_id_constraint cfg) i k"
  by (rule ext) (simp add: with_api_id_def with_path_id_def get_api_config_def validate_record_id_def)

interpretation generic: bulk_record_routes env "record_id_constraint cfg" "get_specific_record_version env (Some cfg)"
    "get_record_versions env (Some cfg)" "create_or_update_osdu_record env (Some cfg)" "api_consistency cfg"
proof (intro bulk_record_routes.intro bulk_record_routes_axioms.intro)
  have "\<forall>rs. create_or_update_osdu_record env (Some cfg) rs = bulk_post_route env (api_consistency cfg) rs"
    by (simp add: create_or_update_osdu_record_def bulk_post_route_def get_api_config_def)
  then show "create_or_update_osdu_record env (Some cfg) rs = bulk_post_route env (api_consistency cfg) rs"
    "record_routes env (record_id_constraint cfg) (get_specific_record_version env (Some cfg))
       (get_record_versions env (Some cfg)) (create_or_update_osdu_record env (Some cfg))" for rs
    by (blast, intro routesI) (auto simp: get_specific_record_version_def get_record_versions_def with_api_id_path
        with_path_id_def)
qed

section \<open>Properties\<close>

lemma latest_checked:
  assumes "get \<in> {get_wellbore_markerset_osdu env, get_welllog_osdu env, get_wellbore_trajectory_osdu env, get_osdu_record env (Some cfg)}"
    and "foreign_kind (re_state env) r"
  shows "get i w \<noteq> (Inr r, w')"
  using assms latest_route [of _ i env w r w']
  by (auto simp: get_wellbore_markerset_osdu_def get_welllog_osdu_def get_wellbore_trajectory_osdu_def get_osdu_record_def
      with_api_id_path)

text \<open>C10: A record of a foreign kind is neither stored nor returned by the routes that check kinds.  When the route is
  mounted for an entity whose kinds are checked and a posted list has a record of another entity type, each of the eight
  routes that create and update ends after the validation of the list with the error of the check of kinds: nothing is
  stored, nor is the storage asked anything.  And such a record is not returned by the eight routes that read one
  version, nor by those that read the latest version of a marker set, a well log, a trajectory or a configured entity.
  The other four routes for the latest version do not check, see \<open>latest_kind_unchecked\<close>.\<close>

theorem foreign_kinds_refused:
  assumes "re_state env = \<lparr>st_version = Some ''V3'', st_entity_type = Some e\<rparr>" and "checked_entity e = Some n"
    and "get_kind_meta (rec_kind r) = Inr k" and "kind_entity_type k \<noteq> n" and "r \<in> set rs"
  shows "(\<exists>x. raise_if_not_osdu_right_entities_kind rs (re_state env) = Inl x
      \<and> (\<forall>post\<in>{post_well_osdu env, post_wellbore_osdu env, post_wellboremarkerset_osdu env,
          post_wellboreintervalsetid_osdu env, post_welllogacquisitionid_osdu env, post_welllog_osdu env,
          post_wellboretrajectory_osdu env, create_or_update_osdu_record env (Some cfg)}.
          \<forall>w. post rs w = bindM (re_validate env rs) (\<lambda>_. raiseM x) w))
    \<and> (\<forall>get\<in>{get_osdu_well_version env, get_osdu_wellbore_version env, get_osdu_wellboremarkerset_version env,
        get_osdu_wellboreintervalsetid_version env, get_osdu_welllogacquisitionid_version env, get_osdu_welllog_version env,
        get_osdu_wellboretrajectory_version env, get_specific_record_version env (Some cfg)}. \<forall>i v w w'. get i v w \<noteq> (Inr r, w'))
    \<and> (\<forall>get\<in>{get_wellbore_markerset_osdu env, get_welllog_osdu env, get_wellbore_trajectory_osdu env,
        get_osdu_record env (Some cfg)}. \<forall>i w w'. get i w \<noteq> (Inr r, w'))"
proof -
  note foreign = foreign_kindI [OF assms(1-4)]
  note posts = well.foreign_list_refused wellbore.foreign_list_refused markerset.foreign_list_refused
    intervalset.foreign_list_refused acquisition.foreign_list_refused welllog.foreign_list_refused
    trajectory.foreign_list_refused generic.foreign_list_refused
  note versions = well.version_not_foreign wellbore.version_not_foreign markerset.version_not_foreign
    intervalset.version_not_foreign acquisition.version_not_foreign welllog.version_not_foreign
    trajectory.version_not_foreign generic.version_not_foreign
  show ?thesis
    using foreign_list_error [OF foreign assms(5)] posts [OF foreign assms(5)] versions [OF foreign]
      latest_checked [OF _ foreign] by auto
qed

text \<open>
  The latest version of a well, a wellbore, an interval set or an acquisition is returned whatever its kind is.
\<close>

lemma latest_kind_unchecked:
  assumes "split_record_id_version i = Inr (Some j, v)" and "latest_record env j w = (Inr r, w0)"
    and "re_validate env [r] w0 = (Inr (), w')"
  shows "(WellId i \<longrightarrow> get_well_osdu env i w = (Inr r, w')) \<and> (WellboreId i \<longrightarrow> get_wellbore_osdu env i w = (Inr r, w'))
    \<and> (WellboreIntervalSetId i \<longrightarrow> get_wellboreintervalsetid_osdu env i w = (Inr r, w'))
    \<and> (WellLogAcquisitionId i \<longrightarrow> get_welllogacquisitionid_osdu env i w = (Inr r, w'))"
  using assms by (simp add: get_well_osdu_def get_wellbore_osdu_def get_wellboreintervalsetid_osdu_def
      get_welllogacquisitionid_osdu_def route_defs str_or_None_def bindM_run)

text \<open>C9: Creating or updating records never changes their bulk.  When the create-and-update route of well logs,
  of trajectories or of a configured entity succeeds, every record is consistent in itself and refers to
  the bulk of its latest stored version (or to none, for a new record), provided that reading records does
  not change anything and the schema validation does not change the stored records.\<close>

theorem posted_bulk_unchanged:
  assumes "\<forall>i. readonly (fetch_record (re_client env) (re_partition env) i None None)"
    and "\<forall>w0. re_validate env rs w = (Inr (), w0) \<longrightarrow>
        (\<forall>i. fst (fetch_record (re_client env) (re_partition env) i None None w0)
             = fst (fetch_record (re_client env) (re_partition env) i None None w))"
    and "r \<in> set rs"
  shows "(post_welllog_osdu env rs w = (Inr resp, w') \<longrightarrow>
           same_bulk (re_client env) (re_partition env) (re_get_uri env) w r \<and> check_welllog_consistency r = Inr ())
    \<and> (post_wellboretrajectory_osdu env rs w = (Inr resp, w') \<longrightarrow>
           same_bulk (re_client env) (re_partition env) (re_get_uri env) w r \<and> check_trajectory_consistency r = Inr ())
    \<and> (create_or_update_osdu_record env (Some cfg) rs w = (Inr resp, w') \<longrightarrow>
           same_bulk (re_client env) (re_partition env) (re_get_uri env) w r
           \<and> record_consistency_check_function cfg r = Inr ())"
proof -
  have c: "welllog_consistency r = Inr () \<Longrightarrow> check_welllog_consistency r = Inr ()"
    "trajectory_consistency r = Inr () \<Longrightarrow> check_trajectory_consistency r = Inr ()"
    "api_consistency cfg r = Inr () \<Longrightarrow> record_consistency_check_function cfg r = Inr ()"
    by (auto simp: welllog_consistency_def trajectory_consistency_def api_consistency_def
        split: sum.splits exn.splits bulk_error.splits consistency_exn.splits)
  show ?thesis
    using welllog.posted_same_bulk [OF assms(1,2) _ assms(3)] welllog.posted_consistent [OF _ assms(3), of env w]
      trajectory.posted_same_bulk [OF assms(1,2) _ assms(3)] trajectory.posted_consistent [OF _ assms(3), of env w]
      generic.posted_same_bulk [OF assms(1,2) _ assms(3)] generic.posted_consistent [OF _ assms(3), of env cfg w] c by blast
qed

definition test_router_env :: "(Record test_world, Record) router_env" where
  "test_router_env = \<lparr>re_client = blob_storage_client test_record_env, re_partition = None,
     re_validate = (\<lambda>_. returnM ()), re_state = \<lparr>st_version = Some ''V3'', st_entity_type = Some WELL_LOG\<rparr>,
     re_get_uri = osdu_get_bulk_uri, re_resolve_tenant = returnM ''t'', re_blob = test_store, re_sha1 = (\<lambda>s. s)\<rparr>"

definition new_welllog :: Record where
  "new_welllog = \<lparr>rec_id = Some ''r2'', rec_kind = ''osdu:wks:work-product-component--WellLog:1.0.0'', rec_version = None,
     rec_data = PDict [(''Name'', PStr ''x'')], rec_rest = PDict []\<rparr>"

theorem posted_bulk_unchanged_witness:
  "(\<exists>resp w'. post_welllog_osdu test_router_env [new_welllog] test_bulk_world = (Inr resp, w'))
   \<and> same_bulk (re_client test_router_env) None osdu_get_bulk_uri test_bulk_world new_welllog"
proof -
  have e: "re_client test_router_env = blob_storage_client test_record_env" "re_partition test_router_env = None"
    "re_get_uri test_router_env = osdu_get_bulk_uri" "re_validate test_router_env rs w = (Inr (), w)" for rs w
    by (simp_all add: test_router_env_def)
  have "isOk (fst (post_welllog_osdu test_router_env [new_welllog] test_bulk_world))" by code_simp
  then obtain resp w' where p: "post_welllog_osdu test_router_env [new_welllog] test_bulk_world = (Inr resp, w')"
    by (metis isOk_iff prod.collapse)
  have 1: "\<forall>i. readonly (fetch_record (re_client test_router_env) (re_partition test_router_env) i None None)"
    unfolding e by (rule test_fetch_readonly)
  have 2: "\<forall>w0. re_validate test_router_env [new_welllog] test_bulk_world = (Inr (), w0) \<longrightarrow>
      (\<forall>i. fst (fetch_record (re_client test_router_env) (re_partition test_router_env) i None None w0)
         = fst (fetch_record (re_client test_router_env) (re_partition test_router_env) i None None test_bulk_world))"
    unfolding e by auto
  from posted_bulk_unchanged [OF 1 2, of new_welllog resp w'] p show ?thesis by (auto simp: e)
qed

theorem foreign_kinds_refused_witness:
  "\<exists>x. post_well_osdu (test_router_env\<lparr>re_state := \<lparr>st_version = Some ''V3'', st_entity_type = Some WELL\<rparr>\<rparr>)
     [new_welllog] test_bulk_world = (Inl x, test_bulk_world)"
proof -
  let ?env = "test_router_env\<lparr>re_state := \<lparr>st_version = Some ''V3'', st_entity_type = Some WELL\<rparr>\<rparr>"
  have n: "checked_entity WELL = Some ''master-data--Well''" by code_simp
  have k: "get_kind_meta (rec_kind new_welllog) = Inr \<lparr>authority = ''osdu'', kind_source = ''wks'',
      kind_entity_type = ''work-product-component--WellLog'', kind_version = ''1.0.0''\<rparr>" by code_simp
  have st: "re_state ?env = \<lparr>st_version = Some ''V3'', st_entity_type = Some WELL\<rparr>" by simp
  obtain x where "post_well_osdu ?env [new_welllog] test_bulk_world
      = bindM (re_validate ?env [new_welllog]) (\<lambda>_. raiseM x) test_bulk_world"
    using foreign_kinds_refused [where cfg = PPFGDatasetAPI and rs = "[new_welllog]", OF st n k] by auto
  then show ?thesis by (auto simp: test_router_env_def raiseM_def)
qed

section \<open>Identifiers in paths\<close>

text \<open>The version is dropped from every identifier that matches the pattern of an entity.\<close>

lemma id_pattern_parts:
  assumes "id_pattern ty s"
  shows "\<exists>ns name. s = make_id ns ty name \<and> ns \<noteq> [] \<and> list_all id_char ns \<and> name \<noteq> [] \<and> list_all tail_char name"
proof -
  from assms obtain g where "(g, []) \<in> set (re_run (seqs [RPlus id_char, RLit ('':'' @ ty @ '':''), RPlus tail_char]) s)"
    by (auto simp: id_pattern_def list_ex_iff simp del: re_run.simps seqs.simps)
  then obtain ns name where "s = ns @ ('':'' @ ty @ '':'') @ name" "ns \<noteq> []" "list_all id_char ns" "name \<noteq> []"
      "list_all tail_char name"
    unfolding seqs.simps list_all_iff
    by (elim re_run_seqE) (force dest!: re_run_plus_sound re_run_lit_sound simp del: re_run.simps)
  then show ?thesis by (auto simp: make_id_def)
qed

lemma unversioned_match:
  assumes "id_parts ns ty name"
  shows "re_match OSDU_RECORD_ID_REGEX (make_id ns ty name) \<noteq> None"
proof -
  obtain zs where "re_run record_id_body (make_id ns ty name) = re_run (RPlus tail_char) name @ zs"
    using record_id_body_run [OF assms, of name] by (auto simp: make_id_def)
  moreover have "\<exists>z. re_run (RPlus tail_char) (name @ []) = ([], []) # z"
    using re_run_plus_first [of name tail_char "[]"] assms by (auto simp: id_parts_def list_all_iff)
  ultimately obtain z where "re_run record_id_body (make_id ns ty name) = [] @ ([], []) # z" by auto
  from re_run_seq_first [OF this, of REnd] show ?thesis
    by (auto simp: re_match_def OSDU_RECORD_ID_REGEX_def simp del: re_run.simps(5))
qed

text \<open>Dropping the version of a path identifier always works: an identifier that matches the pattern of an entity is
  split into an identifier and possibly a version; the identifier is a part of it up to a colon and
  digits, and the only way to fail is a version with too many digits.\<close>

theorem path_id_splits:
  assumes "id_pattern ty s" and "ty \<noteq> []" and "CHR '':'' \<notin> set ty"
  shows "split_record_id_version s = Inl ValueError
     \<or> (\<exists>i v. split_record_id_version s = Inr (Some i, v)
          \<and> (v = None \<and> s = i \<or> (\<exists>ds nl. s = i @ '':'' @ ds @ nl \<and> list_all is_digit ds \<and> nl \<in> {[], [CHR 0x0A]})))"
proof (cases "re_match OSDU_RECORD_ID_WITH_VERSION_REGEX s")
  case None
  from id_pattern_parts [OF assms(1)] obtain ns name where s: "s = make_id ns ty name" "id_parts ns ty name"
    using assms(2,3) by (auto simp: id_parts_def list_all_iff not_colon_def)
  with unversioned_match None show ?thesis by (auto simp: split_record_id_version_def)
next
  case (Some m)
  from versioned_match_sound [OF Some] obtain ns t name ds nl where m: "list_all is_digit ds" "nl \<in> {[], [CHR 0x0A]}"
    "s = make_id ns t name @ '':'' @ ds @ nl" "m = [(''record_id'', make_id ns t name), (''version'', ds)]" by blast
  have g: "group ''record_id'' m = Some (make_id ns t name)" "group ''version'' m = Some ds"
    using m(4) by (simp_all add: group_def)
  show ?thesis
    using Some g m(1-3) by (cases "py_int ds") (auto simp: split_record_id_version_def)
qed

theorem path_id_splits_witness:
  "\<exists>i v. split_record_id_version ''opendes:work-product-component--WellLog:42:7'' = Inr (Some i, v)"
proof -
  have "id_pattern ''work-product-component--WellLog'' ''opendes:work-product-component--WellLog:42:7''" by code_simp
  from path_id_splits [OF this] have "split_record_id_version ''opendes:work-product-component--WellLog:42:7'' = Inl ValueError
     \<or> (\<exists>i v. split_record_id_version ''opendes:work-product-component--WellLog:42:7'' = Inr (Some i, v))" by auto
  moreover have "isOk (split_record_id_version ''opendes:work-product-component--WellLog:42:7'')" by code_simp
  ultimately show ?thesis by auto
qed

end
