(* ===== verification/Dataframe_Validators.thy ===== *)
theory Dataframe_Validators
  imports Consistency
begin

text \<open>
  Validation of a data frame before it is stored: \<open>app/bulk_persistence/dataframe_validators.py\<close>.  A
  frame is given by the labels of its columns, its index and what pandas says of the index; a validator
  returns its result and the frame, which one of them changes.
\<close>

record bulk_frame =
  bf_columns :: "pyval list"
  bf_index :: "pyval list"
  bf_index_numeric :: bool
    \<comment> \<open>\<open>is_any_real_numeric_dtype(df.index)\<close>\<close>
  bf_index_datetime :: bool
    \<comment> \<open>\<open>isinstance(df.index, pd.DatetimeIndex)\<close>\<close>

type_synonym ValidationResult = "bool \<times> string"
type_synonym DataFrameValidationFunc = "bulk_frame \<Rightarrow> ValidationResult \<times> bulk_frame"

definition ValidationSuccess :: ValidationResult where
  "ValidationSuccess = (True, '''')"

definition WRITE_MAX_COLUMNS_COUNT :: nat where
  "WRITE_MAX_COLUMNS_COUNT = 3000"

fun run_validators :: "DataFrameValidationFunc list \<Rightarrow> bulk_frame \<Rightarrow> ValidationResult list \<times> bulk_frame" where
  "run_validators [] df = ([], df)"
| "run_validators (fn # fns) df =
     (let (r, df1) = fn df; (rs, df2) = run_validators fns df1 in (r # rs, df2))"

definition assert_df_validate :: "bulk_frame \<Rightarrow> DataFrameValidationFunc list \<Rightarrow> bulk_frame res" where
  \<comment> \<open>the frame after the validation\<close>
  "assert_df_validate df validation_funcs =
     (if validation_funcs = [] then Inr df
      else let (results, df') = run_validators validation_funcs df in
        if \<not> list_all fst results
        then Inl (BulkErr (make_BulkNotProcessable None
               (Some (join '','' (map snd (filter (\<lambda>(ok, msg). \<not> ok) results))))))
        else Inr df')"

definition no_validation :: DataFrameValidationFunc where
  "no_validation df = (ValidationSuccess, df)"

definition auto_cast_columns_to_string :: "(pyval \<Rightarrow> string) \<Rightarrow> DataFrameValidationFunc" where
  \<comment> \<open>\<open>to_str\<close> is the conversion of pandas\<close>
  "auto_cast_columns_to_string to_str df =
     (ValidationSuccess, df\<lparr>bf_columns := map (\<lambda>c. PStr (to_str c)) (bf_columns df)\<rparr>)"

definition is_str :: "pyval \<Rightarrow> bool" where
  "is_str v = (case v of PStr _ \<Rightarrow> True | _ \<Rightarrow> False)"

definition columns_type_must_be_string :: DataFrameValidationFunc where
  "columns_type_must_be_string df =
     (if list_all is_str (bf_columns df) then ValidationSuccess
      else (False, ''All columns type should be string''), df)"

definition validate_index :: "series_ops \<Rightarrow> DataFrameValidationFunc" where
  "validate_index so df =
     (if bf_index df = [] then (False, ''Empty data'')
      else if \<not> bf_index_numeric df \<and> \<not> bf_index_datetime df then (False, ''Index should be numeric or datetime'')
      else if \<not> so_unique so (bf_index df) then (False, ''Duplicated index found'')
      else ValidationSuccess, df)"

definition validate_number_of_columns :: DataFrameValidationFunc where
  "validate_number_of_columns df =
     (if WRITE_MAX_COLUMNS_COUNT < length (bf_columns df)
      then (False, ''Too many columns : maximum allowed '' @ [CHR 0x27] @ show_nat WRITE_MAX_COLUMNS_COUNT @ [CHR 0x27])
      else ValidationSuccess, df)"

definition PandasReservedIndexColRegexp :: regex where
  "PandasReservedIndexColRegexp = seqs [RLit ''__index_level_'', RPlus is_digit, RLit ''__'']"

definition is_reserved_column_name :: "string \<Rightarrow> bool" where
  "is_reserved_column_name name \<longleftrightarrow>
     re_match PandasReservedIndexColRegexp name \<noteq> None \<or> name = ''__null_dask_index__'' \<or> name = WDMS_INDEX_NAME"

definition any_reserved_column_name :: "pyval list \<Rightarrow> bool" where
  "any_reserved_column_name names =
     list_ex (\<lambda>n. case n of PStr s \<Rightarrow> is_reserved_column_name s | _ \<Rightarrow> False) names"

definition columns_not_in_reserved_names :: DataFrameValidationFunc where
  "columns_not_in_reserved_names df =
     (if any_reserved_column_name (bf_columns df) then (False, ''Invalid column name'') else ValidationSuccess, df)"

section \<open>Properties\<close>

lemma run_validators_pure:
  "\<forall>fn\<in>set fns. snd (fn df) = df \<Longrightarrow> run_validators fns df = (map (\<lambda>fn. fst (fn df)) fns, df)"
  by (induction fns) (auto simp: Let_def split: prod.splits)

text \<open>Validators that only look at the frame accept it when each of them does, and leave it as it is.\<close>

lemma assert_df_validate_pure:
  assumes "\<forall>fn\<in>set fns. snd (fn df) = df"
  shows "assert_df_validate df fns = Inr df' \<longleftrightarrow> df' = df \<and> (\<forall>fn\<in>set fns. fst (fst (fn df)))"
  using run_validators_pure [OF assms] by (auto simp: assert_df_validate_def list_all_iff)

lemma take_takeWhile: "k \<le> length (takeWhile P s) \<Longrightarrow> take k (takeWhile P s) = take k s"
  by (subst takeWhile_eq_take) simp

text \<open>The reserved names are two names of columns and the names that pandas gives to the levels of an index.\<close>

lemma reserved_iff:
  "is_reserved_column_name name \<longleftrightarrow>
     (\<exists>ds rest. name = ''__index_level_'' @ ds @ ''__'' @ rest \<and> ds \<noteq> [] \<and> list_all is_digit ds)
     \<or> name = ''__null_dask_index__'' \<or> name = ''_wdms_index_''"
proof -
  let ?l = "''__index_level_''"
  have u: "\<not> is_digit (CHR ''_'')" by code_simp
  have "re_match PandasReservedIndexColRegexp name \<noteq> None \<longleftrightarrow>
      (\<exists>ds rest. name = ?l @ ds @ ''__'' @ rest \<and> ds \<noteq> [] \<and> list_all is_digit ds)"
  proof
    assume "re_match PandasReservedIndexColRegexp name \<noteq> None"
    then have "re_run PandasReservedIndexColRegexp name \<noteq> []"
      by (auto simp: re_match_def split: list.splits)
    then obtain k where p: "prefix ?l name" and k: "1 \<le> k" "k \<le> length (takeWhile is_digit (drop (length ?l) name))"
      "prefix ''__'' (drop k (drop (length ?l) name))"
      by (auto simp: PandasReservedIndexColRegexp_def re_run.simps(2) less_Suc_eq_le split: if_splits)
    then obtain s where s: "name = ?l @ s" by (auto simp: prefix_def)
    define ds where "ds = take k s"
    have "ds = take k (takeWhile is_digit s)" using k(2) s by (simp add: ds_def take_takeWhile)
    then have "list_all is_digit ds" by (auto simp: list_all_iff dest: in_set_takeD set_takeWhileD)
    moreover have "ds \<noteq> []" using k(1,2) s by (auto simp: ds_def)
    moreover from k(3) s obtain rest where "drop k s = ''__'' @ rest" by (auto simp: prefix_def)
    then have "name = ?l @ ds @ ''__'' @ rest" using s by (metis append_take_drop_id ds_def)
    ultimately show "\<exists>ds rest. name = ?l @ ds @ ''__'' @ rest \<and> ds \<noteq> [] \<and> list_all is_digit ds" by blast
  next
    assume "\<exists>ds rest. name = ?l @ ds @ ''__'' @ rest \<and> ds \<noteq> [] \<and> list_all is_digit ds"
    then obtain ds rest where d: "name = ?l @ ds @ ''__'' @ rest" "ds \<noteq> []" "list_all is_digit ds" by blast
    have t: "takeWhile is_digit (ds @ CHR ''_'' # CHR ''_'' # rest) = ds"
      using d(3) u by (simp add: list_all_iff)
    have "length ds \<in> set (rev [1..<Suc (length ds)])" using d(2) by (cases ds) auto
    then have "re_run PandasReservedIndexColRegexp name \<noteq> []"
      using d(1) t by (auto simp: PandasReservedIndexColRegexp_def re_run.simps(2) intro!: bexI [of _ "length ds"])
    then show "re_match PandasReservedIndexColRegexp name \<noteq> None" by (auto simp: re_match_def split: list.splits)
  qed
  then show ?thesis by (simp add: is_reserved_column_name_def WDMS_INDEX_NAME_def)
qed

end
