(* ===== verification/Mime_Types.thy ===== *)
theory Mime_Types
  imports Py_Values
begin

text \<open>
  Media types: \<open>app/bulk_persistence/mime_types.py\<close>, the choice of the type of a request body and of a
  response in \<open>app/routers/common_parameters.py\<close>, and \<open>app/bulk_persistence/json_orient.py\<close>.
\<close>

record MimeType =
  mime_type :: string
  mime_extension :: string
  alternative_types :: "string list"

definition mime_match :: "MimeType \<Rightarrow> string option \<Rightarrow> bool" where
  "mime_match self str_value = (case str_value of
       None \<Rightarrow> False
     | Some s \<Rightarrow> s \<noteq> [] \<and>
         (let normalized_value = lower s in
          list_ex (\<lambda>a_type. normalized_value = a_type) (mime_type self # alternative_types self)
          \<or> py_replace ''.'' '''' normalized_value = py_replace ''.'' '''' (mime_extension self)))"

definition PARQUET :: MimeType where
  "PARQUET = \<lparr>mime_type = ''application/x-parquet'', mime_extension = ''.parquet'',
     alternative_types = [''application/parquet'']\<rparr>"

definition FEATHER :: MimeType where
  "FEATHER = \<lparr>mime_type = ''application/x-feather'', mime_extension = ''.feather'',
     alternative_types = [''application/feather'']\<rparr>"

definition JSON :: MimeType where
  "JSON = \<lparr>mime_type = ''application/json'', mime_extension = ''.json'', alternative_types = []\<rparr>"

definition MSGPACK :: MimeType where
  "MSGPACK = \<lparr>mime_type = ''application/x-msgpack'', mime_extension = ''.msgpack'',
     alternative_types = [''application/msgpack'', ''application/messagepack'', ''application/x-messagepack'',
       ''application/vnd.messagepack'', ''application/vnd.msgpack'']\<rparr>"

definition mime_types :: "MimeType list" where
  "mime_types = [PARQUET, FEATHER, JSON, MSGPACK]"

definition mime_from_str :: "string option \<Rightarrow> MimeType res" where
  "mime_from_str v = ofOption ValueError (find (\<lambda>t. mime_match t v) mime_types)"

section \<open>The types of requests and responses (common_parameters.py)\<close>

definition WRITE_BULK_SUPPORTED_MIME_TYPES :: "MimeType list" where
  "WRITE_BULK_SUPPORTED_MIME_TYPES = [JSON, PARQUET]"

definition READ_BULK_SUPPORTED_MIME_TYPES :: "MimeType list" where
  "READ_BULK_SUPPORTED_MIME_TYPES = [PARQUET, JSON]"

definition write_bulk_content_type :: "string option \<Rightarrow> MimeType res" where
  \<comment> \<open>the argument is the header \<open>Content-Type\<close>\<close>
  "write_bulk_content_type content_type =
     ofOption (HTTPException 400) (find (\<lambda>m. mime_match m content_type) WRITE_BULK_SUPPORTED_MIME_TYPES)"

definition read_bulk_accept_type :: "string option \<Rightarrow> MimeType res" where
  \<comment> \<open>the argument is the header \<open>Accept\<close>\<close>
  "read_bulk_accept_type accept_value = (case accept_value of
       None \<Rightarrow> Inr (hd READ_BULK_SUPPORTED_MIME_TYPES)
     | Some a \<Rightarrow>
         if a = [] \<or> py_in ''*/*'' a then Inr (hd READ_BULK_SUPPORTED_MIME_TYPES)
         else ofOption (HTTPException 400)
                (find (\<lambda>t. list_ex (\<lambda>v. py_in v a) (mime_type t # alternative_types t)) READ_BULK_SUPPORTED_MIME_TYPES))"

section \<open>Orientation of JSON\<close>

datatype JSONOrient = orient_split | orient_columns

fun orient_value :: "JSONOrient \<Rightarrow> string" where
  "orient_value orient_split = ''split''"
| "orient_value orient_columns = ''columns''"

definition JSONOrient_get :: "string + JSONOrient \<Rightarrow> JSONOrient res" where
  "JSONOrient_get orient = (case orient of
       Inl s \<Rightarrow> if s = ''split'' then Inr orient_split else if s = ''columns'' then Inr orient_columns else Inl KeyError
     | Inr orientation \<Rightarrow> Inr orientation)"

section \<open>Properties\<close>

definition mime_names :: "MimeType \<Rightarrow> string list" where
  "mime_names t = mime_type t # alternative_types t"

lemmas mime_type_defs = PARQUET_def FEATHER_def JSON_def MSGPACK_def

lemma mime_match_cases:
  assumes "mime_match t v" and "t \<in> set mime_types"
  shows "\<exists>s. v = Some s \<and> (lower s \<in> set (mime_names t)
     \<or> py_replace ''.'' '''' (lower s) = py_replace ''.'' '''' (mime_extension t))"
  using assms(1) by (auto simp: mime_match_def mime_names_def list_ex_iff Let_def split: option.splits)

lemma undotted:
  "\<forall>t\<in>set mime_types. \<forall>n\<in>set (mime_names t). \<forall>t'\<in>set mime_types.
     py_replace ''.'' '''' n \<noteq> py_replace ''.'' '''' (mime_extension t') \<and> (t' \<noteq> t \<longrightarrow> n \<notin> set (mime_names t'))"
  "\<forall>t\<in>set mime_types. \<forall>t'\<in>set mime_types.
     py_replace ''.'' '''' (mime_extension t) = py_replace ''.'' '''' (mime_extension t') \<longrightarrow> t = t'"
  by code_simp+

lemma mime_match_unique:
  assumes "mime_match t v" and "mime_match t' v" and "t \<in> set mime_types" and "t' \<in> set mime_types"
  shows "t = t'"
  using mime_match_cases [OF assms(1,3)] mime_match_cases [OF assms(2,4)] undotted assms(3,4) by (metis option.inject)

text \<open>Media types are recognised without ambiguity: \<open>MimeTypes.from_str\<close> gives a type exactly when it is
  the one type that matches, and fails when none does; and a request body is accepted exactly when its
  content type is JSON or Parquet under one of their names or extensions, which are never both.\<close>

theorem mime_types_unambiguous:
  "(mime_from_str v = Inr t \<longleftrightarrow> t \<in> set mime_types \<and> mime_match t v)
   \<and> (mime_from_str v = Inl ValueError \<longleftrightarrow> (\<forall>t\<in>set mime_types. \<not> mime_match t v))
   \<and> (write_bulk_content_type v = Inr t \<longleftrightarrow> t \<in> {JSON, PARQUET} \<and> mime_match t v)
   \<and> (write_bulk_content_type v = Inl (HTTPException 400) \<longleftrightarrow> \<not> mime_match JSON v \<and> \<not> mime_match PARQUET v)"
proof -
  have f: "find P xs = Some x \<longleftrightarrow> x \<in> set xs \<and> P x"
    if "\<And>a b. a \<in> set xs \<Longrightarrow> b \<in> set xs \<Longrightarrow> P a \<Longrightarrow> P b \<Longrightarrow> a = b" for P :: "MimeType \<Rightarrow> bool" and xs x
    using that by (induction xs) auto
  have r: "ofOption e o' = Inr y \<longleftrightarrow> o' = Some y" "ofOption e o' = Inl e \<longleftrightarrow> o' = None"
    for e :: exn and o' and y :: MimeType by (cases o'; simp)+
  have w: "set WRITE_BULK_SUPPORTED_MIME_TYPES = {JSON, PARQUET}" "{JSON, PARQUET} \<subseteq> set mime_types"
    by (auto simp: WRITE_BULK_SUPPORTED_MIME_TYPES_def mime_types_def)
  have "write_bulk_content_type v = Inr t \<longleftrightarrow> t \<in> {JSON, PARQUET} \<and> mime_match t v"
    unfolding write_bulk_content_type_def r by (subst f) (use w mime_match_unique in blast)+
  moreover have "mime_from_str v = Inr t \<longleftrightarrow> t \<in> set mime_types \<and> mime_match t v"
    unfolding mime_from_str_def r by (subst f) (use mime_match_unique in blast)+
  ultimately show ?thesis
    using w(1) by (auto simp: mime_from_str_def write_bulk_content_type_def r find_None_iff)
qed

theorem mime_types_unambiguous_witness:
  "mime_from_str (Some ''Application/X-Parquet'') = Inr PARQUET
   \<and> write_bulk_content_type (Some ''text/csv'') = Inl (HTTPException 400)"
proof -
  have "mime_match PARQUET (Some ''Application/X-Parquet'')" "PARQUET \<in> set mime_types"
    "\<not> mime_match JSON (Some ''text/csv'')" "\<not> mime_match PARQUET (Some ''text/csv'')" by code_simp+
  with mime_types_unambiguous show ?thesis by blast
qed

end
