(* ===== verification/Bulk_Io.thy ===== *)
theory Bulk_Io
  imports Sessions Bulk_Id_Access Dataframe_Validators Mime_Types Request_Context Record_Storage
begin

text \<open>
  Reading and writing bulk data through the worker service:
  \<open>app/bulk_persistence/bulk_io_wdms_worker.py\<close>, the implementation of the interface \<open>BulkIO\<close>, and the
  dependencies of \<open>app/routers/bulk/utils.py\<close>.  The HTTP client of the worker is a parameter, and so are
  the parsing of the worker's description of a bulk (pydantic and pandas) and the index of the reduced
  frame that a description carries.  Contents are byte strings.
\<close>

section \<open>The worker service\<close>

record http_request =
  rq_method :: string
  rq_path :: string
  rq_headers :: "string dict"
  rq_params :: "pyval dict option"
  rq_content :: "string option"

record http_response =
  hr_status_code :: nat
  hr_text :: string
  hr_content :: string
  hr_json :: "pyval res"

record 'w worker_env =
  wk_send :: "http_request \<Rightarrow> (exn, 'w, http_response) prog"
  wk_headers :: "string dict"
    \<comment> \<open>\<open>get_headers_from_ctx(ctx)\<close>\<close>
  wk_parse_info :: "pyval \<Rightarrow> BulkInfoForConsistency res"
    \<comment> \<open>\<open>BulkInfoForConsistency(**obj)\<close>\<close>
  wk_start_end_index :: "ColumnDescribe \<Rightarrow> string list \<times> string"
    \<comment> \<open>the printed labels and the type of \<open>start_end_df.index\<close>\<close>

datatype body = Bytes string | Chunks "string list"

record data_checks =
  dc_get_reference_curve :: "Record \<Rightarrow> pyval res"
  dc_check_bulk_consistency :: "Record \<Rightarrow> BulkInfoForConsistency \<Rightarrow> unit res"

record DataframeBasicDescribe =
  bd_rowCount :: int
  bd_columnCount :: int
  bd_columns :: "string list"
  bd_indexStart :: string
  bd_indexEnd :: string
  bd_indexType :: string

record bulk_response =
  \<comment> \<open>the FastAPI response\<close>
  br_content :: string
  br_status_code :: nat
  br_media_type :: string

definition response_as_json :: "http_response \<Rightarrow> pyval res" where
  "response_as_json resp =
     (if hr_status_code resp \<noteq> 200 then Inl (BulkErr (BulkWorkerError (hr_text resp) (hr_status_code resp)))
      else hr_json resp)"

definition prepare_content :: "body \<Rightarrow> string" where
  "prepare_content data = (case data of Bytes b \<Rightarrow> b | Chunks cs \<Rightarrow> concat cs)"

definition index_start :: "'w worker_env \<Rightarrow> BulkInfoForConsistency \<Rightarrow> string" where
  "index_start env b = (case bi_reference b of
       None \<Rightarrow> []
     | Some c \<Rightarrow> (let (labels, _) = wk_start_end_index env c in if labels = [] then [] else hd labels))"

definition index_end :: "'w worker_env \<Rightarrow> BulkInfoForConsistency \<Rightarrow> string" where
  "index_end env b = (case bi_reference b of
       None \<Rightarrow> []
     | Some c \<Rightarrow> (let (labels, _) = wk_start_end_index env c in if labels = [] then [] else last labels))"

definition index_type :: "'w worker_env \<Rightarrow> BulkInfoForConsistency \<Rightarrow> string" where
  "index_type env b = (case bi_reference b of
       None \<Rightarrow> []
     | Some c \<Rightarrow> (let (labels, ty) = wk_start_end_index env c in if labels = [] then [] else ty))"

definition py_str :: "pyval \<Rightarrow> string" where
  \<comment> \<open>an optional string in a path or a parameter\<close>
  "py_str v = (case v of PStr s \<Rightarrow> s | _ \<Rightarrow> ''None'')"

definition reference_params :: "pyval \<Rightarrow> pyval dict option" where
  "reference_params reference = (if truthy reference then Some [(''reference'', reference)] else None)"

definition write_chunk :: "'w worker_env \<Rightarrow> body \<Rightarrow> MimeType \<Rightarrow> string \<Rightarrow> string \<Rightarrow> string option
    \<Rightarrow> (exn, 'w, DataframeBasicDescribe) prog" where
  "write_chunk env data content_type record_id session_id reference_curve =
     bindM (wk_send env \<lparr>rq_method = ''POST'', rq_path = ''/data/'' @ record_id @ ''/session/'' @ session_id,
              rq_headers = AList.update ''Content-Type'' (mime_type content_type) (wk_headers env),
              rq_params = reference_params (case reference_curve of None \<Rightarrow> PNone | Some s \<Rightarrow> PStr s),
              rq_content = Some (prepare_content data)\<rparr>) (\<lambda>resp.
     bindM (liftM (response_as_json resp)) (\<lambda>obj.
     bindM (liftM (wk_parse_info env obj)) (\<lambda>bulk_info.
       returnM \<lparr>bd_rowCount = bi_rowCount bulk_info, bd_columnCount = column_count bulk_info, bd_columns = [],
         bd_indexStart = index_start env bulk_info, bd_indexEnd = index_end env bulk_info,
         bd_indexType = index_type env bulk_info\<rparr>)))"

definition completion_params :: "Session \<Rightarrow> BulkURI option \<Rightarrow> pyval \<Rightarrow> pyval dict" where
  "completion_params s update_from_bulk_uri reference_curve =
     [(''completion'', PStr (mode_value (mode s)))]
     @ (if truthy reference_curve then [(''reference'', reference_curve)] else [])
     @ (case update_from_bulk_uri of None \<Rightarrow> [] | Some u \<Rightarrow> [(''from_bulk'', PStr (bulk_id u))])"

definition written_bulk :: "'w worker_env \<Rightarrow> data_checks \<Rightarrow> Record \<Rightarrow> http_response
    \<Rightarrow> (pyval \<times> BulkInfoForConsistency) res" where
  \<comment> \<open>what the worker reports of a written bulk, after the consistency check\<close>
  "written_bulk env checks r resp =
     bindR (response_as_json resp) (\<lambda>obj.
     bindR (v_index obj ''bulkid'') (\<lambda>bulkid.
     bindR (v_index obj ''describe'') (\<lambda>d.
     bindR (wk_parse_info env d) (\<lambda>describe.
     bindR (dc_check_bulk_consistency checks r describe) (\<lambda>_. Inr (bulkid, describe))))))"

definition write_complete_session :: "'w worker_env \<Rightarrow> data_checks \<Rightarrow> Record \<Rightarrow> Session \<Rightarrow> BulkURI option \<Rightarrow> pyval
    \<Rightarrow> (exn, 'w, pyval) prog" where
  "write_complete_session env checks r s update_from_bulk_uri reference_curve =
     bindM (wk_send env \<lparr>rq_method = ''PATCH'',
              rq_path = ''/data/'' @ str_or_None (rec_id r) @ ''/session/'' @ sess_id s,
              rq_headers = wk_headers env,
              rq_params = Some (completion_params s update_from_bulk_uri reference_curve), rq_content = None\<rparr>) (\<lambda>resp.
     bindM (liftM (written_bulk env checks r resp)) (\<lambda>(bulkid, _). returnM bulkid))"

definition read_params :: "GetDataParams \<Rightarrow> JSONOrient option \<Rightarrow> pyval dict" where
  "read_params p orient =
     (case gdp_limit p of Some n \<Rightarrow> if n \<noteq> 0 then [(''limit'', PInt n)] else [] | None \<Rightarrow> [])
     @ (case gdp_offset p of Some n \<Rightarrow> if n \<noteq> 0 then [(''offset'', PInt n)] else [] | None \<Rightarrow> [])
     @ (case gdp_curves p of Some c \<Rightarrow> if c \<noteq> [] then [(''curves'', PStr c)] else [] | None \<Rightarrow> [])
     @ (case gdp_bulk_filter p of Some f \<Rightarrow> if f \<noteq> [] then [(''filter'', PList (map PStr f))] else [] | None \<Rightarrow> [])
     @ (case orient of Some v \<Rightarrow> [(''orient'', PStr (orient_value v))] | None \<Rightarrow> [])
     @ (if gdp_describe p = Some True then [(''describe'', PStr ''True'')] else [])"

definition read_data :: "'w worker_env \<Rightarrow> string \<Rightarrow> BulkURI \<Rightarrow> GetDataParams \<Rightarrow> MimeType \<Rightarrow> JSONOrient option
    \<Rightarrow> (exn, 'w, bulk_response) prog" where
  "read_data env record_id bulk_uri data_param accept_type orient =
     bindM (wk_send env \<lparr>rq_method = ''GET'', rq_path = ''/data/'' @ record_id @ ''/'' @ bulk_id bulk_uri,
              rq_headers = AList.update ''accept'' (mime_type accept_type) (wk_headers env),
              rq_params = Some (read_params data_param orient), rq_content = None\<rparr>) (\<lambda>resp.
       if hr_status_code resp \<noteq> 200 then raiseM (BulkErr (BulkWorkerError (hr_text resp) (hr_status_code resp)))
       else returnM \<lparr>br_content = hr_content resp, br_status_code = 200, br_media_type = mime_type accept_type\<rparr>)"

definition write_bulk :: "'w worker_env \<Rightarrow> body \<Rightarrow> MimeType \<Rightarrow> data_checks \<Rightarrow> Record
    \<Rightarrow> (exn, 'w, pyval \<times> BulkInfoForConsistency) prog" where
  "write_bulk env data content_type checks r =
     bindM (liftM (dc_get_reference_curve checks r)) (\<lambda>reference_name.
     bindM (wk_send env \<lparr>rq_method = ''POST'', rq_path = ''/data/'' @ str_or_None (rec_id r),
              rq_headers = AList.update ''Content-Type'' (mime_type content_type) (wk_headers env),
              rq_params = reference_params reference_name, rq_content = Some (prepare_content data)\<rparr>) (\<lambda>resp.
       liftM (written_bulk env checks r resp)))"

definition get_statistics :: "'w worker_env \<Rightarrow> string option \<Rightarrow> string \<Rightarrow> string list \<Rightarrow> (exn, 'w, bulk_response) prog" where
  "get_statistics env record_id bulk_uri curves_selection =
     bindM (wk_send env \<lparr>rq_method = ''GET'',
              rq_path = ''/data/'' @ str_or_None record_id @ ''/'' @ bulk_uri @ ''/statistics'',
              rq_headers = wk_headers env,
              rq_params = Some [(''curves_selection'', PList (map PStr curves_selection))], rq_content = None\<rparr>) (\<lambda>resp.
       returnM \<lparr>br_content = hr_content resp, br_status_code = hr_status_code resp, br_media_type = mime_type JSON\<rparr>)"

definition post_statistics :: "'w worker_env \<Rightarrow> string option \<Rightarrow> string \<Rightarrow> int option \<Rightarrow> (exn, 'w, bulk_response) prog" where
  "post_statistics env record_id bulk_uri version =
     bindM (wk_send env \<lparr>rq_method = ''POST'',
              rq_path = ''/data/'' @ str_or_None record_id @ ''/'' @ bulk_uri @ ''/statistics'',
              rq_headers = wk_headers env,
              rq_params = Some [(''record_version'', case version of Some v \<Rightarrow> PInt v | None \<Rightarrow> PNone)],
              rq_content = None\<rparr>) (\<lambda>resp.
       returnM \<lparr>br_content = hr_content resp, br_status_code = hr_status_code resp, br_media_type = mime_type JSON\<rparr>)"

section \<open>The dependencies of the bulk routes (routers/bulk/utils.py)\<close>

datatype df_check = columns_type_must_be_string_check | auto_cast_columns_to_string_check

datatype consistency_class = WelllogChecks | TrajectoryChecks | PPFGDatasetChecks | WellPressureTestRawMeasurementChecks

record bulk_state =
  \<comment> \<open>what the routers inject into the state of a request\<close>
  check_input_df_func :: "df_check option"
  data_consistency_checks_state :: "consistency_class option"

definition set_v3_input_dataframe_check :: "bulk_state \<Rightarrow> bulk_state" where
  "set_v3_input_dataframe_check st = st\<lparr>check_input_df_func := Some columns_type_must_be_string_check\<rparr>"

definition set_legacy_input_dataframe_check :: "string option \<Rightarrow> bulk_state \<Rightarrow> bulk_state" where
  \<comment> \<open>given the header \<open>Content-Type\<close>\<close>
  "set_legacy_input_dataframe_check content_type st =
     st\<lparr>check_input_df_func := Some (if mime_match PARQUET content_type then columns_type_must_be_string_check
                                      else auto_cast_columns_to_string_check)\<rparr>"

definition get_df_validation_func :: "(pyval \<Rightarrow> string) \<Rightarrow> bulk_state \<Rightarrow> DataFrameValidationFunc" where
  "get_df_validation_func to_str st = (case check_input_df_func st of
       None \<Rightarrow> no_validation
     | Some columns_type_must_be_string_check \<Rightarrow> columns_type_must_be_string
     | Some auto_cast_columns_to_string_check \<Rightarrow> auto_cast_columns_to_string to_str)"

definition set_welllog_data_consistency_check :: "bulk_state \<Rightarrow> bulk_state" where
  "set_welllog_data_consistency_check st = st\<lparr>data_consistency_checks_state := Some WelllogChecks\<rparr>"

definition set_trajectory_data_consistency_check :: "bulk_state \<Rightarrow> bulk_state" where
  "set_trajectory_data_consistency_check st = st\<lparr>data_consistency_checks_state := Some TrajectoryChecks\<rparr>"

definition set_ppfgdataset_consistency_check :: "bulk_state \<Rightarrow> bulk_state" where
  "set_ppfgdataset_consistency_check st = st\<lparr>data_consistency_checks_state := Some PPFGDatasetChecks\<rparr>"

definition set_wellpressuretestrawmeasurement_consistency_check :: "bulk_state \<Rightarrow> bulk_state" where
  "set_wellpressuretestrawmeasurement_consistency_check st =
     st\<lparr>data_consistency_checks_state := Some WellPressureTestRawMeasurementChecks\<rparr>"

definition get_data_consistency_checks :: "bulk_state \<Rightarrow> data_checks" where
  "get_data_consistency_checks st = (case data_consistency_checks_state st of
       None \<Rightarrow> \<lparr>dc_get_reference_curve = no_get_reference_curve, dc_check_bulk_consistency = no_check_bulk_consistency\<rparr>
     | Some WelllogChecks \<Rightarrow>
         \<lparr>dc_get_reference_curve = wl_get_reference_curve, dc_check_bulk_consistency = wl_check_bulk_consistency\<rparr>
     | Some TrajectoryChecks \<Rightarrow>
         \<lparr>dc_get_reference_curve = trj_get_reference_curve, dc_check_bulk_consistency = trj_check_bulk_consistency\<rparr>
     | Some PPFGDatasetChecks \<Rightarrow>
         \<lparr>dc_get_reference_curve = ppfg_get_reference_curve, dc_check_bulk_consistency = ppfg_check_bulk_consistency\<rparr>
     | Some WellPressureTestRawMeasurementChecks \<Rightarrow>
         \<lparr>dc_get_reference_curve = wpt_get_reference_curve, dc_check_bulk_consistency = wpt_check_bulk_consistency\<rparr>)"

definition bulk_id_string :: "pyval \<Rightarrow> string res" where
  \<comment> \<open>the bulk identifier of the worker, as the constructor of a bulk URI takes it\<close>
  "bulk_id_string v = (case v of PStr s \<Rightarrow> Inr s | _ \<Rightarrow> if truthy v then Inl AttributeError else Inr [])"

definition set_bulk_field_and_send_record :: "'w storage_client \<Rightarrow> string option \<Rightarrow> (Record \<Rightarrow> string \<Rightarrow> Record res)
    \<Rightarrow> pyval \<Rightarrow> Record \<Rightarrow> (exn, 'w, CreateUpdateRecordsResponse) prog" where
  "set_bulk_field_and_send_record sc partition_id set_uri new_bulk_id r =
     bindM (liftM (bindR (bulk_id_string new_bulk_id) (set_uri r))) (\<lambda>r'.
       sc_create_or_update_records sc [r'] partition_id)"

end
