(* ===== verification/Bulk_Routes.thy ===== *)
theory Bulk_Routes
  imports Bulk_Io Ddms_Utils
begin

text \<open>
  The routes for bulk data: \<open>app/routers/sessions.py\<close>, \<open>app/routers/bulk/bulk_routes.py\<close> and
  \<open>app/routers/bulk/statistics_routes.py\<close>.  What the dependencies of a route provide is its environment.
\<close>

section \<open>The environment of a bulk route\<close>

record ('w, 'c) bulk_route_env =
  be_sessions :: "('w, 'c) sessions_env"
  be_resolve_tenant :: "(exn, 'w, string) prog"
  be_client :: "'w storage_client"
  be_partition :: "string option"
  be_worker :: "'w worker_env"
  be_state :: request_state
  be_checks :: data_checks
  be_get_uri :: "Record \<Rightarrow> BulkURI res"
  be_set_uri :: "Record \<Rightarrow> string \<Rightarrow> Record res"
  be_get_record :: "string \<Rightarrow> int option \<Rightarrow> (exn, 'w, Record) prog"
    \<comment> \<open>\<open>FetchRecordDependency\<close>\<close>
  be_get_record_partial :: "string \<Rightarrow> int option \<Rightarrow> (exn, 'w, Record) prog"
    \<comment> \<open>\<open>FetchRecordPartialDependency\<close>\<close>

definition bulk_error_as_http :: "(exn, 'w, 'a) prog \<Rightarrow> (exn, 'w, 'a) prog" where
  \<comment> \<open>\<open>except BulkError as ex: ex.raise_as_http()\<close>\<close>
  "bulk_error_as_http m = tryM m (\<lambda>e. case e of BulkErr b \<Rightarrow> raiseM (bulk_raise_as_http b) | _ \<Rightarrow> raiseM e)"

definition route_kind_check :: "('w, 'c) bulk_route_env \<Rightarrow> Record \<Rightarrow> (exn, 'w, unit) prog" where
  "route_kind_check env r = liftM (raise_if_not_osdu_right_entity_kind r (be_state env) 400)"

definition uri_or_422 :: "('w, 'c) bulk_route_env \<Rightarrow> Record \<Rightarrow> BulkURI res" where
  \<comment> \<open>the bulk URI of a record, where an invalid one is the client's error\<close>
  "uri_or_422 env r = (case be_get_uri env r of Inl ValueError \<Rightarrow> Inl (HTTPException 422) | x \<Rightarrow> x)"

section \<open>Sessions (sessions.py)\<close>

record CreateDataSessionRequest =
  cr_fromVersion :: int
  cr_timeToLive :: int
  cr_mode :: SessionUpdateMode
  cr_meta :: "(string \<times> string) list option"

datatype UpdateSessionStateValue = Commit | Abandon

definition ws_get_session :: "('w, 'c) bulk_route_env \<Rightarrow> string \<Rightarrow> string \<Rightarrow> string \<Rightarrow> (exn, 'w, SessionInternal) prog" where
  \<comment> \<open>\<open>WithSessionStorages.get_session\<close>\<close>
  "ws_get_session env tenant record_id session_id =
     raise_http_exception (get_session (be_sessions env) tenant record_id session_id)"

definition session_from_version :: "('w, 'c) bulk_route_env \<Rightarrow> string \<Rightarrow> Record \<Rightarrow> int \<Rightarrow> (exn, 'w, int) prog" where
  "session_from_version env record_id r from_version =
     (if from_version = 0
      then (case rec_version r of Some v \<Rightarrow> returnM v | None \<Rightarrow> raiseM (OtherException ''ValidationError''))
      else bindM (sc_get_record_version (be_client env) record_id (Some from_version) (be_partition env) None)
             (\<lambda>_. returnM from_version))"

definition session_meta :: "pyval \<Rightarrow> (string \<times> string) list option \<Rightarrow> (string \<times> string) list option res" where
  \<comment> \<open>the metadata of the new session with the reference curve\<close>
  "session_meta reference_curve mt =
     (if truthy reference_curve
      then (case reference_curve of
              PStr s \<Rightarrow> Inr (Some (AList.update ''reference_curve'' s (case mt of Some m \<Rightarrow> m | None \<Rightarrow> [])))
            | _ \<Rightarrow> Inl (OtherException ''ValidationError''))
      else Inr mt)"

definition create_session_route ::
    "('w, 'c) bulk_route_env \<Rightarrow> string \<Rightarrow> CreateDataSessionRequest \<Rightarrow> (exn, 'w, Session) prog" where
  "create_session_route env record_id create_rq =
     bindM (be_resolve_tenant env) (\<lambda>tenant.
     bindM (sc_get_record (be_client env) record_id (be_partition env) None) (\<lambda>r.
     bindM (route_kind_check env r) (\<lambda>_.
     bindM (session_from_version env record_id r (cr_fromVersion create_rq)) (\<lambda>from_version.
     bindM (liftM (dc_get_reference_curve (be_checks env) r)) (\<lambda>reference_curve.
     bindM (liftM (session_meta reference_curve (cr_meta create_rq))) (\<lambda>mt.
     bindM (create_session (be_sessions env) tenant record_id from_version (cr_timeToLive create_rq) (cr_mode create_rq) mt None)
       (\<lambda>i. returnM (session i))))))))"

definition get_session_route :: "('w, 'c) bulk_route_env \<Rightarrow> string \<Rightarrow> string \<Rightarrow> (exn, 'w, Session) prog" where
  "get_session_route env record_id session_id =
     bindM (be_resolve_tenant env) (\<lambda>tenant.
     bindM (sc_get_record (be_client env) record_id (be_partition env) None) (\<lambda>r.
     bindM (route_kind_check env r) (\<lambda>_.
     bindM (ws_get_session env tenant record_id session_id) (\<lambda>i. returnM (session i)))))"

definition delete_session_route :: "('w, 'c) bulk_route_env \<Rightarrow> string \<Rightarrow> string \<Rightarrow> (exn, 'w, unit) prog" where
  "delete_session_route env record_id session_id =
     bindM (be_resolve_tenant env) (\<lambda>tenant. delete_session (be_sessions env) tenant record_id session_id True)"

definition list_session_route :: "('w, 'c) bulk_route_env \<Rightarrow> string \<Rightarrow> (exn, 'w, Session list) prog" where
  "list_session_route env record_id =
     bindM (be_resolve_tenant env) (\<lambda>tenant.
     bindM (sc_get_record (be_client env) record_id (be_partition env) None) (\<lambda>r.
     bindM (route_kind_check env r) (\<lambda>_.
     bindM (list_sessions (be_sessions env) tenant record_id) (\<lambda>session_ids.
     bindM (mapM (ws_get_session env tenant record_id) session_ids) (\<lambda>results.
       returnM (map session results))))))"

section \<open>Bulk data (bulk_routes.py)\<close>

definition post_data :: "('w, 'c) bulk_route_env \<Rightarrow> string \<Rightarrow> string option \<Rightarrow> body
    \<Rightarrow> (exn, 'w, CreateUpdateRecordsResponse) prog" where
  \<comment> \<open>the third argument is the header \<open>Content-Type\<close>\<close>
  "post_data env record_id content_type data =
     bindM (liftM (write_bulk_content_type content_type)) (\<lambda>mime.
     bindM (be_get_record env record_id None) (\<lambda>r.
     bindM (route_kind_check env r) (\<lambda>_.
     bindM (bulk_error_as_http (write_bulk (be_worker env) data mime (be_checks env) r)) (\<lambda>(new_bulk_id, _).
       set_bulk_field_and_send_record (be_client env) (be_partition env) (be_set_uri env) new_bulk_id r))))"

definition post_chunk_data :: "('w, 'c) bulk_route_env \<Rightarrow> string \<Rightarrow> string \<Rightarrow> string option \<Rightarrow> body
    \<Rightarrow> (exn, 'w, DataframeBasicDescribe) prog" where
  "post_chunk_data env record_id session_id content_type data =
     bindM (liftM (write_bulk_content_type content_type)) (\<lambda>mime.
     bindM (be_resolve_tenant env) (\<lambda>tenant.
     bindM (ws_get_session env tenant record_id session_id) (\<lambda>i.
       if state (session i) \<noteq> Open then raiseM (HTTPException 400)
       else bulk_error_as_http (write_chunk (be_worker env) data mime record_id (sess_id (session i))
              (get_meta_value (session i) ''reference_curve'' None)))))"

definition get_data_version :: "('w, 'c) bulk_route_env \<Rightarrow> string \<Rightarrow> int option \<Rightarrow> GetDataParams \<Rightarrow> string option
    \<Rightarrow> JSONOrient option \<Rightarrow> (exn, 'w, bulk_response) prog" where
  \<comment> \<open>the fifth argument is the header \<open>Accept\<close>\<close>
  "get_data_version env record_id version data_param accept orient =
     bindM (liftM (read_bulk_accept_type accept)) (\<lambda>mime.
     bindM (be_get_record_partial env record_id version) (\<lambda>r.
     bindM (route_kind_check env r) (\<lambda>_.
     bindM (liftM (uri_or_422 env r)) (\<lambda>bulk_uri.
       bulk_error_as_http
         (if \<not> is_valid bulk_uri then raiseM (BulkErr (make_BulkRecordNotFound (Some record_id) None None))
          else read_data (be_worker env) record_id bulk_uri data_param mime orient)))))"

definition get_data :: "('w, 'c) bulk_route_env \<Rightarrow> string \<Rightarrow> GetDataParams \<Rightarrow> string option
    \<Rightarrow> JSONOrient option \<Rightarrow> (exn, 'w, bulk_response) prog" where
  "get_data env record_id ctrl_p accept orient = get_data_version env record_id None ctrl_p accept orient"

definition previous_bulk :: "('w, 'c) bulk_route_env \<Rightarrow> Session \<Rightarrow> Record \<Rightarrow> BulkURI option res" where
  "previous_bulk env s r =
     (if mode s = Update then bindR (uri_or_422 env r) (\<lambda>u. Inr (Some u)) else Inr None)"

definition extended_load :: "Session \<Rightarrow> Record \<Rightarrow> Record res" where
  \<comment> \<open>\<open>IsExtendedLoad\<close> is reset when the session says that the load is complete\<close>
  "extended_load s r =
     (let completed = (case meta s of
            Some (m # ms) \<Rightarrow> Some (lower (case map_of (m # ms) ''extendedLoadCompleted'' of Some v \<Rightarrow> v | None \<Rightarrow> []))
          | _ \<Rightarrow> None)
      in bindR (v_contains ''IsExtendedLoad'' (rec_data r)) (\<lambda>present.
           if present \<and> completed = Some ''true''
           then bindR (v_setitem (rec_data r) ''IsExtendedLoad'' (PBool False)) (\<lambda>d. Inr (r\<lparr>rec_data := d\<rparr>))
           else Inr r))"

definition commit_body :: "('w, 'c) bulk_route_env \<Rightarrow> string \<Rightarrow> CompletionContextManager
    \<Rightarrow> (exn, 'w, CreateUpdateRecordsResponse) prog" where
  \<comment> \<open>what happens between entering and leaving the context manager of a commit\<close>
  "commit_body env record_id guard =
     (let s = session (the (cm_session guard)) in
      bindM (fetch_record (be_client env) (be_partition env) record_id (Some (fromVersion s)) None) (\<lambda>r.
      bindM (route_kind_check env r) (\<lambda>_.
      bindM (liftM (previous_bulk env s r)) (\<lambda>previous_bulk_uri.
      bindM (liftM (dc_get_reference_curve (be_checks env) r)) (\<lambda>reference_curve.
      bindM (write_complete_session (be_worker env) (be_checks env) r s previous_bulk_uri reference_curve) (\<lambda>new_bulk_id.
      bindM (liftM (extended_load s r)) (\<lambda>r'.
        set_bulk_field_and_send_record (be_client env) (be_partition env) (be_set_uri env) new_bulk_id r')))))))"

record CommitSessionResponse =
  cs_session :: Session
  cs_version :: "int option"

definition committed_response :: "CompletionContextManager \<Rightarrow> CreateUpdateRecordsResponse \<Rightarrow> CommitSessionResponse res" where
  "committed_response guard new_record =
     (let s = session (the (cm_session guard)); s = s\<lparr>meta := Some (case meta s of Some m \<Rightarrow> m | None \<Rightarrow> [])\<rparr> in
      case resp_recordIdVersions new_record of
        [] \<Rightarrow> Inl IndexError
      | v # _ \<Rightarrow> bindR (split_record_id_version v) (\<lambda>(_, updated_version).
          if updated_version = None then Inl RuntimeError else Inr \<lparr>cs_session = s, cs_version = updated_version\<rparr>))"

definition http_error :: "exn \<Rightarrow> exn" where
  \<comment> \<open>\<open>except SessionException as ex: ex.raise_as_http()\<close> and the same for \<open>BulkError\<close>\<close>
  "http_error e = (case e of
       SessionErr x \<Rightarrow> session_raise_as_http x
     | BulkErr b \<Rightarrow> bulk_raise_as_http b
     | _ \<Rightarrow> e)"

definition session_errors_as_http :: "(exn, 'w, 'a) prog \<Rightarrow> (exn, 'w, 'a) prog" where
  "session_errors_as_http m = tryM m (\<lambda>e. raiseM (http_error e))"

definition complete_session :: "('w, 'c) bulk_route_env \<Rightarrow> string \<Rightarrow> string \<Rightarrow> UpdateSessionStateValue
    \<Rightarrow> (exn, 'w, CommitSessionResponse) prog" where
  "complete_session env record_id session_id update_request =
     bindM (be_resolve_tenant env) (\<lambda>tenant. session_errors_as_http (case update_request of
         Commit \<Rightarrow>
           bindM (with_completion (be_sessions env) (initiate_commit tenant record_id session_id) (commit_body env record_id))
             (\<lambda>(new_record, guard). liftM (committed_response guard new_record))
       | Abandon \<Rightarrow>
           bindM (with_completion (be_sessions env) (initiate_abandon tenant record_id session_id) (\<lambda>_. returnM ()))
             (\<lambda>(_, guard). returnM \<lparr>cs_session = session (the (cm_session guard)), cs_version = None\<rparr>)))"

section \<open>Statistics (statistics_routes.py)\<close>

definition curves_selection :: "string option \<Rightarrow> string list" where
  "curves_selection curves = (case curves of
       None \<Rightarrow> []
     | Some c \<Rightarrow> if c = [] then []
                else foldl dict_add [] (filter (\<lambda>s. s \<noteq> []) (map strip (split_char (CHR '','') c))))"

definition statistics_error :: "exn \<Rightarrow> exn" where
  "statistics_error e = (case e of
       BulkErr (BulkCurvesNotFound _) \<Rightarrow> BulkStatisticsHTTPException 404 (the (public_error_type RequestedCurvesError))
     | BulkErr (BulkRecordNotFound _) \<Rightarrow> HTTPException 404
     | StatisticsErr s \<Rightarrow>
         if s \<in> {StatisticsNotFoundError, RequestedCurvesError, ComputationNotCompleteError}
         then BulkStatisticsHTTPException 404 (the (public_error_type s)) else e
     | _ \<Rightarrow> e)"

definition get_bulk_statistics_of :: "('w, 'c) bulk_route_env \<Rightarrow> string option \<Rightarrow> Record \<Rightarrow> (exn, 'w, bulk_response) prog" where
  \<comment> \<open>the body of the route, for the record its dependency has fetched\<close>
  "get_bulk_statistics_of env curves r =
     bindM (liftM (uri_or_422 env r)) (\<lambda>bulk_uri.
       if \<not> is_valid bulk_uri then raiseM (bulk_raise_as_http (make_BulkRecordNotFound (rec_id r) None None))
       else tryM (get_statistics (be_worker env) (rec_id r) (bulk_id bulk_uri) (curves_selection curves))
              (\<lambda>e. raiseM (statistics_error e)))"

definition get_bulk_statistics_version :: "('w, 'c) bulk_route_env \<Rightarrow> string \<Rightarrow> int \<Rightarrow> string option
    \<Rightarrow> (exn, 'w, bulk_response) prog" where
  "get_bulk_statistics_version env record_id version curves =
     (if \<not> WellLogId record_id then raiseM (HTTPException 422)
      else bindM (fetch_record_dependency (be_client env) (be_partition env) record_id (Some version))
             (get_bulk_statistics_of env curves))"

definition get_bulk_statistics :: "('w, 'c) bulk_route_env \<Rightarrow> string \<Rightarrow> string option \<Rightarrow> (exn, 'w, bulk_response) prog" where
  "get_bulk_statistics env record_id curves =
     (if \<not> WellLogId record_id then raiseM (HTTPException 422)
      else bindM (fetch_latest_version_record_dependency (be_client env) (be_partition env) record_id)
             (get_bulk_statistics_of env curves))"

definition compute_bulk_statistics :: "('w, 'c) bulk_route_env \<Rightarrow> string \<Rightarrow> int \<Rightarrow> (exn, 'w, bulk_response) prog" where
  "compute_bulk_statistics env record_id version =
     (if \<not> WellLogId record_id then raiseM (HTTPException 422)
      else bindM (fetch_record_dependency (be_client env) (be_partition env) record_id (Some version)) (\<lambda>r.
           bindM (liftM (uri_or_422 env r)) (\<lambda>bulk_uri.
             if \<not> is_valid bulk_uri then raiseM (HTTPException 422)
             else tryM (post_statistics (be_worker env) (rec_id r) (bulk_id bulk_uri) (rec_version r))
                    (\<lambda>e. case e of StatisticsErr ComputationRunningError \<Rightarrow> raiseM (HTTPException 409) | _ \<Rightarrow> raiseM e))))"

section \<open>What the routes rely on\<close>

text \<open>The storage service and the worker do not write the blobs of the sessions, and the tenant of the
  partition is known.\<close>

definition leaves_session :: "('w, 'c) bulk_route_env \<Rightarrow> ('w, 'c) view \<Rightarrow> string \<times> string \<Rightarrow> bool" where
  "leaves_session env view k \<longleftrightarrow>
     (\<forall>i v p a. keeps_session view k (sc_get_record_version (be_client env) i v p a))
     \<and> (\<forall>i p a. keeps_session view k (sc_get_record (be_client env) i p a))
     \<and> (\<forall>rs p. keeps_session view k (sc_create_or_update_records (be_client env) rs p))
     \<and> (\<forall>rq. keeps_session view k (wk_send (be_worker env) rq))"

definition tenant_resolved :: "('w, 'c) bulk_route_env \<Rightarrow> ('w, 'c) view \<Rightarrow> string \<Rightarrow> bool" where
  "tenant_resolved env view tenant \<longleftrightarrow> (\<forall>w. \<exists>w'. be_resolve_tenant env w = (Inr tenant, w') \<and> view w' = view w)"

lemma keeps_session_intros [intro]:
  "keeps_session view k (returnM v)" "keeps_session view k (raiseM e)" "keeps_session view k (liftM r)"
  by (simp_all add: keeps_session_def)

lemma keeps_session_bind [intro]:
  assumes "keeps_session view k m" and "\<And>x. keeps_session view k (f x)"
  shows "keeps_session view k (bindM m f)"
  unfolding keeps_session_def
proof
  fix u
  obtain r u' where m: "m u = (r, u')" by fastforce
  with assms(1) have "view u' k = view u k" by (metis keeps_session_def snd_conv)
  with m assms(2) show "view (snd (bindM m f u)) k = view u k"
    by (cases r) (simp_all add: bindM_run keeps_session_def)
qed

lemma keeps_commit_body:
  assumes "leaves_session env view k"
  shows "keeps_session view k (commit_body env record_id guard)"
  using assms unfolding leaves_session_def commit_body_def fetch_record_def route_kind_check_def
    write_complete_session_def set_bulk_field_and_send_record_def Let_def
  by (auto intro!: keeps_session_bind keeps_session_intros split: prod.splits)

section \<open>Committing a session\<close>

text \<open>What a successful commit has done: it has fetched the version of the record that the session starts
  from, a record of the right kind; the worker has written the bulk of the session; the description of the
  bulk has passed the consistency check; and the record with the reference to the new bulk has been sent to
  the storage service, which has answered.\<close>

definition commit_recorded :: "('w, 'c) bulk_route_env \<Rightarrow> string \<Rightarrow> Session \<Rightarrow> CreateUpdateRecordsResponse \<Rightarrow> bool" where
  "commit_recorded env record_id s new_record \<longleftrightarrow> (\<exists>r rq resp v d b r1 r2 u u1 u2 u3.
     fetch_record (be_client env) (be_partition env) record_id (Some (fromVersion s)) None u = (Inr r, u1)
     \<and> raise_if_not_osdu_right_entity_kind r (be_state env) 400 = Inr ()
     \<and> wk_send (be_worker env) rq u1 = (Inr resp, u2) \<and> rq_method rq = ''PATCH''
     \<and> rq_path rq = ''/data/'' @ str_or_None (rec_id r) @ ''/session/'' @ sess_id s
     \<and> hr_status_code resp = 200 \<and> written_bulk (be_worker env) (be_checks env) r resp = Inr (v, d)
     \<and> dc_check_bulk_consistency (be_checks env) r d = Inr ()
     \<and> extended_load s r = Inr r1 \<and> bulk_id_string v = Inr b \<and> be_set_uri env r1 b = Inr r2
     \<and> sc_create_or_update_records (be_client env) [r2] (be_partition env) u2 = (Inr new_record, u3))"

lemma written_bulk_ok:
  "written_bulk env checks r resp = Inr (v, d) \<Longrightarrow>
     hr_status_code resp = 200 \<and> dc_check_bulk_consistency checks r d = Inr ()"
  by (auto simp: written_bulk_def response_as_json_def bindR_Inr_iff split: if_splits)

lemma commit_body_ok:
  assumes "commit_body env record_id guard u = (Inr new_record, u')"
    and "cm_session guard = Some (i\<lparr>session := (session i)\<lparr>state := st, updatedTime := t\<rparr>, etag := e\<rparr>)"
  shows "commit_recorded env record_id (session i) new_record"
proof -
  have "extended_load ((session i)\<lparr>state := st, updatedTime := t\<rparr>) r = extended_load (session i) r" for r
    by (simp add: extended_load_def)
  with assms show ?thesis
    unfolding commit_body_def commit_recorded_def
    by (auto simp: bindM_Inr_iff Let_def route_kind_check_def write_complete_session_def
        set_bulk_field_and_send_record_def bindR_Inr_iff written_bulk_ok split: prod.splits) 
     (fastforce dest: written_bulk_ok)
qed

lemma tenant_at:
  assumes "tenant_resolved env view tenant" and "session_at (be_sessions env) view w tenant i"
  obtains w' where "be_resolve_tenant env w = (Inr tenant, w')" "view w' = view w"
    "session_at (be_sessions env) view w' tenant i"
  using assms unfolding tenant_resolved_def by (metis session_at_def)

lemma committed_response_cases:
  "committed_response guard new_record = (case resp_recordIdVersions new_record of
     [] \<Rightarrow> Inl IndexError
   | v # _ \<Rightarrow> (case split_record_id_version v of
        Inl e \<Rightarrow> Inl e
      | Inr (_, None) \<Rightarrow> Inl RuntimeError
      | Inr (_, Some n) \<Rightarrow> Inr \<lparr>cs_session = (session (the (cm_session guard)))
            \<lparr>meta := Some (case meta (session (the (cm_session guard))) of Some m \<Rightarrow> m | None \<Rightarrow> [])\<rparr>,
          cs_version = Some n\<rparr>))"
  by (auto simp: committed_response_def Let_def bindR_def split: list.splits sum.splits option.splits)

text \<open>C5: Committing a session.  On a stored open session, the commit route either fails before the record
  is sent, and then the stored session is open again and the error is the one that was raised, as an HTTP error
  when it is a session or bulk error; or the worker has written the bulk, its description has passed the
  consistency check, the record with the reference to the new bulk has been accepted by the storage service, and
  the stored session is committed.  In the second case the answer carries the committed session and the version
  in the identifier that the storage service returned, or an error when that identifier is missing, malformed or
  without version.  Nothing but state and update time of the session changes.\<close>

theorem commit_route_spec:
  assumes "sessions_laws (be_sessions env) view" and "tenant_resolved env view tenant"
    and "session_at (be_sessions env) view w tenant i" and "state (session i) = Open"
    and "leaves_session env view (session_key tenant (recordId (session i)) (sess_id (session i)))"
  shows "\<exists>res w' i' t. complete_session env (recordId (session i)) (sess_id (session i)) Commit w = (res, w')
     \<and> session_at (be_sessions env) view w' tenant i'
     \<and> ((session i' = (session i)\<lparr>state := Open, updatedTime := t\<rparr> \<and> (\<exists>e. res = Inl (http_error e)))
       \<or> (session i' = (session i)\<lparr>state := Committed, updatedTime := t\<rparr> \<and>
          (\<exists>new_record. commit_recorded env (recordId (session i)) (session i) new_record \<and>
            (case resp_recordIdVersions new_record of
               [] \<Rightarrow> res = Inl IndexError
             | v # _ \<Rightarrow> (case split_record_id_version v of
                  Inl e \<Rightarrow> res = Inl (http_error e)
                | Inr (_, None) \<Rightarrow> res = Inl RuntimeError
                | Inr (_, Some n) \<Rightarrow> res = Inr \<lparr>cs_session = (session i')
                    \<lparr>meta := Some (case meta (session i) of Some m \<Rightarrow> m | None \<Rightarrow> [])\<rparr>, cs_version = Some n\<rparr>)))))"
proof -
  let ?rid = "recordId (session i)" and ?sid = "sess_id (session i)"
  from tenant_at [OF assms(2,3)] obtain w0 where
    w0: "be_resolve_tenant env w = (Inr tenant, w0)" "session_at (be_sessions env) view w0 tenant i" .
  from completion_run [where commit = True and body = "commit_body env ?rid",
      OF assms(1) w0(2) assms(4) keeps_commit_body [OF assms(5)], unfolded if_True, folded initiate_commit_def]
  obtain r w' i' t guard u t1 e1 where
    run: "with_completion (be_sessions env) (initiate_commit tenant ?rid ?sid) (commit_body env ?rid) w0 = (r, w')"
    and g: "cm_session guard = Some (i\<lparr>session := (session i)\<lparr>state := Committing, updatedTime := t1\<rparr>, etag := Some e1\<rparr>)"
    and at: "session_at (be_sessions env) view w' tenant i'"
    and out: "case fst (commit_body env ?rid guard u) of
          Inr v \<Rightarrow> (\<exists>cm. r = Inr (v, cm) \<and> cm_session cm = Some i')
            \<and> session i' = (session i)\<lparr>state := Committed, updatedTime := t\<rparr>
        | Inl e \<Rightarrow> r = Inl e \<and> session i' = (session i)\<lparr>state := Open, updatedTime := t\<rparr>"
    by blast
  have route: "complete_session env ?rid ?sid Commit w = (case r of
      Inl e \<Rightarrow> (Inl (http_error e), w')
    | Inr (new_record, cm) \<Rightarrow> (case committed_response cm new_record of
        Inl e \<Rightarrow> Inl (http_error e) | Inr x \<Rightarrow> Inr x, w'))"
    using run w0(1) by (auto simp: complete_session_def session_errors_as_http_def bindM_run tryM_run split: sum.splits)
  show ?thesis
  proof (cases "fst (commit_body env ?rid guard u)")
    case (Inl e)
    with out route at show ?thesis by (intro exI [of _ w'] exI [of _ i'] exI conjI) auto
  next
    case (Inr new_record)
    with out obtain cm where cm: "r = Inr (new_record, cm)" "cm_session cm = Some i'"
      and i': "session i' = (session i)\<lparr>state := Committed, updatedTime := t\<rparr>" by auto
    obtain u' where "commit_body env ?rid guard u = (Inr new_record, u')" using Inr by (metis fst_conv surj_pair)
    from commit_body_ok [OF this g] have "commit_recorded env ?rid (session i) new_record" .
    with cm i' route at show ?thesis
      by (intro exI [of _ w'] exI [of _ i'] exI [of _ t] exI conjI disjI2 exI [of _ new_record])
        (auto simp: committed_response_cases http_error_def split: list.splits sum.splits option.splits)
  qed
qed

section \<open>Closed sessions\<close>

lemma enter_closed:
  assumes "sessions_laws env view" and "session_at env view w tenant i" and "is_closed (session i)"
  shows "\<exists>w'. with_completion env (initiate_completion tenant (recordId (session i)) (sess_id (session i)) commit) body w
     = (Inl (SessionErr (SessionInvalidState (recordId (session i)) (sess_id (session i)))), w') \<and> view w' = view w"
proof -
  from get_session_at [OF assms(1,2)] obtain w' where
    "get_session env tenant (recordId (session i)) (sess_id (session i)) w = (Inr i, w')" "view w' = view w" .
  with assms(3) show ?thesis
    by (simp add: with_completion_def aenter_def initiate_completion_def update_session_state_def apply_state_def
        check_state_update_def bindM_run Let_def)
qed

text \<open>C6: A committed or abandoned session is final.  Every later request to commit or abandon it is answered
  with conflict (409), every chunk sent to it is refused with bad request (400), without any call to the worker,
  and the stored sessions stay as they are.\<close>

theorem closed_session_refused:
  assumes "sessions_laws (be_sessions env) view" and "tenant_resolved env view tenant"
    and "session_at (be_sessions env) view w tenant i" and "is_closed (session i)"
    and "write_bulk_content_type ct = Inr m"
  shows "(\<exists>w'. complete_session env (recordId (session i)) (sess_id (session i)) req w = (Inl (HTTPException 409), w')
       \<and> view w' = view w)
    \<and> (\<exists>w'. post_chunk_data env (recordId (session i)) (sess_id (session i)) ct data w = (Inl (HTTPException 400), w')
       \<and> view w' = view w)"
proof -
  let ?rid = "recordId (session i)" and ?sid = "sess_id (session i)"
  from tenant_at [OF assms(2,3)] obtain w0 where w0: "be_resolve_tenant env w = (Inr tenant, w0)" "view w0 = view w"
    "session_at (be_sessions env) view w0 tenant i" .
  from enter_closed [OF assms(1) w0(3) assms(4), where commit = True and body = "commit_body env ?rid"]
  have c: "\<exists>w'. complete_session env ?rid ?sid Commit w = (Inl (HTTPException 409), w') \<and> view w' = view w"
    using w0(1,2) by (auto simp: complete_session_def initiate_commit_def session_errors_as_http_def bindM_run tryM_run
        http_error_def session_raise_as_http_def)
  from enter_closed [OF assms(1) w0(3) assms(4), where commit = False and body = "\<lambda>_. returnM ()"]
  have a: "\<exists>w'. complete_session env ?rid ?sid Abandon w = (Inl (HTTPException 409), w') \<and> view w' = view w"
    using w0(1,2) by (auto simp: complete_session_def initiate_abandon_def session_errors_as_http_def bindM_run tryM_run
        http_error_def session_raise_as_http_def)
  from get_session_at [OF assms(1) w0(3)] obtain w1 where
    "get_session (be_sessions env) tenant ?rid ?sid w0 = (Inr i, w1)" "view w1 = view w0" .
  with w0 assms(4,5) have "\<exists>w'. post_chunk_data env ?rid ?sid ct data w = (Inl (HTTPException 400), w') \<and> view w' = view w"
    by (auto simp: post_chunk_data_def ws_get_session_def raise_http_exception_def bindM_run tryM_run is_closed_def)
  with a c show ?thesis by (cases req) simp_all
qed

section \<open>Creating a session\<close>



section \<open>Witnesses\<close>

definition test_info :: BulkInfoForConsistency where
  "test_info = \<lparr>bi_rowCount = 1, bi_curves = [], bi_reference = None\<rparr>"

definition test_worker :: "'w worker_env" where
  "test_worker = \<lparr>wk_send = (\<lambda>_. returnM \<lparr>hr_status_code = 200, hr_text = [], hr_content = [],
       hr_json = Inr (PDict [(''bulkid'', PStr (uuid_to_str 42)), (''describe'', PNone)])\<rparr>),
     wk_headers = [], wk_parse_info = (\<lambda>_. Inr test_info), wk_start_end_index = (\<lambda>_. ([], []))\<rparr>"

definition test_client :: "'w storage_client" where
  "test_client = \<lparr>sc_get_record_version = (\<lambda>_ v _ _. returnM (test_welllog\<lparr>rec_version := v\<rparr>)),
     sc_get_record = (\<lambda>_ _ _. returnM (test_welllog\<lparr>rec_version := Some 7\<rparr>)),
     sc_get_all_record_versions = (\<lambda>_ _. returnM [7]),
     sc_create_or_update_records = (\<lambda>_ _. returnM \<lparr>resp_recordCount = 1, resp_recordIds = [''a:b:c''],
       resp_recordIdVersions = [''a:b:c:8'']\<rparr>),
     sc_delete_record = (\<lambda>_ _. returnM ()), sc_purge_record = (\<lambda>_ _. returnM ())\<rparr>"

definition test_route_env :: "((Session \<times> pyval option) test_world, Session \<times> pyval option) bulk_route_env" where
  "test_route_env = \<lparr>be_sessions = test_env, be_resolve_tenant = returnM ''t'', be_client = test_client,
     be_partition = Some ''p'', be_worker = test_worker,
     be_state = \<lparr>st_version = Some ''V3'', st_entity_type = Some WELL_LOG\<rparr>,
     be_checks = \<lparr>dc_get_reference_curve = no_get_reference_curve, dc_check_bulk_consistency = no_check_bulk_consistency\<rparr>,
     be_get_uri = osdu_get_bulk_uri, be_set_uri = osdu_set_bulk_uri test_version_ge,
     be_get_record = fetch_record_dependency test_client (Some ''p''),
     be_get_record_partial = fetch_record_dependency test_client (Some ''p'')\<rparr>"

lemma test_route_laws:
  "sessions_laws (be_sessions test_route_env) test_view" "tenant_resolved test_route_env test_view ''t''"
  "leaves_session test_route_env test_view k"
  "session_at (be_sessions test_route_env) test_view (world1 st) ''t'' (test_session st)"
proof -
  show "sessions_laws (be_sessions test_route_env) test_view" using test_env_laws by (simp add: test_route_env_def)
  show "tenant_resolved test_route_env test_view ''t''" by (simp add: tenant_resolved_def test_route_env_def)
  show "leaves_session test_route_env test_view k"
    by (simp add: leaves_session_def test_route_env_def test_client_def test_worker_def keeps_session_intros)
  show "session_at (be_sessions test_route_env) test_view (world1 st) ''t'' (test_session st)"
    using test_session_at by (simp add: test_route_env_def)
qed

lemma test_commit_ok: "isOk (fst (complete_session test_route_env ''a:b:c'' ''1'' Commit (world1 Open)))"
  by code_simp

theorem commit_route_spec_witness:
  "\<exists>w' i' resp. complete_session test_route_env ''a:b:c'' ''1'' Commit (world1 Open) = (Inr resp, w')
     \<and> session_at test_env test_view w' ''t'' i' \<and> state (session i') = Committed"
proof -
  have ids: "recordId (session (test_session Open)) = ''a:b:c''" "sess_id (session (test_session Open)) = ''1''"
    "state (session (test_session Open)) = Open" "be_sessions test_route_env = test_env"
    by (simp_all add: test_session_def test_route_env_def)
  obtain resp w1 where ok: "complete_session test_route_env ''a:b:c'' ''1'' Commit (world1 Open) = (Inr resp, w1)"
    using test_commit_ok by (metis isOk_iff prod.exhaust_sel)
  from commit_route_spec [OF test_route_laws(1,2,4) ids(3) test_route_laws(3), unfolded ids] obtain res w' i' t where
    "complete_session test_route_env ''a:b:c'' ''1'' Commit (world1 Open) = (res, w')" "session_at test_env test_view w' ''t'' i'"
    "(\<exists>e. res = Inl (http_error e)) \<or> session i' = (session (test_session Open))\<lparr>state := Committed, updatedTime := t\<rparr>"
    by blast
  with ok show ?thesis by auto
qed

theorem closed_session_refused_witness:
  "(\<exists>w'. complete_session test_route_env ''a:b:c'' ''1'' Abandon (world1 Committed) = (Inl (HTTPException 409), w')
       \<and> test_view w' = test_view (world1 Committed))
    \<and> (\<exists>w'. post_chunk_data test_route_env ''a:b:c'' ''1'' (Some ''application/json'') (Bytes []) (world1 Committed)
        = (Inl (HTTPException 400), w') \<and> test_view w' = test_view (world1 Committed))"
proof -
  have ids: "recordId (session (test_session Committed)) = ''a:b:c''" "sess_id (session (test_session Committed)) = ''1''"
    by (simp_all add: test_session_def)
  have cl: "is_closed (session (test_session Committed))" by (simp add: test_session_def is_closed_def)
  have ct: "write_bulk_content_type (Some ''application/json'') = Inr JSON" by code_simp
  from closed_session_refused [OF test_route_laws(1,2,4) cl ct, of Abandon "Bytes []", unfolded ids]
  show ?thesis .
qed

definition test_create_request :: CreateDataSessionRequest where
  "test_create_request = \<lparr>cr_fromVersion = 0, cr_timeToLive = 60, cr_mode = Update, cr_meta = None\<rparr>"



text \<open>The route accepts a life time of thirty days, although its documentation promises at most 24 hours.\<close>

lemma session_longer_than_a_day:
  "\<exists>s w'. create_session_route test_route_env ''a:b:c'' (test_create_request\<lparr>cr_timeToLive := 43200\<rparr>) world0 = (Inr s, w')
     \<and> expiry s - createdTime s = 30 * 24 * 60 * 60000000"
proof -
  have "case create_session_route test_route_env ''a:b:c'' (test_create_request\<lparr>cr_timeToLive := 43200\<rparr>) world0 of
      (Inr s, _) \<Rightarrow> expiry s - createdTime s = 30 * 24 * 60 * 60000000 | (Inl _, _) \<Rightarrow> False"
    by code_simp
  then show ?thesis by (auto split: prod.splits sum.splits)
qed

end
