(* ===== verification/Search_Wrapper.thy ===== *)
theory Search_Wrapper
  imports Py_Values
begin

text \<open>
  Searching without a cursor: \<open>app/routers/search/search_wrapper.py\<close>.  The search service and the models of
  its client library are parameters: a request is the fields that the wrapper sets and the rest of the
  validated query, a response has a cursor, a list of results and a total count.  The loop of the wrapper ends
  only when the service returns no cursor; it is a partial function, and not returning is the value \<open>None\<close>.
\<close>

record cursor_query_request =
  cq_limit :: int
  cq_cursor :: "string option"
  cq_rest :: pyval

record CursorQueryResponse =
  cqr_cursor :: "string option"
  cqr_results :: "pyval list option"
  cqr_total_count :: "int option"

record 'w search_env =
  se_validate :: "pyval \<Rightarrow> cursor_query_request res"
    \<comment> \<open>\<open>CursorQueryRequest.model_validate\<close>\<close>
  se_query_with_cursor :: "string option \<Rightarrow> cursor_query_request \<Rightarrow> (exn, 'w, CursorQueryResponse) prog"

definition no_cursor :: "string option \<Rightarrow> bool" where
  "no_cursor c \<longleftrightarrow> c = None \<or> c = Some []"

partial_function (option) query_loop :: "'w search_env \<Rightarrow> string option \<Rightarrow> cursor_query_request \<Rightarrow> string option
    \<Rightarrow> CursorQueryResponse \<Rightarrow> 'w \<Rightarrow> (CursorQueryResponse res \<times> 'w) option" where
  \<comment> \<open>\<open>while True\<close>, with the cursor and the aggregated result\<close>
  "query_loop env data_partition_id request_with_cursor c agregated_result w =
     (case se_query_with_cursor env data_partition_id (request_with_cursor\<lparr>cq_cursor := c\<rparr>) w of (r, w') \<Rightarrow>
      (case r of
         Inl e \<Rightarrow> Some (Inl e, w')
       | Inr query_result \<Rightarrow>
           if no_cursor (cqr_cursor query_result) then Some (Inr agregated_result, w')
           else (case cqr_results query_result of
               None \<Rightarrow> Some (Inl TypeError, w')
             | Some rs \<Rightarrow> query_loop env data_partition_id request_with_cursor (cqr_cursor query_result)
                 (agregated_result\<lparr>cqr_results := Some ((case cqr_results agregated_result of Some l \<Rightarrow> l | None \<Rightarrow> []) @ rs),
                    cqr_total_count := cqr_total_count query_result\<rparr>) w')))"

definition query_cursorless :: "'w search_env \<Rightarrow> string option \<Rightarrow> pyval \<Rightarrow> 'w \<Rightarrow> (CursorQueryResponse res \<times> 'w) option" where
  "query_cursorless env data_partition_id query_request w =
     (case se_validate env query_request of
        Inl e \<Rightarrow> Some (Inl e, w)
      | Inr request_with_cursor \<Rightarrow>
          query_loop env data_partition_id (request_with_cursor\<lparr>cq_limit := 100, cq_cursor := None\<rparr>) None
            \<lparr>cqr_cursor = None, cqr_results = Some [], cqr_total_count = None\<rparr> w)"

section \<open>Answers of the service, page by page\<close>

text \<open>\<open>served env p rq c w pages last w'\<close>: asked again and again, from cursor \<open>c\<close> and world \<open>w\<close>, the service
  returns the pages \<open>pages\<close>, each with results and a cursor for the next, and then \<open>last\<close>, without cursor.\<close>

inductive served :: "'w search_env \<Rightarrow> string option \<Rightarrow> cursor_query_request \<Rightarrow> string option \<Rightarrow> 'w
    \<Rightarrow> CursorQueryResponse list \<Rightarrow> CursorQueryResponse \<Rightarrow> 'w \<Rightarrow> bool"
  for env p rq where
  served_last: "served env p rq c w [] l w'"
    if "se_query_with_cursor env p (rq\<lparr>cq_cursor := c\<rparr>) w = (Inr l, w')" "no_cursor (cqr_cursor l)"
| served_page: "served env p rq c w (q # qs) l w''"
    if "se_query_with_cursor env p (rq\<lparr>cq_cursor := c\<rparr>) w = (Inr q, w')" "\<not> no_cursor (cqr_cursor q)"
      "cqr_results q \<noteq> None" "served env p rq (cqr_cursor q) w' qs l w''"

definition page_results :: "CursorQueryResponse list \<Rightarrow> pyval list" where
  "page_results qs = concat (map (the \<circ> cqr_results) qs)"

lemma query_loop_served:
  assumes "served env p rq c w qs l w'" and "cqr_results acc = Some rs"
  shows "query_loop env p rq c acc w = Some (Inr (acc\<lparr>cqr_results := Some (rs @ page_results qs),
     cqr_total_count := if qs = [] then cqr_total_count acc else cqr_total_count (last qs)\<rparr>), w')"
  using assms
proof (induction arbitrary: acc rs rule: served.induct)
  case (served_last c w l w')
  then show ?case by (subst query_loop.simps) (cases acc, simp add: page_results_def)
next
  case (served_page c w q w' qs l w'')
  from served_page(3) obtain r where r: "cqr_results q = Some r" by blast
  let ?acc = "acc\<lparr>cqr_results := Some (rs @ r), cqr_total_count := cqr_total_count q\<rparr>"
  have "query_loop env p rq c acc w = query_loop env p rq (cqr_cursor q) ?acc w'"
    using served_page(1,2,6) r by (subst query_loop.simps) simp
  then show ?case using served_page.IH [of ?acc "rs @ r"] r by (simp add: page_results_def)
qed

lemma query_loop_returns:
  assumes "query_loop env p rq c acc w = Some y"
  shows "\<not> (\<forall>c w. \<exists>q w'. se_query_with_cursor env p (rq\<lparr>cq_cursor := c\<rparr>) w = (Inr q, w')
      \<and> \<not> no_cursor (cqr_cursor q) \<and> cqr_results q \<noteq> None)"
  using assms
proof (induction rule: query_loop.raw_induct [rotated, consumes 1, case_names step])
  case (step loop env p rq c acc w y)
  show ?case
  proof
    assume all: "\<forall>c w. \<exists>q w'. se_query_with_cursor env p (rq\<lparr>cq_cursor := c\<rparr>) w = (Inr q, w')
      \<and> \<not> no_cursor (cqr_cursor q) \<and> cqr_results q \<noteq> None"
    then obtain q w' rs where "se_query_with_cursor env p (rq\<lparr>cq_cursor := c\<rparr>) w = (Inr q, w')"
      "\<not> no_cursor (cqr_cursor q)" "cqr_results q = Some rs" by blast
    with step(2) have "\<exists>acc. loop env p rq (cqr_cursor q) acc w' = Some y" by auto
    with step(1) all show False by blast
  qed
qed

section \<open>Properties\<close>

text \<open>C38: Searching without a cursor.  When the service answers with finitely many pages, the wrapper returns,
  with the results of all pages that come with a cursor, in order, and the total count of the last of them;
  so the answer is complete exactly when the page that ends the search, the one without cursor, has no results.
  When every answer carries a cursor, the wrapper never returns.\<close>

theorem query_cursorless_pages:
  assumes "se_validate env query = Inr request"
    and "served env p (request\<lparr>cq_limit := 100, cq_cursor := None\<rparr>) None w qs l w'" and "cqr_results l = Some rs"
  shows "\<exists>out. query_cursorless env p query w = Some (Inr out, w') \<and> cqr_results out = Some (page_results qs)
    \<and> (qs \<noteq> [] \<longrightarrow> cqr_total_count out = cqr_total_count (last qs))
    \<and> (cqr_results out = Some (page_results (qs @ [l])) \<longleftrightarrow> rs = [])
    \<and> ((\<forall>c w. \<exists>q w'. se_query_with_cursor env' p (request\<lparr>cq_limit := 100, cq_cursor := c\<rparr>) w = (Inr q, w')
          \<and> \<not> no_cursor (cqr_cursor q) \<and> cqr_results q \<noteq> None)
        \<longrightarrow> se_validate env' query = Inr request \<longrightarrow> query_cursorless env' p query w = None)"
proof -
  let ?rq = "request\<lparr>cq_limit := 100, cq_cursor := None\<rparr>"
  from query_loop_served [OF assms(2), of "\<lparr>cqr_cursor = None, cqr_results = Some [], cqr_total_count = None\<rparr>" "[]"]
  have "query_cursorless env p query w = Some (Inr \<lparr>cqr_cursor = None, cqr_results = Some (page_results qs),
      cqr_total_count = if qs = [] then None else cqr_total_count (last qs)\<rparr>, w')"
    using assms(1) by (simp add: query_cursorless_def)
  moreover have "query_cursorless env' p query w = None"
    if all: "\<forall>c w. \<exists>q w'. se_query_with_cursor env' p (request\<lparr>cq_limit := 100, cq_cursor := c\<rparr>) w = (Inr q, w')
          \<and> \<not> no_cursor (cqr_cursor q) \<and> cqr_results q \<noteq> None" and val: "se_validate env' query = Inr request"
  proof (rule ccontr)
    assume "query_cursorless env' p query w \<noteq> None"
    then obtain y where "query_loop env' p ?rq None
        \<lparr>cqr_cursor = None, cqr_results = Some [], cqr_total_count = None\<rparr> w = Some y"
      using val by (auto simp: query_cursorless_def)
    from query_loop_returns [OF this] all show False by (simp del: not_None_eq) meson
  qed
  ultimately show ?thesis using assms(3) by (auto simp: page_results_def)
qed

text \<open>A service with two pages; the second, without cursor, has a result too.\<close>

definition test_page :: "string option \<Rightarrow> pyval \<Rightarrow> CursorQueryResponse" where
  "test_page c v = \<lparr>cqr_cursor = c, cqr_results = Some [v], cqr_total_count = Some 2\<rparr>"

definition test_search :: "unit search_env" where
  "test_search = \<lparr>se_validate = (\<lambda>q. Inr \<lparr>cq_limit = 10, cq_cursor = None, cq_rest = q\<rparr>),
     se_query_with_cursor = (\<lambda>_ rq. returnM (if cq_cursor rq = None then test_page (Some ''c'') (PInt 1)
        else test_page None (PInt 2)))\<rparr>"

theorem query_cursorless_pages_witness:
  "\<exists>out. query_cursorless test_search None PNone () = Some (Inr out, ()) \<and> cqr_results out = Some [PInt 1]"
proof -
  let ?rq = "\<lparr>cq_limit = 10, cq_cursor = None, cq_rest = PNone\<rparr>"
  have v: "se_validate test_search PNone = Inr ?rq" by (simp add: test_search_def)
  have "served test_search None (?rq\<lparr>cq_limit := 100, cq_cursor := None\<rparr>) None ()
      [test_page (Some ''c'') (PInt 1)] (test_page None (PInt 2)) ()"
    by (intro served.intros [of test_search]) (simp_all add: test_search_def test_page_def no_cursor_def)
  moreover have "cqr_results (test_page None (PInt 2)) = Some [PInt 2]" by (simp add: test_page_def)
  ultimately show ?thesis
    using query_cursorless_pages [OF v] by (fastforce simp: page_results_def test_page_def)
qed

end
