(* ===== verification/Log_Recognition.thy ===== *)
theory Log_Recognition
  imports Record_Storage Request_Context
begin

text \<open>
  Recognition of log families: \<open>app/routers/log_recognition/family_processor_manager.py\<close>, the cache of family
  processors, and \<open>app/routers/log_recognition/log_recognition.py\<close>, its routes.  The family processors (package
  \<open>far\<close>), the storage service and the clock are parameters.  The manager is one object of the process: its
  dictionary is part of the state that the programs run on, together with the world of the services.
\<close>

section \<open>The manager\<close>

record 'p ProcessorItem =
  processor :: 'p
  creation_date :: int
    \<comment> \<open>microseconds\<close>

record ('p, 'w) fp_state =
  processors :: "(string option \<times> 'p ProcessorItem option) list"
    \<comment> \<open>\<open>_processors\<close>\<close>
  fp_world :: 'w

record GuessRequest =
  gr_label :: string
  gr_log_unit :: "string option"
  gr_description :: "string option"

record guess_result =
  \<comment> \<open>the answer of a family processor\<close>
  gu_error :: "string option"
  gu_family :: "string option"
  gu_family_type :: pyval
  gu_log_unit :: "string option"
  gu_base_unit :: "string option"

record ('p, 'w) far_env =
  fe_client :: "'w storage_client"
  fe_partition :: "string option"
  fe_now :: "(exn, 'w, int) prog"
  fe_unit_catalog :: pyval
    \<comment> \<open>\<open>CompatibleUnits.json\<close> of the package\<close>
  fe_make_user_family_processor :: "pyval \<Rightarrow> pyval \<Rightarrow> pyval \<Rightarrow> 'p res"
  fe_guess :: "'p \<Rightarrow> GuessRequest \<Rightarrow> guess_result res"
  fe_catalog_lifetime :: int
    \<comment> \<open>seconds\<close>

definition CUSTOM_CATALOG_LIFETIME :: int where
  "CUSTOM_CATALOG_LIFETIME = 300"

definition FIXED_RECORD_ID :: string where
  "FIXED_RECORD_ID = '':doc:57444d5320636174616c6f67''"

definition DEFAULT_CATALOG_NAME :: string where
  "DEFAULT_CATALOG_NAME = ''default_WDMS_catalog''"

definition in_world :: "(exn, 'w, 'a) prog \<Rightarrow> (exn, ('p, 'w) fp_state, 'a) prog" where
  \<comment> \<open>a call of a service\<close>
  "in_world m s = (case m (fp_world s) of (r, w) \<Rightarrow> (r, s\<lparr>fp_world := w\<rparr>))"

definition set_processor :: "string option \<Rightarrow> 'p ProcessorItem option \<Rightarrow> (exn, ('p, 'w) fp_state, unit) prog" where
  "set_processor client_id item s = (Inr (), s\<lparr>processors := AList.update client_id item (processors s)\<rparr>)"

definition init_processors :: "'p \<Rightarrow> int \<Rightarrow> (string option \<times> 'p ProcessorItem option) list" where
  \<comment> \<open>the constructor, given the default processor and the time\<close>
  "init_processors p now = [(Some DEFAULT_CATALOG_NAME, Some \<lparr>processor = p, creation_date = now\<rparr>)]"

definition catalogs_of_record :: "pyval \<Rightarrow> Record \<Rightarrow> (pyval \<times> pyval \<times> pyval) res" where
  "catalogs_of_record unit_catalog catalogs_record =
     bindR (v_get (rec_data catalogs_record) ''family_catalog'') (\<lambda>rules_catalog.
     bindR (v_get (rec_data catalogs_record) ''main_family_catalog'') (\<lambda>main_families.
       Inr (rules_catalog, unit_catalog,
         PDict [(''LogFiles'', PDict [(''loginfo'', if main_families = PNone then PList [] else main_families)])])))"

definition get_catalogs_from_de :: "('p, 'w) far_env \<Rightarrow> string option \<Rightarrow> (exn, 'w, pyval \<times> pyval \<times> pyval) prog" where
  "get_catalogs_from_de env partition_id =
     bindM (tryM (bindM (sc_get_record (fe_client env) (str_or_None partition_id @ FIXED_RECORD_ID) (fe_partition env) None)
                    (\<lambda>r. returnM (Some r)))
              (\<lambda>e. if e = UnexpectedResponse 404 then returnM None else raiseM e))
       (\<lambda>found. case found of
           None \<Rightarrow> returnM (PNone, PNone, PNone)
         | Some catalogs_record \<Rightarrow> liftM (catalogs_of_record (fe_unit_catalog env) catalogs_record))"

definition create_processor :: "('p, 'w) far_env \<Rightarrow> string option \<Rightarrow> (exn, 'w, 'p option) prog" where
  "create_processor env client_id =
     bindM (get_catalogs_from_de env client_id) (\<lambda>(rules_catalog, unit_catalog, main_family_catalog).
       if rules_catalog = PNone then returnM None
       else liftM (bindR (fe_make_user_family_processor env rules_catalog unit_catalog main_family_catalog)
                     (\<lambda>p. Inr (Some p))))"

definition get_default_processor :: "(exn, ('p, 'w) fp_state, 'p) prog" where
  "get_default_processor s = (case map_of (processors s) (Some DEFAULT_CATALOG_NAME) of
       Some (Some item) \<Rightarrow> (Inr (processor item), s)
     | _ \<Rightarrow> (Inl AttributeError, s))"

definition timedelta_seconds :: "int \<Rightarrow> int" where
  \<comment> \<open>the attribute \<open>seconds\<close> of a \<open>timedelta\<close>, given in microseconds: the seconds of its last day\<close>
  "timedelta_seconds d = (d div 1000000) mod 86400"

definition processor_item :: "('p, 'w) far_env \<Rightarrow> string option \<Rightarrow> (exn, ('p, 'w) fp_state, 'p ProcessorItem) prog" where
  \<comment> \<open>the cached item of the client, or a new one\<close>
  "processor_item env client_id s = (case map_of (processors s) client_id of
       Some (Some item) \<Rightarrow> (Inr item, s)
     | _ \<Rightarrow>
         bindM (in_world (create_processor env client_id)) (\<lambda>created.
         bindM (case created of None \<Rightarrow> get_default_processor | Some p \<Rightarrow> returnM p) (\<lambda>p.
         bindM (in_world (fe_now env)) (\<lambda>now.
         bindM (set_processor client_id (Some \<lparr>processor = p, creation_date = now\<rparr>)) (\<lambda>_.
           returnM \<lparr>processor = p, creation_date = now\<rparr>)))) s)"

definition processor_attempt :: "('p, 'w) far_env \<Rightarrow> string option \<Rightarrow> (exn, ('p, 'w) fp_state, 'p option) prog" where
  \<comment> \<open>the body of \<open>get_processor\<close>; \<open>None\<close> asks for the recursive call\<close>
  "processor_attempt env client_id =
     bindM (processor_item env client_id) (\<lambda>item.
     bindM (in_world (fe_now env)) (\<lambda>now.
       if timedelta_seconds (now - creation_date item) \<ge> fe_catalog_lifetime env
       then bindM (set_processor client_id None) (\<lambda>_. returnM None)
       else returnM (Some (processor item))))"

partial_function (option) get_processor :: "('p, 'w) far_env \<Rightarrow> string option \<Rightarrow> ('p, 'w) fp_state
    \<Rightarrow> ('p res \<times> ('p, 'w) fp_state) option" where
  "get_processor env client_id s = (case processor_attempt env client_id s of (r, s') \<Rightarrow>
     (case r of
        Inl e \<Rightarrow> Some (Inl e, s')
      | Inr out \<Rightarrow> (case out of Some p \<Rightarrow> Some (Inr p, s') | None \<Rightarrow> get_processor env client_id s')))"

section \<open>The routes\<close>

record CatalogItem =
  ci_unit :: string
  ci_family :: "string option"
  ci_rule :: string

record MainFamilyCatalogItem =
  mf_MainFamily :: string
  mf_Family :: string
  mf_Unit :: string

record Catalog =
  cat_family_catalog :: "CatalogItem list"
  cat_main_family_catalog :: "MainFamilyCatalogItem list option"

record CatalogRecord =
  cr_acl_legal :: pyval
  cr_data :: Catalog

record GuessResponse =
  gp_family :: "string option"
  gp_family_type :: "string list option"
  gp_log_unit :: "string option"
  gp_base_unit :: "string option"

definition opt_str :: "string option \<Rightarrow> pyval" where
  "opt_str x = (case x of None \<Rightarrow> PNone | Some s \<Rightarrow> PStr s)"

definition dump_catalog :: "Catalog \<Rightarrow> pyval" where
  \<comment> \<open>\<open>model_dump(by_alias=True)\<close>\<close>
  "dump_catalog c = PDict [
     (''family_catalog'', PList (map (\<lambda>i. PDict [(''unit'', PStr (ci_unit i)), (''family'', opt_str (ci_family i)),
        (''rule'', PStr (ci_rule i))]) (cat_family_catalog c))),
     (''main_family_catalog'', case cat_main_family_catalog c of None \<Rightarrow> PNone | Some l \<Rightarrow>
        PList (map (\<lambda>i. PDict [(''MainFamily'', PStr (mf_MainFamily i)), (''Family'', PStr (mf_Family i)),
          (''Unit'', PStr (mf_Unit i))]) l))]"

definition catalog_record :: "string option \<Rightarrow> CatalogRecord \<Rightarrow> Record" where
  "catalog_record partition_id body =
     \<lparr>rec_id = Some (str_or_None partition_id @ FIXED_RECORD_ID),
      rec_kind = str_or_None partition_id @ '':wdms:familycatalog:1.0.0'', rec_version = None,
      rec_data = dump_catalog (cr_data body), rec_rest = cr_acl_legal body\<rparr>"

definition upload_catalog :: "('p, 'w) far_env \<Rightarrow> CatalogRecord \<Rightarrow> (exn, 'w, CreateUpdateRecordsResponse) prog" where
  "upload_catalog env body =
     sc_create_or_update_records (fe_client env) [catalog_record (fe_partition env) body] (fe_partition env)"

definition family_types :: "pyval \<Rightarrow> string list option res" where
  \<comment> \<open>a string becomes a list of one; the response model accepts a list of strings or \<open>None\<close>\<close>
  "family_types v = (case v of
       PNone \<Rightarrow> Inr None
     | PStr s \<Rightarrow> Inr (Some [s])
     | PList l \<Rightarrow> bindR (mapR (\<lambda>x. case x of PStr s \<Rightarrow> Inr s | _ \<Rightarrow> Inl (OtherException ''ValidationError'')) l)
                    (\<lambda>ss. Inr (Some ss))
     | _ \<Rightarrow> Inl (OtherException ''ValidationError''))"

definition guess_response :: "guess_result \<Rightarrow> GuessResponse res" where
  "guess_response result = bindR (family_types (gu_family_type result)) (\<lambda>ft.
     Inr \<lparr>gp_family = gu_family result, gp_family_type = ft, gp_log_unit = gu_log_unit result,
          gp_base_unit = gu_base_unit result\<rparr>)"

definition guess_with_default :: "('p, 'w) far_env \<Rightarrow> GuessRequest \<Rightarrow> guess_result
    \<Rightarrow> (exn, ('p, 'w) fp_state, guess_result) prog" where
  \<comment> \<open>the second try, with the default catalog\<close>
  "guess_with_default env body result =
     (if gu_error result = None then returnM result
      else bindM get_default_processor (\<lambda>default_processor.
           bindM (liftM (fe_guess env default_processor body)) (\<lambda>result.
             case gu_error result of
               None \<Rightarrow> returnM result
             | Some e \<Rightarrow> if e = [] then returnM result
                 else if e = ''Cannot find family name'' then raiseM (HTTPException 404)
                 else raiseM (HTTPException 400))))"

definition post_recognize_custom :: "('p, 'w) far_env \<Rightarrow> GuessRequest \<Rightarrow> ('p, 'w) fp_state
    \<Rightarrow> (GuessResponse res \<times> ('p, 'w) fp_state) option" where
  "post_recognize_custom env body s = (case get_processor env (fe_partition env) s of
       None \<Rightarrow> None
     | Some (Inl e, s') \<Rightarrow> Some (Inl e, s')
     | Some (Inr p, s') \<Rightarrow> Some (bindM (liftM (fe_guess env p body)) (\<lambda>result.
           bindM (guess_with_default env body result) (\<lambda>result. liftM (guess_response result))) s'))"

section \<open>What the cache does\<close>

text \<open>The clock always answers, and two readings in a row are less than the life time of a catalog apart.\<close>

definition clock_law :: "('p, 'w) far_env \<Rightarrow> bool" where
  "clock_law env \<longleftrightarrow> 0 < fe_catalog_lifetime env \<and> fe_catalog_lifetime env \<le> 86400 \<and>
     (\<forall>w. \<exists>t w1 t' w2. fe_now env w = (Inr t, w1) \<and> fe_now env w1 = (Inr t', w2)
        \<and> t \<le> t' \<and> t' < t + fe_catalog_lifetime env * 1000000)"

lemma timedelta_seconds_small:
  assumes "0 \<le> d" and "d < n * 1000000" and "n \<le> 86400"
  shows "timedelta_seconds d < n"
proof -
  have "d div 1000000 < n" "0 \<le> d div 1000000" using assms by (simp_all add: div_less_iff_less_mult)
  with assms(3) show ?thesis by (simp add: timedelta_seconds_def)
qed

lemma in_world_run: "m (fp_world s) = (r, w) \<Longrightarrow> in_world m s = (r, s\<lparr>fp_world := w\<rparr>)"
  by (simp add: in_world_def)

lemma attempt_cached:
  assumes "map_of (processors s) client_id = Some (Some item)" and "fe_now env (fp_world s) = (Inr now, w)"
  shows "processor_attempt env client_id s =
    (if timedelta_seconds (now - creation_date item) \<ge> fe_catalog_lifetime env
     then (Inr None, s\<lparr>fp_world := w, processors := AList.update client_id None (processors s)\<rparr>)
     else (Inr (Some (processor item)), s\<lparr>fp_world := w\<rparr>))"
  using assms by (simp add: processor_attempt_def processor_item_def bindM_run in_world_run set_processor_def)

definition new_item :: "('p, 'w) far_env \<Rightarrow> string option \<Rightarrow> ('p, 'w) fp_state \<Rightarrow> ('p, 'w) fp_state \<Rightarrow> 'p \<Rightarrow> bool" where
  \<comment> \<open>the processor has just been made from the stored catalog, or is the default one when there is none,
      and is the cached one now\<close>
  "new_item env client_id s s' p \<longleftrightarrow>
     (\<exists>d. map_of (processors s') client_id = Some (Some \<lparr>processor = p, creation_date = d\<rparr>))
     \<and> (\<exists>w1. create_processor env client_id (fp_world s) = (Inr (Some p), w1)
          \<or> create_processor env client_id (fp_world s) = (Inr None, w1)
            \<and> (\<exists>item. map_of (processors s) (Some DEFAULT_CATALOG_NAME) = Some (Some item) \<and> p = processor item))"

lemma attempt_new:
  assumes "clock_law env" and "\<And>item. map_of (processors s) client_id \<noteq> Some (Some item)"
  obtains e s' where "processor_attempt env client_id s = (Inl e, s')"
  | p s' where "processor_attempt env client_id s = (Inr (Some p), s')" "new_item env client_id s s' p"
proof -
  obtain r w1 where cp: "create_processor env client_id (fp_world s) = (r, w1)" by fastforce
  let ?s1 = "s\<lparr>fp_world := w1\<rparr>"
  define r' where "r' = (case r of Inl e \<Rightarrow> Inl e | Inr (Some p) \<Rightarrow> Inr p | Inr None \<Rightarrow> fst (get_default_processor ?s1))"
  obtain t wa t' wb where now: "fe_now env w1 = (Inr t, wa)" "fe_now env wa = (Inr t', wb)"
    "t \<le> t'" "t' < t + fe_catalog_lifetime env * 1000000" using assms(1) unfolding clock_law_def by metis
  have small: "\<not> fe_catalog_lifetime env \<le> timedelta_seconds (t' - t)"
    using timedelta_seconds_small [of "t' - t" "fe_catalog_lifetime env"] now(3,4) assms(1) by (simp add: clock_law_def)
  have dflt: "snd (get_default_processor ?s1) = ?s1"
    by (simp add: get_default_processor_def split: option.splits)
  have start: "processor_item env client_id s = bindM (in_world (create_processor env client_id)) (\<lambda>created.
         bindM (case created of None \<Rightarrow> get_default_processor | Some p \<Rightarrow> returnM p) (\<lambda>p.
         bindM (in_world (fe_now env)) (\<lambda>now.
         bindM (set_processor client_id (Some \<lparr>processor = p, creation_date = now\<rparr>)) (\<lambda>_.
           returnM \<lparr>processor = p, creation_date = now\<rparr>)))) s"
    using assms(2) by (simp add: processor_item_def split: option.splits)
  let ?s2 = "\<lambda>p. ?s1\<lparr>fp_world := wb, processors := AList.update client_id (Some \<lparr>processor = p, creation_date = t\<rparr>) (processors s)\<rparr>"
  have run: "processor_attempt env client_id s = (case r' of Inl e \<Rightarrow> (Inl e, ?s1) | Inr p \<Rightarrow> (Inr (Some p), ?s2 p))"
    unfolding processor_attempt_def bindM_run [of "processor_item env client_id"] start
    using cp now(1,2) small dflt
    by (auto simp: bindM_run in_world_run set_processor_def r'_def split: sum.splits option.splits prod.splits)
  show thesis
  proof (cases r')
    case (Inl e)
    with run show thesis by (intro that(1)) simp
  next
    case (Inr p)
    moreover have "new_item env client_id s (?s2 p) p" using Inr cp
      by (auto simp: new_item_def r'_def get_default_processor_def update_conv' split: sum.splits option.splits)
    ultimately show thesis using run by (intro that(2)) simp_all
  qed
qed

text \<open>C39: The cache of catalogs.  When two readings of the clock in a row are less than the life time of a
  catalog apart, asking for the processor of a client returns.  A cached processor is returned exactly as it is, without
  asking the storage service, when the seconds within the day of its age are below the life time, whatever its age
  is otherwise (\<open>stale_catalog_served\<close>: this keeps catalogs that are days old).  Else the cached one is dropped, and a
  processor that is returned then, or for a client without a cached one, has just been made from the catalog that the
  storage service has, or is the default one when there is no catalog, and is cached.\<close>

theorem processor_returned:
  assumes "clock_law env" and "fe_now env (fp_world s) = (Inr now, w)"
  shows "case map_of (processors s) client_id of
      Some (Some item) \<Rightarrow>
        if timedelta_seconds (now - creation_date item) < fe_catalog_lifetime env
        then get_processor env client_id s = Some (Inr (processor item), s\<lparr>fp_world := w\<rparr>)
        else \<exists>r s'. get_processor env client_id s = Some (r, s') \<and>
          (\<forall>p. r = Inr p \<longrightarrow>
             new_item env client_id (s\<lparr>fp_world := w, processors := AList.update client_id None (processors s)\<rparr>) s' p)
    | _ \<Rightarrow> \<exists>r s'. get_processor env client_id s = Some (r, s') \<and> (\<forall>p. r = Inr p \<longrightarrow> new_item env client_id s s' p)"
proof -
  have new: "\<exists>r s'. get_processor env client_id s1 = Some (r, s') \<and> (\<forall>p. r = Inr p \<longrightarrow> new_item env client_id s1 s' p)"
    if "\<And>item. map_of (processors s1) client_id \<noteq> Some (Some item)" for s1
    using assms(1) that by (rule attempt_new) (subst get_processor.simps, auto)+
  show ?thesis
  proof (cases "\<exists>item. map_of (processors s) client_id = Some (Some item)")
    case False
    with new [of s] show ?thesis by (auto split: option.splits)
  next
    case True
    then obtain item where item: "map_of (processors s) client_id = Some (Some item)" by blast
    let ?s1 = "s\<lparr>fp_world := w, processors := AList.update client_id None (processors s)\<rparr>"
    note att = attempt_cached [OF item assms(2)]
    show ?thesis
    proof (cases "timedelta_seconds (now - creation_date item) \<ge> fe_catalog_lifetime env")
      case True
      then have "get_processor env client_id s = get_processor env client_id ?s1"
        by (subst get_processor.simps) (simp add: att)
      moreover have "map_of (processors ?s1) client_id \<noteq> Some (Some x)" for x by (simp add: update_conv')
      ultimately show ?thesis using new [of ?s1] item True by simp
    next
      case False
      then have "get_processor env client_id s = Some (Inr (processor item), s\<lparr>fp_world := w\<rparr>)"
        by (subst get_processor.simps) (simp add: att)
      with item False show ?thesis by simp
    qed
  qed
qed

text \<open>The age of a catalog is compared by the seconds of its last day: a catalog that is a whole number of days
  old, and a little more, is served from the cache without asking the storage service.\<close>

lemma stale_catalog_served:
  assumes "map_of (processors s) client_id = Some (Some item)"
    and "fe_now env (fp_world s) = (Inr (creation_date item + k * 86400000000 + r), w)"
    and "0 \<le> r" and "r < fe_catalog_lifetime env * 1000000" and "fe_catalog_lifetime env \<le> 86400"
  shows "get_processor env client_id s = Some (Inr (processor item), s\<lparr>fp_world := w\<rparr>)"
proof -
  have "timedelta_seconds (creation_date item + k * 86400000000 + r - creation_date item) = timedelta_seconds r"
  proof -
    have "(k * 86400000000 + r) div 1000000 = r div 1000000 + k * 86400"
      using div_mult_self1 [of 1000000 r "k * 86400"] by (simp add: algebra_simps)
    then show ?thesis by (simp add: timedelta_seconds_def)
  qed
  with timedelta_seconds_small [OF assms(3-5)] attempt_cached [OF assms(1,2)] show ?thesis
    by (subst get_processor.simps) simp
qed

lemma uploaded_catalog:
  "catalogs_of_record u (catalog_record p body) = Inr (PList (map (\<lambda>i. PDict [(''unit'', PStr (ci_unit i)),
       (''family'', opt_str (ci_family i)), (''rule'', PStr (ci_rule i))]) (cat_family_catalog (cr_data body))), u,
     PDict [(''LogFiles'', PDict [(''loginfo'', PList (map (\<lambda>i. PDict [(''MainFamily'', PStr (mf_MainFamily i)),
       (''Family'', PStr (mf_Family i)), (''Unit'', PStr (mf_Unit i))])
         (case cat_main_family_catalog (cr_data body) of None \<Rightarrow> [] | Some l \<Rightarrow> l)))])])"
  by (simp add: catalogs_of_record_def catalog_record_def dump_catalog_def v_get_def v_get_default_def
      split: option.splits)

text \<open>C40: The default catalog can be lost.  A request whose data partition has the name of the default catalog,
  sent when the default catalog is older than its life time, resets the cached default processor before it asks
  the storage service; when the storage service answers that it knows no such catalog, or with any error, the
  request fails, the default processor stays lost, and every later request for a client without a catalog of its
  own fails with an attribute error.\<close>

theorem default_catalog_lost:
  assumes "map_of (processors s) (Some DEFAULT_CATALOG_NAME) = Some (Some item)"
    and "fe_now env (fp_world s) = (Inr now, w)"
    and "timedelta_seconds (now - creation_date item) \<ge> fe_catalog_lifetime env"
    and "create_processor env (Some DEFAULT_CATALOG_NAME) w = (r, w1)" and "r = Inr None \<or> (\<exists>e. r = Inl e)"
    and "client \<noteq> Some DEFAULT_CATALOG_NAME" and "map_of (processors s) client = None"
    and "create_processor env client w1 = (Inr None, w2)"
  shows "\<exists>e s1 s2. get_processor env (Some DEFAULT_CATALOG_NAME) s = Some (Inl e, s1)
    \<and> get_processor env client s1 = Some (Inl AttributeError, s2)
    \<and> map_of (processors s2) (Some DEFAULT_CATALOG_NAME) = Some None"
proof -
  let ?d = "Some DEFAULT_CATALOG_NAME"
  let ?s0 = "s\<lparr>fp_world := w, processors := AList.update ?d None (processors s)\<rparr>"
  let ?s1 = "?s0\<lparr>fp_world := w1\<rparr>" and ?s2 = "?s0\<lparr>fp_world := w2\<rparr>"
  have lost: "map_of (AList.update ?d None (processors s)) ?d = Some None"
    "map_of (AList.update ?d None (processors s)) client = None"
    using assms(6,7) by (simp_all add: update_conv')
  have "get_processor env ?d s = get_processor env ?d ?s0"
    using assms(3) by (subst get_processor.simps) (simp add: attempt_cached [OF assms(1,2)])
  also have "\<exists>e. get_processor env ?d ?s0 = Some (Inl e, ?s1)"
    using assms(4,5) lost(1) by (subst get_processor.simps)
      (auto simp: processor_attempt_def processor_item_def bindM_run in_world_run get_default_processor_def)
  finally obtain e where "get_processor env ?d s = Some (Inl e, ?s1)" by blast
  moreover have "get_processor env client ?s1 = Some (Inl AttributeError, ?s2)"
    using assms(8) lost by (subst get_processor.simps)
      (simp add: processor_attempt_def processor_item_def bindM_run in_world_run get_default_processor_def)
  ultimately show ?thesis using lost(1) by auto
qed

section \<open>Witnesses\<close>

text \<open>A storage service that has no catalog, and a clock that counts in steps of a second.\<close>

definition no_catalog_client :: "'w storage_client" where
  "no_catalog_client = \<lparr>sc_get_record_version = (\<lambda>_ _ _ _. raiseM (UnexpectedResponse 404)),
     sc_get_record = (\<lambda>_ _ _. raiseM (UnexpectedResponse 404)),
     sc_get_all_record_versions = (\<lambda>_ _. raiseM (UnexpectedResponse 404)),
     sc_create_or_update_records = (\<lambda>_ _. raiseM (UnexpectedResponse 404)),
     sc_delete_record = (\<lambda>_ _. raiseM (UnexpectedResponse 404)), sc_purge_record = (\<lambda>_ _. raiseM (UnexpectedResponse 404))\<rparr>"

definition test_far :: "string option \<Rightarrow> (nat, int) far_env" where
  "test_far p = \<lparr>fe_client = no_catalog_client, fe_partition = p, fe_now = (\<lambda>t. (Inr t, t + 1000000)),
     fe_unit_catalog = PNone, fe_make_user_family_processor = (\<lambda>_ _ _. Inr 1),
     fe_guess = (\<lambda>_ _. Inr \<lparr>gu_error = None, gu_family = Some ''Gamma Ray'', gu_family_type = PStr ''Gamma Ray'',
        gu_log_unit = None, gu_base_unit = None\<rparr>),
     fe_catalog_lifetime = CUSTOM_CATALOG_LIFETIME\<rparr>"

definition test_fp_state :: "int \<Rightarrow> (nat, int) fp_state" where
  "test_fp_state t = \<lparr>processors = init_processors 0 0, fp_world = t\<rparr>"

lemma test_clock_law: "clock_law (test_far p)"
  by (simp add: clock_law_def test_far_def CUSTOM_CATALOG_LIFETIME_def)

lemma test_no_catalog: "create_processor (test_far p) c t = (Inr None, t)"
  by (simp add: create_processor_def get_catalogs_from_de_def test_far_def no_catalog_client_def bindM_run tryM_run)

theorem processor_returned_witness:
  "\<exists>r s'. get_processor (test_far (Some ''p'')) (Some ''p'') (test_fp_state 5) = Some (r, s')
     \<and> (\<forall>p. r = Inr p \<longrightarrow> (\<exists>d. map_of (processors s') (Some ''p'') = Some (Some \<lparr>processor = p, creation_date = d\<rparr>)))"
proof -
  have now: "fe_now (test_far (Some ''p'')) (fp_world (test_fp_state 5)) = (Inr 5, 1000005)"
    by (simp add: test_far_def test_fp_state_def)
  have "map_of (processors (test_fp_state 5)) (Some ''p'') = None"
    by (simp add: test_fp_state_def init_processors_def DEFAULT_CATALOG_NAME_def)
  with processor_returned [OF test_clock_law now, of "Some ''p''"] show ?thesis
    by (auto simp: new_item_def)
qed

theorem default_catalog_lost_witness:
  "\<exists>e s1 s2. get_processor (test_far None) (Some DEFAULT_CATALOG_NAME) (test_fp_state 300000000) = Some (Inl e, s1)
    \<and> get_processor (test_far None) (Some ''p'') s1 = Some (Inl AttributeError, s2)"
proof -
  let ?s = "test_fp_state 300000000"
  have now: "fe_now (test_far None) (fp_world ?s) = (Inr 300000000, 301000000)"
    by (simp add: test_far_def test_fp_state_def)
  have item: "map_of (processors ?s) (Some DEFAULT_CATALOG_NAME) = Some (Some \<lparr>processor = 0, creation_date = 0\<rparr>)"
    "map_of (processors ?s) (Some ''p'') = None" "Some ''p'' \<noteq> Some DEFAULT_CATALOG_NAME"
    by (simp_all add: test_fp_state_def init_processors_def DEFAULT_CATALOG_NAME_def)
  have old: "timedelta_seconds (300000000 - creation_date \<lparr>processor = 0::nat, creation_date = 0\<rparr>)
      \<ge> fe_catalog_lifetime (test_far None)"
    by (simp add: timedelta_seconds_def test_far_def CUSTOM_CATALOG_LIFETIME_def)
  from default_catalog_lost [OF item(1) now old test_no_catalog disjI1 [OF refl] item(3,2) test_no_catalog]
  show ?thesis by blast
qed

end
