(* ===== verification/Middleware.thy ===== *)
theory Middleware
  imports Request_Context
begin

text \<open>
  The way of a request through the middleware: \<open>app/middleware/basic_context_middleware.py\<close>, the authorization of
  \<open>app/auth/auth.py\<close>, the headers that \<open>app/clients/clients_middleware.py\<close> adds to the requests of the clients, and
  the tenant of a data partition, \<open>app/tenant/tenant_provider.py\<close>.  The dictionary of dependencies of a request,
  which starts empty, is in theory \<open>Injector\<close>.  The headers of a request are a dictionary with
  keys in lower case, as the web framework gives them.  Logging, tracing and timing are left out.  The rest of the
  application, \<open>call_next\<close>, is a program over the context variable and the world.
\<close>

type_synonym header_map = "(string \<times> string) list"

section \<open>Tenants (tenant_provider.py)\<close>

record Tenant =
  tn_data_partition_id :: "string option"
  tn_project_id :: "string option"
  tn_bucket_name :: string
  tn_credentials :: "string option"

record data_partition_info =
  \<comment> \<open>the answer of the partition service\<close>
  dpi_gc_project_id :: "string option"
  dpi_bucket :: string

record 'w tenant_env =
  te_cloud_provider :: "string option"
  te_get_partition_info :: "string option \<Rightarrow> (exn, 'w, data_partition_info) prog"
  te_default_data_tenant_credentials :: "string option"
  te_default_data_tenant_project_id :: "string option"
  te_az_bulk_container :: string

definition resolve_tenant :: "'w tenant_env \<Rightarrow> string option \<Rightarrow> (exn, 'w, Tenant) prog" where
  "resolve_tenant env data_partition_id =
     (if te_cloud_provider env = Some ''gc'' then
        bindM (te_get_partition_info env data_partition_id) (\<lambda>info. returnM
          \<lparr>tn_data_partition_id = data_partition_id, tn_project_id = dpi_gc_project_id info,
           tn_bucket_name = dpi_bucket info, tn_credentials = te_default_data_tenant_credentials env\<rparr>)
      else if te_cloud_provider env = Some ''baremetal'' then
        bindM (te_get_partition_info env data_partition_id) (\<lambda>info. returnM
          \<lparr>tn_data_partition_id = data_partition_id, tn_project_id = Some ''undefined'',
           tn_bucket_name = dpi_bucket info, tn_credentials = Some ''undefined''\<rparr>)
      else if te_cloud_provider env = Some ''az'' then returnM
        \<lparr>tn_data_partition_id = data_partition_id, tn_project_id = Some [],
         tn_bucket_name = te_az_bulk_container env, tn_credentials = None\<rparr>
      else if te_cloud_provider env = Some ''ibm'' then returnM
        \<lparr>tn_data_partition_id = data_partition_id, tn_project_id = te_default_data_tenant_project_id env,
         tn_bucket_name = ''logstore-osdu-ibm'', tn_credentials = None\<rparr>
      else if te_cloud_provider env = Some ''aws'' then returnM
        \<lparr>tn_data_partition_id = data_partition_id, tn_project_id = Some [],
         tn_bucket_name = str_or_None data_partition_id @ ''-logstore-osdu'', tn_credentials = None\<rparr>
      else returnM
        \<lparr>tn_data_partition_id = data_partition_id, tn_project_id = Some ''undefined'',
         tn_bucket_name = ''logstore-osdu'', tn_credentials = None\<rparr>)"

section \<open>The context of a request (basic_context_middleware.py)\<close>

definition APP_KEY_HEADER_NAME :: string where
  "APP_KEY_HEADER_NAME = ''appKey''"

definition REQUEST_ID_HEADER_NAME :: string where
  "REQUEST_ID_HEADER_NAME = ''Request-ID''"

definition X_COLLABORATION_HEADER_NAME :: string where
  "X_COLLABORATION_HEADER_NAME = ''x-collaboration''"

lemmas all_header_names = header_names APP_KEY_HEADER_NAME_def REQUEST_ID_HEADER_NAME_def X_COLLABORATION_HEADER_NAME_def

datatype object = Tenant_object Tenant | User_object string bool | Injector_object

record 'w app_env =
  ae_tenant :: "'w tenant_env"
  ae_uuid4 :: "(exn, 'w, string) prog"
  ae_dev_mode :: "bool option"
  ae_injector :: "object option"

type_synonym 'w req_state = "object Context option \<times> 'w"

definition on_world :: "(exn, 'w, 'a) prog \<Rightarrow> (exn, 'w req_state, 'a) prog" where
  "on_world m s = (case m (snd s) of (r, w) \<Rightarrow> (r, (fst s, w)))"

definition on_context :: "(exn, object Context option, 'a) prog \<Rightarrow> (exn, 'w req_state, 'a) prog" where
  "on_context m s = (case m (fst s) of (r, v) \<Rightarrow> (r, (v, snd s)))"

definition header :: "header_map \<Rightarrow> string \<Rightarrow> string option" where
  \<comment> \<open>\<open>request.headers.get(name)\<close>\<close>
  "header headers name = map_of headers (lower name)"

definition request_context :: "'w app_env \<Rightarrow> header_map \<Rightarrow> Tenant \<Rightarrow> string \<Rightarrow> string \<Rightarrow> object Context" where
  \<comment> \<open>the context of a request; the last two arguments are fresh identifiers\<close>
  "request_context env headers tenant uuid1 uuid2 = empty_Context\<lparr>
     ctx_correlation_id := Some (case header headers CORRELATION_ID_HEADER_NAME of Some v \<Rightarrow> v | None \<Rightarrow> uuid1),
     ctx_request_id := Some (case header headers REQUEST_ID_HEADER_NAME of Some v \<Rightarrow> v | None \<Rightarrow> uuid2),
     ctx_dev_mode := ae_dev_mode env,
     ctx_partition_id := header headers PARTITION_ID_HEADER_NAME,
     ctx_app_key := header headers APP_KEY_HEADER_NAME,
     ctx_api_key := header headers ''x-api-key'',
     ctx_user := Some (User_object ''anonymous'' False),
     ctx_tenant := Some (Tenant_object tenant),
     ctx_x_user_id := header headers X_USER_ID_HEADER_NAME,
     ctx_x_collaboration := header headers X_COLLABORATION_HEADER_NAME,
     ctx_app_injector := ae_injector env\<rparr>"

definition finallyM :: "(exn, 's, 'a) prog \<Rightarrow> (exn, 's, unit) prog \<Rightarrow> (exn, 's, 'a) prog" where
  "finallyM m f s = (case m s of (r, s') \<Rightarrow> (case f s' of
       (Inl e, s'') \<Rightarrow> (Inl e, s'') | (Inr _, s'') \<Rightarrow> (r, s'')))"

definition csp :: string where
  "csp = ''default-src 'self'; script-src 'self' *.jsdelivr.net 'unsafe-inline'; style-src 'self' *.jsdelivr.net; img-src 'self' *.tiangolo.com data:;''"

definition add_csp_header :: "string \<Rightarrow> header_map \<Rightarrow> header_map" where
  \<comment> \<open>the headers of the response, for the path of the request\<close>
  "add_csp_header path headers =
     (if py_in ''/docs'' path then AList.update ''content-security-policy'' csp headers else headers)"

definition dispatch :: "'w app_env \<Rightarrow> string \<Rightarrow> header_map \<Rightarrow> (exn, 'w req_state, 'a \<times> header_map) prog
    \<Rightarrow> (exn, 'w req_state, 'a \<times> header_map) prog" where
  \<comment> \<open>path and headers of the request, and \<open>call_next\<close>, which gives a body and the headers of the response\<close>
  "dispatch env path headers call_next =
     bindM (on_world (resolve_tenant (ae_tenant env) (header headers PARTITION_ID_HEADER_NAME))) (\<lambda>tenant.
     bindM (on_world (ae_uuid4 env)) (\<lambda>uuid1.
     bindM (on_world (ae_uuid4 env)) (\<lambda>uuid2.
     bindM (on_context clear_current) (\<lambda>_.
     bindM (on_context (set_current (request_context env headers tenant uuid1 uuid2))) (\<lambda>_.
     bindM (finallyM call_next (on_context clear_current)) (\<lambda>(response, response_headers).
       returnM (response, add_csp_header path response_headers)))))))"

definition require_data_partition_id :: "header_map \<Rightarrow> (exn, object Context option, unit) prog" where
  "require_data_partition_id headers =
     (if header headers PARTITION_ID_HEADER_NAME = Some [] then raiseM (OtherException ''RequestValidationError'')
      else bindM (set_current_with_value (empty_Context\<lparr>ctx_partition_id := header headers PARTITION_ID_HEADER_NAME\<rparr>))
             (\<lambda>_. returnM ()))"

definition require_appkey :: "string \<Rightarrow> (exn, object Context option, unit) prog" where
  "require_appkey appkey = bindM (set_current_with_value (empty_Context\<lparr>ctx_app_key := Some appkey\<rparr>)) (\<lambda>_. returnM ())"

definition require_opendes_authorized_user :: "string \<Rightarrow> (exn, object Context option, unit) prog" where
  \<comment> \<open>auth.py, given the token of the credentials\<close>
  "require_opendes_authorized_user token =
     bindM (set_current_with_value (empty_Context\<lparr>ctx_auth := Some token\<rparr>)) (\<lambda>_. returnM ())"

section \<open>Headers of the clients (clients_middleware.py)\<close>

definition set_truthy :: "string \<Rightarrow> string option \<Rightarrow> header_map \<Rightarrow> header_map" where
  "set_truthy name v headers = (case v of Some (c # cs) \<Rightarrow> AList.update (lower name) (c # cs) headers | _ \<Rightarrow> headers)"

definition client_headers :: "header_map \<Rightarrow> object Context \<Rightarrow> header_map \<Rightarrow> header_map" where
  \<comment> \<open>the tracing headers, the current context and the headers of the outgoing request; the keys of the result
      are in lower case\<close>
  "client_headers tracing_headers ctx headers =
     set_truthy X_COLLABORATION_HEADER_NAME (ctx_x_collaboration ctx)
    (set_truthy X_USER_ID_HEADER_NAME (ctx_x_user_id ctx)
    (set_truthy APP_KEY_HEADER_NAME (ctx_app_key ctx)
    (set_truthy CORRELATION_ID_HEADER_NAME (ctx_correlation_id ctx)
    (AList.update (lower AUTHORIZATION_HEADER_NAME) (''Bearer '' @ str_or_None (ctx_auth ctx))
    (foldl (\<lambda>d (k, v). AList.update (lower k) v d) headers tracing_headers)))))"

section \<open>Properties\<close>

lemma on_context_run [simp]: "on_context m (v, w) = (fst (m v), (snd (m v), w))"
  by (simp add: on_context_def split: prod.splits)

lemma on_world_run [simp]: "on_world m (v, w) = (fst (m w), (v, snd (m w)))"
  by (simp add: on_world_def split: prod.splits)

lemma map_of_set_truthy:
  "map_of (set_truthy name v hs) k = (if k = lower name \<and> v \<noteq> None \<and> v \<noteq> Some [] then v else map_of hs k)"
  by (auto simp: set_truthy_def update_conv' split: option.splits list.splits)

lemma lower_names:
  "lower AUTHORIZATION_HEADER_NAME = ''authorization''" "lower PARTITION_ID_HEADER_NAME = ''data-partition-id''"
  "lower CORRELATION_ID_HEADER_NAME = ''correlation-id''" "lower X_USER_ID_HEADER_NAME = ''x-user-id''"
  "lower X_COLLABORATION_HEADER_NAME = ''x-collaboration''" "lower APP_KEY_HEADER_NAME = ''appkey''"
  by (code_simp+)

definition handler_context :: "'w app_env \<Rightarrow> header_map \<Rightarrow> string \<Rightarrow> Tenant \<Rightarrow> string \<Rightarrow> string \<Rightarrow> object Context" where
  \<comment> \<open>what a handler behind the middleware and the authorization finds as its context\<close>
  "handler_context env hs token tenant u1 u2 = (request_context env hs tenant u1 u2)\<lparr>ctx_auth := Some token\<rparr>"

lemma with_value_one:
  "with_value c (empty_Context\<lparr>ctx_auth := a\<rparr>) = c\<lparr>ctx_auth := or_str a (ctx_auth c)\<rparr>"
  "with_value c (empty_Context\<lparr>ctx_partition_id := a\<rparr>) = c\<lparr>ctx_partition_id := or_str a (ctx_partition_id c)\<rparr>"
  by (simp_all add: with_value_def empty_Context_def or_obj_def or_str_def or_bool_def dict_update_def)

lemma or_str_simps [simp]: "or_str None b = b" "or_str (Some (c # cs)) b = Some (c # cs)" "or_str a a = a"
  by (simp_all add: or_str_def split: option.splits list.splits)

lemma context_set_up:
  assumes "token \<noteq> []" and "header hs PARTITION_ID_HEADER_NAME \<noteq> Some []"
  shows "bindM (on_context (require_data_partition_id hs)) (\<lambda>_.
      bindM (on_context (require_opendes_authorized_user token)) (\<lambda>_. bindM (on_context get_ctx) handler))
      (Some (request_context env hs tenant u1 u2), w)
    = handler (handler_context env hs token tenant u1 u2) (Some (handler_context env hs token tenant u1 u2), w)"
proof -
  let ?c = "request_context env hs tenant u1 u2"
  obtain c cs where token: "token = c # cs" using assms(1) by (cases token) auto
  have "ctx_partition_id ?c = header hs PARTITION_ID_HEADER_NAME" by (simp add: request_context_def)
  then have "with_value ?c (empty_Context\<lparr>ctx_partition_id := header hs PARTITION_ID_HEADER_NAME\<rparr>) = ?c"
    by (cases ?c) (simp add: with_value_one)
  moreover have "with_value ?c (empty_Context\<lparr>ctx_auth := Some token\<rparr>) = handler_context env hs token tenant u1 u2"
    using token by (simp add: handler_context_def with_value_one)
  ultimately show ?thesis using assms(2)
    by (simp add: require_data_partition_id_def require_opendes_authorized_user_def set_current_with_value_def
        ctx_current_def set_current_def get_ctx_def bindM_run Let_def)
qed

text \<open>C34: The identity of a request reaches the services that are called for it, and is gone afterwards.  Behind the
  middleware, the partition dependency and the authorization, a handler runs with a context that has the token, the
  data partition, the correlation identifier (or a fresh one) and the user of the request; the headers made of this
  context for the worker, and the headers that the clients of the other services send, carry them, when tracing uses headers of its own; and when the
  handler has returned or raised, whatever it did to the context variable, the current context is empty.\<close>

theorem request_identity:
  assumes "resolve_tenant (ae_tenant env) (header hs PARTITION_ID_HEADER_NAME) w = (Inr tenant, w1)"
    and "ae_uuid4 env w1 = (Inr u1, w2)" and "ae_uuid4 env w2 = (Inr u2, w3)"
    and "token \<noteq> []" and "header hs PARTITION_ID_HEADER_NAME \<noteq> Some []"
    and "set (map fst tracing) \<inter> {AUTHORIZATION_HEADER_NAME, PARTITION_ID_HEADER_NAME, X_USER_ID_HEADER_NAME,
      CORRELATION_ID_HEADER_NAME} = {}"
  shows "\<exists>ctx.
    dispatch env path hs (bindM (on_context (require_data_partition_id hs)) (\<lambda>_.
      bindM (on_context (require_opendes_authorized_user token)) (\<lambda>_. bindM (on_context get_ctx) handler))) (v, w)
    = (case handler ctx (Some ctx, w3) of
         (Inl e, (_, w')) \<Rightarrow> (Inl e, (Some empty_Context, w'))
       | (Inr (a, out), (_, w')) \<Rightarrow> (Inr (a, add_csp_header path out), (Some empty_Context, w')))
    \<and> map_of (get_headers_from_ctx tracing ctx) AUTHORIZATION_HEADER_NAME = Some (''Bearer '' @ token)
    \<and> map_of (get_headers_from_ctx tracing ctx) PARTITION_ID_HEADER_NAME = header hs PARTITION_ID_HEADER_NAME
    \<and> map_of (get_headers_from_ctx tracing ctx) X_USER_ID_HEADER_NAME = header hs X_USER_ID_HEADER_NAME
    \<and> map_of (get_headers_from_ctx tracing ctx) CORRELATION_ID_HEADER_NAME
        = Some (case header hs CORRELATION_ID_HEADER_NAME of Some c \<Rightarrow> c | None \<Rightarrow> u1)
    \<and> map_of (client_headers tracing' ctx rq) ''authorization'' = Some (''Bearer '' @ token)
    \<and> (\<forall>c. header hs X_COLLABORATION_HEADER_NAME = Some c \<and> c \<noteq> []
        \<longrightarrow> map_of (client_headers tracing' ctx rq) ''x-collaboration'' = Some c)"
proof -
  let ?ctx = "handler_context env hs token tenant u1 u2"
  have fields: "ctx_auth ?ctx = Some token" "ctx_partition_id ?ctx = header hs PARTITION_ID_HEADER_NAME"
    "ctx_x_user_id ?ctx = header hs X_USER_ID_HEADER_NAME" "ctx_x_collaboration ?ctx = header hs X_COLLABORATION_HEADER_NAME"
    "ctx_correlation_id ?ctx = Some (case header hs CORRELATION_ID_HEADER_NAME of Some c \<Rightarrow> c | None \<Rightarrow> u1)"
    by (simp_all add: handler_context_def request_context_def empty_Context_def)
  have fwd: "map_of (get_headers_from_ctx tracing ?ctx) k =
     (if k = PARTITION_ID_HEADER_NAME then ctx_partition_id ?ctx
      else if k = AUTHORIZATION_HEADER_NAME then Some (''Bearer '' @ str_or_None (ctx_auth ?ctx))
      else if k = CORRELATION_ID_HEADER_NAME then ctx_correlation_id ?ctx
      else if k = X_USER_ID_HEADER_NAME then ctx_x_user_id ?ctx
      else if k = APP_ID_HEADER_NAME then ctx_x_app_id ?ctx else None)"
    if "k \<in> {AUTHORIZATION_HEADER_NAME, PARTITION_ID_HEADER_NAME, X_USER_ID_HEADER_NAME, CORRELATION_ID_HEADER_NAME}" for k
    by (rule headers_forward_context) (use assms(6) that in blast)
  show ?thesis
  proof (intro exI [of _ ?ctx] conjI)
    show "dispatch env path hs (bindM (on_context (require_data_partition_id hs)) (\<lambda>_.
        bindM (on_context (require_opendes_authorized_user token)) (\<lambda>_. bindM (on_context get_ctx) handler))) (v, w)
      = (case handler ?ctx (Some ?ctx, w3) of
           (Inl e, (_, w')) \<Rightarrow> (Inl e, (Some empty_Context, w'))
         | (Inr (a, out), (_, w')) \<Rightarrow> (Inr (a, add_csp_header path out), (Some empty_Context, w')))"
      unfolding dispatch_def
      by (simp add: bindM_run [of "on_world _"] bindM_run [of "finallyM _ _"] bindM_run [of "on_context (set_current _)"]
          bindM_run [of "on_context clear_current"] assms(1-3)
          set_current_def clear_current_def finallyM_def context_set_up [OF assms(4,5)]
          split: prod.splits sum.splits)
  qed (auto simp: fwd fields all_header_names str_or_None_def client_headers_def map_of_set_truthy
      lower_names [unfolded all_header_names] update_conv')
qed

section \<open>Witness\<close>

definition test_app :: "nat app_env" where
  "test_app = \<lparr>ae_tenant = \<lparr>te_cloud_provider = Some ''az'', te_get_partition_info = (\<lambda>_. raiseM RuntimeError),
       te_default_data_tenant_credentials = None, te_default_data_tenant_project_id = None,
       te_az_bulk_container = ''wdms-osdu''\<rparr>,
     ae_uuid4 = (\<lambda>n. (Inr (show_nat n), Suc n)), ae_dev_mode = None, ae_injector = None\<rparr>"

theorem request_identity_witness:
  "\<exists>ctx. map_of (get_headers_from_ctx [] ctx) ''data-partition-id'' = Some ''opendes''
    \<and> dispatch test_app ''/'' [(''data-partition-id'', ''opendes'')]
        (bindM (on_context (require_data_partition_id [(''data-partition-id'', ''opendes'')])) (\<lambda>_.
         bindM (on_context (require_opendes_authorized_user ''token'')) (\<lambda>_.
         bindM (on_context get_ctx) (\<lambda>c. returnM (c, []))))) (None, 0) = (Inr (ctx, []), (Some empty_Context, 2))"
proof -
  let ?hs = "[(''data-partition-id'', ''opendes'')]"
  have h: "header ?hs PARTITION_ID_HEADER_NAME = Some ''opendes''" by code_simp
  have t: "resolve_tenant (ae_tenant test_app) (header ?hs PARTITION_ID_HEADER_NAME) 0 = (Inr \<lparr>tn_data_partition_id = Some ''opendes'',
      tn_project_id = Some [], tn_bucket_name = ''wdms-osdu'', tn_credentials = None\<rparr>, 0)"
    unfolding h by (simp add: resolve_tenant_def test_app_def)
  have u: "ae_uuid4 test_app 0 = (Inr (show_nat 0), 1)" "ae_uuid4 test_app 1 = (Inr (show_nat 1), 2)"
    by (simp_all add: test_app_def)
  have p: "header ?hs PARTITION_ID_HEADER_NAME \<noteq> Some []" "''token'' \<noteq> []" unfolding h by simp_all
  from request_identity [OF t u p(2,1), where tracing = "[]" and tracing' = "[]" and rq = "[]" and path = "''/''"
      and handler = "\<lambda>c. returnM (c, [])" and v = None] show ?thesis
    unfolding h by (auto simp: header_names add_csp_header_def)
qed

end
