(* ===== verification/Error_Handlers.thy ===== *)
theory Error_Handlers
  imports Py_Values
begin

text \<open>
  The last line of the service: \<open>app/errors/client_error.py\<close>, \<open>validation_error.py\<close>, \<open>unhandled_error.py\<close> and
  \<open>exception_handlers.py\<close>, which turn the exceptions that leave a route into JSON responses, with the handler of
  the statistics routes (\<open>app/routers/bulk/statistics_routes.py\<close>).  The exceptions of the client libraries have
  the shape that the handlers look at; \<open>json.loads\<close> is a parameter.  Logging is left out.
\<close>

section \<open>Exceptions of the client libraries\<close>

datatype api_exception =
    Api_UnexpectedResponse nat string
      \<comment> \<open>status code, content\<close>
  | Api_ResponseValidationError nat string "pyval list"
      \<comment> \<open>status code, content, arguments of the exception\<close>
  | Api_ResponseHandlingException bool string "pyval list"
      \<comment> \<open>whether its source is a timeout of the HTTP client, the text of the source and its arguments\<close>
  | Api_Exception "pyval list"

datatype raised =
    Raised_search api_exception
  | Raised_storage api_exception
  | Raised_schema api_exception
  | Raised_partition nat string
  | Raised_validation "pyval list"
      \<comment> \<open>a request validation or pydantic error, with its errors\<close>
  | Raised_json_schema string string
      \<comment> \<open>path and message of a JSON schema error\<close>
  | Raised_statistics nat string string
  | Raised_http nat pyval
  | Raised_other string
      \<comment> \<open>any other exception, as a string\<close>

record JSONResponse =
  jr_content :: pyval
  jr_status_code :: nat

section \<open>Handlers\<close>

definition OSDU_DATA_ECOSYSTEM_SEARCH :: string where
  "OSDU_DATA_ECOSYSTEM_SEARCH = ''osdu-data-ecosystem-search''"

definition OSDU_DATA_ECOSYSTEM_STORAGE :: string where
  "OSDU_DATA_ECOSYSTEM_STORAGE = ''osdu-data-ecosystem-storage''"

definition OSDU_DATA_ECOSYSTEM_PARTITION :: string where
  "OSDU_DATA_ECOSYSTEM_PARTITION = ''osdu-data-ecosystem-partition''"

definition OSDU_DATA_ECOSYSTEM_SCHEMA :: string where
  "OSDU_DATA_ECOSYSTEM_SCHEMA = ''osdu-data-ecosystem-schema''"

definition load_content :: "(string \<Rightarrow> pyval option) \<Rightarrow> string \<Rightarrow> pyval" where
  \<comment> \<open>the first argument is \<open>json.loads\<close>\<close>
  "load_content loads content = (case loads content of Some v \<Rightarrow> v | None \<Rightarrow> PStr content)"

definition origin_response :: "string \<Rightarrow> pyval list \<Rightarrow> nat \<Rightarrow> JSONResponse" where
  "origin_response origin errors status =
     \<lparr>jr_content = PDict [(''origin'', PStr origin), (''errors'', PList errors)], jr_status_code = status\<rparr>"

definition http_search_error_handler :: "(string \<Rightarrow> pyval option) \<Rightarrow> api_exception \<Rightarrow> JSONResponse" where
  "http_search_error_handler loads exc = (case exc of
       Api_UnexpectedResponse status content \<Rightarrow> origin_response OSDU_DATA_ECOSYSTEM_SEARCH [load_content loads content] status
     | Api_ResponseValidationError status _ args \<Rightarrow> origin_response OSDU_DATA_ECOSYSTEM_SEARCH args status
     | Api_ResponseHandlingException _ _ args \<Rightarrow> origin_response OSDU_DATA_ECOSYSTEM_SEARCH args 500
     | Api_Exception args \<Rightarrow> origin_response OSDU_DATA_ECOSYSTEM_SEARCH args 500)"

definition http_storage_error_handler :: "(string \<Rightarrow> pyval option) \<Rightarrow> string \<Rightarrow> api_exception \<Rightarrow> JSONResponse" where
  \<comment> \<open>the second argument is the printed timeout of the configuration\<close>
  "http_storage_error_handler loads timeout exc = (case exc of
       Api_UnexpectedResponse status content \<Rightarrow> origin_response OSDU_DATA_ECOSYSTEM_STORAGE [load_content loads content] status
     | Api_ResponseValidationError status content _ \<Rightarrow>
         origin_response OSDU_DATA_ECOSYSTEM_STORAGE [load_content loads content] status
     | Api_ResponseHandlingException is_timeout source args \<Rightarrow>
         if is_timeout
         then origin_response OSDU_DATA_ECOSYSTEM_STORAGE
                [PStr (''Storage client timeout after '' @ timeout @ ''s: '' @ source)] 504
         else origin_response OSDU_DATA_ECOSYSTEM_STORAGE args 500
     | Api_Exception args \<Rightarrow> origin_response OSDU_DATA_ECOSYSTEM_STORAGE args 500)"

definition http_partition_error_handler :: "nat \<Rightarrow> string \<Rightarrow> JSONResponse" where
  "http_partition_error_handler status message = origin_response OSDU_DATA_ECOSYSTEM_PARTITION [PStr message] status"

definition http_schema_error_handler :: "(string \<Rightarrow> pyval option) \<Rightarrow> api_exception \<Rightarrow> JSONResponse" where
  "http_schema_error_handler loads exc = (case exc of
       Api_UnexpectedResponse status content \<Rightarrow> origin_response OSDU_DATA_ECOSYSTEM_SCHEMA [load_content loads content] status
     | Api_ResponseValidationError status content _ \<Rightarrow>
         origin_response OSDU_DATA_ECOSYSTEM_SCHEMA [load_content loads content] status
     | Api_ResponseHandlingException _ _ args \<Rightarrow> origin_response OSDU_DATA_ECOSYSTEM_SCHEMA args 500
     | Api_Exception args \<Rightarrow> origin_response OSDU_DATA_ECOSYSTEM_SCHEMA args 500)"

definition http422_error_handler :: "pyval list \<Rightarrow> JSONResponse" where
  "http422_error_handler errors = \<lparr>jr_content = PDict [(''errors'', PList errors)], jr_status_code = 422\<rparr>"

definition json_schema_error_handler :: "string \<Rightarrow> string \<Rightarrow> JSONResponse" where
  \<comment> \<open>\<open>lstrip('$.')\<close> drops all leading characters of the two\<close>
  "json_schema_error_handler json_path message =
     \<lparr>jr_content = PDict [(''errors'', PStr (''Value of '' @ dropWhile (\<lambda>c. c \<in> set ''$.'') json_path
        @ '' is invalid: '' @ message))], jr_status_code = 422\<rparr>"

definition http_stats_error_handler :: "nat \<Rightarrow> string \<Rightarrow> string \<Rightarrow> JSONResponse" where
  "http_stats_error_handler status error_type message =
     \<lparr>jr_content = PDict [(''errorType'', PStr error_type), (''message'', PStr message)], jr_status_code = status\<rparr>"

definition unhandled_error_handler :: "string \<Rightarrow> JSONResponse" where
  "unhandled_error_handler exc = \<lparr>jr_content = PDict [(''error'', PList [PStr exc])], jr_status_code = 500\<rparr>"

definition http_exception_handler :: "nat \<Rightarrow> pyval \<Rightarrow> JSONResponse" where
  \<comment> \<open>the handler of the web framework, which \<open>_log_internal_error_handler\<close> calls\<close>
  "http_exception_handler status detail = \<lparr>jr_content = PDict [(''detail'', detail)], jr_status_code = status\<rparr>"

definition handle_exception :: "(string \<Rightarrow> pyval option) \<Rightarrow> string \<Rightarrow> raised \<Rightarrow> JSONResponse" where
  \<comment> \<open>the handlers that \<open>add_exception_handlers\<close> registers, by the class of the exception\<close>
  "handle_exception loads timeout exc = (case exc of
       Raised_statistics status t m \<Rightarrow> http_stats_error_handler status t m
     | Raised_validation errors \<Rightarrow> http422_error_handler errors
     | Raised_search e \<Rightarrow> http_search_error_handler loads e
     | Raised_storage e \<Rightarrow> http_storage_error_handler loads timeout e
     | Raised_partition status m \<Rightarrow> http_partition_error_handler status m
     | Raised_schema e \<Rightarrow> http_schema_error_handler loads e
     | Raised_json_schema p m \<Rightarrow> json_schema_error_handler p m
     | Raised_other s \<Rightarrow> unhandled_error_handler s
     | Raised_http status detail \<Rightarrow> http_exception_handler status detail)"

section \<open>Properties\<close>

fun carried_status :: "raised \<Rightarrow> nat option" where
  \<comment> \<open>the status that an exception brings along, from another service or from a route\<close>
  "carried_status (Raised_search (Api_UnexpectedResponse n _)) = Some n"
| "carried_status (Raised_search (Api_ResponseValidationError n _ _)) = Some n"
| "carried_status (Raised_storage (Api_UnexpectedResponse n _)) = Some n"
| "carried_status (Raised_storage (Api_ResponseValidationError n _ _)) = Some n"
| "carried_status (Raised_schema (Api_UnexpectedResponse n _)) = Some n"
| "carried_status (Raised_schema (Api_ResponseValidationError n _ _)) = Some n"
| "carried_status (Raised_partition n _) = Some n"
| "carried_status (Raised_statistics n _ _) = Some n"
| "carried_status (Raised_http n _) = Some n"
| "carried_status _ = None"

text \<open>Every exception becomes one JSON response.  An exception that carries a status, from another service or
  from a route, is answered with exactly that status; the validation errors with 422; a timeout of the storage
  client with 504; and everything else with 500.  So the answer is a client or server error whenever the carried
  status is one.\<close>

theorem error_response_status:
  assumes "\<And>n. carried_status exc = Some n \<Longrightarrow> 400 \<le> n \<and> n < 600"
  shows "400 \<le> jr_status_code (handle_exception loads timeout exc) \<and> jr_status_code (handle_exception loads timeout exc) < 600
    \<and> jr_status_code (handle_exception loads timeout exc) = (case carried_status exc of
         Some n \<Rightarrow> n
       | None \<Rightarrow> (case exc of
           Raised_validation _ \<Rightarrow> 422
         | Raised_json_schema _ _ \<Rightarrow> 422
         | Raised_storage (Api_ResponseHandlingException True _ _) \<Rightarrow> 504
         | _ \<Rightarrow> 500))"
proof -
  have eq: "jr_status_code (handle_exception loads timeout exc) = (case carried_status exc of
         Some n \<Rightarrow> n
       | None \<Rightarrow> (case exc of
           Raised_validation _ \<Rightarrow> 422
         | Raised_json_schema _ _ \<Rightarrow> 422
         | Raised_storage (Api_ResponseHandlingException True _ _) \<Rightarrow> 504
         | _ \<Rightarrow> 500))"
    by (cases exc rule: carried_status.cases)
      (simp_all add: handle_exception_def origin_response_def http_search_error_handler_def http_storage_error_handler_def
        http_schema_error_handler_def http_partition_error_handler_def http_stats_error_handler_def http422_error_handler_def
        json_schema_error_handler_def unhandled_error_handler_def http_exception_handler_def split: bool.splits)
  with assms show ?thesis
    by (cases "carried_status exc") (auto split: raised.splits api_exception.splits bool.splits)
qed

theorem error_response_status_witness:
  "jr_status_code (handle_exception (\<lambda>_. None) ''10'' (Raised_storage (Api_UnexpectedResponse 404 ''no''))) = 404"
  using error_response_status [of "Raised_storage (Api_UnexpectedResponse 404 ''no'')" "\<lambda>_. None" "''10''"] by simp

end
