(* ===== verification/Injector.thy ===== *)
theory Injector
  imports Exceptions "HOL-Library.AList"
begin

text \<open>
  The container of dependencies, \<open>app/injector/app_injector.py\<close>, and the values that a router sets for its requests,
  \<open>app/routers/dependency/request_dependency.py\<close> with the two dependencies of \<open>fetch_record.py\<close>.  A factory is
  a name \<open>'b\<close> of a coroutine, whose code, \<open>run\<close>, is a program over the container and the world, since a builder
  may ask the container for other objects.  A singleton is an object of its own: it lives in a store, and the
  container refers to it.  The Python value \<open>None\<close> is \<open>None\<close>, other objects are of type \<open>'o\<close>.
\<close>

section \<open>Lifetimes and the container (app_injector.py)\<close>

datatype lifetime = Transient | Singleton nat
  \<comment> \<open>the number is the identity of the object \<open>WithLifeTime.Singleton()\<close>\<close>

datatype 'b factory = Builder 'b | SingletonCall nat

record ('b, 'o) singleton =
  sg_builder_fn :: 'b
  sg_instance :: "'o option"

record ('b, 'o, 'w) injector =
  factory_dict :: "(string \<times> 'b factory) list"
  singletons :: "nat \<rightharpoonup> ('b, 'o) singleton"
  inj_world :: 'w

definition make_lifetime :: "lifetime \<Rightarrow> 'b \<Rightarrow> ('b, 'o, 'w) injector \<Rightarrow> 'b factory \<times> ('b, 'o, 'w) injector" where
  \<comment> \<open>\<open>make\<close> of a lifetime: a new singleton has no instance, one that is registered again keeps it\<close>
  "make_lifetime lt builder_fn s = (case lt of
       Transient \<Rightarrow> (Builder builder_fn, s)
     | Singleton n \<Rightarrow> (SingletonCall n, s\<lparr>singletons := (singletons s)(n \<mapsto> \<lparr>sg_builder_fn = builder_fn,
         sg_instance = (case singletons s n of Some sg \<Rightarrow> sg_instance sg | None \<Rightarrow> None)\<rparr>)\<rparr>))"

definition singleton_call :: "('b \<Rightarrow> (exn, ('b, 'o, 'w) injector, 'o option) prog) \<Rightarrow> nat
    \<Rightarrow> (exn, ('b, 'o, 'w) injector, 'o option) prog" where
  "singleton_call run n s = (case singletons s n of
       None \<Rightarrow> (Inl TypeError, s)
     | Some sg \<Rightarrow> (case sg_instance sg of
         Some v \<Rightarrow> (Inr (Some v), s)
       | None \<Rightarrow> (case run (sg_builder_fn sg) s of
           (Inl e, s') \<Rightarrow> (Inl e, s')
         | (Inr v, s') \<Rightarrow> (Inr v, s'\<lparr>singletons := (singletons s')(n := map_option (sg_instance_update (\<lambda>_. v)) (singletons s' n))\<rparr>))))"

definition register :: "('b \<Rightarrow> bool) \<Rightarrow> string \<Rightarrow> 'b \<Rightarrow> lifetime \<Rightarrow> (exn, ('b, 'o, 'w) injector, unit) prog" where
  \<comment> \<open>the first argument is \<open>asyncio.iscoroutinefunction\<close>, the second the key of the interface\<close>
  "register iscoroutinefunction interface factory_coroutine lt s =
     (if \<not> iscoroutinefunction factory_coroutine then (Inl AssertionError, s)
      else (case make_lifetime lt factory_coroutine s of (f, s') \<Rightarrow>
        (Inr (), s'\<lparr>factory_dict := AList.update interface f (factory_dict s')\<rparr>)))"

definition inj_get :: "('b \<Rightarrow> (exn, ('b, 'o, 'w) injector, 'o option) prog) \<Rightarrow> string
    \<Rightarrow> (exn, ('b, 'o, 'w) injector, 'o option) prog" where
  "inj_get run interface s = (case map_of (factory_dict s) interface of
       None \<Rightarrow> (Inl KeyError, s)
     | Some (Builder b) \<Rightarrow> run b s
     | Some (SingletonCall n) \<Rightarrow> singleton_call run n s)"

section \<open>Values of a request (request_dependency.py)\<close>

type_synonym 'o dependencies = "(string \<times> 'o option) list"

definition set_dependency :: "string \<Rightarrow> 'o option \<Rightarrow> 'o dependencies \<Rightarrow> 'o dependencies" where
  \<comment> \<open>\<open>RequestDependencySetter.__call__\<close>, and so \<open>with_value\<close>\<close>
  "set_dependency key value deps = AList.update key value deps"

definition dependency_call_func :: "string \<Rightarrow> 'o option \<Rightarrow> 'o dependencies \<Rightarrow> 'o option res" where
  "dependency_call_func key dflt deps =
     (if dflt = None \<and> map_of deps key = None then Inl RuntimeError
      else Inr (case map_of deps key of Some v \<Rightarrow> v | None \<Rightarrow> dflt))"

definition FetchRecordDependency :: "'o dependencies \<Rightarrow> 'o option res" where
  "FetchRecordDependency = dependency_call_func ''<class 'app.routers.dependency.fetch_record.FetchRecordDependency'>'' None"

definition FetchRecordPartialDependency :: "'o dependencies \<Rightarrow> 'o option res" where
  "FetchRecordPartialDependency = dependency_call_func
     ''<class 'app.routers.dependency.fetch_record.FetchRecordPartialDependency'>'' None"

section \<open>Properties\<close>

lemma dependency_set: "dependency_call_func key dflt (set_dependency key v deps) = Inr v"
  by (simp add: dependency_call_func_def set_dependency_def update_conv')

lemma dependency_frame: "k \<noteq> key \<Longrightarrow> dependency_call_func k dflt (set_dependency key v deps) = dependency_call_func k dflt deps"
  by (simp add: dependency_call_func_def set_dependency_def update_conv')

text \<open>A registered singleton is built once: the first object that the container gives for its key is given by every
  later call, whatever the builders would do by then, and without effect, as long as the key is not registered
  again; an interface that is not registered is a key error.\<close>

lemma singleton_built_once:
  assumes "map_of (factory_dict s) key = Some (SingletonCall n)" and "inj_get run key s = (Inr (Some v), s')"
    and "map_of (factory_dict s') key = Some (SingletonCall n)" and "singletons s' n \<noteq> None"
  shows "inj_get run' key s' = (Inr (Some v), s')"
  using assms
  by (auto simp: inj_get_def singleton_call_def split: option.splits prod.splits sum.splits)

lemma registered_found:
  assumes "register ico key b lt s = (Inr (), s')"
  shows "map_of (factory_dict s') key = Some (case lt of Transient \<Rightarrow> Builder b | Singleton n \<Rightarrow> SingletonCall n)
    \<and> (\<forall>k. k \<noteq> key \<longrightarrow> map_of (factory_dict s') k = map_of (factory_dict s) k)"
  using assms by (auto simp: register_def make_lifetime_def update_conv' split: if_splits lifetime.splits)

text \<open>The instance of a singleton is tested before the builder is awaited and set after it.  When a second request
  asks for the object while the builder of the first one is waiting, the builder runs twice: the second request gets
  one object, the first one and everybody later another.\<close>

lemma singleton_race:
  assumes "map_of (factory_dict s) key = Some (SingletonCall n)" and "singletons s n = Some \<lparr>sg_builder_fn = b, sg_instance = None\<rparr>"
    and "\<And>t. run b t = (Inr (Some (fresh (inj_world t))), t\<lparr>inj_world := next_world (inj_world t)\<rparr>)"
  shows "\<exists>s1 s2. inj_get run key s = (Inr (Some (fresh (inj_world s))), s1)
    \<and> inj_get (\<lambda>b. bindM (inj_get run key) (\<lambda>_. run b)) key s = (Inr (Some (fresh (next_world (inj_world s)))), s2)
    \<and> inj_get run' key s2 = (Inr (Some (fresh (next_world (inj_world s)))), s2)"
  using assms by (simp add: inj_get_def singleton_call_def bindM_run)

end
