(* ===== verification/Openapi.thy ===== *)
theory Openapi
  imports Py_Values
begin

text \<open>
  The OpenAPI document of the service: \<open>_patch_openapi_schema\<close>, \<open>_normalize_operation_ids\<close> and
  \<open>custom_openapi\<close> of \<open>app/wdms_app.py\<close>, and the registry \<open>OpenApiHandler\<close> of \<open>app/utils.py\<close>.  The document
  that FastAPI generates and the routes it lists (\<open>iter_route_contexts\<close>) are arguments.  The code changes the
  document in place and gives it up when it raises, so its functions return the changed document or the
  exception.
\<close>

section \<open>Formats and examples (\<open>_patch_openapi_schema\<close>)\<close>

definition bare_integer :: "(string \<times> pyval) list \<Rightarrow> bool" where
  "bare_integer d \<longleftrightarrow> map_of d ''type'' = Some (PStr ''integer'') \<and> map_of d ''format'' = None"

fun patch_node :: "pyval \<Rightarrow> pyval"
  and patch_values :: "(string \<times> pyval) list \<Rightarrow> (string \<times> pyval) list"
  and patch_list :: "pyval list \<Rightarrow> pyval list" where
  "patch_node (PDict d) =
     PDict (patch_values d @ (if bare_integer d then [(''format'', PStr ''int64'')] else []))"
| "patch_node v = v"
| "patch_values [] = []"
| "patch_values ((k, v) # r) = (k, case v of PList l \<Rightarrow> PList (patch_list l) | _ \<Rightarrow> patch_node v) # patch_values r"
| "patch_list [] = []"
| "patch_list (v # r) = patch_node v # patch_list r"

definition fix_parameter_examples :: "pyval \<Rightarrow> pyval" where
  "fix_parameter_examples param = (case param of
       PDict p \<Rightarrow> (case map_of p ''schema'' of
         Some (PDict s) \<Rightarrow> (case map_of s ''examples'' of
           Some (PDict e) \<Rightarrow> PDict (AList.update ''schema'' (PDict (AList.delete ''examples'' s))
                                    (AList.update ''examples'' (PDict e) p))
         | _ \<Rightarrow> param)
       | _ \<Rightarrow> param)
     | _ \<Rightarrow> param)"

definition patch_param :: "pyval \<Rightarrow> pyval res" where
  \<comment> \<open>one turn of the loop over the parameters of an operation\<close>
  "patch_param param = (case param of
       PDict p \<Rightarrow> Inr (fix_parameter_examples (case map_of p ''schema'' of
           None \<Rightarrow> param | Some s \<Rightarrow> PDict (AList.update ''schema'' (patch_node s) p)))
     | _ \<Rightarrow> Inl AttributeError)"

definition patch_operation :: "pyval \<Rightarrow> pyval res" where
  "patch_operation operation = (case operation of
       PDict op \<Rightarrow> (case map_of op ''parameters'' of
         None \<Rightarrow> Inr operation
       | Some v \<Rightarrow> bindR (v_iter v) (\<lambda>ps. bindR (mapR patch_param ps) (\<lambda>ps'.
           Inr (case v of PList _ \<Rightarrow> PDict (AList.update ''parameters'' (PList ps') op) | _ \<Rightarrow> operation))))
     | _ \<Rightarrow> Inr operation)"

definition map_values :: "(pyval \<Rightarrow> pyval res) \<Rightarrow> pyval \<Rightarrow> pyval res" where
  \<comment> \<open>a loop over \<open>v.items()\<close> that changes every value in place\<close>
  "map_values f v = (case v of
       PDict d \<Rightarrow> bindR (mapR (\<lambda>(k, w). bindR (f w) (\<lambda>w'. Inr (k, w'))) d) (\<lambda>d'. Inr (PDict d'))
     | _ \<Rightarrow> Inl AttributeError)"

definition patch_openapi_schema :: "(string \<times> pyval) list \<Rightarrow> (string \<times> pyval) list res" where
  "patch_openapi_schema schema =
     (let schema1 = (case map_of schema ''components'' of
          None \<Rightarrow> schema | Some c \<Rightarrow> AList.update ''components'' (patch_node c) schema)
      in case map_of schema1 ''paths'' of
           None \<Rightarrow> Inr schema1
         | Some paths \<Rightarrow> bindR (map_values (map_values patch_operation) paths) (\<lambda>paths'.
             Inr (AList.update ''paths'' paths' schema1)))"

section \<open>The registry of customisations (\<open>OpenApiHandler\<close>)\<close>

datatype handler =
    SetRequestBody pyval
  | AppendResponses "(string \<times> pyval) list"
  | AppendSchemas "(string \<times> pyval) list"

type_synonym handlers = "(string \<times> handler list) list"

record OpenApiResponse =
  oar_status :: int
  oar_name :: string
  oar_mimetype :: string
  oar_description :: string
  oar_schema :: pyval
  oar_example :: pyval

datatype responses_arg = ResponsesDict "(string \<times> pyval) list" | ResponsesList "OpenApiResponse list"

definition dict_of :: "(string \<times> pyval) list \<Rightarrow> (string \<times> pyval) list" where
  \<comment> \<open>a dictionary comprehension: a later item replaces an earlier one\<close>
  "dict_of items = foldl (\<lambda>d (k, v). AList.update k v d) [] items"

definition response_item :: "(int \<Rightarrow> string) \<Rightarrow> OpenApiResponse \<Rightarrow> string \<times> pyval" where
  "response_item to_str r = (to_str (oar_status r), PDict [
     (''description'', PStr (oar_description r)),
     (''content'', PDict [(oar_mimetype r,
        let ref = (''schema'', PDict [(''$ref'', PStr (''#/components/schemas/'' @ oar_name r))])
        in if truthy (oar_example r) then PDict [ref, (''example'', oar_example r)] else PDict [ref])])])"

definition handlers_set :: "(int \<Rightarrow> string) \<Rightarrow> string \<Rightarrow> pyval option \<Rightarrow> (string \<times> pyval) list option \<Rightarrow> responses_arg option
    \<Rightarrow> handlers \<Rightarrow> handlers" where
  \<comment> \<open>\<open>set\<close> followed by the application of its decorator\<close>
  "handlers_set to_str operation_id request_body schemas responses reg =
     (let body = (case request_body of None \<Rightarrow> [] | Some b \<Rightarrow> [SetRequestBody b]);
          resp = (case responses of None \<Rightarrow> []
             | Some (ResponsesDict d) \<Rightarrow> [AppendResponses d]
             | Some (ResponsesList l) \<Rightarrow> [AppendResponses (dict_of (map (response_item to_str) l))]);
          schemas' = (case responses of
               Some (ResponsesList l) \<Rightarrow>
                 Some (foldl (\<lambda>d (k, v). AList.update k v d) (case schemas of None \<Rightarrow> [] | Some s \<Rightarrow> s)
                    (dict_of (map (\<lambda>r. (oar_name r, oar_schema r)) l)))
             | _ \<Rightarrow> schemas);
          sch = (case schemas' of None \<Rightarrow> [] | Some s \<Rightarrow> [AppendSchemas s])
      in AList.update operation_id ((case map_of reg operation_id of None \<Rightarrow> [] | Some hs \<Rightarrow> hs) @ body @ resp @ sch) reg)"

fun find_method :: "string \<Rightarrow> (string \<times> pyval) list \<Rightarrow> string option res" where
  \<comment> \<open>the inner loop of \<open>operation_from_id\<close>: the key of the first operation with the identifier\<close>
  "find_method operation_id [] = Inr None"
| "find_method operation_id ((m, node) # r) =
     bindR (v_get_default node ''operationId'' (PStr [])) (\<lambda>i.
       if i = PStr operation_id then Inr (Some m) else find_method operation_id r)"

fun find_operation :: "string \<Rightarrow> (string \<times> pyval) list \<Rightarrow> (string \<times> string) option res" where
  "find_operation operation_id [] = Inr None"
| "find_operation operation_id ((p, path_node) # r) = (case path_node of
       PDict ms \<Rightarrow> bindR (find_method operation_id ms) (\<lambda>m. case m of
           Some m \<Rightarrow> Inr (Some (p, m)) | None \<Rightarrow> find_operation operation_id r)
     | _ \<Rightarrow> Inl AttributeError)"

definition paths_of :: "(string \<times> pyval) list \<Rightarrow> (string \<times> pyval) list res" where
  \<comment> \<open>the items of \<open>openapi_schema['paths']\<close>\<close>
  "paths_of schema = (case map_of schema ''paths'' of
       None \<Rightarrow> Inl KeyError | Some (PDict ps) \<Rightarrow> Inr ps | Some _ \<Rightarrow> Inl AttributeError)"

definition operation_from_id :: "(string \<times> pyval) list \<Rightarrow> string \<Rightarrow> (string \<times> string) option res" where
  \<comment> \<open>the place of the operation instead of a reference to it\<close>
  "operation_from_id schema operation_id = bindR (paths_of schema) (find_operation operation_id)"

definition sub_dict :: "string \<Rightarrow> (string \<times> pyval) list \<Rightarrow> (string \<times> pyval) list" where
  "sub_dict k d = (case map_of d k of Some (PDict e) \<Rightarrow> e | _ \<Rightarrow> [])"

definition update_operation :: "string \<times> string \<Rightarrow> ((string \<times> pyval) list \<Rightarrow> (string \<times> pyval) list)
    \<Rightarrow> (string \<times> pyval) list \<Rightarrow> (string \<times> pyval) list" where
  \<comment> \<open>an update in place of an operation of \<open>paths\<close>\<close>
  "update_operation loc f paths = (case loc of (p, m) \<Rightarrow>
     AList.update p (PDict (AList.update m (PDict (f (sub_dict m (sub_dict p paths)))) (sub_dict p paths))) paths)"

definition set_default_update :: "string \<Rightarrow> (string \<times> pyval) list \<Rightarrow> (string \<times> pyval) list \<Rightarrow> (string \<times> pyval) list res" where
  \<comment> \<open>\<open>d.setdefault(k, {}).update(u)\<close>\<close>
  "set_default_update k u d = (case (case map_of d k of None \<Rightarrow> PDict [] | Some v \<Rightarrow> v) of
       PDict e \<Rightarrow> Inr (AList.update k (PDict (foldl (\<lambda>d (k, v). AList.update k v d) e u)) d)
     | _ \<Rightarrow> Inl AttributeError)"

definition run_handler :: "handler \<Rightarrow> string \<Rightarrow> (string \<times> pyval) list \<Rightarrow> (string \<times> pyval) list res" where
  "run_handler h operation_id schema = (case h of
       SetRequestBody body \<Rightarrow> bindR (operation_from_id schema operation_id) (\<lambda>loc. case loc of
           None \<Rightarrow> Inl TypeError
         | Some loc \<Rightarrow> Inr (AList.update ''paths''
             (PDict (update_operation loc (AList.update ''requestBody'' body) (sub_dict ''paths'' schema))) schema))
     | AppendResponses responses \<Rightarrow> bindR (operation_from_id schema operation_id) (\<lambda>loc. case loc of
           None \<Rightarrow> Inl AttributeError
         | Some loc \<Rightarrow> bindR (set_default_update ''responses'' responses
               (sub_dict (snd loc) (sub_dict (fst loc) (sub_dict ''paths'' schema)))) (\<lambda>op.
             Inr (AList.update ''paths'' (PDict (update_operation loc (\<lambda>_. op) (sub_dict ''paths'' schema))) schema)))
     | AppendSchemas schemas \<Rightarrow> (case map_of schema ''components'' of
           None \<Rightarrow> Inl KeyError
         | Some (PDict c) \<Rightarrow> bindR (set_default_update ''schemas'' schemas c) (\<lambda>c'.
             Inr (AList.update ''components'' (PDict c') schema))
         | Some _ \<Rightarrow> Inl AttributeError))"

fun run_handlers :: "handler list \<Rightarrow> string \<Rightarrow> (string \<times> pyval) list \<Rightarrow> (string \<times> pyval) list res" where
  "run_handlers [] operation_id schema = Inr schema"
| "run_handlers (h # hs) operation_id schema = bindR (run_handler h operation_id schema) (run_handlers hs operation_id)"

fun OpenApiHandler_call :: "handlers \<Rightarrow> string list \<Rightarrow> (string \<times> pyval) list \<Rightarrow> (string \<times> pyval) list res" where
  "OpenApiHandler_call reg [] schema = Inr schema"
| "OpenApiHandler_call reg (i # is) schema =
     bindR (case map_of reg i of None \<Rightarrow> Inr schema | Some hs \<Rightarrow> run_handlers hs i schema) (OpenApiHandler_call reg is)"

section \<open>Operation identifiers (\<open>_normalize_operation_ids\<close>)\<close>

record route_context =
  rc_path :: "string option"
  rc_operation_id :: "string option"
  rc_methods :: "string list"

record norm_state =
  ns_paths :: pyval
  ns_handlers :: handlers
  ns_seen :: "string list"

definition operation_id_char :: "char \<Rightarrow> bool" where
  \<comment> \<open>\<open>[a-zA-Z0-9.]\<close>\<close>
  "operation_id_char c \<longleftrightarrow> (let n = code c in 48 \<le> n \<and> n \<le> 57 \<or> 65 \<le> n \<and> n \<le> 90 \<or> 97 \<le> n \<and> n \<le> 122 \<or> n = 46)"

definition new_operation_id :: "string \<Rightarrow> string \<Rightarrow> string" where
  "new_operation_id method path = lower (map (\<lambda>c. if operation_id_char c then c else CHR ''_'')
     (method @ ''_'' @ path))"

definition falsy_id :: "string option \<Rightarrow> bool" where
  "falsy_id i \<longleftrightarrow> i = None \<or> i = Some []"

definition normalize_operation :: "string option \<Rightarrow> string \<Rightarrow> string \<Rightarrow> norm_state \<Rightarrow> norm_state res" where
  \<comment> \<open>one turn of the loop over the methods of a route\<close>
  "normalize_operation explicit_id path method st =
     bindR (v_index (ns_paths st) path) (\<lambda>item.
     bindR (v_get item (lower method)) (\<lambda>operation.
     case operation of
       PDict op \<Rightarrow>
         if map_of op ''operationId'' = None then Inr st
         else let renamed = falsy_id explicit_id \<or> the explicit_id \<in> set (ns_seen st);
                  i = (if renamed then new_operation_id method path else the explicit_id);
                  hs = (case explicit_id of
                      Some (c # cs) \<Rightarrow> (if renamed then (case map_of (ns_handlers st) (c # cs) of
                          Some h \<Rightarrow> AList.update i h (ns_handlers st) | None \<Rightarrow> ns_handlers st) else ns_handlers st)
                    | _ \<Rightarrow> ns_handlers st)
              in Inr \<lparr>ns_paths = (case ns_paths st of
                       PDict ps \<Rightarrow> PDict (update_operation (path, lower method) (AList.update ''operationId'' (PStr i)) ps)
                     | v \<Rightarrow> v), ns_handlers = hs, ns_seen = i # ns_seen st\<rparr>
     | _ \<Rightarrow> Inr st))"

fun normalize_methods :: "string option \<Rightarrow> string \<Rightarrow> string list \<Rightarrow> norm_state \<Rightarrow> norm_state res" where
  "normalize_methods e path [] st = Inr st"
| "normalize_methods e path (m # ms) st = bindR (normalize_operation e path m st) (normalize_methods e path ms)"

fun normalize_contexts :: "route_context list \<Rightarrow> norm_state \<Rightarrow> norm_state res" where
  "normalize_contexts [] st = Inr st"
| "normalize_contexts (rc # rcs) st = bindR (case rc_path rc of
       None \<Rightarrow> Inr st
     | Some path \<Rightarrow> bindR (v_contains path (ns_paths st)) (\<lambda>present.
         if \<not> present then Inr st else normalize_methods (rc_operation_id rc) path (rc_methods rc) st))
     (normalize_contexts rcs)"

definition normalize_operation_ids :: "route_context list \<Rightarrow> handlers \<Rightarrow> (string \<times> pyval) list
    \<Rightarrow> ((string \<times> pyval) list \<times> handlers) res" where
  "normalize_operation_ids contexts reg schema = (case map_of schema ''paths'' of
       None \<Rightarrow> bindR (normalize_contexts contexts \<lparr>ns_paths = PDict [], ns_handlers = reg, ns_seen = []\<rparr>) (\<lambda>st.
         Inr (schema, ns_handlers st))
     | Some paths \<Rightarrow> bindR (normalize_contexts contexts \<lparr>ns_paths = paths, ns_handlers = reg, ns_seen = []\<rparr>) (\<lambda>st.
         Inr (AList.update ''paths'' (ns_paths st) schema, ns_handlers st)))"

section \<open>The document (\<open>custom_openapi\<close>)\<close>

record app_doc =
  openapi_schema :: "(string \<times> pyval) list option"
  doc_handlers :: handlers

definition custom_openapi :: "(exn, 'w, (string \<times> pyval) list) prog \<Rightarrow> route_context list
    \<Rightarrow> (exn, app_doc \<times> 'w, (string \<times> pyval) list) prog" where
  \<comment> \<open>the first argument is \<open>get_openapi\<close> of FastAPI on the attributes of the application; a document that was
    made before, and is not empty, is returned again; when the identifiers cannot be assigned the registry
    is given back as it was, without the entries that had been added by then\<close>
  "custom_openapi get_openapi contexts = (\<lambda>(d, w). case openapi_schema d of
       Some (x # xs) \<Rightarrow> (Inr (x # xs), (d, w))
     | _ \<Rightarrow> (case get_openapi w of
         (Inl e, w') \<Rightarrow> (Inl e, (d, w'))
       | (Inr schema, w') \<Rightarrow> (case normalize_operation_ids contexts (doc_handlers d) schema of
           Inl e \<Rightarrow> (Inl e, (d, w'))
         | Inr (schema1, reg) \<Rightarrow> (case bindR (OpenApiHandler_call reg (map fst reg) schema1) patch_openapi_schema of
             Inl e \<Rightarrow> (Inl e, (d\<lparr>doc_handlers := reg\<rparr>, w'))
           | Inr schema2 \<Rightarrow> (Inr schema2, (\<lparr>openapi_schema = Some schema2, doc_handlers = reg\<rparr>, w'))))))"

section \<open>What the patch does\<close>

inductive visited :: "pyval \<Rightarrow> pyval \<Rightarrow> bool" where
  \<comment> \<open>the nodes of a document that lie below a node along dictionaries, and lists inside dictionaries\<close>
  visited_self: "visited (PDict d) (PDict d)"
| visited_value: "(k, PDict e) \<in> set d \<Longrightarrow> visited (PDict e) w \<Longrightarrow> visited (PDict d) w"
| visited_item: "(k, PList l) \<in> set d \<Longrightarrow> v \<in> set l \<Longrightarrow> visited v w \<Longrightarrow> visited (PDict d) w"

inductive_cases visited_DictE: "visited (PDict d) w"

fun formatted :: "pyval \<Rightarrow> bool"
  and formatted_values :: "(string \<times> pyval) list \<Rightarrow> bool"
  and formatted_list :: "pyval list \<Rightarrow> bool" where
  "formatted (PDict d) = (\<not> bare_integer d \<and> formatted_values d)"
| "formatted v = True"
| "formatted_values [] = True"
| "formatted_values ((k, v) # r) = ((case v of PList l \<Rightarrow> formatted_list l | _ \<Rightarrow> formatted v) \<and> formatted_values r)"
| "formatted_list [] = True"
| "formatted_list (v # r) = (formatted v \<and> formatted_list r)"

fun at_path :: "pyval \<Rightarrow> (string + nat) list \<Rightarrow> pyval option" where
  \<comment> \<open>the value at a path of keys and positions\<close>
  "at_path v [] = Some v"
| "at_path (PDict d) (Inl k # p) = (case map_of d k of None \<Rightarrow> None | Some w \<Rightarrow> at_path w p)"
| "at_path (PList l) (Inr i # p) = (if i < length l then at_path (l ! i) p else None)"
| "at_path v (x # p) = None"

definition patch_value :: "pyval \<Rightarrow> pyval" where
  "patch_value v = (case v of PList l \<Rightarrow> PList (patch_list l) | _ \<Rightarrow> patch_node v)"

lemma patch_list_map: "patch_list l = map patch_node l"
  by (induction l) auto

lemma patch_values_map: "patch_values d = map (\<lambda>(k, v). (k, patch_value v)) d"
  by (induction d) (auto simp: patch_value_def)

lemma map_of_patch_values: "map_of (patch_values d) k = map_option patch_value (map_of d k)"
  by (simp add: patch_values_map map_of_map)

lemma patch_value_str [simp]: "patch_value v = PStr s \<longleftrightarrow> v = PStr s" "patch_value (PStr s) = PStr s"
  by (cases v; simp add: patch_value_def)+

lemma bare_integer_patched: "\<not> bare_integer (patch_values d @ (if bare_integer d then [(''format'', PStr ''int64'')] else []))"
  by (auto simp: bare_integer_def map_of_patch_values map_add_Some_iff split: option.splits)

lemma formatted_values_append [simp]: "formatted_values (d @ e) \<longleftrightarrow> formatted_values d \<and> formatted_values e"
  by (induction d) auto

lemma patched_formatted:
  "formatted (patch_node v)" "formatted_values (patch_values d)" "formatted_list (patch_list l)"
proof (induction v and d and l rule: patch_node_patch_values_patch_list.induct)
  case (1 d)
  then show ?case using bare_integer_patched by simp
next
  case (4 k v r)
  then show ?case by (cases v) auto
qed auto

lemma formatted_unpatched:
  "formatted v \<Longrightarrow> patch_node v = v" "formatted_values d \<Longrightarrow> patch_values d = d" "formatted_list l \<Longrightarrow> patch_list l = l"
proof (induction v and d and l rule: patch_node_patch_values_patch_list.induct)
  case (4 k v r)
  then show ?case by (cases v) auto
qed auto

lemma formatted_list_all: "formatted_list l \<longleftrightarrow> list_all formatted l"
  by (induction l) auto

lemma formatted_values_member:
  "formatted_values d \<Longrightarrow> (k, v) \<in> set d \<Longrightarrow> (case v of PList l \<Rightarrow> formatted_list l | _ \<Rightarrow> formatted v)"
  by (induction d) auto

lemma formatted_visited: "visited v w \<Longrightarrow> formatted v \<Longrightarrow> \<exists>d. w = PDict d \<and> \<not> bare_integer d"
proof (induction rule: visited.induct)
  case (visited_value k e d w)
  then show ?case using formatted_values_member [of d k "PDict e"] by simp
next
  case (visited_item k l d v w)
  then show ?case using formatted_values_member [of d k "PList l"] by (auto simp: formatted_list_all list_all_iff)
qed simp

lemma patch_scalar: "\<forall>d. v \<noteq> PDict d \<Longrightarrow> patch_node v = v"
  by (cases v) auto

lemma patched_at_value: "at_path v p = Some s \<Longrightarrow> \<forall>d. s \<noteq> PDict d \<Longrightarrow> \<forall>l. s \<noteq> PList l \<Longrightarrow>
    at_path (patch_node v) p = Some s \<and> at_path (patch_value v) p = Some s"
proof (induction v p rule: at_path.induct)
  case (1 v)
  then show ?case by (cases v) (auto simp: patch_value_def)
next
  case (2 d k p)
  then obtain w where w: "map_of d k = Some w" and "at_path w p = Some s" by (auto split: option.splits)
  with 2 have "at_path (patch_value w) p = Some s" by blast
  with w show ?case by (simp add: map_of_patch_values patch_value_def map_add_def split: option.splits)
next
  case (3 l i p)
  then have "i < length l" and "at_path (l ! i) p = Some s" by (auto split: if_splits)
  with 3 have "at_path (patch_node (l ! i)) p = Some s" by blast
  with \<open>i < length l\<close> 3 show ?case by (simp add: patch_value_def patch_list_map)
qed (auto simp: patch_value_def)

text \<open>After the patch of the OpenAPI document, every node that is reached from the patched one through
  dictionaries and the lists they hold has a format if it is of type integer; every string, number and other
  plain value of the document is where it was; and patching again changes nothing.\<close>

theorem patch_node_spec:
  shows "(\<forall>w. visited (patch_node v) w \<longrightarrow> (\<exists>d. w = PDict d \<and>
          (map_of d ''type'' = Some (PStr ''integer'') \<longrightarrow> map_of d ''format'' \<noteq> None)))
    \<and> (\<forall>p s. at_path v p = Some s \<and> (\<forall>d. s \<noteq> PDict d) \<and> (\<forall>l. s \<noteq> PList l) \<longrightarrow> at_path (patch_node v) p = Some s)
    \<and> patch_node (patch_node v) = patch_node v"
  using formatted_visited [OF _ patched_formatted(1)] patched_at_value formatted_unpatched(1) [OF patched_formatted(1)]
  unfolding bare_integer_def by blast

section \<open>What the normalisation does\<close>

type_synonym visit = "string option \<times> string \<times> string"
  \<comment> \<open>the explicit identifier, the path and the method of an operation\<close>

definition context_visits :: "route_context \<Rightarrow> visit list" where
  "context_visits rc = (case rc_path rc of None \<Rightarrow> [] | Some p \<Rightarrow> map (\<lambda>m. (rc_operation_id rc, p, m)) (rc_methods rc))"

definition op_at :: "(string \<times> pyval) list \<Rightarrow> string \<times> string \<Rightarrow> (string \<times> pyval) list option" where
  "op_at ps loc = (case map_of ps (fst loc) of
       Some (PDict item) \<Rightarrow> (case map_of item (snd loc) of Some (PDict op) \<Rightarrow> Some op | _ \<Rightarrow> None)
     | _ \<Rightarrow> None)"

definition wf_paths :: "(string \<times> pyval) list \<Rightarrow> bool" where
  "wf_paths ps \<longleftrightarrow> (\<forall>p v. map_of ps p = Some v \<longrightarrow> (\<exists>item. v = PDict item))"

definition visit_loc :: "visit \<Rightarrow> string \<times> string" where
  "visit_loc v = (case v of (e, p, m) \<Rightarrow> (p, lower m))"

definition visit_slug :: "visit \<Rightarrow> string" where
  "visit_slug v = (case v of (e, p, m) \<Rightarrow> new_operation_id m p)"

definition op_id :: "(string \<times> pyval) list \<Rightarrow> string \<times> string \<Rightarrow> pyval option" where
  "op_id ps loc = (case op_at ps loc of None \<Rightarrow> None | Some op \<Rightarrow> map_of op ''operationId'')"

abbreviation listed :: "(string \<times> pyval) list \<Rightarrow> visit \<Rightarrow> bool" where
  "listed ps v \<equiv> op_id ps (visit_loc v) \<noteq> None"

definition assigned_id :: "visit \<Rightarrow> string list \<Rightarrow> string" where
  "assigned_id v seen = (if falsy_id (fst v) \<or> the (fst v) \<in> set seen then visit_slug v else the (fst v))"

fun assign :: "visit list \<Rightarrow> string list \<Rightarrow> string list" where
  \<comment> \<open>the identifiers that the documentation promises: the first operation with an explicit identifier keeps it,
    every other one is named by its method and path\<close>
  "assign [] seen = []"
| "assign (v # vs) seen = assigned_id v seen # assign vs (assigned_id v seen # seen)"

definition fresh_slugs :: "visit list \<Rightarrow> bool" where
  "fresh_slugs vs \<longleftrightarrow> distinct (map visit_loc vs) \<and> distinct (map visit_slug vs)
     \<and> (\<forall>v\<in>set vs. \<forall>w\<in>set vs. fst w \<noteq> Some (visit_slug v))"

definition copied :: "visit \<Rightarrow> string list \<Rightarrow> handlers \<Rightarrow> handlers" where
  \<comment> \<open>the registry after an operation got its identifier\<close>
  "copied v seen reg = (if \<not> falsy_id (fst v) \<and> the (fst v) \<in> set seen then (case map_of reg (the (fst v)) of
      Some h \<Rightarrow> AList.update (visit_slug v) h reg | None \<Rightarrow> reg) else reg)"

lemma op_at_update:
  assumes "op_at ps loc = Some op"
  shows "op_at (update_operation loc f ps) loc' = (if loc' = loc then Some (f op) else op_at ps loc')"
proof -
  obtain p m where loc: "loc = (p, m)" by fastforce
  with assms obtain item where "map_of ps p = Some (PDict item)" and "map_of item m = Some (PDict op)"
    by (auto simp: op_at_def split: option.splits pyval.splits)
  then show ?thesis by (cases loc') (auto simp: loc op_at_def update_operation_def sub_dict_def)
qed

lemma wf_paths_update: "wf_paths ps \<Longrightarrow> wf_paths (update_operation loc f ps)"
  by (cases loc) (auto simp: wf_paths_def update_operation_def)

lemma op_id_update:
  assumes "op_at ps loc = Some op" and "map_of op ''operationId'' \<noteq> None"
  shows "op_id (update_operation loc (AList.update ''operationId'' (PStr i)) ps) loc' =
      (if loc' = loc then Some (PStr i) else op_id ps loc')"
  using assms by (simp add: op_id_def op_at_update split: option.splits)

lemma normalize_operation_run:
  assumes "wf_paths ps" and "map_of ps p \<noteq> None"
  shows "normalize_operation e p m \<lparr>ns_paths = PDict ps, ns_handlers = reg, ns_seen = seen\<rparr> =
     Inr (if listed ps (e, p, m)
       then \<lparr>ns_paths = PDict (update_operation (p, lower m) (AList.update ''operationId'' (PStr (assigned_id (e, p, m) seen))) ps),
             ns_handlers = copied (e, p, m) seen reg, ns_seen = assigned_id (e, p, m) seen # seen\<rparr>
       else \<lparr>ns_paths = PDict ps, ns_handlers = reg, ns_seen = seen\<rparr>)"
proof -
  obtain item where item: "map_of ps p = Some (PDict item)" using assms unfolding wf_paths_def by blast
  show ?thesis
  proof (cases "map_of item (lower m)")
    case None
    with item show ?thesis by (simp add: normalize_operation_def ofOption_def op_id_def op_at_def visit_loc_def)
  next
    case (Some v)
    with item show ?thesis
      by (cases v; cases e rule: option.exhaust [case_product list.exhaust])
        (auto simp: normalize_operation_def ofOption_def op_id_def op_at_def visit_loc_def Let_def falsy_id_def
          assigned_id_def visit_slug_def copied_def           split: list.splits option.splits)
  qed
qed

fun norm_visits :: "visit list \<Rightarrow> norm_state \<Rightarrow> norm_state" where
  \<comment> \<open>the loops as one, over the operations of the routes in their order\<close>
  "norm_visits [] st = st"
| "norm_visits (v # vs) st = norm_visits vs (case ns_paths st of
       PDict ps \<Rightarrow> (if listed ps v
         then \<lparr>ns_paths = PDict (update_operation (visit_loc v) (AList.update ''operationId'' (PStr (assigned_id v (ns_seen st)))) ps),
               ns_handlers = copied v (ns_seen st) (ns_handlers st), ns_seen = assigned_id v (ns_seen st) # ns_seen st\<rparr>
         else st)
     | _ \<Rightarrow> st)"

lemma norm_visits_append: "norm_visits (vs @ ws) st = norm_visits ws (norm_visits vs st)"
  by (induction vs st rule: norm_visits.induct) simp_all

lemma update_operation_dom: "op_at ps loc \<noteq> None \<Longrightarrow> dom (map_of (update_operation loc f ps)) = dom (map_of ps)"
  by (cases loc) (auto simp: update_operation_def op_at_def split: option.splits if_splits)

lemma listed_op_at: "listed ps v \<Longrightarrow> op_at ps (visit_loc v) \<noteq> None"
  by (auto simp: op_id_def split: option.splits)

lemma listed_path: "listed ps (e, p, m) \<Longrightarrow> map_of ps p \<noteq> None"
  by (auto simp: op_id_def op_at_def visit_loc_def split: option.splits)

lemma normalize_methods_run:
  assumes "wf_paths ps" and "map_of ps p \<noteq> None"
  shows "normalize_methods e p ms \<lparr>ns_paths = PDict ps, ns_handlers = reg, ns_seen = seen\<rparr> =
      Inr (norm_visits (map (\<lambda>m. (e, p, m)) ms) \<lparr>ns_paths = PDict ps, ns_handlers = reg, ns_seen = seen\<rparr>)"
  using assms
proof (induction ms arbitrary: ps reg seen)
  case (Cons m ms)
  let ?u = "update_operation (p, lower m) (AList.update ''operationId'' (PStr (assigned_id (e, p, m) seen))) ps"
  have "map_of ?u p \<noteq> None" by (simp add: update_operation_def)
  with Cons wf_paths_update [OF Cons.prems(1)] show ?case
    by (simp add: normalize_operation_run visit_loc_def del: not_None_eq)
qed simp

lemma norm_visits_wf:
  assumes "wf_paths ps"
  shows "\<exists>ps' reg' seen'. norm_visits vs \<lparr>ns_paths = PDict ps, ns_handlers = reg, ns_seen = seen\<rparr> =
     \<lparr>ns_paths = PDict ps', ns_handlers = reg', ns_seen = seen'\<rparr> \<and> wf_paths ps'"
  using assms
proof (induction vs arbitrary: ps reg seen)
  case (Cons v vs)
  then show ?case
    using wf_paths_update by (cases "listed ps v") (simp_all del: not_None_eq)
qed simp

lemma norm_visits_absent:
  assumes "map_of ps p = None"
  shows "norm_visits (map (\<lambda>m. (e, p, m)) ms) \<lparr>ns_paths = PDict ps, ns_handlers = reg, ns_seen = seen\<rparr> =
     \<lparr>ns_paths = PDict ps, ns_handlers = reg, ns_seen = seen\<rparr>"
proof -
  have "\<not> listed ps (e, p, m)" for m using assms listed_path by blast
  then show ?thesis by (induction ms) (simp_all del: not_None_eq)
qed

lemma normalize_contexts_run:
  assumes "wf_paths ps"
  shows "normalize_contexts rcs \<lparr>ns_paths = PDict ps, ns_handlers = reg, ns_seen = seen\<rparr> =
     Inr (norm_visits (concat (map context_visits rcs)) \<lparr>ns_paths = PDict ps, ns_handlers = reg, ns_seen = seen\<rparr>)"
  using assms
proof (induction rcs arbitrary: ps reg seen)
  case (Cons rc rcs)
  show ?case
  proof (cases "rc_path rc")
    case None
    with Cons show ?thesis by (simp add: context_visits_def)
  next
    case (Some p)
    show ?thesis
    proof (cases "map_of ps p")
      case None
      with Some Cons show ?thesis by (simp add: context_visits_def norm_visits_append norm_visits_absent)
    next
      case (Some v)
      with \<open>rc_path rc = Some p\<close> Cons
        norm_visits_wf [OF Cons.prems, of "map (\<lambda>m. (rc_operation_id rc, p, m)) (rc_methods rc)" reg seen]
      show ?thesis
        by (auto simp: context_visits_def norm_visits_append normalize_methods_run)
    qed
  qed
qed simp

lemma falsy_idD: "\<not> falsy_id e \<Longrightarrow> \<exists>i. e = Some i"
  by (auto simp: falsy_id_def)

lemma assigned_cases: "assigned_id v seen = visit_slug v \<or> (fst v = Some (assigned_id v seen) \<and> assigned_id v seen \<notin> set seen)"
  by (auto simp: assigned_id_def falsy_id_def)

lemma fresh_slugs_Cons:
  assumes "fresh_slugs (v # vs)"
  shows "fresh_slugs vs" and "visit_loc v \<notin> visit_loc ` set vs" and "visit_slug v \<notin> visit_slug ` set vs"
    and "\<And>w. w \<in> set vs \<Longrightarrow> fst w \<noteq> Some (visit_slug v)" and "\<And>w. w \<in> set vs \<Longrightarrow> fst v \<noteq> Some (visit_slug w)"
    and "fst v \<noteq> Some (visit_slug v)"
  using assms by (auto simp: fresh_slugs_def)

lemma assigned_not_later:
  assumes "fresh_slugs (v # vs)" and "w \<in> set vs"
  shows "visit_slug w \<noteq> assigned_id v seen"
  using assigned_cases [of v seen] fresh_slugs_Cons(3) [OF assms(1)] fresh_slugs_Cons(5) [OF assms] assms(2)
  by (metis imageI)

lemma assigned_not_slug: "fresh_slugs (v # vs) \<Longrightarrow> assigned_id v seen \<notin> visit_slug ` set vs"
  using assigned_not_later by (metis imageE)

lemma assign_distinct:
  assumes "fresh_slugs vs" and "set seen \<inter> visit_slug ` set vs = {}"
  shows "distinct (assign vs seen) \<and> set (assign vs seen) \<inter> set seen = {}"
  using assms
proof (induction vs arbitrary: seen)
  case (Cons v vs)
  let ?i = "assigned_id v seen"
  have "?i \<notin> set seen" using assigned_cases [of v seen] Cons.prems by auto
  moreover have "?i \<notin> visit_slug ` set vs" using Cons.prems(1) by (rule assigned_not_slug)
  ultimately show ?case using Cons.IH [of "?i # seen"] fresh_slugs_Cons(1) [OF Cons.prems(1)] Cons.prems(2) by simp
qed simp

lemma filter_listed_update:
  assumes "listed ps v"
  shows "filter (listed (update_operation (visit_loc v) (AList.update ''operationId'' (PStr i)) ps)) vs = filter (listed ps) vs"
proof -
  obtain op where "op_at ps (visit_loc v) = Some op" and "map_of op ''operationId'' \<noteq> None"
    using assms by (auto simp: op_id_def split: option.splits)
  then have "listed (update_operation (visit_loc v) (AList.update ''operationId'' (PStr i)) ps) w \<longleftrightarrow> listed ps w" for w
    using assms by (simp add: op_id_update)
  then show ?thesis by simp
qed

lemma norm_visits_ids:
  assumes "wf_paths ps" and "fresh_slugs (filter (listed ps) vs)"
    and "norm_visits vs \<lparr>ns_paths = PDict ps, ns_handlers = reg, ns_seen = seen\<rparr> = \<lparr>ns_paths = PDict ps', ns_handlers = reg', ns_seen = seen'\<rparr>"
  shows "map (op_id ps') (map visit_loc (filter (listed ps) vs)) = map (\<lambda>i. Some (PStr i)) (assign (filter (listed ps) vs) seen)
    \<and> (\<forall>loc. loc \<notin> visit_loc ` set (filter (listed ps) vs) \<longrightarrow> op_at ps' loc = op_at ps loc)"
  using assms
proof (induction vs arbitrary: ps reg seen)
  case (Cons v vs)
  show ?case
  proof (cases "listed ps v")
    case False
    with Cons show ?thesis by simp
  next
    case True
    let ?i = "assigned_id v seen"
    let ?u = "update_operation (visit_loc v) (AList.update ''operationId'' (PStr ?i)) ps"
    obtain op where op: "op_at ps (visit_loc v) = Some op" "map_of op ''operationId'' \<noteq> None"
      using True by (auto simp: op_id_def split: option.splits)
    have fl: "filter (listed ?u) vs = filter (listed ps) vs" by (rule filter_listed_update [OF True])
    have fresh: "fresh_slugs (v # filter (listed ps) vs)" using Cons.prems(2) True by simp
    have IH: "map (op_id ps') (map visit_loc (filter (listed ps) vs)) = map (\<lambda>i. Some (PStr i)) (assign (filter (listed ps) vs) (?i # seen))
        \<and> (\<forall>loc. loc \<notin> visit_loc ` set (filter (listed ps) vs) \<longrightarrow> op_at ps' loc = op_at ?u loc)"
      using Cons.IH [of ?u "copied v seen reg" "?i # seen"] Cons.prems(1,3) wf_paths_update [of ps]
        fresh_slugs_Cons(1) [OF fresh] True unfolding fl by auto
    then have "op_at ps' (visit_loc v) = op_at ?u (visit_loc v)" using fresh_slugs_Cons(2) [OF fresh] by blast
    then have "op_id ps' (visit_loc v) = Some (PStr ?i)" using op by (simp add: op_id_def op_at_update)
    moreover have "\<forall>loc. loc \<notin> visit_loc ` set (v # filter (listed ps) vs) \<longrightarrow> op_at ps' loc = op_at ps loc"
      using IH op by (auto simp: op_at_update)
    ultimately show ?thesis using IH True by simp
  qed
qed simp

lemma copied_frame: "k \<noteq> visit_slug v \<Longrightarrow> map_of (copied v seen reg) k = map_of reg k"
  by (simp add: copied_def split: option.splits)

lemma norm_visits_handlers:
  assumes "fresh_slugs (filter (listed ps) vs)"
    and "norm_visits vs \<lparr>ns_paths = PDict ps, ns_handlers = reg, ns_seen = seen\<rparr> = \<lparr>ns_paths = PDict ps', ns_handlers = reg', ns_seen = seen'\<rparr>"
  shows "(\<forall>(v, i) \<in> set (zip (filter (listed ps) vs) (assign (filter (listed ps) vs) seen)).
      \<forall>h. \<not> falsy_id (fst v) \<and> map_of reg (the (fst v)) = Some h \<longrightarrow> map_of reg' i = Some h)
    \<and> (\<forall>k. k \<notin> visit_slug ` set (filter (listed ps) vs) \<longrightarrow> map_of reg' k = map_of reg k)"
  using assms
proof (induction vs arbitrary: ps reg seen)
  case (Cons v vs)
  show ?case
  proof (cases "listed ps v")
    case False
    with Cons show ?thesis by simp
  next
    case True
    let ?i = "assigned_id v seen" and ?vs = "filter (listed ps) vs" and ?reg = "copied v seen reg"
    have fresh: "fresh_slugs (v # ?vs)" using Cons.prems(1) True by simp
    have IH: "(\<forall>(w, j) \<in> set (zip ?vs (assign ?vs (?i # seen))).
        \<forall>h. \<not> falsy_id (fst w) \<and> map_of ?reg (the (fst w)) = Some h \<longrightarrow> map_of reg' j = Some h)"
      and frame: "\<forall>k. k \<notin> visit_slug ` set ?vs \<longrightarrow> map_of reg' k = map_of ?reg k"
      using Cons.IH [of "update_operation (visit_loc v) (AList.update ''operationId'' (PStr ?i)) ps" ?reg "?i # seen"] Cons.prems(2)
        fresh_slugs_Cons(1) [OF fresh] True unfolding filter_listed_update [OF True] by auto
    have later: "map_of ?reg (the (fst w)) = map_of reg (the (fst w))" if w: "w \<in> set ?vs" and nf: "\<not> falsy_id (fst w)" for w
    proof -
      obtain i where "fst w = Some i" using nf falsy_idD by blast
      with fresh_slugs_Cons(4) [OF fresh w] show ?thesis by (simp add: copied_frame)
    qed
    have "map_of reg' ?i = Some h" if "\<not> falsy_id (fst v)" "map_of reg (the (fst v)) = Some h" for h
    proof -
      have "map_of ?reg ?i = Some h"
        using that by (cases "the (fst v) \<in> set seen") (simp_all add: copied_def assigned_id_def)
      moreover have "?i \<notin> visit_slug ` set ?vs" using fresh by (rule assigned_not_slug)
      ultimately show ?thesis using frame by simp
    qed
    moreover have "map_of reg' j = Some h"
      if z: "(w, j) \<in> set (zip ?vs (assign ?vs (?i # seen)))" and e: "\<not> falsy_id (fst w)" "map_of reg (the (fst w)) = Some h" for w j h
    proof -
      have "map_of ?reg (the (fst w)) = Some h" using later [OF set_zip_leftD [OF z] e(1)] e(2) by simp
      with z e(1) IH show ?thesis by blast
    qed
    moreover have "\<forall>k. k \<notin> visit_slug ` set (v # ?vs) \<longrightarrow> map_of reg' k = map_of reg k"
      using frame copied_frame by auto
    ultimately show ?thesis using True by auto
  qed
qed simp

lemma fresh_slugs_filter: "fresh_slugs vs \<Longrightarrow> fresh_slugs (filter P vs)"
  by (auto simp: fresh_slugs_def distinct_map_filter)

text \<open>C13: The normalisation gives every listed operation an identifier of its own.  When the identifiers made of method
  and path are different from each other and from the explicit ones, the operations of the document get, in the
  order of the routes, the identifiers that the documentation promises, the explicit one for its first operation and
  method and path for all others; they are pairwise distinct, and the customisations that are registered for the
  explicit identifier of an operation are registered for the identifier it has got.\<close>

theorem operation_ids_unique:
  assumes "map_of schema ''paths'' = Some (PDict ps)" and "wf_paths ps"
    and "fresh_slugs (concat (map context_visits contexts))"
    and "vs = filter (listed ps) (concat (map context_visits contexts))"
  shows "\<exists>ps' reg'. normalize_operation_ids contexts reg schema = Inr (AList.update ''paths'' (PDict ps') schema, reg')
    \<and> map (op_id ps') (map visit_loc vs) = map (\<lambda>i. Some (PStr i)) (assign vs [])
    \<and> distinct (assign vs [])
    \<and> (\<forall>(v, i) \<in> set (zip vs (assign vs [])). \<forall>h. \<not> falsy_id (fst v) \<and> map_of reg (the (fst v)) = Some h
         \<longrightarrow> map_of reg' i = Some h)"
proof -
  have fresh: "fresh_slugs vs" using assms(3,4) by (simp add: fresh_slugs_filter)
  obtain ps' reg' seen' where run: "norm_visits (concat (map context_visits contexts))
      \<lparr>ns_paths = PDict ps, ns_handlers = reg, ns_seen = []\<rparr> = \<lparr>ns_paths = PDict ps', ns_handlers = reg', ns_seen = seen'\<rparr>"
    using norm_visits_wf [OF assms(2)] by blast
  have "normalize_operation_ids contexts reg schema = Inr (AList.update ''paths'' (PDict ps') schema, reg')"
    by (simp add: normalize_operation_ids_def assms(1) normalize_contexts_run [OF assms(2)] run)
  then show ?thesis
    using norm_visits_ids [OF assms(2) fresh [unfolded assms(4)] run] norm_visits_handlers [OF fresh [unfolded assms(4)] run]
      assign_distinct [OF fresh, of "[]"] unfolding assms(4) by fastforce
qed

definition test_contexts :: "route_context list" where
  "test_contexts = [\<lparr>rc_path = Some ''/welllogs/{id}/data'', rc_operation_id = Some ''write_record_data'', rc_methods = [''POST'']\<rparr>,
     \<lparr>rc_path = Some ''/ppfg/{id}/data'', rc_operation_id = Some ''write_record_data'', rc_methods = [''POST'']\<rparr>]"

definition test_paths :: "(string \<times> pyval) list" where
  "test_paths = [(''/welllogs/{id}/data'', PDict [(''post'', PDict [(''operationId'', PStr ''a'')])]),
     (''/ppfg/{id}/data'', PDict [(''post'', PDict [(''operationId'', PStr ''a'')])])]"

theorem operation_ids_unique_witness:
  "\<exists>ps'. normalize_operation_ids test_contexts [(''write_record_data'', [SetRequestBody PNone])] [(''paths'', PDict test_paths)]
     = Inr ([(''paths'', PDict ps')], [(''write_record_data'', [SetRequestBody PNone]), (''post__ppfg__id__data'', [SetRequestBody PNone])])
     \<and> distinct (assign (filter (listed test_paths) (concat (map context_visits test_contexts))) [])"
proof -
  have 1: "wf_paths test_paths" by (auto simp: wf_paths_def test_paths_def split: if_splits)
  have 2: "fresh_slugs (concat (map context_visits test_contexts))" by code_simp
  have 3: "\<exists>ps'. normalize_operation_ids test_contexts [(''write_record_data'', [SetRequestBody PNone])] [(''paths'', PDict test_paths)]
     = Inr ([(''paths'', PDict ps')], [(''write_record_data'', [SetRequestBody PNone]), (''post__ppfg__id__data'', [SetRequestBody PNone])])"
    by (rule exI [of _ "[(''/welllogs/{id}/data'', PDict [(''post'', PDict [(''operationId'', PStr ''write_record_data'')])]),
     (''/ppfg/{id}/data'', PDict [(''post'', PDict [(''operationId'', PStr ''post__ppfg__id__data'')])])]"]) code_simp
  from operation_ids_unique [where schema = "[(''paths'', PDict test_paths)]", OF _ 1 2 refl] 3 show ?thesis by simp blast
qed

theorem patch_node_spec_witness:
  "patch_node (PDict [(''n'', PDict [(''type'', PStr ''integer'')])]) = PDict [(''n'', PDict [(''type'', PStr ''integer''), (''format'', PStr ''int64'')])]
     \<and> at_path (patch_node (PDict [(''n'', PDict [(''type'', PStr ''integer'')])])) [Inl ''n'', Inl ''type''] = Some (PStr ''integer'')"
  using patch_node_spec [of "PDict [(''n'', PDict [(''type'', PStr ''integer'')])]"]
  by (simp add: bare_integer_def)

end
