(* ===== verification/Route_Table.thy ===== *)
theory Route_Table
  imports Bulk_Io Ddms_Routes Middleware Injector Openapi
begin

text \<open>
  The routes that the routers under \<open>app/routers\<close> declare with their decorators, in the order of the files: the
  method, the path, the identifier of the operation, whether it is part of the OpenAPI document, and what the
  handler takes from the state of the request (its \<open>Depends\<close> parameters and the check of the kind).
\<close>

datatype need =
    NeedUser | NeedEntity | NeedBulkIdAccess | NeedDataframeCheck | NeedConsistencyChecks
  | NeedFetchRecord | NeedFetchRecordPartial | NeedApiConfig

record route_decl =
  rd_method :: string
  rd_path :: string
  rd_operation_id :: "string option"
  rd_include_in_schema :: bool
  rd_needs :: "need list"

definition route_decl :: "string \<Rightarrow> string \<Rightarrow> string option \<Rightarrow> bool \<Rightarrow> need list \<Rightarrow> route_decl" where
  "route_decl method path operation_id include_in_schema needs = \<lparr>rd_method = method, rd_path = path,
     rd_operation_id = operation_id, rd_include_in_schema = include_in_schema, rd_needs = needs\<rparr>"

definition health_decl :: route_decl where
  "health_decl = route_decl ''GET'' ''/healthz'' None False
     []"

definition readiness_decl :: route_decl where
  "readiness_decl = route_decl ''GET'' ''/readiness'' None False
     []"

definition ingress_gce_health_decl :: route_decl where
  "ingress_gce_health_decl = route_decl ''GET'' ''/'' None False
     []"

definition probes_router :: "route_decl list" where
  "probes_router = [health_decl, readiness_decl, ingress_gce_health_decl]"

definition get_about_decl :: route_decl where
  "get_about_decl = route_decl ''GET'' ''/about'' None True
     []"

definition get_version_decl :: route_decl where
  "get_version_decl = route_decl ''GET'' ''/version'' None True
     [NeedUser]"

definition about_router :: "route_decl list" where
  "about_router = [get_about_decl, get_version_decl]"

definition get_wellbore_osdu_decl :: route_decl where
  "get_wellbore_osdu_decl = route_decl ''GET'' ''/wellbores/{record_id}'' (Some ''get_wellbore_osdu'') True
     []"

definition del_osdu_wellbore_decl :: route_decl where
  "del_osdu_wellbore_decl = route_decl ''DELETE'' ''/wellbores/{record_id}'' (Some ''del_osdu_wellbore'') True
     []"

definition get_osdu_wellbore_versions_decl :: route_decl where
  "get_osdu_wellbore_versions_decl = route_decl ''GET'' ''/wellbores/{record_id}/versions'' (Some ''get_osdu_wellbore_versions'') True
     [NeedEntity]"

definition get_osdu_wellbore_version_decl :: route_decl where
  "get_osdu_wellbore_version_decl = route_decl ''GET'' ''/wellbores/{record_id}/versions/{version}'' (Some ''get_osdu_wellbore_version'') True
     [NeedEntity]"

definition post_wellbore_osdu_decl :: route_decl where
  "post_wellbore_osdu_decl = route_decl ''POST'' ''/wellbores'' (Some ''post_wellbore_osdu'') True
     [NeedEntity]"

definition wellbore_ddms_v3_router :: "route_decl list" where
  "wellbore_ddms_v3_router = [get_wellbore_osdu_decl, del_osdu_wellbore_decl, get_osdu_wellbore_versions_decl, get_osdu_wellbore_version_decl, post_wellbore_osdu_decl]"

definition get_well_osdu_decl :: route_decl where
  "get_well_osdu_decl = route_decl ''GET'' ''/wells/{record_id}'' (Some ''get_well_osdu'') True
     []"

definition del_osdu_well_decl :: route_decl where
  "del_osdu_well_decl = route_decl ''DELETE'' ''/wells/{record_id}'' (Some ''del_osdu_well'') True
     []"

definition get_osdu_well_versions_decl :: route_decl where
  "get_osdu_well_versions_decl = route_decl ''GET'' ''/wells/{record_id}/versions'' (Some ''get_osdu_well_versions'') True
     [NeedEntity]"

definition get_osdu_well_version_decl :: route_decl where
  "get_osdu_well_version_decl = route_decl ''GET'' ''/wells/{record_id}/versions/{version}'' (Some ''get_osdu_well_version'') True
     [NeedEntity]"

definition post_well_osdu_decl :: route_decl where
  "post_well_osdu_decl = route_decl ''POST'' ''/wells'' (Some ''post_well_osdu'') True
     [NeedEntity]"

definition well_ddms_v3_router :: "route_decl list" where
  "well_ddms_v3_router = [get_well_osdu_decl, del_osdu_well_decl, get_osdu_well_versions_decl, get_osdu_well_version_decl, post_well_osdu_decl]"

definition get_wellbore_markerset_osdu_decl :: route_decl where
  "get_wellbore_markerset_osdu_decl = route_decl ''GET'' ''/wellboremarkersets/{record_id}'' (Some ''get_wellbore_markerset_osdu'') True
     [NeedEntity]"

definition del_osdu_wellboremarkerset_decl :: route_decl where
  "del_osdu_wellboremarkerset_decl = route_decl ''DELETE'' ''/wellboremarkersets/{record_id}'' (Some ''del_osdu_wellboremarkerset'') True
     []"

definition get_osdu_wellboremarkerset_versions_decl :: route_decl where
  "get_osdu_wellboremarkerset_versions_decl = route_decl ''GET'' ''/wellboremarkersets/{record_id}/versions'' (Some ''get_osdu_wellboremarkerset_versions'') True
     [NeedEntity]"

definition get_osdu_wellboremarkerset_version_decl :: route_decl where
  "get_osdu_wellboremarkerset_version_decl = route_decl ''GET'' ''/wellboremarkersets/{record_id}/versions/{version}'' (Some ''get_osdu_wellboremarkerset_version'') True
     [NeedEntity]"

definition post_wellboremarkerset_osdu_decl :: route_decl where
  "post_wellboremarkerset_osdu_decl = route_decl ''POST'' ''/wellboremarkersets'' (Some ''post_wellboremarkerset_osdu'') True
     [NeedEntity]"

definition markerset_ddms_v3_router :: "route_decl list" where
  "markerset_ddms_v3_router = [get_wellbore_markerset_osdu_decl, del_osdu_wellboremarkerset_decl, get_osdu_wellboremarkerset_versions_decl, get_osdu_wellboremarkerset_version_decl, post_wellboremarkerset_osdu_decl]"

definition get_wellboreintervalsetid_osdu_decl :: route_decl where
  "get_wellboreintervalsetid_osdu_decl = route_decl ''GET'' ''/wellboreintervalsets/{record_id}'' (Some ''get_wellboreintervalsetid_osdu'') True
     []"

definition del_osdu_wellboreintervalsetid_decl :: route_decl where
  "del_osdu_wellboreintervalsetid_decl = route_decl ''DELETE'' ''/wellboreintervalsets/{record_id}'' (Some ''del_osdu_wellboreintervalsetid'') True
     []"

definition get_osdu_wellboreintervalsetid_versions_decl :: route_decl where
  "get_osdu_wellboreintervalsetid_versions_decl = route_decl ''GET'' ''/wellboreintervalsets/{record_id}/versions'' (Some ''get_osdu_wellboreintervalsetid_versions'') True
     [NeedEntity]"

definition get_osdu_wellboreintervalsetid_version_decl :: route_decl where
  "get_osdu_wellboreintervalsetid_version_decl = route_decl ''GET'' ''/wellboreintervalsets/{record_id}/versions/{version}'' (Some ''get_osdu_wellboreintervalsetid_version'') True
     [NeedEntity]"

definition post_wellboreintervalsetid_osdu_decl :: route_decl where
  "post_wellboreintervalsetid_osdu_decl = route_decl ''POST'' ''/wellboreintervalsets'' (Some ''post_wellboreintervalsetid_osdu'') True
     [NeedEntity]"

definition wellbore_interval_set_ddms_v3_router :: "route_decl list" where
  "wellbore_interval_set_ddms_v3_router = [get_wellboreintervalsetid_osdu_decl, del_osdu_wellboreintervalsetid_decl, get_osdu_wellboreintervalsetid_versions_decl, get_osdu_wellboreintervalsetid_version_decl, post_wellboreintervalsetid_osdu_decl]"

definition get_welllogacquisitionid_osdu_decl :: route_decl where
  "get_welllogacquisitionid_osdu_decl = route_decl ''GET'' ''/welllogacquisition/{record_id}'' (Some ''get_welllogacquisitionid_osdu'') True
     []"

definition del_osdu_welllogacquisitionid_decl :: route_decl where
  "del_osdu_welllogacquisitionid_decl = route_decl ''DELETE'' ''/welllogacquisition/{record_id}'' (Some ''del_osdu_welllogacquisitionid'') True
     []"

definition get_osdu_welllogacquisitionid_versions_decl :: route_decl where
  "get_osdu_welllogacquisitionid_versions_decl = route_decl ''GET'' ''/welllogacquisition/{record_id}/versions'' (Some ''get_osdu_welllogacquisitionid_versions'') True
     [NeedEntity]"

definition get_osdu_welllogacquisitionid_version_decl :: route_decl where
  "get_osdu_welllogacquisitionid_version_decl = route_decl ''GET'' ''/welllogacquisition/{record_id}/versions/{version}'' (Some ''get_osdu_welllogacquisitionid_version'') True
     [NeedEntity]"

definition post_welllogacquisitionid_osdu_decl :: route_decl where
  "post_welllogacquisitionid_osdu_decl = route_decl ''POST'' ''/welllogacquisition'' (Some ''post_welllogacquisitionid_osdu'') True
     [NeedEntity]"

definition welllog_acquisition_v3_router :: "route_decl list" where
  "welllog_acquisition_v3_router = [get_welllogacquisitionid_osdu_decl, del_osdu_welllogacquisitionid_decl, get_osdu_welllogacquisitionid_versions_decl, get_osdu_welllogacquisitionid_version_decl, post_welllogacquisitionid_osdu_decl]"

definition get_welllog_osdu_decl :: route_decl where
  "get_welllog_osdu_decl = route_decl ''GET'' ''/welllogs/{record_id}'' (Some ''get_welllog_osdu'') True
     [NeedEntity]"

definition del_osdu_welllog_decl :: route_decl where
  "del_osdu_welllog_decl = route_decl ''DELETE'' ''/welllogs/{record_id}'' (Some ''del_osdu_welllog'') True
     [NeedBulkIdAccess]"

definition get_osdu_welllog_versions_decl :: route_decl where
  "get_osdu_welllog_versions_decl = route_decl ''GET'' ''/welllogs/{record_id}/versions'' (Some ''get_osdu_welllog_versions'') True
     [NeedEntity]"

definition get_osdu_welllog_version_decl :: route_decl where
  "get_osdu_welllog_version_decl = route_decl ''GET'' ''/welllogs/{record_id}/versions/{version}'' (Some ''get_osdu_welllog_version'') True
     [NeedEntity]"

definition post_welllog_osdu_decl :: route_decl where
  "post_welllog_osdu_decl = route_decl ''POST'' ''/welllogs'' (Some ''post_welllog_osdu'') True
     [NeedEntity, NeedBulkIdAccess]"

definition welllog_ddms_v3_router :: "route_decl list" where
  "welllog_ddms_v3_router = [get_welllog_osdu_decl, del_osdu_welllog_decl, get_osdu_welllog_versions_decl, get_osdu_welllog_version_decl, post_welllog_osdu_decl]"

definition get_wellbore_trajectory_osdu_decl :: route_decl where
  "get_wellbore_trajectory_osdu_decl = route_decl ''GET'' ''/wellboretrajectories/{record_id}'' (Some ''get_wellbore_trajectory_osdu'') True
     [NeedEntity]"

definition del_osdu_wellboretrajectory_decl :: route_decl where
  "del_osdu_wellboretrajectory_decl = route_decl ''DELETE'' ''/wellboretrajectories/{record_id}'' (Some ''del_osdu_wellboretrajectory'') True
     [NeedBulkIdAccess]"

definition get_osdu_wellboretrajectory_versions_decl :: route_decl where
  "get_osdu_wellboretrajectory_versions_decl = route_decl ''GET'' ''/wellboretrajectories/{record_id}/versions'' (Some ''get_osdu_wellboretrajectory_versions'') True
     [NeedEntity]"

definition get_osdu_wellboretrajectory_version_decl :: route_decl where
  "get_osdu_wellboretrajectory_version_decl = route_decl ''GET'' ''/wellboretrajectories/{record_id}/versions/{version}'' (Some ''get_osdu_wellboretrajectory_version'') True
     [NeedEntity]"

definition post_wellboretrajectory_osdu_decl :: route_decl where
  "post_wellboretrajectory_osdu_decl = route_decl ''POST'' ''/wellboretrajectories'' (Some ''post_wellboretrajectory_osdu'') True
     [NeedEntity, NeedBulkIdAccess]"

definition wellbore_trajectory_ddms_v3_router :: "route_decl list" where
  "wellbore_trajectory_ddms_v3_router = [get_wellbore_trajectory_osdu_decl, del_osdu_wellboretrajectory_decl, get_osdu_wellboretrajectory_versions_decl, get_osdu_wellboretrajectory_version_decl, post_wellboretrajectory_osdu_decl]"

definition create_session_decl :: route_decl where
  "create_session_decl = route_decl ''POST'' ''/{record_id}/sessions'' None True
     [NeedEntity, NeedConsistencyChecks]"

definition get_session_decl :: route_decl where
  "get_session_decl = route_decl ''GET'' ''/{record_id}/sessions/{session_id}'' None True
     [NeedEntity]"

definition delete_session_decl :: route_decl where
  "delete_session_decl = route_decl ''DELETE'' ''/{record_id}/sessions/{session_id}'' None False
     []"

definition list_session_decl :: route_decl where
  "list_session_decl = route_decl ''GET'' ''/{record_id}/sessions'' None True
     [NeedEntity]"

definition sessions_router :: "route_decl list" where
  "sessions_router = [create_session_decl, get_session_decl, delete_session_decl, list_session_decl]"

definition post_data_decl :: route_decl where
  "post_data_decl = route_decl ''POST'' ''/{record_id}/data'' (Some ''write_record_data'') True
     [NeedEntity, NeedDataframeCheck, NeedConsistencyChecks, NeedBulkIdAccess, NeedFetchRecord]"

definition post_chunk_data_decl :: route_decl where
  "post_chunk_data_decl = route_decl ''POST'' ''/{record_id}/sessions/{session_id}/data'' (Some ''post_chunk_data'') True
     [NeedDataframeCheck]"

definition get_data_version_decl :: route_decl where
  "get_data_version_decl = route_decl ''GET'' ''/{record_id}/versions/{version}/data'' None True
     [NeedEntity, NeedBulkIdAccess, NeedFetchRecordPartial]"

definition get_data_decl :: route_decl where
  "get_data_decl = route_decl ''GET'' ''/{record_id}/data'' None True
     [NeedEntity, NeedBulkIdAccess, NeedFetchRecordPartial]"

definition complete_session_decl :: route_decl where
  "complete_session_decl = route_decl ''PATCH'' ''/{record_id}/sessions/{session_id}'' None True
     [NeedEntity, NeedBulkIdAccess, NeedConsistencyChecks]"

definition bulk_routes_router :: "route_decl list" where
  "bulk_routes_router = [post_data_decl, post_chunk_data_decl, get_data_version_decl, get_data_decl, complete_session_decl]"

definition get_bulk_statistics_decl :: route_decl where
  "get_bulk_statistics_decl = route_decl ''GET'' ''/{record_id}/data/statistics'' None True
     [NeedBulkIdAccess]"

definition get_bulk_statistics_version_decl :: route_decl where
  "get_bulk_statistics_version_decl = route_decl ''GET'' ''/{record_id}/versions/{version}/data/statistics'' None True
     [NeedBulkIdAccess]"

definition compute_bulk_statistics_decl :: route_decl where
  "compute_bulk_statistics_decl = route_decl ''POST'' ''/{record_id}/versions/{version}/data/statistics'' None True
     [NeedBulkIdAccess]"

definition statistics_routes_router :: "route_decl list" where
  "statistics_routes_router = [get_bulk_statistics_decl, get_bulk_statistics_version_decl, compute_bulk_statistics_decl]"

definition get_osdu_record_decl :: route_decl where
  "get_osdu_record_decl = route_decl ''GET'' ''/{record_id}'' (Some ''get_osdu_record'') True
     [NeedEntity, NeedApiConfig]"

definition delete_osdu_record_decl :: route_decl where
  "delete_osdu_record_decl = route_decl ''DELETE'' ''/{record_id}'' (Some ''delete_osdu_record'') True
     [NeedApiConfig, NeedBulkIdAccess]"

definition get_record_versions_decl :: route_decl where
  "get_record_versions_decl = route_decl ''GET'' ''/{record_id}/versions'' (Some ''get_record_versions'') True
     [NeedEntity, NeedApiConfig]"

definition get_specific_record_version_decl :: route_decl where
  "get_specific_record_version_decl = route_decl ''GET'' ''/{record_id}/versions/{version}'' (Some ''get_specific_record_version'') True
     [NeedEntity, NeedApiConfig]"

definition create_or_update_osdu_record_decl :: route_decl where
  "create_or_update_osdu_record_decl = route_decl ''POST'' [] (Some ''create_or_update_osdu_record'') True
     [NeedEntity, NeedBulkIdAccess, NeedApiConfig]"

definition generic_ddms_v3_router :: "route_decl list" where
  "generic_ddms_v3_router = [get_osdu_record_decl, delete_osdu_record_decl, get_record_versions_decl, get_specific_record_version_decl, create_or_update_osdu_record_decl]"

definition log_recognition_prefix :: string where
  \<comment> \<open>\<open>router.prefix\<close>, which the decorators put before the paths\<close>
  "log_recognition_prefix = ''/log-recognition''"

definition post_recognize_custom_decl :: route_decl where
  "post_recognize_custom_decl = route_decl ''POST'' (log_recognition_prefix @ ''/family'') (Some ''family'') True
     []"

definition upload_catalog_decl :: route_decl where
  "upload_catalog_decl = route_decl ''PUT'' (log_recognition_prefix @ ''/upload-catalog'') (Some ''upload-catalog'') True
     []"

definition log_recognition_router :: "route_decl list" where
  "log_recognition_router = [post_recognize_custom_decl, upload_catalog_decl]"

lemmas route_decls = health_decl_def readiness_decl_def ingress_gce_health_decl_def probes_router_def get_about_decl_def 
get_version_decl_def about_router_def get_wellbore_osdu_decl_def del_osdu_wellbore_decl_def 
get_osdu_wellbore_versions_decl_def get_osdu_wellbore_version_decl_def post_wellbore_osdu_decl_def 
wellbore_ddms_v3_router_def get_well_osdu_decl_def del_osdu_well_decl_def get_osdu_well_versions_decl_def 
get_osdu_well_version_decl_def post_well_osdu_decl_def well_ddms_v3_router_def 
get_wellbore_markerset_osdu_decl_def del_osdu_wellboremarkerset_decl_def 
get_osdu_wellboremarkerset_versions_decl_def get_osdu_wellboremarkerset_version_decl_def 
post_wellboremarkerset_osdu_decl_def markerset_ddms_v3_router_def get_wellboreintervalsetid_osdu_decl_def 
del_osdu_wellboreintervalsetid_decl_def get_osdu_wellboreintervalsetid_versions_decl_def 
get_osdu_wellboreintervalsetid_version_decl_def post_wellboreintervalsetid_osdu_decl_def 
wellbore_interval_set_ddms_v3_router_def get_welllogacquisitionid_osdu_decl_def 
del_osdu_welllogacquisitionid_decl_def get_osdu_welllogacquisitionid_versions_decl_def 
get_osdu_welllogacquisitionid_version_decl_def post_welllogacquisitionid_osdu_decl_def 
welllog_acquisition_v3_router_def get_welllog_osdu_decl_def del_osdu_welllog_decl_def 
get_osdu_welllog_versions_decl_def get_osdu_welllog_version_decl_def post_welllog_osdu_decl_def 
welllog_ddms_v3_router_def get_wellbore_trajectory_osdu_decl_def del_osdu_wellboretrajectory_decl_def 
get_osdu_wellboretrajectory_versions_decl_def get_osdu_wellboretrajectory_version_decl_def 
post_wellboretrajectory_osdu_decl_def wellbore_trajectory_ddms_v3_router_def create_session_decl_def 
get_session_decl_def delete_session_decl_def list_session_decl_def sessions_router_def post_data_decl_def 
post_chunk_data_decl_def get_data_version_decl_def get_data_decl_def complete_session_decl_def 
bulk_routes_router_def get_bulk_statistics_decl_def get_bulk_statistics_version_decl_def 
compute_bulk_statistics_decl_def statistics_routes_router_def get_osdu_record_decl_def 
delete_osdu_record_decl_def get_record_versions_decl_def get_specific_record_version_decl_def 
create_or_update_osdu_record_decl_def generic_ddms_v3_router_def log_recognition_prefix_def post_recognize_custom_decl_def 
upload_catalog_decl_def log_recognition_router_def 

end
