(* ===== verification/Application.thy ===== *)
theory Application
  imports Route_Table
begin

text \<open>
  \<open>app/wdms_app.py\<close>: the routers that the application mounts, under which prefix and behind which dependencies,
  the routes that FastAPI and \<open>app/helper/metric.py\<close> add, and what the dependencies leave in the state and in the context of a request.
\<close>

section \<open>The state of a request\<close>

datatype bulk_id_access_class = OsduBulkIdAccess | LogBulkIdAccess

datatype fetch_function = Fetch_record_dependency | Fetch_record_partial_with_wdms_extension

record app_request =
  ar_state :: request_state
  ar_bulk :: bulk_state
  ar_bulk_id_access :: "bulk_id_access_class option"
  ar_api_config :: "APIConfiguration option"
  ar_dependencies :: "fetch_function dependencies"

definition new_app_request :: app_request where
  \<comment> \<open>the state that the middleware hands on, with its empty dictionary of dependencies\<close>
  "new_app_request = \<lparr>ar_state = \<lparr>st_version = None, st_entity_type = None\<rparr>,
     ar_bulk = \<lparr>check_input_df_func = None, data_consistency_checks_state = None\<rparr>,
     ar_bulk_id_access = None, ar_api_config = None, ar_dependencies = []\<rparr>"

type_synonym request_world = "app_request \<times> object Context option"

definition on_state :: "(app_request \<Rightarrow> app_request) \<Rightarrow> (exn, request_world, unit) prog" where
  "on_state f = (\<lambda>(rq, ctx). (Inr (), (f rq, ctx)))"

definition set_osdu_bulk_id_access :: "app_request \<Rightarrow> app_request" where
  "set_osdu_bulk_id_access rq = rq\<lparr>ar_bulk_id_access := Some OsduBulkIdAccess\<rparr>"

definition set_log_bulk_id_access :: "app_request \<Rightarrow> app_request" where
  "set_log_bulk_id_access rq = rq\<lparr>ar_bulk_id_access := Some LogBulkIdAccess\<rparr>"

definition get_bulk_id_access :: "app_request \<Rightarrow> bulk_id_access_class res" where
  "get_bulk_id_access rq = ofOption RuntimeError (ar_bulk_id_access rq)"

definition make_entity_type_dependency :: "Entity \<Rightarrow> string \<Rightarrow> app_request \<Rightarrow> app_request" where
  "make_entity_type_dependency entity_type version rq =
     rq\<lparr>ar_state := \<lparr>st_version = Some version, st_entity_type = Some entity_type\<rparr>\<rparr>"

definition make_api_config :: "APIConfiguration \<Rightarrow> app_request \<Rightarrow> app_request" where
  "make_api_config api_config rq = rq\<lparr>ar_api_config := Some api_config\<rparr>"

section \<open>Dependencies\<close>

datatype dependency =
    RequireDataPartitionId | RequireOpendesAuthorizedUser
  | SetV3InputDataframeCheck | SetOsduBulkIdAccess
  | SetWelllogDataConsistencyCheck | SetTrajectoryDataConsistencyCheck
  | SetPpfgdatasetConsistencyCheck | SetWellpressuretestrawmeasurementConsistencyCheck
  | EntityTypeDependency Entity string
  | ApiConfigDependency APIConfiguration
  | FetchRecordDependency_with_value fetch_function
  | FetchRecordPartialDependency_with_value fetch_function

definition with_bulk :: "(bulk_state \<Rightarrow> bulk_state) \<Rightarrow> app_request \<Rightarrow> app_request" where
  "with_bulk f rq = rq\<lparr>ar_bulk := f (ar_bulk rq)\<rparr>"

definition with_dependency :: "string \<Rightarrow> fetch_function \<Rightarrow> app_request \<Rightarrow> app_request" where
  "with_dependency key v rq = rq\<lparr>ar_dependencies := set_dependency key (Some v) (ar_dependencies rq)\<rparr>"

definition in_context :: "(exn, object Context option, unit) prog \<Rightarrow> (exn, request_world, unit) prog" where
  "in_context m = (\<lambda>(rq, ctx). case m ctx of (r, ctx') \<Rightarrow> (r, (rq, ctx')))"

fun run_dependency :: "(header_map \<Rightarrow> string res) \<Rightarrow> header_map \<Rightarrow> dependency \<Rightarrow> (exn, request_world, unit) prog" where
  \<comment> \<open>the first argument is \<open>HTTPBearer\<close> of FastAPI: the token of the request or the refusal\<close>
  "run_dependency security hs RequireDataPartitionId = in_context (require_data_partition_id hs)"
| "run_dependency security hs RequireOpendesAuthorizedUser =
     bindM (liftM (security hs)) (\<lambda>token. in_context (require_opendes_authorized_user token))"
| "run_dependency security hs SetV3InputDataframeCheck = on_state (with_bulk set_v3_input_dataframe_check)"
| "run_dependency security hs SetOsduBulkIdAccess = on_state set_osdu_bulk_id_access"
| "run_dependency security hs SetWelllogDataConsistencyCheck = on_state (with_bulk set_welllog_data_consistency_check)"
| "run_dependency security hs SetTrajectoryDataConsistencyCheck = on_state (with_bulk set_trajectory_data_consistency_check)"
| "run_dependency security hs SetPpfgdatasetConsistencyCheck = on_state (with_bulk set_ppfgdataset_consistency_check)"
| "run_dependency security hs SetWellpressuretestrawmeasurementConsistencyCheck =
     on_state (with_bulk set_wellpressuretestrawmeasurement_consistency_check)"
| "run_dependency security hs (EntityTypeDependency e v) = on_state (make_entity_type_dependency e v)"
| "run_dependency security hs (ApiConfigDependency c) = on_state (make_api_config c)"
| "run_dependency security hs (FetchRecordDependency_with_value f) =
     on_state (with_dependency ''<class 'app.routers.dependency.fetch_record.FetchRecordDependency'>'' f)"
| "run_dependency security hs (FetchRecordPartialDependency_with_value f) =
     on_state (with_dependency ''<class 'app.routers.dependency.fetch_record.FetchRecordPartialDependency'>'' f)"

definition run_dependencies :: "(header_map \<Rightarrow> string res) \<Rightarrow> header_map \<Rightarrow> dependency list \<Rightarrow> (exn, request_world, unit) prog" where
  "run_dependencies security hs ds = forM (run_dependency security hs) ds"

section \<open>Mounted routers\<close>

record mount =
  mo_prefix :: string
  mo_router :: "route_decl list"
  mo_dependencies :: "dependency list"

definition include_router :: "string \<Rightarrow> route_decl list \<Rightarrow> dependency list \<Rightarrow> mount" where
  "include_router pre router dependencies = \<lparr>mo_prefix = pre, mo_router = router, mo_dependencies = dependencies\<rparr>"

definition DDMS_V3_PATH :: string where
  "DDMS_V3_PATH = ''/ddms/v3''"

definition WELL_LOGS_API_BASE_PATH :: string where
  "WELL_LOGS_API_BASE_PATH = ''/welllogs''"

definition WELLBORE_TRAJECTORIES_API_BASE_PATH :: string where
  "WELLBORE_TRAJECTORIES_API_BASE_PATH = ''/wellboretrajectories''"

definition basic_dependencies :: "dependency list" where
  "basic_dependencies = [RequireDataPartitionId, RequireOpendesAuthorizedUser]"

definition v3_bulk_dependencies :: "dependency list" where
  "v3_bulk_dependencies = basic_dependencies @ [SetV3InputDataframeCheck, SetOsduBulkIdAccess]"

definition ddms_v3_routes_groups_without_bulk :: "(route_decl list \<times> Entity) list" where
  "ddms_v3_routes_groups_without_bulk = [
     (wellbore_ddms_v3_router, WELLBORE),
     (well_ddms_v3_router, WELL),
     (markerset_ddms_v3_router, MARKER),
     (wellbore_interval_set_ddms_v3_router, WELLBOREINTERVALSET),
     (welllog_acquisition_v3_router, WELLLOGACQUISITION)]"

definition ddms_v3_routes_groups_with_bulk :: "(route_decl list \<times> Entity) list" where
  "ddms_v3_routes_groups_with_bulk = [
     (welllog_ddms_v3_router, WELL_LOG),
     (wellbore_trajectory_ddms_v3_router, TRAJECTORY)]"

definition mount_probes :: "mount list" where
  "mount_probes = [include_router [] probes_router [], include_router [] about_router []]"

definition mount_without_bulk :: "mount list" where
  "mount_without_bulk = map (\<lambda>(r, e). include_router DDMS_V3_PATH r (basic_dependencies @ [EntityTypeDependency e ''V3'']))
     ddms_v3_routes_groups_without_bulk"

definition mount_with_bulk :: "mount list" where
  "mount_with_bulk = map (\<lambda>(r, e). include_router DDMS_V3_PATH r (v3_bulk_dependencies @ [EntityTypeDependency e ''V3'']))
     ddms_v3_routes_groups_with_bulk"

definition mount_sessions :: "string \<Rightarrow> dependency \<Rightarrow> Entity \<Rightarrow> mount" where
  "mount_sessions base check e = include_router (DDMS_V3_PATH @ base) sessions_router
     (basic_dependencies @ [check, EntityTypeDependency e ''V3''])"

definition mount_bulk :: "string \<Rightarrow> dependency \<Rightarrow> Entity \<Rightarrow> mount" where
  "mount_bulk base check e = include_router (DDMS_V3_PATH @ base) bulk_routes_router
     (v3_bulk_dependencies @ [EntityTypeDependency e ''V3'', check,
        FetchRecordDependency_with_value Fetch_record_dependency,
        FetchRecordPartialDependency_with_value Fetch_record_partial_with_wdms_extension])"

definition mount_welllog :: "mount list" where
  "mount_welllog = [mount_sessions WELL_LOGS_API_BASE_PATH SetWelllogDataConsistencyCheck WELL_LOG,
     mount_bulk WELL_LOGS_API_BASE_PATH SetWelllogDataConsistencyCheck WELL_LOG]"

definition mount_trajectory :: "mount list" where
  "mount_trajectory = [mount_sessions WELLBORE_TRAJECTORIES_API_BASE_PATH SetTrajectoryDataConsistencyCheck TRAJECTORY,
     mount_bulk WELLBORE_TRAJECTORIES_API_BASE_PATH SetTrajectoryDataConsistencyCheck TRAJECTORY]"

definition mount_statistics :: "mount list" where
  "mount_statistics = [include_router (DDMS_V3_PATH @ WELL_LOGS_API_BASE_PATH) statistics_routes_router
     (basic_dependencies @ [EntityTypeDependency WELL_LOG ''V3'', SetOsduBulkIdAccess])]"

definition mount_ppfgdataset :: "mount list" where
  "mount_ppfgdataset = [mount_sessions (api_entity_uri PPFGDatasetAPI) SetPpfgdatasetConsistencyCheck PPFGDATASET,
     mount_bulk (api_entity_uri PPFGDatasetAPI) SetPpfgdatasetConsistencyCheck PPFGDATASET]"

definition mount_wellpressuretest :: "mount list" where
  "mount_wellpressuretest =
     [mount_sessions (api_entity_uri WellPressureTestRawMeasurementAPI) SetWellpressuretestrawmeasurementConsistencyCheck
        WELLPRESSURETESTRAWMEASUREMENT,
      mount_bulk (api_entity_uri WellPressureTestRawMeasurementAPI) SetWellpressuretestrawmeasurementConsistencyCheck
        WELLPRESSURETESTRAWMEASUREMENT]"

definition ddms_v3_routes_crud_api :: "APIConfiguration list" where
  "ddms_v3_routes_crud_api = [PPFGDatasetAPI, WellPressureTestRawMeasurementAPI]"

definition mount_crud :: "mount list" where
  "mount_crud = map (\<lambda>c. include_router (DDMS_V3_PATH @ api_entity_uri c) generic_ddms_v3_router
     (basic_dependencies @ v3_bulk_dependencies @ [EntityTypeDependency (api_entity c) ''V3'', ApiConfigDependency c]))
     ddms_v3_routes_crud_api"

definition mount_log_recognition :: "mount list" where
  \<comment> \<open>the router brings its own prefix\<close>
  "mount_log_recognition = [include_router [] log_recognition_router [RequireDataPartitionId, RequireOpendesAuthorizedUser]]"

definition wdms_app_mounts :: "mount list" where
  \<comment> \<open>in the order of the calls of \<open>include_router\<close>\<close>
  "wdms_app_mounts = mount_probes @ mount_without_bulk @ mount_with_bulk @ mount_welllog @ mount_trajectory
     @ mount_statistics @ mount_ppfgdataset @ mount_wellpressuretest @ mount_crud @ mount_log_recognition"

definition mounted_routes :: "(mount \<times> route_decl) list" where
  "mounted_routes = concat (map (\<lambda>m. map (\<lambda>r. (m, r)) (mo_router m)) wdms_app_mounts)"

definition route_path :: "mount \<times> route_decl \<Rightarrow> string" where
  "route_path mr = mo_prefix (fst mr) @ rd_path (snd mr)"

definition route_dependencies :: "mount \<times> route_decl \<Rightarrow> dependency list" where
  \<comment> \<open>the dependencies of the router run before those that a handler declares itself\<close>
  "route_dependencies mr = mo_dependencies (fst mr)
     @ (if NeedUser \<in> set (rd_needs (snd mr)) then [RequireOpendesAuthorizedUser] else [])"

text \<open>Besides, FastAPI serves its documentation, and the provider \<open>az\<close> has a route for metrics.\<close>

definition framework_router :: "route_decl list" where
  \<comment> \<open>the routes that \<open>FastAPI(...)\<close> adds with its default addresses\<close>
  "framework_router = concat (map (\<lambda>p. [route_decl ''GET'' p None False [], route_decl ''HEAD'' p None False []])
     [''/openapi.json'', ''/docs'', ''/docs/oauth2-redirect'', ''/redoc''])"

definition init_metric :: "string option \<Rightarrow> mount list" where
  \<comment> \<open>the argument is \<open>Config.cloud_provider.value\<close>; \<open>expose\<close> adds the route without dependencies\<close>
  "init_metric cloud_provider = (if cloud_provider = Some ''az'' then [include_router [] [route_decl ''GET'' ''/metrics'' None True []] []] else [])"

definition served_mounts :: "string option \<Rightarrow> mount list" where
  "served_mounts cloud_provider = [include_router [] framework_router []] @ init_metric cloud_provider @ wdms_app_mounts"

definition served_routes :: "string option \<Rightarrow> (mount \<times> route_decl) list" where
  "served_routes cloud_provider = concat (map (\<lambda>m. map (\<lambda>r. (m, r)) (mo_router m)) (served_mounts cloud_provider))"

definition own_routes :: "string option \<Rightarrow> (mount \<times> route_decl) list" where
  \<comment> \<open>the served routes that come from no router of the service\<close>
  "own_routes cloud_provider = concat (map (\<lambda>m. map (\<lambda>r. (m, r)) (mo_router m))
     ([include_router [] framework_router []] @ init_metric cloud_provider))"

lemma served_routes_split: "served_routes cloud_provider = own_routes cloud_provider @ mounted_routes"
  by (simp add: served_routes_def served_mounts_def own_routes_def mounted_routes_def)

section \<open>What the dependencies leave behind\<close>

fun state_effect :: "dependency \<Rightarrow> app_request \<Rightarrow> app_request" where
  "state_effect RequireDataPartitionId = (\<lambda>rq. rq)"
| "state_effect RequireOpendesAuthorizedUser = (\<lambda>rq. rq)"
| "state_effect SetV3InputDataframeCheck = with_bulk set_v3_input_dataframe_check"
| "state_effect SetOsduBulkIdAccess = set_osdu_bulk_id_access"
| "state_effect SetWelllogDataConsistencyCheck = with_bulk set_welllog_data_consistency_check"
| "state_effect SetTrajectoryDataConsistencyCheck = with_bulk set_trajectory_data_consistency_check"
| "state_effect SetPpfgdatasetConsistencyCheck = with_bulk set_ppfgdataset_consistency_check"
| "state_effect SetWellpressuretestrawmeasurementConsistencyCheck =
     with_bulk set_wellpressuretestrawmeasurement_consistency_check"
| "state_effect (EntityTypeDependency e v) = make_entity_type_dependency e v"
| "state_effect (ApiConfigDependency c) = make_api_config c"
| "state_effect (FetchRecordDependency_with_value f) =
     with_dependency ''<class 'app.routers.dependency.fetch_record.FetchRecordDependency'>'' f"
| "state_effect (FetchRecordPartialDependency_with_value f) =
     with_dependency ''<class 'app.routers.dependency.fetch_record.FetchRecordPartialDependency'>'' f"

definition is_partition_check :: "dependency \<Rightarrow> bool" where
  "is_partition_check d = (case d of RequireDataPartitionId \<Rightarrow> True | _ \<Rightarrow> False)"

definition is_user_check :: "dependency \<Rightarrow> bool" where
  "is_user_check d = (case d of RequireOpendesAuthorizedUser \<Rightarrow> True | _ \<Rightarrow> False)"

lemma run_dependency_ok:
  assumes "run_dependency security hs d (rq, Some c) = (Inr (), (rq', v))"
  shows "rq' = state_effect d rq \<and> (\<exists>c'. v = Some c'
     \<and> (is_user_check d \<longrightarrow> (\<exists>token. security hs = Inr token \<and> ctx_auth c' = or_str (Some token) (ctx_auth c)))
     \<and> (\<not> is_user_check d \<longrightarrow> ctx_auth c' = ctx_auth c)
     \<and> (is_partition_check d \<longrightarrow> header hs PARTITION_ID_HEADER_NAME \<noteq> Some []
          \<and> ctx_partition_id c' = or_str (header hs PARTITION_ID_HEADER_NAME) (ctx_partition_id c))
     \<and> (\<not> is_partition_check d \<longrightarrow> ctx_partition_id c' = ctx_partition_id c))"
  using assms
  by (cases d) (auto simp: on_state_def in_context_def require_data_partition_id_def require_opendes_authorized_user_def
      set_current_with_value_def ctx_current_def set_current_def bindM_run Let_def is_user_check_def is_partition_check_def
      with_value_def or_str_def empty_Context_def split: if_splits sum.splits)

lemma or_str_Some [simp]: "t \<noteq> [] \<Longrightarrow> or_str (Some t) x = Some t"
  by (cases t) (simp_all add: or_str_def)

lemma run_dependencies_Nil: "run_dependencies security hs [] (rq, v) = (Inr (), (rq', v')) \<longleftrightarrow> rq' = rq \<and> v' = v"
  by (auto simp: run_dependencies_def)

lemma run_dependencies_Cons:
  assumes "run_dependencies security hs (d # ds) (rq, Some c) = (Inr (), (rq', v))"
  shows "\<exists>c1. run_dependencies security hs ds (state_effect d rq, Some c1) = (Inr (), (rq', v))
    \<and> (is_user_check d \<longrightarrow> (\<exists>token. security hs = Inr token \<and> ctx_auth c1 = or_str (Some token) (ctx_auth c)))
    \<and> (\<not> is_user_check d \<longrightarrow> ctx_auth c1 = ctx_auth c)
    \<and> (is_partition_check d \<longrightarrow> header hs PARTITION_ID_HEADER_NAME \<noteq> Some []
          \<and> ctx_partition_id c1 = or_str (header hs PARTITION_ID_HEADER_NAME) (ctx_partition_id c))
    \<and> (\<not> is_partition_check d \<longrightarrow> ctx_partition_id c1 = ctx_partition_id c)"
proof -
  from assms obtain rq1 v1 where d: "run_dependency security hs d (rq, Some c) = (Inr (), (rq1, v1))"
    and ds: "run_dependencies security hs ds (rq1, v1) = (Inr (), (rq', v))"
    by (auto simp: run_dependencies_def bindM_Inr_iff)
  from run_dependency_ok [OF d] ds show ?thesis by blast
qed

lemma run_dependencies_state:
  "run_dependencies security hs ds (rq, Some c) = (Inr (), (rq', v)) \<Longrightarrow> rq' = fold state_effect ds rq \<and> (\<exists>c'. v = Some c')"
proof (induction ds arbitrary: rq c)
  case Nil
  then show ?case by (simp add: run_dependencies_Nil)
next
  case (Cons d ds)
  from run_dependencies_Cons [OF Cons.prems] obtain c1 where "run_dependencies security hs ds (state_effect d rq, Some c1) = (Inr (), (rq', v))"
    by blast
  from Cons.IH [OF this] show ?case by simp
qed

lemma run_dependencies_user:
  "run_dependencies security hs ds (rq, Some c) = (Inr (), (rq', v)) \<Longrightarrow> list_ex is_user_check ds \<Longrightarrow> \<exists>token. security hs = Inr token"
proof (induction ds arbitrary: rq c)
  case (Cons d ds)
  from run_dependencies_Cons [OF Cons.prems(1)] obtain c1 where "run_dependencies security hs ds (state_effect d rq, Some c1) = (Inr (), (rq', v))"
    and "is_user_check d \<longrightarrow> (\<exists>token. security hs = Inr token \<and> ctx_auth c1 = or_str (Some token) (ctx_auth c))"
    by blast
  with Cons.IH Cons.prems(2) show ?case by (cases "is_user_check d") auto
qed simp

lemma run_dependencies_auth:
  assumes "security hs = Inr token" and "token \<noteq> []"
  shows "run_dependencies security hs ds (rq, Some c) = (Inr (), (rq', Some c')) \<Longrightarrow>
    list_ex is_user_check ds \<or> ctx_auth c = Some token \<Longrightarrow> ctx_auth c' = Some token"
proof (induction ds arbitrary: rq c)
  case Nil
  then show ?case by (simp add: run_dependencies_Nil)
next
  case (Cons d ds)
  from run_dependencies_Cons [OF Cons.prems(1)] obtain c1 where run: "run_dependencies security hs ds (state_effect d rq, Some c1) = (Inr (), (rq', Some c'))"
    and "is_user_check d \<longrightarrow> (\<exists>token. security hs = Inr token \<and> ctx_auth c1 = or_str (Some token) (ctx_auth c))"
    and "\<not> is_user_check d \<longrightarrow> ctx_auth c1 = ctx_auth c"
    by blast
  with assms Cons.prems(2) have "list_ex is_user_check ds \<or> ctx_auth c1 = Some token" by (cases "is_user_check d") auto
  with Cons.IH [OF run] show ?case by blast
qed

lemma run_dependencies_partition_ok:
  "run_dependencies security hs ds (rq, Some c) = (Inr (), (rq', v)) \<Longrightarrow> list_ex is_partition_check ds \<Longrightarrow>
    header hs PARTITION_ID_HEADER_NAME \<noteq> Some []"
proof (induction ds arbitrary: rq c)
  case (Cons d ds)
  from run_dependencies_Cons [OF Cons.prems(1)] obtain c1 where "run_dependencies security hs ds (state_effect d rq, Some c1) = (Inr (), (rq', v))"
    and "is_partition_check d \<longrightarrow> header hs PARTITION_ID_HEADER_NAME \<noteq> Some []
          \<and> ctx_partition_id c1 = or_str (header hs PARTITION_ID_HEADER_NAME) (ctx_partition_id c)"
    by blast
  with Cons.IH Cons.prems(2) show ?case by (cases "is_partition_check d") auto
qed simp

lemma run_dependencies_partition:
  assumes "header hs PARTITION_ID_HEADER_NAME = Some p" and "p \<noteq> []"
  shows "run_dependencies security hs ds (rq, Some c) = (Inr (), (rq', Some c')) \<Longrightarrow>
    list_ex is_partition_check ds \<or> ctx_partition_id c = Some p \<Longrightarrow> ctx_partition_id c' = Some p"
proof (induction ds arbitrary: rq c)
  case Nil
  then show ?case by (simp add: run_dependencies_Nil)
next
  case (Cons d ds)
  from run_dependencies_Cons [OF Cons.prems(1)] obtain c1 where run: "run_dependencies security hs ds (state_effect d rq, Some c1) = (Inr (), (rq', Some c'))"
    and "is_partition_check d \<longrightarrow> header hs PARTITION_ID_HEADER_NAME \<noteq> Some []
          \<and> ctx_partition_id c1 = or_str (header hs PARTITION_ID_HEADER_NAME) (ctx_partition_id c)"
    and "\<not> is_partition_check d \<longrightarrow> ctx_partition_id c1 = ctx_partition_id c"
    by blast
  with assms Cons.prems(2) have "list_ex is_partition_check ds \<or> ctx_partition_id c1 = Some p" by (cases "is_partition_check d") auto
  with Cons.IH [OF run] show ?case by blast
qed

section \<open>Every route gets what it needs\<close>

definition path_entities :: "(string \<times> Entity) list" where
  "path_entities = [(''wellbores'', WELLBORE), (''wells'', WELL), (''wellboremarkersets'', MARKER),
     (''wellboreintervalsets'', WELLBOREINTERVALSET), (''welllogacquisition'', WELLLOGACQUISITION), (''welllogs'', WELL_LOG),
     (''wellboretrajectories'', TRAJECTORY), (''ppfgdataset'', PPFGDATASET),
     (''wellpressuretestrawmeasurement'', WELLPRESSURETESTRAWMEASUREMENT)]"

definition entity_of_path :: "string \<Rightarrow> Entity option" where
  \<comment> \<open>the entity that the collection in a path names\<close>
  "entity_of_path path = (case split_char (CHR ''/'') path of
       [] # a # b # c # _ \<Rightarrow> if a = ''ddms'' \<and> b = ''v3'' then map_of path_entities c else None
     | _ \<Rightarrow> None)"

definition checks_of :: "Entity \<Rightarrow> consistency_class option" where
  "checks_of e = (case e of WELL_LOG \<Rightarrow> Some WelllogChecks | TRAJECTORY \<Rightarrow> Some TrajectoryChecks
     | PPFGDATASET \<Rightarrow> Some PPFGDatasetChecks
     | WELLPRESSURETESTRAWMEASUREMENT \<Rightarrow> Some WellPressureTestRawMeasurementChecks | _ \<Rightarrow> None)"

definition need_met :: "string \<Rightarrow> app_request \<Rightarrow> need \<Rightarrow> bool" where
  "need_met path rq n = (case n of
       NeedUser \<Rightarrow> True
     | NeedEntity \<Rightarrow> st_version (ar_state rq) = Some ''V3'' \<and> st_entity_type (ar_state rq) \<noteq> None
         \<and> st_entity_type (ar_state rq) = entity_of_path path
     | NeedBulkIdAccess \<Rightarrow> get_bulk_id_access rq = Inr OsduBulkIdAccess
     | NeedDataframeCheck \<Rightarrow> check_input_df_func (ar_bulk rq) = Some columns_type_must_be_string_check
     | NeedConsistencyChecks \<Rightarrow> data_consistency_checks_state (ar_bulk rq) \<noteq> None
         \<and> data_consistency_checks_state (ar_bulk rq) = Option.bind (entity_of_path path) checks_of
     | NeedFetchRecord \<Rightarrow> FetchRecordDependency (ar_dependencies rq) = Inr (Some Fetch_record_dependency)
     | NeedFetchRecordPartial \<Rightarrow>
         FetchRecordPartialDependency (ar_dependencies rq) = Inr (Some Fetch_record_partial_with_wdms_extension)
     | NeedApiConfig \<Rightarrow> (case ar_api_config rq of None \<Rightarrow> False | Some c \<Rightarrow> Some (api_entity c) = entity_of_path path))"

definition open_paths :: "string list" where
  \<comment> \<open>what a request without a token may read\<close>
  "open_paths = [''/healthz'', ''/readiness'', ''/'', ''/about'', ''/openapi.json'', ''/docs'', ''/docs/oauth2-redirect'', ''/redoc'',
     ''/metrics'']"

definition partition_free_paths :: "string list" where
  "partition_free_paths = open_paths @ [''/version'']"

definition route_ok :: "mount \<times> route_decl \<Rightarrow> bool" where
  "route_ok mr \<longleftrightarrow> (let ds = route_dependencies mr; p = route_path mr; rq = fold state_effect ds new_app_request in
     (\<not> p \<in> set open_paths \<longrightarrow> list_ex is_user_check ds)
     \<and> (\<not> p \<in> set partition_free_paths \<longrightarrow> list_ex is_partition_check ds)
     \<and> list_all (need_met p rq) (rd_needs (snd mr)))"

lemma mounted_routes_ok: "list_all route_ok mounted_routes"
  by code_simp

lemma own_routes_ok: "list_all route_ok (own_routes cloud_provider)"
proof -
  have "list_all route_ok (own_routes None)" "list_all route_ok (own_routes (Some ''az''))" by code_simp+
  moreover have "own_routes cloud_provider = own_routes (Some ''az'') \<or> own_routes cloud_provider = own_routes None"
    by (simp add: own_routes_def init_metric_def)
  ultimately show ?thesis by auto
qed

text \<open>C11: Every served route is behind what it needs.  When the dependencies of a route have run for a request, the request
  carried a token, and the context has it, unless the route is a probe, \<open>/about\<close>, the documentation of FastAPI or, for the
  provider \<open>az\<close>, the route of the metrics; the partition is not empty, and the context has it, unless the route is one of
  these or \<open>/version\<close>; and everything the handler takes from the state of the request has been set, to what belongs to
  the collection that the path names: its entity, its consistency checks and its configuration.\<close>

theorem route_served:
  assumes "mr \<in> set (served_routes cloud_provider)"
    and "run_dependencies security hs (route_dependencies mr) (new_app_request, Some c) = (Inr (), (rq, v))"
  shows "\<exists>c'. v = Some c'
     \<and> (route_path mr \<notin> set open_paths \<longrightarrow>
          (\<exists>token. security hs = Inr token \<and> (token \<noteq> [] \<longrightarrow> ctx_auth c' = Some token)))
     \<and> (route_path mr \<notin> set partition_free_paths \<longrightarrow> header hs PARTITION_ID_HEADER_NAME \<noteq> Some []
          \<and> (\<forall>p. header hs PARTITION_ID_HEADER_NAME = Some p \<longrightarrow> ctx_partition_id c' = Some p))
     \<and> (\<forall>n\<in>set (rd_needs (snd mr)). need_met (route_path mr) rq n)"
proof -
  have ok: "route_ok mr"
    using mounted_routes_ok own_routes_ok [of cloud_provider] assms(1) by (auto simp: list_all_iff served_routes_split)
  obtain c' where v: "v = Some c'" and rq: "rq = fold state_effect (route_dependencies mr) new_app_request"
    using run_dependencies_state [OF assms(2)] by blast
  have "\<exists>token. security hs = Inr token \<and> (token \<noteq> [] \<longrightarrow> ctx_auth c' = Some token)" if "route_path mr \<notin> set open_paths"
  proof -
    have ex: "list_ex is_user_check (route_dependencies mr)" using ok that by (simp add: route_ok_def Let_def)
    with run_dependencies_user [OF assms(2)] run_dependencies_auth [OF _ _ assms(2) [unfolded v]] show ?thesis by blast
  qed
  moreover have "header hs PARTITION_ID_HEADER_NAME \<noteq> Some []
      \<and> (\<forall>p. header hs PARTITION_ID_HEADER_NAME = Some p \<longrightarrow> ctx_partition_id c' = Some p)"
    if "route_path mr \<notin> set partition_free_paths"
  proof -
    have ex: "list_ex is_partition_check (route_dependencies mr)" using ok that by (simp add: route_ok_def Let_def)
    with run_dependencies_partition_ok [OF assms(2)] run_dependencies_partition [OF _ _ assms(2) [unfolded v]]
    show ?thesis by metis
  qed
  moreover have "\<forall>n\<in>set (rd_needs (snd mr)). need_met (route_path mr) rq n"
    using ok by (simp add: route_ok_def Let_def list_all_iff rq)
  ultimately show ?thesis using v by blast
qed

section \<open>Routing\<close>

definition is_parameter :: "string \<Rightarrow> bool" where
  "is_parameter seg = (case seg of c # _ \<Rightarrow> c = CHR ''{'' | [] \<Rightarrow> False)"

definition segment_fits :: "string \<Rightarrow> string \<Rightarrow> bool" where
  \<comment> \<open>a parameter of a path takes one segment that is not empty\<close>
  "segment_fits t s \<longleftrightarrow> (if is_parameter t then s \<noteq> [] else s = t)"

definition path_fits :: "string \<Rightarrow> string list \<Rightarrow> bool" where
  "path_fits template segs \<longleftrightarrow> list_all2 segment_fits (split_char (CHR ''/'') template) segs"

datatype segment = Par | Lit string

definition segment_of :: "string \<Rightarrow> segment" where
  "segment_of s = (if is_parameter s then Par else Lit s)"

type_synonym route_key = "string \<times> Entity option \<times> segment list"
  \<comment> \<open>the method, the collection, and the rest of the path; without a collection the whole path\<close>

definition key_of :: "string \<Rightarrow> string \<Rightarrow> route_key" where
  "key_of method path = (let segs = split_char (CHR ''/'') path in
     (method, entity_of_path path, map segment_of (if entity_of_path path = None then segs else drop 4 segs)))"

fun segments_meet :: "segment list \<Rightarrow> segment list \<Rightarrow> bool" where
  "segments_meet [] [] = True"
| "segments_meet (a # as) (b # bs) = ((a = Par \<or> b = Par \<or> a = b) \<and> segments_meet as bs)"
| "segments_meet _ _ = False"

definition keys_meet :: "route_key \<Rightarrow> route_key \<Rightarrow> bool" where
  "keys_meet k k' = (case (k, k') of ((m, e, t), (m', e', t')) \<Rightarrow>
     (case (e, e') of
        (Some a, Some b) \<Rightarrow> a = b \<and> m = m' \<and> segments_meet t t'
      | (None, None) \<Rightarrow> m = m' \<and> segments_meet t t'
      | (None, Some _) \<Rightarrow> length t = length t' + 4
      | (Some _, None) \<Rightarrow> length t' = length t + 4))"

fun none_meet :: "route_key list \<Rightarrow> bool" where
  "none_meet [] = True"
| "none_meet (k # r) = (list_all (\<lambda>k'. \<not> keys_meet k k') r \<and> none_meet r)"

definition route_keys :: "route_key list" where
  "route_keys = concat (map (\<lambda>m. map (\<lambda>r. key_of (rd_method r) (mo_prefix m @ rd_path r)) (mo_router m)) wdms_app_mounts)"

lemma route_keys_mounted: "route_keys = map (\<lambda>mr. key_of (rd_method (snd mr)) (route_path mr)) mounted_routes"
  by (simp add: route_keys_def mounted_routes_def map_concat comp_def route_path_def)

lemmas mount_defs = wdms_app_mounts_def route_decls route_decl_def
  mount_probes_def mount_without_bulk_def mount_with_bulk_def mount_welllog_def mount_trajectory_def
  mount_statistics_def mount_ppfgdataset_def mount_wellpressuretest_def mount_crud_def mount_log_recognition_def
  mount_sessions_def mount_bulk_def include_router_def ddms_v3_routes_groups_without_bulk_def
  ddms_v3_routes_groups_with_bulk_def ddms_v3_routes_crud_api_def PPFGDatasetAPI_def WellPressureTestRawMeasurementAPI_def
  DDMS_V3_PATH_def WELL_LOGS_API_BASE_PATH_def WELLBORE_TRAJECTORIES_API_BASE_PATH_def

lemma none_meet_routes: "none_meet route_keys"
  by code_simp

lemma none_meet_append:
  "none_meet (ks @ ls) \<longleftrightarrow> none_meet ks \<and> none_meet ls \<and> list_all (\<lambda>k. list_all (\<lambda>k'. \<not> keys_meet k k') ls) ks"
  by (induction ks) (auto simp: list_all_iff)

definition own_keys :: "string option \<Rightarrow> route_key list" where
  "own_keys cloud_provider = map (\<lambda>mr. key_of (rd_method (snd mr)) (route_path mr)) (own_routes cloud_provider)"

lemma own_keys_eval:
  "own_keys None = concat (map (\<lambda>p. [(''GET'', None, p), (''HEAD'', None, p)])
     [[Lit [], Lit ''openapi.json''], [Lit [], Lit ''docs''], [Lit [], Lit ''docs'', Lit ''oauth2-redirect''], [Lit [], Lit ''redoc'']])"
  "own_keys (Some ''az'') = own_keys None @ [(''GET'', None, [Lit [], Lit ''metrics''])]"
  by code_simp+

lemma own_keys_cases: "own_keys cloud_provider = own_keys (Some ''az'') \<or> own_keys cloud_provider = own_keys None"
  by (simp add: own_keys_def own_routes_def init_metric_def)

lemma own_keys_alone: "none_meet (own_keys (Some ''az''))"
  unfolding own_keys_eval by code_simp

lemma own_keys_apart: "list_all (\<lambda>k'. list_all (\<lambda>k. \<not> keys_meet k k')
    (concat (map (\<lambda>p. [(''GET'', None, p), (''HEAD'', None, p)])
       [[Lit [], Lit ''openapi.json''], [Lit [], Lit ''docs''], [Lit [], Lit ''docs'', Lit ''oauth2-redirect''], [Lit [], Lit ''redoc'']])
     @ [(''GET'', None, [Lit [], Lit ''metrics''])])) route_keys"
  by code_simp

lemma none_meet_served: "none_meet (own_keys cloud_provider @ route_keys)"
proof -
  have "list_all (\<lambda>k. list_all (\<lambda>k'. \<not> keys_meet k k') route_keys) (own_keys (Some ''az''))"
    using own_keys_apart unfolding own_keys_eval by (simp add: list_all_iff)
  then have az: "none_meet (own_keys (Some ''az'') @ route_keys)"
    using own_keys_alone none_meet_routes by (simp add: none_meet_append)
  then have "none_meet (own_keys None @ route_keys)"
    unfolding own_keys_eval(2) by (auto simp: none_meet_append list_all_iff)
  with az own_keys_cases [of cloud_provider] show ?thesis by auto
qed

lemma segment_fits_meet: "segment_fits x z \<Longrightarrow> segment_fits y z \<Longrightarrow> segment_of x = Par \<or> segment_of y = Par \<or> segment_of x = segment_of y"
  by (auto simp: segment_of_def segment_fits_def split: if_splits)

lemma fits_meet:
  "list_all2 segment_fits a s \<Longrightarrow> list_all2 segment_fits b s \<Longrightarrow> segments_meet (map segment_of a) (map segment_of b)"
proof (induction a arbitrary: b s)
  case (Cons x a)
  then obtain y b' z s' where "b = y # b'" "s = z # s'" "segment_fits x z" "segment_fits y z"
    "list_all2 segment_fits a s'" "list_all2 segment_fits b' s'"
    by (auto simp: list_all2_Cons1 list_all2_Cons2)
  with Cons.IH segment_fits_meet show ?case by simp
qed simp

lemma entity_of_path_Some:
  "entity_of_path p = Some e \<Longrightarrow> \<exists>c tail. split_char (CHR ''/'') p = [] # ''ddms'' # ''v3'' # c # tail \<and> map_of path_entities c = Some e"
  by (auto simp: entity_of_path_def split: list.splits if_splits)

lemma collection_literal: "map_of path_entities c = Some e \<Longrightarrow> \<not> is_parameter c"
  by (auto simp: path_entities_def is_parameter_def split: if_splits)

lemma fits_entity:
  assumes "entity_of_path p = Some e" and "path_fits p segs"
  shows "\<exists>c s. segs = [] # ''ddms'' # ''v3'' # c # s \<and> map_of path_entities c = Some e
     \<and> list_all2 segment_fits (drop 4 (split_char (CHR ''/'') p)) s"
proof -
  obtain c tail where p: "split_char (CHR ''/'') p = [] # ''ddms'' # ''v3'' # c # tail" and e: "map_of path_entities c = Some e"
    using entity_of_path_Some [OF assms(1)] by blast
  with assms(2) collection_literal [OF e] show ?thesis
    by (auto simp: path_fits_def list_all2_Cons1 segment_fits_def is_parameter_def)
qed

lemma fits_keys:
  assumes "path_fits p segs" and "path_fits p' segs"
  shows "keys_meet (key_of m p) (key_of m p')"
proof (cases "entity_of_path p"; cases "entity_of_path p'")
  fix e e' assume "entity_of_path p = Some e" and "entity_of_path p' = Some e'"
  with fits_entity [OF _ assms(1)] fits_entity [OF _ assms(2)] fits_meet show ?thesis
    by (fastforce simp: keys_meet_def key_of_def Let_def)
next
  fix e assume e: "entity_of_path p = Some e" and "entity_of_path p' = None"
  moreover from fits_entity [OF e assms(1)] have "length segs = length (drop 4 (split_char (CHR ''/'') p)) + 4"
    by (auto dest: list_all2_lengthD)
  moreover have "length segs = length (split_char (CHR ''/'') p')" using assms(2) by (simp add: path_fits_def list_all2_lengthD)
  ultimately show ?thesis by (simp add: keys_meet_def key_of_def)
next
  fix e assume "entity_of_path p = None" and e: "entity_of_path p' = Some e"
  moreover from fits_entity [OF e assms(2)] have "length segs = length (drop 4 (split_char (CHR ''/'') p')) + 4"
    by (auto dest: list_all2_lengthD)
  moreover have "length segs = length (split_char (CHR ''/'') p)" using assms(1) by (simp add: path_fits_def list_all2_lengthD)
  ultimately show ?thesis by (simp add: keys_meet_def key_of_def)
next
  assume "entity_of_path p = None" and "entity_of_path p' = None"
  with assms fits_meet show ?thesis by (auto simp: keys_meet_def key_of_def path_fits_def)
qed

lemma none_meet_nth: "none_meet ks \<Longrightarrow> i < j \<Longrightarrow> j < length ks \<Longrightarrow> \<not> keys_meet (ks ! i) (ks ! j)"
proof (induction ks arbitrary: i j)
  case (Cons k ks)
  then obtain j' where "j = Suc j'" and "j' < length ks" by (cases j) auto
  with Cons show ?case by (cases i) (simp_all add: list_all_iff)
qed simp

lemma served_keys: "own_keys p @ route_keys = map (\<lambda>mr. key_of (rd_method (snd mr)) (route_path mr)) (served_routes p)"
  by (simp add: own_keys_def route_keys_mounted served_routes_split)

lemma routes_apart:
  assumes "i < j" and "j < length (served_routes p)"
    and "rd_method (snd (served_routes p ! i)) = rd_method (snd (served_routes p ! j))"
  shows "\<not> (path_fits (route_path (served_routes p ! i)) segs \<and> path_fits (route_path (served_routes p ! j)) segs)"
  using none_meet_nth [OF none_meet_served [of p, unfolded served_keys], of i j] assms fits_keys by auto

text \<open>C12: The routing is not ambiguous: a method and a path, given by its segments, fit at most one of the served
  routes, so no route hides another, whatever the order of the routers.\<close>

theorem routing_unambiguous:
  assumes "i < length (served_routes p)" and "j < length (served_routes p)"
    and "rd_method (snd (served_routes p ! i)) = rd_method (snd (served_routes p ! j))"
    and "path_fits (route_path (served_routes p ! i)) segs" and "path_fits (route_path (served_routes p ! j)) segs"
  shows "i = j"
  using routes_apart [of i j p segs] routes_apart [of j i p segs] assms by (cases i j rule: linorder_cases) auto

theorem routing_unambiguous_witness:
  "{j. j < length (served_routes (Some ''az'')) \<and> rd_method (snd (served_routes (Some ''az'') ! j)) = ''GET''
      \<and> path_fits (route_path (served_routes (Some ''az'') ! j)) [[], ''ddms'', ''v3'', ''wellbores'', ''x'']} = {14}"
proof -
  let ?segs = "[[], ''ddms'', ''v3'', ''wellbores'', ''x'']" and ?rs = "served_routes (Some ''az'')"
  have "14 < length ?rs \<and> rd_method (snd (?rs ! 14)) = ''GET'' \<and> path_fits (route_path (?rs ! 14)) ?segs"
    by code_simp
  with routing_unambiguous [of _ "Some ''az''" 14 ?segs] show ?thesis by auto
qed

text \<open>The routes of the log recognition have the prefix of their router.\<close>

lemma log_recognition_paths:
  "map (\<lambda>r. (rd_method r, rd_path r)) log_recognition_router = [(''POST'', ''/log-recognition/family''), (''PUT'', ''/log-recognition/upload-catalog'')]"
  by code_simp

definition test_bulk_route :: "mount \<times> route_decl" where
  "test_bulk_route = (mount_bulk WELL_LOGS_API_BASE_PATH SetWelllogDataConsistencyCheck WELL_LOG, post_data_decl)"

lemma test_bulk_route_mounted: "test_bulk_route \<in> set (served_routes None)"
  by (simp add: test_bulk_route_def served_routes_split mounted_routes_def wdms_app_mounts_def mount_welllog_def)
    (auto simp: mount_bulk_def include_router_def bulk_routes_router_def)

lemma test_bulk_route_run:
  "\<exists>rq v. run_dependencies (\<lambda>_. Inr ''token'') [(''data-partition-id'', ''opendes'')] (route_dependencies test_bulk_route)
     (new_app_request, Some empty_Context) = (Inr (), (rq, v))"
  by (simp add: run_dependencies_def route_dependencies_def test_bulk_route_def mount_bulk_def include_router_def
      v3_bulk_dependencies_def basic_dependencies_def post_data_decl_def route_decl_def on_state_def in_context_def bindM_run
      require_data_partition_id_def require_opendes_authorized_user_def set_current_with_value_def ctx_current_def
      set_current_def Let_def header_def split: if_splits)

theorem route_served_witness:
  "\<exists>rq c. run_dependencies (\<lambda>_. Inr ''token'') [(''data-partition-id'', ''opendes'')] (route_dependencies test_bulk_route)
       (new_app_request, Some empty_Context) = (Inr (), (rq, Some c))
     \<and> ctx_auth c = Some ''token'' \<and> need_met (route_path test_bulk_route) rq NeedFetchRecord"
proof -
  obtain rq v where run: "run_dependencies (\<lambda>_. Inr ''token'') [(''data-partition-id'', ''opendes'')]
      (route_dependencies test_bulk_route) (new_app_request, Some empty_Context) = (Inr (), (rq, v))"
    using test_bulk_route_run by blast
  have "route_path test_bulk_route \<notin> set open_paths" and "NeedFetchRecord \<in> set (rd_needs (snd test_bulk_route))" by code_simp+
  with route_served [OF test_bulk_route_mounted run] run show ?thesis by auto
qed

end
