(* ===== verification/Configuration.thy ===== *)
theory Configuration
  imports Py_Strings Exceptions "HOL-Library.AList"
begin

text \<open>
  The configuration of the service, \<open>app/conf.py\<close>.  The declared environment variables are objects that the class
  creates once, as defaults of its fields: every container refers to the same ones.  They live in a store, and a
  container maps the name of an attribute to a reference or to a plain value.  Factories and validators are named;
  descriptions, which only appear in messages, are left out.  Whether a path exists is a parameter.
\<close>

section \<open>Environment variables\<close>

datatype conf_value = CStr string | CInt int | CBool bool

datatype factory_fn = To_lower | To_int | To_flag | To_enabled
  \<comment> \<open>\<open>x.lower()\<close>, \<open>int\<close>, and the two tests for a flag\<close>

datatype validator_fn = validator_path_must_exist

record EnvVar =
  ev_key :: string
  ev_secret :: bool
  ev_default :: "string option"
  ev_value :: "conf_value option"
  ev_allowed_values :: "conf_value list option"
  ev_is_mandatory :: bool
  ev_factory :: "factory_fn option"
  ev_validator :: "validator_fn option"

definition env_var :: "string \<Rightarrow> EnvVar" where
  \<comment> \<open>the defaults of the fields\<close>
  "env_var key = \<lparr>ev_key = key, ev_secret = False, ev_default = None, ev_value = None, ev_allowed_values = None,
     ev_is_mandatory = False, ev_factory = None, ev_validator = None\<rparr>"

type_synonym environment = "(string \<times> string) list"

definition run_factory :: "factory_fn \<Rightarrow> string \<Rightarrow> conf_value res" where
  "run_factory f x = (case f of
       To_lower \<Rightarrow> Inr (CStr (lower x))
     | To_int \<Rightarrow> (case py_int x of Some i \<Rightarrow> Inr (CInt i) | None \<Rightarrow> Inl ValueError)
     | To_flag \<Rightarrow> Inr (CBool (lower x = ''true'' \<or> x = ''1''))
     | To_enabled \<Rightarrow> Inr (CBool (lower x = ''true'' \<or> lower x = ''enabled'' \<or> x = ''1'')))"

definition input_value :: "environment \<Rightarrow> EnvVar \<Rightarrow> conf_value option res" where
  \<comment> \<open>the value of the environment or the default, through the factory\<close>
  "input_value environment_dict v =
     (case (case map_of environment_dict (ev_key v) of Some x \<Rightarrow> Some x | None \<Rightarrow> ev_default v) of
        None \<Rightarrow> Inr None
      | Some x \<Rightarrow> (case ev_factory v of
          None \<Rightarrow> Inr (Some (CStr x))
        | Some f \<Rightarrow> bindR (run_factory f x) (\<lambda>y. Inr (Some y))))"

definition env_load :: "environment \<Rightarrow> EnvVar \<Rightarrow> EnvVar res" where
  "env_load environment_dict v = bindR (input_value environment_dict v) (\<lambda>x.
     Inr (case ev_allowed_values v of
       None \<Rightarrow> v\<lparr>ev_value := x\<rparr>
     | Some l \<Rightarrow> if x \<in> Some ` set l then v\<lparr>ev_value := x\<rparr> else v))"

definition value_str :: "conf_value \<Rightarrow> string" where
  "value_str v = (case v of CStr s \<Rightarrow> s | CInt i \<Rightarrow> show_int i | CBool b \<Rightarrow> if b then ''True'' else ''False'')"

definition env_bool :: "(string \<Rightarrow> bool) \<Rightarrow> EnvVar \<Rightarrow> bool" where
  "env_bool path_exists v = (case ev_value v of
       None \<Rightarrow> False
     | Some x \<Rightarrow> (case ev_validator v of None \<Rightarrow> True | Some validator_path_must_exist \<Rightarrow> path_exists (value_str x)))"

definition printable_value :: "EnvVar \<Rightarrow> string" where
  "printable_value v = (case ev_value v of
       None \<Rightarrow> ''UNDEFINED''
     | Some x \<Rightarrow> if ev_secret v then ''*****'' else value_str x)"

section \<open>The container\<close>

datatype attribute = EnvRef nat | Plain conf_value | Hidden
  \<comment> \<open>\<open>Hidden\<close> stands for the two private fields\<close>

record container =
  cf_dict :: "(string \<times> attribute) list"
    \<comment> \<open>\<open>__dict__\<close>\<close>
  cf_environment_dict :: environment

definition static_env_vars :: "(string \<times> EnvVar) list" where
  "static_env_vars = [
     (''service_name'', (env_var ''SERVICE_NAME'')\<lparr>ev_default := Some ''os-wellbore-ddms---local''\<rparr>),
     (''environment_name'', (env_var ''ENVIRONMENT_NAME'')\<lparr>ev_default := Some ''undefined''\<rparr>),
     (''cloud_provider'', (env_var ''CLOUD_PROVIDER'')\<lparr>ev_is_mandatory := True,
        ev_allowed_values := Some [CStr ''aws'', CStr ''gc'', CStr ''az'', CStr ''local'', CStr ''ibm'', CStr ''baremetal''], ev_factory := Some To_lower\<rparr>),
     (''service_host_search'', (env_var ''SERVICE_HOST_SEARCH'')\<lparr>ev_is_mandatory := True\<rparr>),
     (''service_host_schema'', (env_var ''SERVICE_HOST_SCHEMA'')\<lparr>ev_is_mandatory := True\<rparr>),
     (''service_host_storage'', (env_var ''SERVICE_HOST_STORAGE'')\<lparr>ev_is_mandatory := True\<rparr>),
     (''service_host_wdms_worker'', (env_var ''SERVICE_HOST_WDMS_WORKER'')\<lparr>ev_default := Some []\<rparr>),
     (''wdms_worker_write_disable'', (env_var ''WDMS_WORKER_WRITE_DISABLE'')\<lparr>ev_default := Some ''false'', ev_factory := Some To_enabled\<rparr>),
     (''de_client_config_timeout'', (env_var ''DE_CLIENT_CFG_TIMEOUT'')\<lparr>ev_default := Some ''10'', ev_factory := Some To_int\<rparr>),
     (''de_client_config_max_connection'', (env_var ''DE_CLIENT_CFG_MAX_CONNECTION'')\<lparr>ev_default := Some ''1000'', ev_factory := Some To_int\<rparr>),
     (''de_client_config_max_keepalive'', (env_var ''DE_CLIENT_CFG_MAX_KEEPALIVE'')\<lparr>ev_default := Some ''500'', ev_factory := Some To_int\<rparr>),
     (''de_client_backoff_max_tries'', (env_var ''DE_CLIENT_BACKOFF_MAX_RETRIES'')\<lparr>ev_default := Some ''4'', ev_factory := Some To_int\<rparr>),
     (''de_client_backoff_max_wait'', (env_var ''DE_CLIENT_BACKOFF_MAX_WAIT'')\<lparr>ev_default := Some ''5'', ev_factory := Some To_int\<rparr>),
     (''build_details'', (env_var ''OS_WELLBORE_DDMS_BUILD_DETAILS'')\<lparr>ev_default := Some []\<rparr>),
     (''dev_mode'', (env_var ''OS_WELLBORE_DDMS_DEV_MODE'')\<lparr>ev_default := Some ''false'', ev_factory := Some To_flag\<rparr>),
     (''openapi_prefix'', (env_var ''OPENAPI_PREFIX'')\<lparr>ev_default := Some ''/api/os-wellbore-ddms''\<rparr>),
     (''custom_catalog_timeout'', (env_var ''CUSTOM_CATALOG_TIMEOUT'')\<lparr>ev_default := Some ''300'', ev_factory := Some To_int\<rparr>),
     (''modules'', (env_var ''MODULES'')\<lparr>ev_default := Some []\<rparr>),
     (''min_worker_memory'', (env_var ''MIN_WORKER_MEMORY'')\<lparr>ev_default := Some ''512Mi''\<rparr>),
     (''enable_read_fast_track'', (env_var ''READ_FAST_TRACK_ENABLE'')\<lparr>ev_default := Some ''false'', ev_factory := Some To_enabled\<rparr>),
     (''max_return_read_fast_track'', (env_var ''READ_FAST_TRACK_MAX_VALUE'')\<lparr>ev_default := Some ''10'', ev_factory := Some To_int\<rparr>),
     (''max_working_read_fast_track'', (env_var ''READ_FAST_TRACK_MAX_WORKING_VALUE'')\<lparr>ev_default := Some ''100'', ev_factory := Some To_int\<rparr>),
     (''dask_data_ipc'', (env_var ''DASK_DATA_IPC'')\<lparr>ev_default := Some ''dask_native'', ev_allowed_values := Some [CStr ''dask_native'', CStr ''local_file''], ev_factory := Some To_lower\<rparr>),
     (''enable_header_server_timings'', (env_var ''OS_WELLBORE_DDMS_SERVER_TIMINGS_HDR'')\<lparr>ev_default := Some ''true'', ev_factory := Some To_enabled\<rparr>),
     (''swagger_full_url_enabled'', (env_var ''SWAGGER_FULL_URL_ENABLED'')\<lparr>ev_factory := Some To_enabled, ev_default := Some ''false''\<rparr>)]"

definition static_heap :: "EnvVar list" where
  "static_heap = map snd static_env_vars"

definition new_container :: "environment \<Rightarrow> container" where
  "new_container environment_dict = \<lparr>cf_dict = map2 (\<lambda>(name, _) n. (name, EnvRef n)) static_env_vars [0..<length static_env_vars]
       @ [(''_environment_dict'', Hidden), (''_contextual_loader'', Hidden)],
     cf_environment_dict = environment_dict\<rparr>"

definition env_refs :: "container \<Rightarrow> nat list" where
  \<comment> \<open>\<open>env_vars()\<close>\<close>
  "env_refs c = List.map_filter (\<lambda>(_, a). case a of EnvRef n \<Rightarrow> Some n | _ \<Rightarrow> None) (cf_dict c)"

definition conf_add :: "string \<Rightarrow> attribute \<Rightarrow> bool \<Rightarrow> container \<Rightarrow> container res" where
  "conf_add name value override c =
     (if \<not> override \<and> map_of (cf_dict c) name \<noteq> None then Inl KeyError
      else Inr (c\<lparr>cf_dict := AList.update name value (cf_dict c)\<rparr>))"

definition add_from_env :: "EnvVar \<Rightarrow> string option \<Rightarrow> bool \<Rightarrow> container \<Rightarrow> (exn, EnvVar list, container) prog" where
  \<comment> \<open>the new variable, the name of the attribute and \<open>override\<close>\<close>
  "add_from_env v attribute_name override c h =
     (case env_load (cf_environment_dict c) v of
        Inl e \<Rightarrow> (Inl e, h)
      | Inr v' \<Rightarrow> (conf_add (case attribute_name of Some (x # xs) \<Rightarrow> x # xs | _ \<Rightarrow> ev_key v) (EnvRef (length h)) override c, h @ [v']))"

fun add_all :: "(string \<times> EnvVar) list \<Rightarrow> container \<Rightarrow> (exn, EnvVar list, container) prog" where
  "add_all [] c = returnM c"
| "add_all ((name, v) # vs) c = bindM (add_from_env v (Some name) True c) (add_all vs)"

definition provider_vars :: "string \<Rightarrow> (string \<times> EnvVar) list" where
  \<comment> \<open>the calls of \<open>add_from_env\<close> for each cloud provider\<close>
  "provider_vars provider = (
     if provider = ''az'' then [
       (''az_ai_connection_str'', (env_var ''AZ_AI_CONNECTION_STR'')\<lparr>ev_secret := True\<rparr>),
       (''az_logger_level'', (env_var ''AZ_LOGGER_LEVEL'')\<lparr>ev_default := Some ''INFO''\<rparr>)]
     else if provider = ''gc'' then [
       (''gc_log_level'', (env_var ''LOG_LEVEL'')\<lparr>ev_default := Some ''INFO''\<rparr>),
       (''partition_url'', (env_var ''SERVICE_URL_PARTITION'')\<lparr>ev_is_mandatory := True,
          ev_default := Some ''http://partition/api/partition/v1/''\<rparr>),
       (''default_data_tenant_credentials'', (env_var ''OS_WELLBORE_DDMS_DATA_PROJECT_CREDENTIALS'')
          \<lparr>ev_validator := Some validator_path_must_exist\<rparr>),
       (''service_host_storage'', (env_var ''SERVICE_HOST_STORAGE'')\<lparr>ev_default := Some ''http://storage/api/storage''\<rparr>),
       (''service_host_search'', (env_var ''SERVICE_HOST_SEARCH'')\<lparr>ev_default := Some ''http://search/api/search''\<rparr>),
       (''service_host_schema'', (env_var ''SERVICE_HOST_SCHEMA'')\<lparr>ev_default := Some ''http://schema/api/schema-service/v1''\<rparr>)]
     else if provider = ''baremetal'' then [
       (''ref_log_level'', (env_var ''LOG_LEVEL'')\<lparr>ev_default := Some ''INFO''\<rparr>),
       (''service_host_storage'', (env_var ''SERVICE_HOST_STORAGE'')\<lparr>ev_default := Some ''http://storage/api/storage''\<rparr>),
       (''service_host_search'', (env_var ''SERVICE_HOST_SEARCH'')\<lparr>ev_default := Some ''http://search/api/search''\<rparr>),
       (''service_host_schema'', (env_var ''SERVICE_HOST_SCHEMA'')\<lparr>ev_default := Some ''http://schema/api/schema-service/v1''\<rparr>),
       (''partition_url'', (env_var ''SERVICE_HOST_PARTITION'')\<lparr>ev_is_mandatory := True,
          ev_default := Some ''http://partition/api/partition''\<rparr>)]
     else if provider = ''ibm'' then [
       (''default_data_tenant_project_id'', (env_var ''OS_WELLBORE_DDMS_DATA_PROJECT_ID'')\<lparr>ev_default := Some ''logstore-ibm'',
          ev_is_mandatory := True\<rparr>)]
     else if provider = ''aws'' then [
       (''aws_region'', (env_var ''AWS_REGION'')\<lparr>ev_default := Some ''us-east-1'', ev_is_mandatory := True\<rparr>),
       (''aws_env'', (env_var ''OSDU_INSTANCE_NAME'')\<lparr>ev_default := Some ''osdu-'', ev_is_mandatory := True\<rparr>),
       (''aws_logger_level'', (env_var ''LOG_LEVEL'')\<lparr>ev_default := Some ''INFO''\<rparr>)]
     else [])"

definition env_attr :: "EnvVar list \<Rightarrow> container \<Rightarrow> string \<Rightarrow> conf_value option" where
  \<comment> \<open>\<open>config.name.value\<close> of a declared variable\<close>
  "env_attr h c name = (case map_of (cf_dict c) name of Some (EnvRef n) \<Rightarrow> ev_value (h ! n) | _ \<Rightarrow> None)"

definition cloud_provider_additional_environment :: "container \<Rightarrow> (exn, EnvVar list, container) prog" where
  "cloud_provider_additional_environment c h =
     (case env_attr h c ''cloud_provider'' of
        Some (CStr provider) \<Rightarrow> bindM (add_all (provider_vars provider) c) (\<lambda>c'.
          returnM (if provider = ''az''
            then c'\<lparr>cf_dict := AList.update ''az_bulk_container'' (Plain (CStr ''wdms-osdu'')) (cf_dict c')\<rparr> else c')) h
      | _ \<Rightarrow> (Inr c, h))"

definition load_ref :: "environment \<Rightarrow> nat \<Rightarrow> (exn, EnvVar list, unit) prog" where
  "load_ref environment_dict n h = (case env_load environment_dict (h ! n) of
       Inl e \<Rightarrow> (Inl e, h) | Inr v \<Rightarrow> (Inr (), h[n := v]))"

definition conf_reload :: "environment option \<Rightarrow> container \<Rightarrow> (exn, EnvVar list, container) prog" where
  "conf_reload environment_dict c =
     (let c = (case environment_dict of Some e \<Rightarrow> c\<lparr>cf_environment_dict := e\<rparr> | None \<Rightarrow> c) in
      bindM (forM (load_ref (cf_environment_dict c)) (env_refs c)) (\<lambda>_. cloud_provider_additional_environment c))"

definition with_load_all :: "environment \<Rightarrow> (exn, EnvVar list, container) prog" where
  "with_load_all environment_dict = conf_reload None (new_container environment_dict)"

definition get_env_or_attribute :: "EnvVar list \<Rightarrow> container \<Rightarrow> string \<Rightarrow> attribute option" where
  "get_env_or_attribute h c name = (case map_of (cf_dict c) name of
       Some a \<Rightarrow> Some a
     | None \<Rightarrow> map_option EnvRef (find (\<lambda>n. ev_key (h ! n) = name) (env_refs c)))"

definition conf_contains :: "EnvVar list \<Rightarrow> container \<Rightarrow> string \<Rightarrow> bool" where
  "conf_contains h c name \<longleftrightarrow> map_of (cf_dict c) name \<noteq> None \<or> list_ex (\<lambda>n. ev_key (h ! n) = name) (env_refs c)"

definition conf_getitem :: "EnvVar list \<Rightarrow> container \<Rightarrow> string \<Rightarrow> conf_value option res" where
  \<comment> \<open>for names other than the private fields\<close>
  "conf_getitem h c name = (case get_env_or_attribute h c name of
       None \<Rightarrow> (case map_of (cf_environment_dict c) name of Some x \<Rightarrow> Inr (Some (CStr x)) | None \<Rightarrow> Inl KeyError)
     | Some (EnvRef n) \<Rightarrow> Inr (ev_value (h ! n))
     | Some (Plain x) \<Rightarrow> Inr (Some x)
     | Some Hidden \<Rightarrow> Inr None)"

definition conf_get :: "EnvVar list \<Rightarrow> container \<Rightarrow> string \<Rightarrow> conf_value option \<Rightarrow> conf_value option" where
  "conf_get h c name dflt = (case conf_getitem h c name of Inr x \<Rightarrow> x | Inl _ \<Rightarrow> dflt)"

definition as_printable_dict :: "EnvVar list \<Rightarrow> container \<Rightarrow> (string \<times> string) list" where
  "as_printable_dict h c = List.map_filter (\<lambda>(name, a).
     if startswith name ''_'' then None
     else (case a of EnvRef n \<Rightarrow> Some (name, printable_value (h ! n)) | Plain x \<Rightarrow> Some (name, value_str x) | Hidden \<Rightarrow> None))
     (cf_dict c)"

definition missing_variables :: "(string \<Rightarrow> bool) \<Rightarrow> EnvVar list \<Rightarrow> container \<Rightarrow> string list" where
  "missing_variables path_exists h c =
     map (\<lambda>n. ev_key (h ! n)) (filter (\<lambda>n. ev_is_mandatory (h ! n) \<and> \<not> env_bool path_exists (h ! n)) (env_refs c))"

definition check_environment :: "(string \<Rightarrow> bool) \<Rightarrow> EnvVar list \<Rightarrow> container \<Rightarrow> unit res" where
  "check_environment path_exists h c =
     (if missing_variables path_exists h c \<noteq> [] \<and> env_attr h c ''dev_mode'' \<notin> {Some (CBool True)} then Inl RuntimeError
      else Inr ())"

section \<open>Properties\<close>

lemma env_load_keeps:
  assumes "env_load e v = Inr v'"
  shows "v' = v\<lparr>ev_value := ev_value v'\<rparr> \<and> ev_is_mandatory v' = ev_is_mandatory v"
  using assms by (auto simp: env_load_def bindR_Inr_iff split: option.splits if_splits)

lemma env_load_default:
  assumes "env_load e v = Inr v'" and "ev_default v \<noteq> None" and "ev_allowed_values v = None"
  shows "ev_value v' \<noteq> None"
  using assms by (auto simp: env_load_def input_value_def bindR_Inr_iff split: option.splits if_splits)

lemma env_load_allowed:
  assumes "env_load e v = Inr v'" and "ev_allowed_values v = Some l" and "ev_value v \<in> insert None (Some ` set l)"
  shows "ev_value v' \<in> insert None (Some ` set l)"
  using assms by (auto simp: env_load_def bindR_Inr_iff split: if_splits)

text \<open>A value that is not allowed leaves the variable as it was; on a reload the previous value stays.\<close>

lemma not_allowed_kept:
  assumes "input_value e v = Inr x" and "ev_allowed_values v = Some l" and "x \<notin> Some ` set l"
  shows "env_load e v = Inr v"
  using assms by (simp add: env_load_def)

lemma set_map_filter: "y \<in> set (List.map_filter f xs) \<longleftrightarrow> (\<exists>x\<in>set xs. f x = Some y)"
  by (induction xs) (auto simp: map_filter_simps split: option.splits)

lemma env_refs_iff: "n \<in> set (env_refs c) \<longleftrightarrow> (\<exists>x. (x, EnvRef n) \<in> set (cf_dict c))"
proof
  assume "\<exists>x. (x, EnvRef n) \<in> set (cf_dict c)"
  then show "n \<in> set (env_refs c)" unfolding env_refs_def set_map_filter by (auto intro: bexI [rotated])
qed (auto simp: env_refs_def set_map_filter split: attribute.splits)

lemma load_ref_Inr: "load_ref e n h = (Inr u, h1) \<longleftrightarrow> (\<exists>v. env_load e (h ! n) = Inr v \<and> h1 = h[n := v])"
  by (auto simp: load_ref_def split: sum.splits)

lemma load_refs_run:
  assumes "forM (load_ref e) ns h = (Inr (), h')" and "distinct ns"
  shows "length h' = length h \<and> (\<forall>i < length h. if i \<in> set ns then env_load e (h ! i) = Inr (h' ! i) else h' ! i = h ! i)"
  using assms
proof (induction ns arbitrary: h)
  case (Cons n ns)
  from Cons.prems(1) obtain v where v: "env_load e (h ! n) = Inr v" "forM (load_ref e) ns (h[n := v]) = (Inr (), h')"
    by (auto simp: bindM_Inr_iff load_ref_Inr)
  from Cons.IH [OF v(2)] Cons.prems(2) have len: "length h' = length h"
    and nth: "i < length h \<Longrightarrow> if i \<in> set ns then env_load e (h[n := v] ! i) = Inr (h' ! i) else h' ! i = h[n := v] ! i" for i
    by simp_all
  have "if i \<in> set (n # ns) then env_load e (h ! i) = Inr (h' ! i) else h' ! i = h ! i" if "i < length h" for i
    using nth [OF that] that v(1) Cons.prems(2) by (cases "i = n") auto
  with len show ?case by blast
qed simp

definition host_names :: "string set" where
  "host_names = {''service_host_search'', ''service_host_schema'', ''service_host_storage''}"

definition providers :: "string list" where
  "providers = [''aws'', ''gc'', ''az'', ''local'', ''ibm'', ''baremetal'']"

definition conf_inv :: "EnvVar list \<Rightarrow> container \<Rightarrow> bool" where
  "conf_inv h c \<longleftrightarrow>
     (\<forall>x\<in>host_names. \<exists>n<length h. map_of (cf_dict c) x = Some (EnvRef n) \<and> (ev_is_mandatory (h ! n) \<or> ev_value (h ! n) \<noteq> None))
     \<and> map_of (cf_dict c) ''cloud_provider'' = Some (EnvRef 2) \<and> 2 < length h \<and> ev_is_mandatory (h ! 2)
     \<and> ev_value (h ! 2) \<in> insert None (Some ` CStr ` set providers)"

definition fits :: "string \<times> EnvVar \<Rightarrow> bool" where
  \<comment> \<open>a variable that may be added: it does not hide the provider, and has a default when it replaces a host\<close>
  "fits = (\<lambda>(name, v). name \<notin> {[], ''cloud_provider''}
     \<and> (name \<in> host_names \<longrightarrow> ev_default v \<noteq> None \<and> ev_allowed_values v = None))"

lemma provider_vars_fit: "list_all fits (provider_vars p)"
  by (simp add: provider_vars_def fits_def host_names_def env_var_def)

lemma add_from_env_inv:
  assumes "add_from_env v (Some name) True c h = (Inr c', h')" and "fits (name, v)" and "conf_inv h c"
  shows "conf_inv h' c'"
proof -
  from assms(2) obtain x xs where name: "name = x # xs" "name \<noteq> ''cloud_provider''" by (cases name) (auto simp: fits_def)
  from assms(1) name(1) obtain v' where v': "env_load (cf_environment_dict c) v = Inr v'" "h' = h @ [v']"
      "cf_dict c' = AList.update name (EnvRef (length h)) (cf_dict c)"
    by (auto simp: add_from_env_def conf_add_def split: sum.splits)
  have "\<exists>n<length h'. map_of (cf_dict c') y = Some (EnvRef n) \<and> (ev_is_mandatory (h' ! n) \<or> ev_value (h' ! n) \<noteq> None)"
    if y: "y \<in> host_names" for y
  proof (cases "y = name")
    case True
    with y assms(2) have "ev_value v' \<noteq> None" using env_load_default [OF v'(1)] by (simp add: fits_def)
    with True v' show ?thesis by (intro exI [of _ "length h"]) (simp add: update_conv')
  next
    case False
    from assms(3) y obtain n where "n < length h" "map_of (cf_dict c) y = Some (EnvRef n)"
      "ev_is_mandatory (h ! n) \<or> ev_value (h ! n) \<noteq> None" unfolding conf_inv_def by blast
    with False v' show ?thesis by (intro exI [of _ n]) (simp add: update_conv' nth_append)
  qed
  with assms(3) name(2) v' show ?thesis by (simp add: conf_inv_def update_conv' nth_append)
qed

lemma add_all_inv:
  assumes "add_all vs c h = (Inr c', h')" and "list_all fits vs" and "conf_inv h c"
  shows "conf_inv h' c'"
  using assms
proof (induction vs arbitrary: c h)
  case (Cons nv vs)
  obtain name v where nv: "nv = (name, v)" by force
  from Cons.prems(1) obtain c1 h1 where 1: "add_from_env v (Some name) True c h = (Inr c1, h1)" "add_all vs c1 h1 = (Inr c', h')"
    by (auto simp: nv bindM_Inr_iff)
  from add_from_env_inv [OF 1(1)] Cons.prems(2,3) have "conf_inv h1 c1" by (simp add: nv)
  with Cons.IH [OF 1(2)] Cons.prems(2) show ?case by simp
qed simp

lemma static_container:
  "env_refs (new_container e) = [0..<25]" "length static_heap = 25"
  "map_of (cf_dict (new_container e)) ''cloud_provider'' = Some (EnvRef 2)"
  "map_of (cf_dict (new_container e)) ''service_host_search'' = Some (EnvRef 3)"
  "map_of (cf_dict (new_container e)) ''service_host_schema'' = Some (EnvRef 4)"
  "map_of (cf_dict (new_container e)) ''service_host_storage'' = Some (EnvRef 5)"
  by (code_simp+)

lemma static_vars:
  "ev_is_mandatory (static_heap ! 2)" "ev_is_mandatory (static_heap ! 3)" "ev_is_mandatory (static_heap ! 4)"
  "ev_is_mandatory (static_heap ! 5)" "ev_value (static_heap ! 2) = None"
  "ev_allowed_values (static_heap ! 2) = Some (map CStr providers)"
  by (code_simp+)

lemma loaded_inv:
  assumes "forM (load_ref e) (env_refs (new_container e)) static_heap = (Inr (), h)"
  shows "conf_inv h (new_container e)"
proof -
  from load_refs_run [OF assms] static_container(1) [of e] have len: "length h = 25"
    and l: "i < 25 \<Longrightarrow> env_load e (static_heap ! i) = Inr (h ! i)" for i
    by (auto simp: static_container(2))
  have m: "ev_is_mandatory (h ! i) = ev_is_mandatory (static_heap ! i)" if "i < 25" for i
    using env_load_keeps [OF l [OF that]] by simp
  have "ev_value (h ! 2) \<in> insert None (Some ` set (map CStr providers))"
    by (rule env_load_allowed [OF l [of 2]]) (simp_all add: static_vars)
  with len m static_vars show ?thesis by (auto simp: conf_inv_def host_names_def static_container)
qed

lemma with_load_all_inv:
  assumes "with_load_all e static_heap = (Inr c, h)"
  shows "conf_inv h c"
proof -
  from assms obtain h1 where h1: "forM (load_ref e) (env_refs (new_container e)) static_heap = (Inr (), h1)"
      "cloud_provider_additional_environment (new_container e) h1 = (Inr c, h)"
    by (auto simp: with_load_all_def conf_reload_def bindM_Inr_iff new_container_def Let_def)
  from loaded_inv [OF h1(1)] have inv: "conf_inv h1 (new_container e)" .
  show ?thesis
  proof (cases "env_attr h1 (new_container e) ''cloud_provider''")
    case None
    with h1(2) inv show ?thesis by (simp add: cloud_provider_additional_environment_def)
  next
    case (Some x)
    show ?thesis
    proof (cases x)
      case (CStr p)
      with Some h1(2) obtain c' where c': "add_all (provider_vars p) (new_container e) h1 = (Inr c', h)"
        "c = (if p = ''az'' then c'\<lparr>cf_dict := AList.update ''az_bulk_container'' (Plain (CStr ''wdms-osdu'')) (cf_dict c')\<rparr> else c')"
        by (auto simp: cloud_provider_additional_environment_def bindM_Inr_iff)
      from add_all_inv [OF c'(1) provider_vars_fit inv] c'(2) show ?thesis
        by (auto simp: conf_inv_def host_names_def update_conv')
    qed (use Some h1(2) inv in \<open>simp_all add: cloud_provider_additional_environment_def\<close>)
  qed
qed

lemma defined_if_checked:
  assumes "missing_variables pe h c = []" and "map_of (cf_dict c) x = Some (EnvRef n)" and "ev_is_mandatory (h ! n)"
  shows "env_attr h c x \<noteq> None"
proof -
  from assms(2) have "n \<in> set (env_refs c)" unfolding env_refs_iff by (blast dest: map_of_SomeD)
  with assms(1,3) have "env_bool pe (h ! n)" by (auto simp: missing_variables_def filter_empty_conv)
  with assms(2) show ?thesis by (auto simp: env_bool_def env_attr_def split: option.splits)
qed

text \<open>The service fails fast on an incomplete environment.  When the configuration is loaded from an environment
  and the check passes outside of the developer mode, the cloud provider is one of the known ones, whatever its case in
  the environment, and the hosts of the search, schema and storage services are defined.\<close>

theorem environment_checked:
  assumes "with_load_all e static_heap = (Inr c, h)" and "check_environment pe h c = Inr ()"
    and "env_attr h c ''dev_mode'' \<noteq> Some (CBool True)"
  shows "(\<exists>p\<in>set providers. env_attr h c ''cloud_provider'' = Some (CStr p))
    \<and> (\<forall>x\<in>host_names. env_attr h c x \<noteq> None)"
proof -
  from assms(2,3) have miss: "missing_variables pe h c = []" by (auto simp: check_environment_def split: if_splits)
  from with_load_all_inv [OF assms(1)] have inv: "conf_inv h c" .
  then have "env_attr h c ''cloud_provider'' \<noteq> None" unfolding conf_inv_def using defined_if_checked [OF miss] by blast
  moreover have "env_attr h c ''cloud_provider'' \<in> insert None (Some ` CStr ` set providers)"
    using inv by (simp add: conf_inv_def env_attr_def)
  moreover have "env_attr h c x \<noteq> None" if x: "x \<in> host_names" for x
  proof -
    from inv x obtain n where n: "map_of (cf_dict c) x = Some (EnvRef n)"
      "ev_is_mandatory (h ! n) \<or> ev_value (h ! n) \<noteq> None" unfolding conf_inv_def by blast
    then show ?thesis using defined_if_checked [OF miss n(1)] by (auto simp: env_attr_def)
  qed
  ultimately show ?thesis by auto
qed

text \<open>Secrets are not printed: configurations that differ only in the values of secret variables, all defined, print
  the same.\<close>

lemma secrets_not_printed:
  assumes "\<And>n. n \<in> set (env_refs c) \<Longrightarrow> h' ! n = h ! n \<or>
      (ev_secret (h ! n) \<and> ev_secret (h' ! n) \<and> ev_value (h ! n) \<noteq> None \<and> ev_value (h' ! n) \<noteq> None)"
  shows "as_printable_dict h' c = as_printable_dict h c"
proof -
  have "printable_value (h' ! n) = printable_value (h ! n)" if "(x, EnvRef n) \<in> set (cf_dict c)" for x n
  proof -
    from that have "n \<in> set (env_refs c)" by (auto simp: env_refs_iff)
    from assms [OF this] show ?thesis by (elim disjE) (simp, auto simp: printable_value_def)
  qed
  then show ?thesis unfolding as_printable_dict_def List.map_filter_def
    by (intro arg_cong2 [where f = "\<lambda>a b. map a b"] filter_cong map_cong) (auto split: attribute.splits if_splits)
qed

text \<open>Containers share the declared variables: loading a second one changes what the first one answers.\<close>

definition test_environment :: "string \<Rightarrow> environment" where
  "test_environment host = [(''CLOUD_PROVIDER'', ''Local''), (''SERVICE_HOST_SEARCH'', host), (''SERVICE_HOST_SCHEMA'', host),
     (''SERVICE_HOST_STORAGE'', host)]"

lemma containers_share_variables:
  "(case with_load_all (test_environment ''one'') static_heap of (r, h) \<Rightarrow>
      (case r of Inr c \<Rightarrow> env_attr h c ''service_host_search'' = Some (CStr ''one'')
         \<and> env_attr (snd (with_load_all (test_environment ''two'') h)) c ''service_host_search'' = Some (CStr ''two'')
       | Inl _ \<Rightarrow> False))"
  by code_simp

lemma test_environment_ok:
  "(case with_load_all (test_environment ''h'') static_heap of (r, h) \<Rightarrow>
      (case r of Inr c \<Rightarrow> check_environment (\<lambda>_. False) h c = Inr () \<and> env_attr h c ''dev_mode'' \<noteq> Some (CBool True)
       | Inl _ \<Rightarrow> False))"
  by code_simp

theorem environment_checked_witness:
  "\<exists>c h p. with_load_all (test_environment ''h'') static_heap = (Inr c, h) \<and> env_attr h c ''cloud_provider'' = Some (CStr p)
     \<and> p \<in> set providers"
proof -
  from test_environment_ok obtain c h where ok: "with_load_all (test_environment ''h'') static_heap = (Inr c, h)"
    "check_environment (\<lambda>_. False) h c = Inr ()" "env_attr h c ''dev_mode'' \<noteq> Some (CBool True)"
    by (auto split: prod.splits sum.splits)
  from environment_checked [OF ok] ok(1) show ?thesis by blast
qed

end
