(* ===== verification/Startup.thy ===== *)
theory Startup
  imports Injector Configuration
begin

text \<open>
  What the process registers when it starts and releases when it stops: \<open>app/injector/main_injector.py\<close> with the
  modules of the cloud providers, and \<open>app/lifespan.py\<close>.  The printed names of the interfaces (\<open>str\<close> of a class,
  most of them of third-party packages), whether a path exists, the context of a request and the resolution of its
  tenant are parameters.  Builders read the configuration when they run; here they read the one of the start.
\<close>

section \<open>Interfaces, builders and objects\<close>

datatype interface =
    StorageRecordServiceClient | SearchServiceClient | SchemaServiceClient | BulkIO | BlobStorageBase | SessionsStorage

datatype builder =
    Build_storage_service_client | Build_search_service_client | Build_schema_service_client | Build_bulk_io
  | Build_az_blob_storage | Build_gc_blob_storage | Build_ibm_blob_storage | Build_aws_storage | Build_baremetal_storage
  | Make_sessions_storage
  | Storage_service_on_localfs string
  | Localfs_blob_storage string

record client_settings =
  cs_host :: "conf_value option"
  cs_timeout :: "conf_value option"
  cs_max_connections :: "conf_value option"
  cs_max_keepalive_connections :: "conf_value option"

datatype service_object =
    RecordsApi client_settings | SearchApi client_settings | SchemaApi client_settings
  | BulkIOWdmsWorker "conf_value option"
  | AzureAioBlobStorage | GCloudAioStorage string | IBMObjectStorage string | AwsStorage string | S3Storage
  | LocalFSBlobStorage string
  | StorageRecordServiceBlobStorage service_object string string
  | SessionsStorage_on "service_object option"

type_synonym 'w app_injector = "(builder, service_object, 'w) injector"

record 'w builder_env =
  bl_heap :: "EnvVar list"
  bl_config :: container
  bl_current_partition :: "(exn, 'w, string option) prog"
    \<comment> \<open>\<open>Context.current().partition_id\<close>\<close>
  bl_tenant_credentials :: "string option \<Rightarrow> (exn, 'w, string) prog"
    \<comment> \<open>the credentials of \<open>await resolve_tenant(partition_id)\<close>\<close>
  bl_key :: "interface \<Rightarrow> string"
    \<comment> \<open>\<open>_key_from_type\<close>\<close>
  bl_path_exists :: "string \<Rightarrow> bool"

definition config_value :: "'w builder_env \<Rightarrow> string \<Rightarrow> conf_value option" where
  "config_value env name = env_attr (bl_heap env) (bl_config env) name"

definition value_text :: "conf_value option \<Rightarrow> string" where
  "value_text v = (case v of None \<Rightarrow> ''None'' | Some x \<Rightarrow> value_str x)"

section \<open>Builders (main_injector.py and the modules of the providers)\<close>

definition client_settings_for :: "'w builder_env \<Rightarrow> string \<Rightarrow> client_settings" where
  \<comment> \<open>the arguments that the three clients get; no caller passes a host of its own\<close>
  "client_settings_for env host = \<lparr>cs_host = config_value env host,
     cs_timeout = config_value env ''de_client_config_timeout'',
     cs_max_connections = config_value env ''de_client_config_max_connection'',
     cs_max_keepalive_connections = config_value env ''de_client_config_max_keepalive''\<rparr>"

definition on_inj_world :: "(exn, 'w, 'a) prog \<Rightarrow> (exn, 'w app_injector, 'a) prog" where
  "on_inj_world m s = (case m (inj_world s) of (r, w) \<Rightarrow> (r, s\<lparr>inj_world := w\<rparr>))"

definition tenant_storage :: "'w builder_env \<Rightarrow> (string \<Rightarrow> service_object) \<Rightarrow> (exn, 'w app_injector, service_object option) prog" where
  \<comment> \<open>the body that \<open>build_gc_blob_storage\<close> and \<open>build_ibm_blob_storage\<close> share\<close>
  "tenant_storage env mk = bindM (on_inj_world (bl_current_partition env)) (\<lambda>p.
     bindM (on_inj_world (bl_tenant_credentials env p)) (\<lambda>credentials. returnM (Some (mk credentials))))"

fun run_builder :: "'w builder_env \<Rightarrow> nat \<Rightarrow> builder \<Rightarrow> (exn, 'w app_injector, service_object option) prog" where
  \<comment> \<open>the number bounds how often builders may ask the container for other objects\<close>
  "run_builder env n Build_storage_service_client = returnM (Some (RecordsApi (client_settings_for env ''service_host_storage'')))"
| "run_builder env n Build_search_service_client = returnM (Some (SearchApi (client_settings_for env ''service_host_search'')))"
| "run_builder env n Build_schema_service_client = returnM (Some (SchemaApi (client_settings_for env ''service_host_schema'')))"
| "run_builder env n Build_bulk_io = returnM (Some (BulkIOWdmsWorker (config_value env ''service_host_wdms_worker'')))"
| "run_builder env n Build_az_blob_storage = returnM (Some AzureAioBlobStorage)"
| "run_builder env n Build_gc_blob_storage = tenant_storage env GCloudAioStorage"
| "run_builder env n Build_ibm_blob_storage = tenant_storage env IBMObjectStorage"
| "run_builder env n Build_aws_storage =
     returnM (Some (AwsStorage (value_text (config_value env ''aws_region'') @ ''$$'' @ value_text (config_value env ''aws_env''))))"
| "run_builder env n Build_baremetal_storage = returnM (Some S3Storage)"
| "run_builder env (Suc n) Make_sessions_storage =
     bindM (inj_get (run_builder env n) (bl_key env BlobStorageBase)) (\<lambda>b. returnM (Some (SessionsStorage_on b)))"
| "run_builder env 0 Make_sessions_storage = raiseM (OtherException ''RecursionError'')"
| "run_builder env n (Storage_service_on_localfs path) =
     returnM (Some (StorageRecordServiceBlobStorage (LocalFSBlobStorage path) ''p'' ''c''))"
| "run_builder env n (Localfs_blob_storage path) = returnM (Some (LocalFSBlobStorage path))"

section \<open>Registration\<close>

definition register_builder :: "'w builder_env \<Rightarrow> interface \<Rightarrow> builder \<Rightarrow> lifetime \<Rightarrow> (exn, 'w app_injector, unit) prog" where
  \<comment> \<open>every builder is a coroutine function\<close>
  "register_builder env i b lt = register (\<lambda>_. True) (bl_key env i) b lt"

definition provider_injector :: "string \<Rightarrow> builder option" where
  \<comment> \<open>what \<open>configure\<close> of the module of a provider registers for the blob storage\<close>
  "provider_injector provider = map_of [(''az'', Build_az_blob_storage), (''gc'', Build_gc_blob_storage),
     (''ibm'', Build_ibm_blob_storage), (''aws'', Build_aws_storage), (''baremetal'', Build_baremetal_storage)] provider"

definition configure_provider :: "'w builder_env \<Rightarrow> (exn, 'w app_injector, unit) prog" where
  "configure_provider env = (case config_value env ''cloud_provider'' of
       Some (CStr p) \<Rightarrow> (case provider_injector p of
         Some b \<Rightarrow> register_builder env BlobStorageBase b Transient
       | None \<Rightarrow> returnM ())
     | _ \<Rightarrow> returnM ())"

definition config_path :: "'w builder_env \<Rightarrow> string \<Rightarrow> string option" where
  \<comment> \<open>\<open>Config.get(name)\<close> where it is not empty\<close>
  "config_path env name = (case conf_get (bl_heap env) (bl_config env) name None of
       Some (CStr (x # xs)) \<Rightarrow> Some (x # xs) | _ \<Rightarrow> None)"

definition dev_mode :: "'w builder_env \<Rightarrow> bool" where
  "dev_mode env \<longleftrightarrow> config_value env ''dev_mode'' = Some (CBool True)"

definition overriders :: "'w builder_env \<Rightarrow> (exn, 'w app_injector, unit) prog" where
  "overriders env = (if \<not> dev_mode env then returnM () else
     bindM (case config_path env ''USE_INTERNAL_STORAGE_SERVICE_WITH_PATH'' of
         None \<Rightarrow> returnM ()
       | Some path \<Rightarrow> if \<not> bl_path_exists env path then raiseM AssertionError
           else register_builder env StorageRecordServiceClient (Storage_service_on_localfs path) Transient) (\<lambda>_.
     case config_path env ''USE_LOCALFS_BLOB_STORAGE_WITH_PATH'' of
         None \<Rightarrow> returnM ()
       | Some path \<Rightarrow> register_builder env BlobStorageBase (Localfs_blob_storage path) Transient))"

definition MainInjector_configure :: "'w builder_env \<Rightarrow> (exn, 'w app_injector, unit) prog" where
  "MainInjector_configure env =
     bindM (register_builder env StorageRecordServiceClient Build_storage_service_client (Singleton 0)) (\<lambda>_.
     bindM (register_builder env SearchServiceClient Build_search_service_client (Singleton 1)) (\<lambda>_.
     bindM (register_builder env SchemaServiceClient Build_schema_service_client (Singleton 2)) (\<lambda>_.
     bindM (register_builder env BulkIO Build_bulk_io (Singleton 3)) (\<lambda>_.
     bindM (configure_provider env) (\<lambda>_.
     bindM (register_builder env SessionsStorage Make_sessions_storage Transient) (\<lambda>_.
     overriders env))))))"

section \<open>Start and stop (lifespan.py)\<close>

definition new_injector :: "'w \<Rightarrow> 'w app_injector" where
  "new_injector w = \<lparr>factory_dict = [], singletons = (\<lambda>_. None), inj_world = w\<rparr>"

definition startup_event :: "nat \<times> nat \<Rightarrow> 'w builder_env \<Rightarrow> (exn, 'w app_injector, unit) prog" where
  \<comment> \<open>the first argument is \<open>sys.version_info\<close>; logger and tracer are left out\<close>
  "startup_event version env =
     (if \<not> (3 < fst version \<or> fst version = 3 \<and> 12 \<le> snd version) then raiseM AssertionError else
      bindM (liftM (check_environment (bl_path_exists env) (bl_heap env) (bl_config env))) (\<lambda>_. MainInjector_configure env))"

definition app_get :: "'w builder_env \<Rightarrow> interface \<Rightarrow> (exn, 'w app_injector, service_object option) prog" where
  "app_get env i = inj_get (run_builder env 1) (bl_key env i)"

definition has_api_client :: "service_object \<Rightarrow> bool" where
  "has_api_client ob = (case ob of RecordsApi _ \<Rightarrow> True | SearchApi _ \<Rightarrow> True | _ \<Rightarrow> False)"

definition close_api_client :: "(service_object \<Rightarrow> (exn, 'w, unit) prog) \<Rightarrow> service_object option \<Rightarrow> (exn, 'w app_injector, unit) prog" where
  "close_api_client close ob = (case ob of
       Some c \<Rightarrow> if has_api_client c then on_inj_world (close c) else returnM ()
     | None \<Rightarrow> returnM ())"

definition worker_close :: "(exn, 'w app_injector, unit) prog" where
  \<comment> \<open>\<open>BulkIOWdmsWorker.close\<close> calls \<open>aclose()\<close>, a coroutine function, and drops the coroutine: nothing is closed\<close>
  "worker_close = returnM ()"

definition shutdown_event :: "(service_object \<Rightarrow> (exn, 'w, unit) prog) \<Rightarrow> 'w builder_env \<Rightarrow> (exn, 'w app_injector, unit) prog" where
  "shutdown_event close env =
     bindM (app_get env StorageRecordServiceClient) (\<lambda>storage_client.
     bindM (close_api_client close storage_client) (\<lambda>_.
     bindM (app_get env SearchServiceClient) (\<lambda>search_client.
     bindM (close_api_client close search_client) (\<lambda>_.
     bindM (app_get env BulkIO) (\<lambda>bulk_client. case bulk_client of None \<Rightarrow> returnM () | Some _ \<Rightarrow> worker_close)))))"

section \<open>Properties\<close>

definition main_builder :: "interface \<Rightarrow> builder" where
  "main_builder i = (case i of StorageRecordServiceClient \<Rightarrow> Build_storage_service_client | SearchServiceClient \<Rightarrow> Build_search_service_client
     | SchemaServiceClient \<Rightarrow> Build_schema_service_client | BulkIO \<Rightarrow> Build_bulk_io | _ \<Rightarrow> Make_sessions_storage)"

definition service_of :: "'w builder_env \<Rightarrow> interface \<Rightarrow> service_object option" where
  "service_of env i = (case i of
       StorageRecordServiceClient \<Rightarrow> Some (RecordsApi (client_settings_for env ''service_host_storage''))
     | SearchServiceClient \<Rightarrow> Some (SearchApi (client_settings_for env ''service_host_search''))
     | SchemaServiceClient \<Rightarrow> Some (SchemaApi (client_settings_for env ''service_host_schema''))
     | BulkIO \<Rightarrow> Some (BulkIOWdmsWorker (config_value env ''service_host_wdms_worker''))
     | _ \<Rightarrow> None)"

lemma register_builder_run:
  "register_builder env i b lt s = (Inr (), (snd (make_lifetime lt b s))\<lparr>factory_dict :=
     AList.update (bl_key env i) (fst (make_lifetime lt b s)) (factory_dict (snd (make_lifetime lt b s)))\<rparr>)"
  by (simp add: register_builder_def register_def split: prod.splits)

lemma make_lifetime_simps:
  "fst (make_lifetime Transient b s) = Builder b" "snd (make_lifetime Transient b s) = s"
  "fst (make_lifetime (Singleton n) b s) = SingletonCall n"
  "factory_dict (snd (make_lifetime (Singleton n) b s)) = factory_dict s"
  "inj_world (snd (make_lifetime (Singleton n) b s)) = inj_world s"
  "singletons (snd (make_lifetime (Singleton n) b s)) = (singletons s)(n \<mapsto> \<lparr>sg_builder_fn = b,
      sg_instance = (case singletons s n of Some sg \<Rightarrow> sg_instance sg | None \<Rightarrow> None)\<rparr>)"
  by (simp_all add: make_lifetime_def)

lemma configured:
  assumes "inj (bl_key env)" and "\<not> dev_mode env" and "MainInjector_configure env (new_injector w) = (Inr (), s)"
    and "config_value env ''cloud_provider'' = Some (CStr p)"
  shows "map_of (factory_dict s) (bl_key env StorageRecordServiceClient) = Some (SingletonCall 0)
    \<and> map_of (factory_dict s) (bl_key env SearchServiceClient) = Some (SingletonCall 1)
    \<and> map_of (factory_dict s) (bl_key env SchemaServiceClient) = Some (SingletonCall 2)
    \<and> map_of (factory_dict s) (bl_key env BulkIO) = Some (SingletonCall 3)
    \<and> map_of (factory_dict s) (bl_key env SessionsStorage) = Some (Builder Make_sessions_storage)
    \<and> map_of (factory_dict s) (bl_key env BlobStorageBase) = map_option Builder (provider_injector p)
    \<and> singletons s 0 = Some \<lparr>sg_builder_fn = Build_storage_service_client, sg_instance = None\<rparr>
    \<and> singletons s 1 = Some \<lparr>sg_builder_fn = Build_search_service_client, sg_instance = None\<rparr>
    \<and> singletons s 2 = Some \<lparr>sg_builder_fn = Build_schema_service_client, sg_instance = None\<rparr>
    \<and> singletons s 3 = Some \<lparr>sg_builder_fn = Build_bulk_io, sg_instance = None\<rparr> \<and> inj_world s = w"
  using assms(3,4)
  by (cases "provider_injector p")
    (auto simp: MainInjector_configure_def bindM_run register_builder_run configure_provider_def overriders_def assms(2)
      make_lifetime_simps new_injector_def update_conv' inj_eq [OF assms(1)])

lemma singleton_first_get:
  assumes "map_of (factory_dict s) (bl_key env i) = Some (SingletonCall n)"
    and "singletons s n = Some \<lparr>sg_builder_fn = b, sg_instance = None\<rparr>" and "run_builder env 1 b s = (Inr (Some ob), s)"
  shows "\<exists>s'. app_get env i s = (Inr (Some ob), s')"
  using assms by (simp add: app_get_def inj_get_def singleton_call_def)

text \<open>C14: A process that has started outside of the developer mode has its services.  When the configuration is loaded
  from an environment and the start succeeds, the cloud provider is one of the known ones and the clients of the
  storage, search and schema services and of the worker can be had from the container, with the hosts of the
  configuration, which are defined for the first three.  The storage of the sessions stands on the blob storage of the
  provider, built for every request; only for the provider \<open>local\<close>, which the check of the environment accepts, there
  is no blob storage and the storage of the sessions is a key error.\<close>

theorem started_services:
  assumes "inj (bl_key env)" and "with_load_all e static_heap = (Inr (bl_config env), bl_heap env)" and "\<not> dev_mode env"
    and "startup_event version env (new_injector w) = (Inr (), s)"
  shows "(\<forall>i ob. service_of env i = Some ob \<longrightarrow> (\<exists>s'. app_get env i s = (Inr (Some ob), s')))
    \<and> (\<forall>x\<in>host_names. config_value env x \<noteq> None)
    \<and> (\<exists>p\<in>set providers. config_value env ''cloud_provider'' = Some (CStr p)
        \<and> (case provider_injector p of
             None \<Rightarrow> p = ''local'' \<and> app_get env SessionsStorage s = (Inl KeyError, s)
           | Some b \<Rightarrow> app_get env SessionsStorage s = (case run_builder env 0 b s of
               (Inl err, s') \<Rightarrow> (Inl err, s') | (Inr x, s') \<Rightarrow> (Inr (Some (SessionsStorage_on x)), s'))))"
proof -
  from assms(4) have chk: "check_environment (bl_path_exists env) (bl_heap env) (bl_config env) = Inr ()"
    and run: "MainInjector_configure env (new_injector w) = (Inr (), s)"
    by (auto simp: startup_event_def bindM_Inr_iff split: if_splits)
  have dev: "env_attr (bl_heap env) (bl_config env) ''dev_mode'' \<noteq> Some (CBool True)"
    using assms(3) by (simp add: dev_mode_def config_value_def)
  from environment_checked [OF assms(2) chk dev] obtain p where p: "p \<in> set providers"
    "config_value env ''cloud_provider'' = Some (CStr p)" and hosts: "\<forall>x\<in>host_names. config_value env x \<noteq> None"
    by (auto simp: config_value_def)
  note conf = configured [OF assms(1,3) run p(2)]
  have "\<exists>s'. app_get env i s = (Inr (Some ob), s')" if "service_of env i = Some ob" for i ob
    using that conf by (cases i) (auto simp: service_of_def intro!: singleton_first_get)
  moreover have "provider_injector p = None \<longrightarrow> p = ''local''" using p(1) by (auto simp: providers_def provider_injector_def)
  moreover have "case provider_injector p of
      None \<Rightarrow> app_get env SessionsStorage s = (Inl KeyError, s)
    | Some b \<Rightarrow> app_get env SessionsStorage s = (case run_builder env 0 b s of
               (Inl err, s') \<Rightarrow> (Inl err, s') | (Inr x, s') \<Rightarrow> (Inr (Some (SessionsStorage_on x)), s'))"
    using conf by (cases "provider_injector p") (simp_all add: app_get_def inj_get_def bindM_run split: prod.split sum.split)
  ultimately have "(\<forall>i ob. service_of env i = Some ob \<longrightarrow> (\<exists>s'. app_get env i s = (Inr (Some ob), s')))
    \<and> (case provider_injector p of
             None \<Rightarrow> p = ''local'' \<and> app_get env SessionsStorage s = (Inl KeyError, s)
           | Some b \<Rightarrow> app_get env SessionsStorage s = (case run_builder env 0 b s of
               (Inl err, s') \<Rightarrow> (Inl err, s') | (Inr x, s') \<Rightarrow> (Inr (Some (SessionsStorage_on x)), s')))"
    by (cases "provider_injector p") (simp_all del: not_None_eq)
  with p hosts show ?thesis by blast
qed

definition test_key :: "interface \<Rightarrow> string" where
  "test_key i = (case i of StorageRecordServiceClient \<Rightarrow> ''storage'' | SearchServiceClient \<Rightarrow> ''search'' | SchemaServiceClient \<Rightarrow> ''schema''
     | BulkIO \<Rightarrow> ''bulk'' | BlobStorageBase \<Rightarrow> ''blob'' | SessionsStorage \<Rightarrow> ''sessions'')"

definition test_builder_env :: "EnvVar list \<Rightarrow> container \<Rightarrow> unit builder_env" where
  "test_builder_env h c = \<lparr>bl_heap = h, bl_config = c, bl_current_partition = returnM None,
     bl_tenant_credentials = (\<lambda>_. returnM ''credentials''), bl_key = test_key, bl_path_exists = (\<lambda>_. False)\<rparr>"

lemma test_startup:
  "(case with_load_all (test_environment ''h'') static_heap of (Inr c, h) \<Rightarrow>
      \<not> dev_mode (test_builder_env h c) \<and> config_value (test_builder_env h c) ''cloud_provider'' = Some (CStr ''local'')
      \<and> isOk (fst (startup_event (3, 13) (test_builder_env h c) (new_injector ())))
    | _ \<Rightarrow> False)"
  by code_simp

theorem started_services_witness:
  "\<exists>h c s. config_value (test_builder_env h c) ''cloud_provider'' = Some (CStr ''local'')
     \<and> startup_event (3, 13) (test_builder_env h c) (new_injector ()) = (Inr (), s)
     \<and> app_get (test_builder_env h c) SessionsStorage s = (Inl KeyError, s)"
proof -
  obtain c h where load: "with_load_all (test_environment ''h'') static_heap = (Inr c, h)"
    and dev: "\<not> dev_mode (test_builder_env h c)"
    and p: "config_value (test_builder_env h c) ''cloud_provider'' = Some (CStr ''local'')"
    and ok: "fst (startup_event (3, 13) (test_builder_env h c) (new_injector ())) = Inr ()"
    using test_startup by (auto simp: isOk_def split: prod.splits sum.splits)
  obtain s where start: "startup_event (3, 13) (test_builder_env h c) (new_injector ()) = (Inr (), s)"
    using ok by (cases "startup_event (3, 13) (test_builder_env h c) (new_injector ())") simp
  have key: "inj (bl_key (test_builder_env h c))"
    by (rule injI) (auto simp: test_builder_env_def test_key_def split: interface.splits)
  have load': "with_load_all (test_environment ''h'') static_heap = (Inr (bl_config (test_builder_env h c)), bl_heap (test_builder_env h c))"
    using load by (simp add: test_builder_env_def)
  have "provider_injector ''local'' = None" by code_simp
  with started_services [OF key load' dev start] p start show ?thesis by fastforce
qed

end
