(* ===== verification/Descriptor_Parser.thy ===== *)
theory Descriptor_Parser
  imports Py_Values
begin

text \<open>
  The parser of the service descriptor \<open>.spi/service.yaml\<close>, the first part of
  \<open>.github/scripts/service-config/descriptor.py\<close>: a strict subset of YAML with block mappings, block and flow
  sequences of scalars, comments and quoted and plain scalars.  Parsed values are the Python values of
  \<open>Py_Values\<close>.  The loops over the indexed lines are recursions over the lines that are left; the recursion between
  blocks is bounded by fuel, and \<open>parse\<close> is shown never to run out of it.  What a message quotes of the
  descriptor is left out of the message.
\<close>

section \<open>Errors, bounds and strings\<close>

datatype descriptor_error =
    DescriptorError string "nat option"
  | IntegerTooLong
    \<comment> \<open>the \<open>ValueError\<close> of \<open>int\<close> on more digits than the interpreter converts\<close>
  | OutOfFuel

type_synonym 'a dres = "descriptor_error + 'a"

definition MAX_BYTES :: nat where "MAX_BYTES = 65536"

definition MAX_LINES :: nat where "MAX_LINES = 500"

definition MAX_DEPTH :: nat where "MAX_DEPTH = 6"

definition MAX_ITEMS :: nat where "MAX_ITEMS = 50"

definition fail_at :: "string \<Rightarrow> nat \<Rightarrow> 'a dres" where
  "fail_at message number = Inl (DescriptorError message (Some number))"

definition utf8_length :: "string \<Rightarrow> nat" where
  \<comment> \<open>\<open>len(text.encode("utf-8"))\<close>\<close>
  "utf8_length s = sum_list (map (\<lambda>c. if code c < 128 then 1 else 2) s)"

definition is_line_break :: "char \<Rightarrow> bool" where
  "is_line_break c \<longleftrightarrow> code c \<in> {10, 11, 12, 13, 28, 29, 30, 133}"

fun splitlines :: "string \<Rightarrow> string list" where
  "splitlines [] = []"
| "splitlines (c # cs) =
     (if is_line_break c then
        [] # (if code c = 13 \<and> cs \<noteq> [] \<and> code (hd cs) = 10 then splitlines (tl cs) else splitlines cs)
      else (case splitlines cs of [] \<Rightarrow> [[c]] | l # ls \<Rightarrow> (c # l) # ls))"

definition rstrip :: "string \<Rightarrow> string" where
  "rstrip s = rev (dropWhile py_isspace (rev s))"

definition key_start :: "char \<Rightarrow> bool" where
  "key_start c \<longleftrightarrow> (let n = code c in 65 \<le> n \<and> n \<le> 90 \<or> 97 \<le> n \<and> n \<le> 122 \<or> 48 \<le> n \<and> n \<le> 57 \<or> n = 95)"

definition valid_key :: "string \<Rightarrow> bool" where
  \<comment> \<open>\<open>_KEY_RE\<close>, on a string without white space at its end\<close>
  "valid_key s = (case s of [] \<Rightarrow> False | c # cs \<Rightarrow> key_start c \<and> list_all (\<lambda>d. key_start d \<or> d = CHR ''-'') cs)"

definition is_integer :: "string \<Rightarrow> bool" where
  \<comment> \<open>\<open>_INT_RE\<close>, on a string without white space at its end\<close>
  "is_integer s = (let d = (case s of CHR ''-'' # r \<Rightarrow> r | _ \<Rightarrow> s) in d \<noteq> [] \<and> list_all is_digit d)"

definition looks_like_number :: "string \<Rightarrow> bool" where
  \<comment> \<open>\<open>^-?[0-9]+\.[0-9]\<close>\<close>
  "looks_like_number s = (let d = (case s of CHR ''-'' # r \<Rightarrow> r | _ \<Rightarrow> s); r = dropWhile is_digit d in
     d \<noteq> r \<and> (case r of CHR ''.'' # c # _ \<Rightarrow> is_digit c | _ \<Rightarrow> False))"

definition PLAIN_FORBIDDEN_START :: string where
  "PLAIN_FORBIDDEN_START = ''&*!|>%@'' @ [CHR 0x60] @ ''{}[],?''"

definition unsupported_words :: "string list" where
  "unsupported_words = [''null'', ''~'', ''Null'', ''NULL'', ''True'', ''False'', ''yes'', ''no'', ''on'', ''off'']"

section \<open>Comments and scalars\<close>

fun strip_comment_from :: "char option \<Rightarrow> char option \<Rightarrow> string \<Rightarrow> string option" where
  \<comment> \<open>the loop of \<open>_strip_comment\<close>, with the character before and the open quote; \<open>None\<close> when the quote stays open\<close>
  "strip_comment_from before quote [] = (if quote = None then Some [] else None)"
| "strip_comment_from before (Some q) (c # cs) =
     map_option (Cons c) (strip_comment_from (Some c) (if c = q then None else Some q) cs)"
| "strip_comment_from before None (c # cs) =
     (if c = CHR 0x22 \<or> c = CHR 0x27 then map_option (Cons c) (strip_comment_from (Some c) (Some c) cs)
      else if c = CHR 0x23 \<and> (before = None \<or> before = Some (CHR '' '') \<or> before = Some (CHR 0x09)) then Some []
      else map_option (Cons c) (strip_comment_from (Some c) None cs))"

definition strip_comment :: "string \<Rightarrow> nat \<Rightarrow> string dres" where
  "strip_comment raw number = (case strip_comment_from None None raw of
       None \<Rightarrow> fail_at ''unterminated quoted string'' number
     | Some out \<Rightarrow> Inr (rstrip out))"

definition parse_double_quoted :: "string \<Rightarrow> nat \<Rightarrow> string dres" where
  "parse_double_quoted raw number =
     (if length raw < 2 \<or> last raw \<noteq> CHR 0x22 then fail_at ''unterminated quoted string'' number
      else let body = butlast (tl raw);
               quote = [CHR 0x5C, CHR 0x22]; backslash = [CHR 0x5C, CHR 0x5C] in
        if CHR 0x5C \<in> set (py_replace backslash [] (py_replace quote [] body))
        then fail_at ''escape sequences are not supported'' number
        else Inr (py_replace backslash [CHR 0x5C] (py_replace quote [CHR 0x22] body)))"

definition parse_single_quoted :: "string \<Rightarrow> nat \<Rightarrow> string dres" where
  "parse_single_quoted raw number =
     (if length raw < 2 \<or> last raw \<noteq> CHR 0x27 then fail_at ''unterminated quoted string'' number
      else Inr (py_replace [CHR 0x27, CHR 0x27] [CHR 0x27] (butlast (tl raw))))"

definition parse_scalar :: "string \<Rightarrow> nat \<Rightarrow> pyval dres" where
  "parse_scalar raw number = (case raw of
       [] \<Rightarrow> fail_at ''empty value'' number
     | c # _ \<Rightarrow>
         if c = CHR 0x22 then map_sum id PStr (parse_double_quoted raw number)
         else if c = CHR 0x27 then map_sum id PStr (parse_single_quoted raw number)
         else if raw = ''true'' \<or> raw = ''false'' then Inr (PBool (raw = ''true''))
         else if raw \<in> set unsupported_words then fail_at ''not a supported value'' number
         else if is_integer raw then (case py_int raw of Some i \<Rightarrow> Inr (PInt i) | None \<Rightarrow> Inl IntegerTooLong)
         else if c \<in> set PLAIN_FORBIDDEN_START then fail_at ''anchors, tags and block scalars are not supported'' number
         else if looks_like_number raw then fail_at ''looks like a number'' number
         else if py_in '': '' raw \<or> endswith raw '':'' then fail_at ''inline mappings are not supported'' number
         else Inr (PStr raw))"

definition parse_scalar_or_flow :: "string \<Rightarrow> nat \<Rightarrow> pyval dres" where
  "parse_scalar_or_flow raw number =
     (if startswith raw ''['' then
        if \<not> endswith raw '']'' then fail_at ''unterminated flow sequence'' number
        else let inner = strip (butlast (tl raw)) in
          if inner = [] then fail_at ''empty sequences are not allowed'' number
          else bindR (mapR (\<lambda>part. parse_scalar (strip part) number) (split_char (CHR '','') inner)) (\<lambda>items.
            if MAX_ITEMS < length items then fail_at ''sequence has more than 50 items'' number else Inr (PList items))
      else parse_scalar raw number)"

section \<open>Blocks\<close>

type_synonym yaml_line = "nat \<times> string \<times> nat"
  \<comment> \<open>indentation, content and number of a line\<close>

definition is_item :: "string \<Rightarrow> bool" where
  "is_item content = startswith content ''- ''"

fun parse_sequence :: "yaml_line list \<Rightarrow> nat \<Rightarrow> nat \<Rightarrow> (pyval list \<times> yaml_line list) dres" where
  \<comment> \<open>the second argument is the indentation, the third the number of items so far\<close>
  "parse_sequence [] indent n = Inr ([], [])"
| "parse_sequence ((line_indent, content, number) # rest) indent n =
     (if line_indent < indent then Inr ([], (line_indent, content, number) # rest)
      else if indent < line_indent \<or> \<not> is_item content then fail_at ''unexpected indentation in sequence'' number
      else let item = strip (drop 2 content) in
        if item = [] then fail_at ''sequence item has no value'' number
        else if CHR '':'' \<in> set item \<and> hd item \<noteq> CHR 0x22 \<and> hd item \<noteq> CHR 0x27
        then fail_at ''sequences of mappings are not supported'' number
        else bindR (parse_scalar_or_flow item number) (\<lambda>v.
          if MAX_ITEMS < n + 1 then fail_at ''sequence has more than 50 items'' number
          else bindR (parse_sequence rest indent (n + 1)) (\<lambda>(vs, rest'). Inr (v # vs, rest'))))"

fun split_at_colon :: "string \<Rightarrow> (string \<times> string) option" where
  \<comment> \<open>\<open>content.partition(":")\<close>; \<open>None\<close> without a colon\<close>
  "split_at_colon [] = None"
| "split_at_colon (c # cs) = (if c = CHR '':'' then Some ([], cs) else map_option (\<lambda>(a, b). (c # a, b)) (split_at_colon cs))"

fun parse_block :: "nat \<Rightarrow> nat \<Rightarrow> nat \<Rightarrow> yaml_line list \<Rightarrow> (pyval \<times> yaml_line list) dres"
  and parse_mapping :: "nat \<Rightarrow> nat \<Rightarrow> nat \<Rightarrow> string list \<Rightarrow> yaml_line list \<Rightarrow> ((string \<times> pyval) list \<times> yaml_line list) dres" where
  \<comment> \<open>fuel, indentation and depth; a mapping also has the keys seen so far\<close>
  "parse_block 0 indent depth ls = Inl OutOfFuel"
| "parse_block (Suc f) indent depth ls = (case ls of
       [] \<Rightarrow> Inl OutOfFuel
         \<comment> \<open>no call has no line\<close>
     | (_, content, number) # _ \<Rightarrow>
         if MAX_DEPTH < depth then fail_at ''descriptor nests too deeply'' number
         else if is_item content then bindR (parse_sequence ls indent 0) (\<lambda>(vs, rest). Inr (PList vs, rest))
         else bindR (parse_mapping f indent depth [] ls) (\<lambda>(m, rest). Inr (PDict m, rest)))"
| "parse_mapping 0 indent depth seen ls = Inl OutOfFuel"
| "parse_mapping (Suc f) indent depth seen ls = (case ls of
       [] \<Rightarrow> Inr ([], [])
     | (line_indent, content, number) # rest \<Rightarrow>
         if line_indent < indent then Inr ([], ls)
         else if indent < line_indent then fail_at ''unexpected indentation'' number
         else if is_item content then fail_at ''unexpected sequence item inside a mapping'' number
         else (case split_at_colon content of
           None \<Rightarrow> fail_at ''invalid mapping key'' number
         | Some (k, remainder) \<Rightarrow>
             if \<not> valid_key (strip k) then fail_at ''invalid mapping key'' number
             else let key = strip k in
               if key \<in> set seen then fail_at ''duplicate key'' number
               else bindR
                 (if strip remainder \<noteq> [] then bindR (parse_scalar_or_flow (strip remainder) number) (\<lambda>v. Inr (v, rest))
                  else (case rest of
                    [] \<Rightarrow> fail_at ''key has no value'' number
                  | (child_indent, child, child_number) # _ \<Rightarrow>
                      if child_indent \<le> line_indent then fail_at ''key has no value'' number
                      else if (if is_item child then child_indent \<notin> {line_indent, line_indent + 2} else child_indent \<noteq> line_indent + 2)
                      then fail_at ''unexpected indentation'' child_number
                      else parse_block f child_indent (depth + 1) rest)) (\<lambda>(v, rest').
               bindR (parse_mapping f indent depth (key # seen) rest') (\<lambda>(m, rest''). Inr ((key, v) # m, rest'')))))"

section \<open>The document\<close>

fun scan_lines :: "nat \<Rightarrow> bool \<Rightarrow> bool \<Rightarrow> string list \<Rightarrow> yaml_line list dres" where
  \<comment> \<open>the number of the next line, \<open>seen_document_start\<close>, and whether there are lines before\<close>
  "scan_lines number seen some [] = Inr []"
| "scan_lines number seen some (raw # raws) =
     bindR (strip_comment raw number) (\<lambda>stripped.
       let content = strip stripped in
       if content = [] then scan_lines (number + 1) seen some raws
       else if content = ''---'' then
         (if seen \<or> some then fail_at ''multiple YAML documents are not supported'' number
          else scan_lines (number + 1) True some raws)
       else if content = ''...'' then fail_at ''document end markers are not supported'' number
       else let indent = length (takeWhile (\<lambda>c. c = CHR '' '') stripped) in
         if indent mod 2 \<noteq> 0 then fail_at ''indentation must be a multiple of two spaces'' number
         else bindR (scan_lines (number + 1) seen True raws) (\<lambda>ls. Inr ((indent, content, number) # ls)))"

definition parse_fuel :: "yaml_line list \<Rightarrow> nat" where
  "parse_fuel ls = 2 * length ls + 2"

definition document_of :: "pyval \<Rightarrow> yaml_line list \<Rightarrow> (string \<times> pyval) list dres" where
  \<comment> \<open>the last checks of \<open>parse\<close>\<close>
  "document_of value rest = (case rest of
       (_, _, number) # _ \<Rightarrow> fail_at ''unexpected content after the document'' number
     | [] \<Rightarrow> (case value of PDict m \<Rightarrow> Inr m | _ \<Rightarrow> Inl (DescriptorError ''descriptor root must be a mapping'' None)))"

definition parse :: "string \<Rightarrow> (string \<times> pyval) list dres" where
  "parse text =
     (if MAX_BYTES < utf8_length text then Inl (DescriptorError ''descriptor is larger than 64 KiB'' None)
      else if CHR 0x09 \<in> set text then Inl (DescriptorError ''tab characters are not allowed; indent with spaces'' None)
      else let raw_lines = splitlines text in
        if MAX_LINES < length raw_lines then Inl (DescriptorError ''descriptor has more than 500 lines'' None)
        else bindR (scan_lines 1 False False raw_lines) (\<lambda>ls. case ls of
            [] \<Rightarrow> Inl (DescriptorError ''descriptor is empty'' None)
          | (indent, _, number) # _ \<Rightarrow>
              if indent \<noteq> 0 then fail_at ''descriptor must start at column 0'' number
              else bindR (parse_block (parse_fuel ls) 0 1 ls) (\<lambda>(value, rest). document_of value rest)))"

section \<open>What the parser reads\<close>

abbreviation one_line :: "string \<Rightarrow> bool" where
  "one_line s \<equiv> list_all (\<lambda>c. \<not> is_line_break c) s"

definition lines_ok :: "yaml_line list \<Rightarrow> bool" where
  "lines_ok ls \<longleftrightarrow> list_all (\<lambda>(_, content, _). one_line content) ls"

definition scalar_ok :: "pyval \<Rightarrow> bool" where
  "scalar_ok v = (case v of PStr s \<Rightarrow> one_line s | PInt _ \<Rightarrow> True | PBool _ \<Rightarrow> True | _ \<Rightarrow> False)"

definition items_ok :: "(pyval \<Rightarrow> bool) \<Rightarrow> pyval list \<Rightarrow> bool" where
  "items_ok P l \<longleftrightarrow> l \<noteq> [] \<and> length l \<le> MAX_ITEMS \<and> list_all P l"

definition flow_ok :: "pyval \<Rightarrow> bool" where
  "flow_ok v \<longleftrightarrow> scalar_ok v \<or> (\<exists>l. v = PList l \<and> items_ok scalar_ok l)"

primrec node_ok :: "nat \<Rightarrow> pyval \<Rightarrow> bool" where
  \<comment> \<open>a value that nests at most so many blocks\<close>
  "node_ok 0 v = flow_ok v"
| "node_ok (Suc d) v \<longleftrightarrow> flow_ok v \<or> (\<exists>l. v = PList l \<and> items_ok flow_ok l)
     \<or> (\<exists>m. v = PDict m \<and> m \<noteq> [] \<and> distinct (map fst m) \<and> list_all (\<lambda>(k, w). valid_key k \<and> node_ok d w) m)"

lemma one_line_subset: "one_line s \<Longrightarrow> set t \<subseteq> set s \<Longrightarrow> one_line t"
  by (auto simp: list_all_iff)

lemma set_strip: "set (strip s) \<subseteq> set s"
  by (simp add: strip_def set_strip_chars)

lemma one_line_strip: "one_line s \<Longrightarrow> one_line (strip s)"
  using one_line_subset set_strip by blast

lemma set_py_replace: "set (py_replace old new s) \<subseteq> set new \<union> set s"
proof (induction old new s rule: py_replace.induct)
  case (2 old new x xs)
  have "set (drop n xs) \<subseteq> set xs" for n by (rule set_drop_subset)
  with 2 show ?case by (auto simp: subset_iff split: if_splits)
qed simp

lemma one_line_replace: "one_line s \<Longrightarrow> one_line new \<Longrightarrow> one_line (py_replace old new s)"
  using set_py_replace [of old new s] by (auto simp: list_all_iff)

lemma one_line_butlast: "one_line s \<Longrightarrow> one_line (butlast s)"
  by (rule one_line_subset) (auto dest: in_set_butlastD)

lemma one_line_tl: "one_line s \<Longrightarrow> one_line (tl s)"
  by (cases s) auto

lemma set_split_char: "p \<in> set (split_char c s) \<Longrightarrow> set p \<subseteq> set s"
proof (induction s arbitrary: p)
  case (Cons x s)
  then show ?case by (cases "split_char c s") (fastforce split: if_splits)+
qed simp

lemma quotes_one_line: "one_line [CHR 0x22]" "one_line [CHR 0x27]" "one_line [CHR 0x5C]"
  by code_simp+

lemma parse_scalar_ok:
  assumes "parse_scalar raw n = Inr v" and "one_line raw"
  shows "scalar_ok v"
  using assms
  by (auto simp: parse_scalar_def parse_double_quoted_def parse_single_quoted_def fail_at_def scalar_ok_def Let_def
      intro!: one_line_replace one_line_butlast quotes_one_line split: list.splits if_splits option.splits)


lemma mapR_all:
  assumes "mapR f xs = Inr ys" and "\<And>x y. x \<in> set xs \<Longrightarrow> f x = Inr y \<Longrightarrow> P y"
  shows "list_all P ys"
proof -
  have "mapR f xs = Inr ys \<Longrightarrow> \<forall>x\<in>set xs. \<forall>y. f x = Inr y \<longrightarrow> P y \<Longrightarrow> list_all P ys"
    by (induction xs arbitrary: ys) (auto simp: bindR_Inr_iff)
  with assms show ?thesis by blast
qed

lemma parse_flow_ok:
  assumes "parse_scalar_or_flow raw n = Inr v" and "one_line raw"
  shows "flow_ok v"
proof (cases "startswith raw ''[''")
  case False
  with assms parse_scalar_ok show ?thesis by (auto simp: parse_scalar_or_flow_def flow_ok_def)
next
  case True
  let ?inner = "strip (butlast (tl raw))"
  from True assms(1) obtain items where items: "mapR (\<lambda>part. parse_scalar (strip part) n) (split_char (CHR '','') ?inner) = Inr items"
    "length items \<le> MAX_ITEMS" "v = PList items"
    by (auto simp: parse_scalar_or_flow_def fail_at_def Let_def bindR_Inr_iff split: if_splits)
  have inner: "one_line ?inner" using assms(2) by (intro one_line_strip one_line_butlast one_line_tl)
  have "list_all scalar_ok items"
  proof (rule mapR_all [OF items(1)])
    fix part y assume part: "part \<in> set (split_char (CHR '','') ?inner)" and y: "parse_scalar (strip part) n = Inr y"
    have "one_line part" by (rule one_line_subset [OF inner set_split_char [OF part]])
    with y show "scalar_ok y" by (intro parse_scalar_ok [OF y] one_line_strip)
  qed
  moreover have "items \<noteq> []" using mapR_length [OF items(1)] by auto
  ultimately show ?thesis using items(2,3) by (auto simp: flow_ok_def items_ok_def)
qed

lemma parse_sequence_ok:
  assumes "parse_sequence ls indent n = Inr (vs, rest)" and "lines_ok ls"
  shows "list_all flow_ok vs \<and> (n \<le> MAX_ITEMS \<longrightarrow> n + length vs \<le> MAX_ITEMS) \<and> lines_ok rest \<and> length rest + length vs = length ls"
  using assms
proof (induction ls arbitrary: n vs)
  case (Cons l ls)
  obtain line_indent content number where l: "l = (line_indent, content, number)" by (cases l)
  show ?case
  proof (cases "line_indent < indent")
    case True
    with Cons.prems l show ?thesis by auto
  next
    case False
    let ?item = "strip (drop 2 content)"
    from False Cons.prems(1) l obtain v vs' where v: "parse_scalar_or_flow ?item number = Inr v"
      and n: "n + 1 \<le> MAX_ITEMS" and vs': "parse_sequence ls indent (n + 1) = Inr (vs', rest)" and vs: "vs = v # vs'"
      by (auto simp: fail_at_def Let_def bindR_Inr_iff split: if_splits)
    have "one_line content" and ok: "lines_ok ls" using Cons.prems(2) l by (auto simp: lines_ok_def)
    then have "one_line ?item" by (intro one_line_strip one_line_subset [OF _ set_drop_subset])
    with v have "flow_ok v" by (rule parse_flow_ok)
    with Cons.IH [OF vs' ok] n vs show ?thesis by auto
  qed
qed auto


section \<open>Blocks are well formed\<close>

definition mapping_ok :: "nat \<Rightarrow> string list \<Rightarrow> (string \<times> pyval) list \<Rightarrow> bool" where
  "mapping_ok d seen m \<longleftrightarrow> distinct (map fst m) \<and> set (map fst m) \<inter> set seen = {} \<and> list_all (\<lambda>(k, w). valid_key k \<and> node_ok d w) m"

lemma node_ok_flow: "flow_ok v \<Longrightarrow> node_ok d v"
  by (cases d) auto

definition starts_at :: "nat \<Rightarrow> yaml_line list \<Rightarrow> bool" where
  "starts_at indent ls = (case ls of [] \<Rightarrow> False | (i, _, _) # _ \<Rightarrow> i = indent)"

lemma parse_mapping_step:
  assumes "parse_mapping (Suc f) indent depth seen ls = Inr (m, rest)"
  shows "(m = [] \<and> rest = ls \<and> \<not> starts_at indent ls) \<or>
    (\<exists>content number ls1 k r v rest' m'. ls = (indent, content, number) # ls1 \<and> split_at_colon content = Some (k, r)
       \<and> valid_key (strip k) \<and> strip k \<notin> set seen
       \<and> ((strip r \<noteq> [] \<and> parse_scalar_or_flow (strip r) number = Inr v \<and> rest' = ls1)
          \<or> (\<exists>i. starts_at i ls1 \<and> parse_block f i (depth + 1) ls1 = Inr (v, rest')))
       \<and> parse_mapping f indent depth (strip k # seen) rest' = Inr (m', rest) \<and> m = (strip k, v) # m')"
proof (cases ls)
  case Nil
  with assms show ?thesis by (simp add: starts_at_def)
next
  case (Cons l ls1)
  obtain li content number where l: "l = (li, content, number)" by (cases l)
  show ?thesis
  proof (cases "li < indent")
    case True
    with assms Cons l show ?thesis by (auto simp: starts_at_def)
  next
    case False
    from assms have li: "li = indent" and ni: "\<not> is_item content"
      using False by (auto simp: Cons l fail_at_def split: if_splits)
    from assms obtain k r where kr: "split_at_colon content = Some (k, r)" "valid_key (strip k)" "strip k \<notin> set seen"
      by (auto simp: Cons l li ni fail_at_def Let_def split: if_splits option.splits)
    note step = assms [unfolded Cons l li, simplified, unfolded kr(1), simplified kr ni Let_def, simplified]
    from step show ?thesis
      unfolding Cons l li
      by (auto simp: kr bindR_Inr_iff fail_at_def starts_at_def split: if_splits list.splits)
  qed
qed


lemma parse_block_step:
  assumes "parse_block (Suc f) indent depth ls = Inr (v, rest)"
  shows "depth \<le> MAX_DEPTH \<and> ((\<exists>vs. parse_sequence ls indent 0 = Inr (vs, rest) \<and> v = PList vs)
    \<or> (\<exists>m. parse_mapping f indent depth [] ls = Inr (m, rest) \<and> v = PDict m))"
  using assms by (auto simp: fail_at_def bindR_Inr_iff simp del: parse_mapping.simps split: list.splits if_splits)

lemma parse_sequence_starts:
  "parse_sequence ls indent n = Inr (vs, rest) \<Longrightarrow> starts_at indent ls \<Longrightarrow> vs \<noteq> []"
  by (cases ls) (auto simp: starts_at_def fail_at_def Let_def bindR_Inr_iff split: if_splits)

lemma set_split_at_colon: "split_at_colon s = Some (a, b) \<Longrightarrow> set b \<subseteq> set s"
  by (induction s arbitrary: a b) (auto split: if_splits)

definition block_inv :: "nat \<Rightarrow> bool" where
  "block_inv f \<longleftrightarrow> (\<forall>indent depth ls v rest. parse_block f indent depth ls = Inr (v, rest) \<longrightarrow> lines_ok ls \<longrightarrow> starts_at indent ls \<longrightarrow>
      node_ok (Suc MAX_DEPTH - depth) v \<and> lines_ok rest \<and> length rest < length ls)"

definition mapping_inv :: "nat \<Rightarrow> bool" where
  "mapping_inv f \<longleftrightarrow> (\<forall>indent depth seen ls m rest. parse_mapping f indent depth seen ls = Inr (m, rest) \<longrightarrow> lines_ok ls \<longrightarrow>
      mapping_ok (MAX_DEPTH - depth) seen m \<and> lines_ok rest \<and> length rest \<le> length ls
      \<and> (starts_at indent ls \<longrightarrow> m \<noteq> [] \<and> length rest < length ls))"

lemma block_inv_Suc:
  assumes "mapping_inv f"
  shows "block_inv (Suc f)"
  unfolding block_inv_def
proof (intro allI impI)
  fix indent depth ls v rest
  assume run: "parse_block (Suc f) indent depth ls = Inr (v, rest)" and ok: "lines_ok ls" and st: "starts_at indent ls"
  from parse_block_step [OF run] have d: "Suc MAX_DEPTH - depth = Suc (MAX_DEPTH - depth)"
    and cases: "(\<exists>vs. parse_sequence ls indent 0 = Inr (vs, rest) \<and> v = PList vs)
      \<or> (\<exists>m. parse_mapping f indent depth [] ls = Inr (m, rest) \<and> v = PDict m)" by auto
  from cases show "node_ok (Suc MAX_DEPTH - depth) v \<and> lines_ok rest \<and> length rest < length ls"
  proof (elim disjE exE conjE)
    fix vs assume vs: "parse_sequence ls indent 0 = Inr (vs, rest)" "v = PList vs"
    have "vs \<noteq> []" using parse_sequence_starts [OF vs(1) st] .
    with parse_sequence_ok [OF vs(1) ok] vs(2) show ?thesis
      unfolding d by (cases vs) (auto simp: items_ok_def)
  next
    fix m assume m: "parse_mapping f indent depth [] ls = Inr (m, rest)" "v = PDict m"
    with assms ok st show ?thesis unfolding d mapping_inv_def mapping_ok_def by fastforce
  qed
qed

lemma mapping_inv_Suc:
  assumes block: "block_inv f" and mapping: "mapping_inv f"
  shows "mapping_inv (Suc f)"
  unfolding mapping_inv_def
proof (intro allI impI)
  fix indent depth seen ls m rest
  assume run: "parse_mapping (Suc f) indent depth seen ls = Inr (m, rest)" and ok: "lines_ok ls"
  let ?goal = "mapping_ok (MAX_DEPTH - depth) seen m \<and> lines_ok rest \<and> length rest \<le> length ls
      \<and> (starts_at indent ls \<longrightarrow> m \<noteq> [] \<and> length rest < length ls)"
  have step: ?goal if ls: "ls = (indent, content, number) # ls1" and k: "valid_key k" "k \<notin> set seen"
    and v: "node_ok (MAX_DEPTH - depth) v" and rest': "lines_ok rest'" "length rest' \<le> length ls1"
    and loop: "parse_mapping f indent depth (k # seen) rest' = Inr (m', rest)" and m: "m = (k, v) # m'"
    for content number ls1 k v rest' m'
  proof -
    have "mapping_ok (MAX_DEPTH - depth) (k # seen) m' \<and> lines_ok rest \<and> length rest \<le> length rest'"
      using mapping loop rest'(1) unfolding mapping_inv_def by blast
    with ls k v rest'(2) m show ?thesis by (auto simp: mapping_ok_def)
  qed
  from parse_mapping_step [OF run] show ?goal
  proof (elim disjE exE conjE)
    assume "m = []" "rest = ls" "\<not> starts_at indent ls"
    then show ?goal using ok by (auto simp: mapping_ok_def)
  next
    fix content number ls1 k r v rest' m'
    assume a: "ls = (indent, content, number) # ls1" "split_at_colon content = Some (k, r)" "valid_key (strip k)" "strip k \<notin> set seen"
      "parse_scalar_or_flow (strip r) number = Inr v" "rest' = ls1"
      "parse_mapping f indent depth (strip k # seen) rest' = Inr (m', rest)" "m = (strip k, v) # m'"
    have "one_line r" using ok one_line_subset [OF _ set_split_at_colon [OF a(2)]] by (simp add: a(1) lines_ok_def)
    then have v: "node_ok (MAX_DEPTH - depth) v" using parse_flow_ok [OF a(5) one_line_strip] node_ok_flow by blast
    have "lines_ok rest'" and "length rest' \<le> length ls1" using ok by (simp_all add: a(1,6) lines_ok_def)
    from step [OF a(1,3,4) v this a(7,8)] show ?goal .
  next
    fix content number ls1 k r v rest' m' i
    assume a: "ls = (indent, content, number) # ls1" "valid_key (strip k)" "strip k \<notin> set seen"
      "starts_at i ls1" "parse_block f i (depth + 1) ls1 = Inr (v, rest')"
      "parse_mapping f indent depth (strip k # seen) rest' = Inr (m', rest)" "m = (strip k, v) # m'"
    have "lines_ok ls1" using ok by (simp add: a(1) lines_ok_def)
    then have b: "node_ok (Suc MAX_DEPTH - (depth + 1)) v \<and> lines_ok rest' \<and> length rest' < length ls1"
      using block a(4,5) unfolding block_inv_def by blast
    with step [OF a(1,2,3) _ _ _ a(6,7)] show ?goal by simp
  qed
qed

lemma blocks_ok: "block_inv f \<and> mapping_inv f"
proof (induction f)
  case 0
  show ?case by (simp add: block_inv_def mapping_inv_def)
next
  case (Suc f)
  then show ?case using block_inv_Suc mapping_inv_Suc by blast
qed


section \<open>The fuel is enough\<close>

lemma scalar_no_fuel: "parse_scalar raw n \<noteq> Inl OutOfFuel"
  by (auto simp: parse_scalar_def parse_double_quoted_def parse_single_quoted_def fail_at_def Let_def
      split: list.splits if_splits option.splits)

lemma mapR_Inl: "mapR f xs = Inl e \<Longrightarrow> \<exists>x\<in>set xs. f x = Inl e"
  by (induction xs) (auto simp: bindR_Inl_iff)

lemma flow_no_fuel: "parse_scalar_or_flow raw n \<noteq> Inl OutOfFuel"
  using scalar_no_fuel
  by (fastforce simp: parse_scalar_or_flow_def fail_at_def Let_def bindR_Inl_iff dest!: mapR_Inl split: if_splits)

lemma sequence_no_fuel: "parse_sequence ls indent n \<noteq> Inl OutOfFuel"
proof (induction ls arbitrary: n)
  case (Cons l ls)
  obtain li content number where "l = (li, content, number)" by (cases l)
  with Cons flow_no_fuel show ?case
    by (auto simp: fail_at_def Let_def bindR_Inl_iff split: if_splits)
qed simp

lemma mapping_shrinks: "parse_mapping f indent depth seen ls = Inr (m, rest) \<Longrightarrow> lines_ok ls \<Longrightarrow> length rest \<le> length ls"
  using blocks_ok [of f] unfolding mapping_inv_def by blast

lemma parse_mapping_out:
  assumes "parse_mapping (Suc f) indent depth seen ls = Inl OutOfFuel"
  shows "\<exists>content number ls1. ls = (indent, content, number) # ls1
    \<and> ((\<exists>i. starts_at i ls1 \<and> parse_block f i (depth + 1) ls1 = Inl OutOfFuel)
      \<or> (\<exists>key rest'. parse_mapping f indent depth (key # seen) rest' = Inl OutOfFuel
           \<and> (rest' = ls1 \<or> (\<exists>i v. starts_at i ls1 \<and> parse_block f i (depth + 1) ls1 = Inr (v, rest')))))"
proof (cases ls)
  case Nil
  with assms show ?thesis by simp
next
  case (Cons l ls1)
  obtain li content number where l: "l = (li, content, number)" by (cases l)
  have li: "li = indent" and ni: "\<not> is_item content"
    using assms by (auto simp: Cons l fail_at_def split: if_splits)
  obtain k r where kr: "split_at_colon content = Some (k, r)" "valid_key (strip k)" "strip k \<notin> set seen"
    using assms by (auto simp: Cons l li ni fail_at_def Let_def split: if_splits option.splits)
  note step = assms [unfolded Cons l li, simplified, unfolded kr(1), simplified kr ni Let_def, simplified]
  from step flow_no_fuel show ?thesis
    unfolding Cons l li
    by (fastforce simp: kr bindR_Inl_iff bindR_Inr_iff fail_at_def starts_at_def split: if_splits list.splits)
qed

lemma fuel_enough:
  shows "(2 * length ls + 2 \<le> f \<longrightarrow> lines_ok ls \<longrightarrow> starts_at indent ls \<longrightarrow> parse_block f indent depth ls \<noteq> Inl OutOfFuel)
    \<and> (2 * length ls + 1 \<le> f \<longrightarrow> lines_ok ls \<longrightarrow> parse_mapping f indent depth seen ls \<noteq> Inl OutOfFuel)"
proof (induction f arbitrary: indent depth ls seen)
  case (Suc f)
  have block: "parse_block (Suc f) indent depth ls \<noteq> Inl OutOfFuel"
    if "2 * length ls + 2 \<le> Suc f" "lines_ok ls" "starts_at indent ls"
    using Suc [of ls indent depth "[]"] that sequence_no_fuel [of ls indent 0]
    by (auto simp: starts_at_def fail_at_def bindR_Inl_iff simp del: parse_mapping.simps split: list.splits if_splits)
  have mapping: "parse_mapping (Suc f) indent depth seen ls \<noteq> Inl OutOfFuel"
    if f: "2 * length ls + 1 \<le> Suc f" and ok: "lines_ok ls"
  proof
    assume "parse_mapping (Suc f) indent depth seen ls = Inl OutOfFuel"
    then obtain content number ls1 where ls: "ls = (indent, content, number) # ls1"
      and "(\<exists>i. starts_at i ls1 \<and> parse_block f i (depth + 1) ls1 = Inl OutOfFuel)
        \<or> (\<exists>key rest'. parse_mapping f indent depth (key # seen) rest' = Inl OutOfFuel
           \<and> (rest' = ls1 \<or> (\<exists>i v. starts_at i ls1 \<and> parse_block f i (depth + 1) ls1 = Inr (v, rest'))))"
      using parse_mapping_out by blast
    then show False
    proof (elim disjE exE conjE)
      fix i assume "starts_at i ls1" "parse_block f i (depth + 1) ls1 = Inl OutOfFuel"
      moreover have "lines_ok ls1" and "2 * length ls1 + 2 \<le> f" using f ok by (simp_all add: ls lines_ok_def)
      ultimately show False using Suc [of ls1 i "depth + 1"] by blast
    next
      fix key rest' assume "parse_mapping f indent depth (key # seen) rest' = Inl OutOfFuel" "rest' = ls1"
      moreover have "lines_ok ls1" and "2 * length ls1 + 1 \<le> f" using f ok by (simp_all add: ls lines_ok_def)
      ultimately show False using Suc [of ls1 indent depth "key # seen"] by blast
    next
      fix key rest' i v assume out: "parse_mapping f indent depth (key # seen) rest' = Inl OutOfFuel"
        and b: "starts_at i ls1" "parse_block f i (depth + 1) ls1 = Inr (v, rest')"
      have "lines_ok ls1" using ok by (simp add: ls lines_ok_def)
      then have "lines_ok rest' \<and> length rest' < length ls1" using blocks_ok [of f] b unfolding block_inv_def by blast
      moreover from this have "2 * length rest' + 1 \<le> f" using f by (simp add: ls)
      ultimately show False using Suc [of rest' indent depth "key # seen"] out by blast
    qed
  qed
  from block mapping show ?case by blast
qed (auto simp: starts_at_def split: list.splits)

section \<open>The document is well formed\<close>

lemma splitlines_one_line: "l \<in> set (splitlines s) \<Longrightarrow> one_line l"
proof (induction s arbitrary: l rule: splitlines.induct)
  case (2 c cs)
  show ?case
  proof (cases "is_line_break c")
    case True
    with 2 show ?thesis by (auto split: if_splits)
  next
    case False
    with 2 show ?thesis by (cases "splitlines cs") auto
  qed
qed simp

lemma strip_comment_from_subset: "strip_comment_from b q s = Some out \<Longrightarrow> set out \<subseteq> set s"
  by (induction b q s arbitrary: out rule: strip_comment_from.induct) (auto split: if_splits)

lemma strip_comment_one_line:
  assumes "strip_comment raw n = Inr s" and "one_line raw"
  shows "one_line s"
proof -
  obtain out where out: "strip_comment_from None None raw = Some out" and s: "s = rstrip out"
    using assms(1) by (auto simp: strip_comment_def fail_at_def split: option.splits)
  have "set s \<subseteq> set out" by (auto simp: s rstrip_def dest!: set_dropWhileD)
  with strip_comment_from_subset [OF out] one_line_subset [OF assms(2)] show ?thesis by blast
qed

lemma scan_lines_Cons:
  assumes "strip_comment raw n = Inr s"
  shows "scan_lines n seen some (raw # raws) =
      (if strip s = [] then scan_lines (n + 1) seen some raws
       else if strip s = ''---'' then
         (if seen \<or> some then fail_at ''multiple YAML documents are not supported'' n else scan_lines (n + 1) True some raws)
       else if strip s = ''...'' then fail_at ''document end markers are not supported'' n
       else if length (takeWhile (\<lambda>c. c = CHR '' '') s) mod 2 \<noteq> 0 then fail_at ''indentation must be a multiple of two spaces'' n
       else bindR (scan_lines (n + 1) seen True raws) (\<lambda>ls. Inr ((length (takeWhile (\<lambda>c. c = CHR '' '') s), strip s, n) # ls)))"
  using assms by (simp add: Let_def)

lemma scan_lines_ok:
  assumes "scan_lines n seen some raws = Inr ls" and "list_all one_line raws"
  shows "lines_ok ls"
  using assms
proof (induction raws arbitrary: n seen some ls)
  case (Cons raw raws)
  from Cons.prems(1) obtain s where s: "strip_comment raw n = Inr s" by (auto simp: bindR_Inr_iff)
  have line: "one_line (strip s)" using strip_comment_one_line [OF s] Cons.prems(2) by (intro one_line_strip) simp
  show ?case
  proof (cases "strip s = [] \<or> strip s = ''---''")
    case True
    with Cons.prems Cons.IH show ?thesis unfolding scan_lines_Cons [OF s] by (auto simp: fail_at_def split: if_splits)
  next
    case False
    with Cons.prems(1) obtain ls' i where "scan_lines (n + 1) seen True raws = Inr ls'" "ls = (i, strip s, n) # ls'"
      unfolding scan_lines_Cons [OF s] by (auto simp: fail_at_def bindR_Inr_iff split: if_splits)
    with Cons.IH Cons.prems(2) line show ?thesis by (auto simp: lines_ok_def)
  qed
qed (simp add: lines_ok_def)

lemma scan_no_fuel: "scan_lines n seen some raws \<noteq> Inl OutOfFuel"
proof (induction raws arbitrary: n seen some)
  case (Cons raw raws)
  show ?case
  proof (cases "strip_comment raw n")
    case (Inl e)
    then show ?thesis by (auto simp: strip_comment_def fail_at_def split: option.splits)
  next
    case (Inr s)
    show ?thesis unfolding scan_lines_Cons [OF Inr] using Cons.IH by (auto simp: fail_at_def bindR_Inl_iff)
  qed
qed simp

lemma document_of_Inr: "document_of v rest = Inr m \<longleftrightarrow> rest = [] \<and> v = PDict m"
  by (cases rest; cases v) (auto simp: document_of_def fail_at_def)

lemma document_no_fuel: "document_of v rest \<noteq> Inl OutOfFuel"
  by (cases rest; cases v) (auto simp: document_of_def fail_at_def)

lemma parse_lines_ok: "scan_lines 1 False False (splitlines text) = Inr ls \<Longrightarrow> lines_ok ls"
  by (rule scan_lines_ok) (auto simp: list_all_iff dest!: splitlines_one_line)

lemma parse_node_ok:
  assumes "parse text = Inr m"
  shows "node_ok MAX_DEPTH (PDict m)"
proof -
  obtain ls where ls: "scan_lines 1 False False (splitlines text) = Inr ls"
    using assms by (auto simp: parse_def fail_at_def Let_def bindR_Inr_iff split: if_splits)
  have start: "starts_at 0 ls"
    using assms ls by (auto simp: parse_def fail_at_def Let_def starts_at_def split: if_splits list.splits)
  then obtain content number ls1 where "ls = (0, content, number) # ls1" by (cases ls) (auto simp: starts_at_def)
  then obtain rest where "parse_block (parse_fuel ls) 0 1 ls = Inr (PDict m, rest)"
    using assms ls by (auto simp: parse_def fail_at_def Let_def bindR_Inr_iff document_of_Inr split: if_splits)
  with start show ?thesis
    using blocks_ok [of "parse_fuel ls"] parse_lines_ok [OF ls] unfolding block_inv_def by fastforce
qed

lemma parse_no_fuel: "parse text \<noteq> Inl OutOfFuel"
proof (cases "scan_lines 1 False False (splitlines text)")
  case (Inl e)
  with scan_no_fuel [of 1 False False "splitlines text"] show ?thesis
    by (auto simp: parse_def fail_at_def Let_def split: if_splits)
next
  case (Inr ls)
  show ?thesis
  proof (cases "starts_at 0 ls")
    case False
    with Inr show ?thesis
      by (auto simp: parse_def fail_at_def Let_def starts_at_def split: if_splits list.splits)
  next
    case True
    have "parse_block (parse_fuel ls) 0 1 ls \<noteq> Inl OutOfFuel"
      using fuel_enough [of ls "parse_fuel ls" 0 1] parse_lines_ok [OF Inr] True by (simp add: parse_fuel_def)
    moreover obtain content number ls1 where "ls = (0, content, number) # ls1" using True by (cases ls) (auto simp: starts_at_def)
    ultimately show ?thesis using Inr document_no_fuel
      by (auto simp: parse_def fail_at_def Let_def bindR_Inl_iff split: if_splits)
  qed
qed

lemma parse_bounds: "parse text = Inr m \<Longrightarrow> utf8_length text \<le> MAX_BYTES \<and> length (splitlines text) \<le> MAX_LINES"
  by (auto simp: parse_def fail_at_def Let_def split: if_splits)

text \<open>C16: The parser of the service descriptor always ends with a document or an error, and what it accepts is
  well formed: within the bounds on bytes and lines, mappings are not empty and have valid and distinct keys,
  sequences have 1 to 50 items, blocks nest at most six deep, there are no null values, and no string has a line
  break.\<close>

theorem parse_well_formed:
  shows "parse text \<noteq> Inl OutOfFuel
    \<and> (\<forall>m. parse text = Inr m \<longrightarrow> node_ok MAX_DEPTH (PDict m) \<and> utf8_length text \<le> MAX_BYTES
         \<and> length (splitlines text) \<le> MAX_LINES)"
  using parse_node_ok parse_no_fuel parse_bounds by blast

definition test_descriptor :: string where
  "test_descriptor = ''a: x # y'' @ [CHR 0x0A] @ ''b:'' @ [CHR 0x0A] @ ''  - 7''"

lemma test_descriptor_parsed: "parse test_descriptor = Inr [(''a'', PStr ''x''), (''b'', PList [PInt 7])]"
proof -
  have "utf8_length test_descriptor = 17" by code_simp
  then have 1: "\<not> MAX_BYTES < utf8_length test_descriptor" by (simp add: MAX_BYTES_def)
  have 2: "CHR 0x09 \<notin> set test_descriptor" by code_simp
  have 3: "splitlines test_descriptor = [''a: x # y'', ''b:'', ''  - 7'']" by code_simp
  then have 4: "\<not> MAX_LINES < length (splitlines test_descriptor)" by (simp add: MAX_LINES_def)
  have 5: "scan_lines 1 False False [''a: x # y'', ''b:'', ''  - 7''] = Inr [(0, ''a: x'', 1), (0, ''b:'', 2), (2, ''- 7'', 3)]"
    by code_simp
  have 6: "parse_block (parse_fuel [(0, ''a: x'', 1), (0, ''b:'', 2), (2, ''- 7'', 3)]) 0 1 [(0, ''a: x'', 1), (0, ''b:'', 2), (2, ''- 7'', 3)]
    = Inr (PDict [(''a'', PStr ''x''), (''b'', PList [PInt 7])], [])"
    by code_simp
  show ?thesis unfolding parse_def Let_def 3 5 using 1 2 4 6 by (simp add: 3 document_of_def del: parse_block.simps)
qed

theorem parse_well_formed_witness: "node_ok MAX_DEPTH (PDict [(''a'', PStr ''x''), (''b'', PList [PInt 7])])"
  using parse_well_formed [of test_descriptor] test_descriptor_parsed by blast

end
