(* ===== verification/Descriptor_Schema.thy ===== *)
theory Descriptor_Schema
  imports Descriptor_Parser
begin

text \<open>
  The validation of the service descriptor against its schema, the second part of
  \<open>.github/scripts/service-config/descriptor.py\<close>.  The schema is a record and its rules are a datatype with an
  optional field for every key that the code reads; \<open>re.fullmatch\<close> on the patterns of the schema is an argument.  An
  error is its path and its stable code, the messages are left out.  A key of the schema that the code requires
  and that is missing raises \<open>KeyError\<close>.
\<close>

section \<open>Schemas\<close>

datatype rule = Rule
  (ru_ref: "string option") (ru_type: "string option") (ru_archetypes: "string list option") (ru_required: "bool option")
  (ru_properties: "(string \<times> rule) list option") (ru_keyPattern: "string option") (ru_additionalProperties: "rule option")
  (ru_keyEnvironmentIdentifier: "bool option") (ru_items: "rule option") (ru_minimum: "int option") (ru_maximum: "int option")
  (ru_maxLength: "nat option") (ru_enum: "string list option") (ru_pattern: "string option")
  (ru_environmentIdentifier: "bool option")

record archetype_rule =
  ar_lane :: string
  ar_laneImplemented :: bool
  ar_requiredKeys :: "string list"
  ar_dockerfileProfile :: string
  ar_unitTestType :: string
  ar_coverage :: string
  ar_runtimeVersion :: "string option"

record descriptor_schema =
  sc_supportedSchemaVersions :: "int list"
  sc_deprecatedSchemaVersions :: "int list"
  sc_reservedEnvironmentIdentifiers :: "string list"
  sc_reservedEnvironmentPrefixes :: "string list"
  sc_archetypes :: "(string \<times> archetype_rule) list"
  sc_forbiddenKeys :: "string list"
  sc_properties :: "(string \<times> rule) list"
  sc_definitions :: "(string \<times> rule) list"
  sc_coverageValues :: "string list"

record ValidationError =
  ve_path :: string
  ve_code :: string

definition err :: "string \<Rightarrow> string \<Rightarrow> ValidationError" where
  "err path c = \<lparr>ve_path = path, ve_code = c\<rparr>"

definition child_path :: "string \<Rightarrow> string \<Rightarrow> string" where
  "child_path path key = (if path = [] then key else path @ ''.'' @ key)"

section \<open>Forbidden keys\<close>

definition DYNAMIC_MAPPING_PATHS :: "string list" where
  "DYNAMIC_MAPPING_PATHS = [''tests.acceptance.bindings'', ''tests.acceptance.keyVaultBindings'', ''tests.acceptance.dependencies'']"

fun check_forbidden :: "string list \<Rightarrow> pyval \<Rightarrow> string \<Rightarrow> ValidationError list"
  and check_forbidden_items :: "string list \<Rightarrow> (string \<times> pyval) list \<Rightarrow> string \<Rightarrow> ValidationError list" where
  "check_forbidden forbidden (PDict d) path = check_forbidden_items forbidden d path"
| "check_forbidden forbidden v path = []"
| "check_forbidden_items forbidden [] path = []"
| "check_forbidden_items forbidden ((key, value) # r) path =
     (if path \<notin> set DYNAMIC_MAPPING_PATHS \<and> lower key \<in> set forbidden then [err (child_path path key) ''forbidden-key''] else [])
     @ check_forbidden forbidden value (child_path path key) @ check_forbidden_items forbidden r path"

section \<open>Values\<close>

definition or_else :: "'a option \<Rightarrow> 'a option \<Rightarrow> 'a option" where
  "or_else a b = (case a of None \<Rightarrow> b | Some _ \<Rightarrow> a)"

definition resolve_ref :: "descriptor_schema \<Rightarrow> rule \<Rightarrow> rule res" where
  \<comment> \<open>the definition, updated with the keys that the rule has of its own\<close>
  "resolve_ref sch r = (case ru_ref r of
       Some (c # cs) \<Rightarrow> bindR (ofOption KeyError (map_of (sc_definitions sch) (c # cs))) (\<lambda>d.
         Inr (Rule (ru_ref d) (or_else (ru_type r) (ru_type d)) (or_else (ru_archetypes r) (ru_archetypes d))
           (or_else (ru_required r) (ru_required d)) (or_else (ru_properties r) (ru_properties d))
           (or_else (ru_keyPattern r) (ru_keyPattern d)) (or_else (ru_additionalProperties r) (ru_additionalProperties d))
           (or_else (ru_keyEnvironmentIdentifier r) (ru_keyEnvironmentIdentifier d)) (or_else (ru_items r) (ru_items d))
           (or_else (ru_minimum r) (ru_minimum d)) (or_else (ru_maximum r) (ru_maximum d))
           (or_else (ru_maxLength r) (ru_maxLength d)) (or_else (ru_enum r) (ru_enum d)) (or_else (ru_pattern r) (ru_pattern d))
           (or_else (ru_environmentIdentifier r) (ru_environmentIdentifier d))))
     | _ \<Rightarrow> Inr r)"

definition is_reserved_environment_identifier :: "descriptor_schema \<Rightarrow> string \<Rightarrow> bool" where
  "is_reserved_environment_identifier sch value \<longleftrightarrow> value \<in> set (sc_reservedEnvironmentIdentifiers sch)
     \<or> list_ex (\<lambda>p. startswith value p) (sc_reservedEnvironmentPrefixes sch)"

definition is_alnum :: "char \<Rightarrow> bool" where
  "is_alnum c \<longleftrightarrow> (let n = code c in 65 \<le> n \<and> n \<le> 90 \<or> 97 \<le> n \<and> n \<le> 122 \<or> 48 \<le> n \<and> n \<le> 57)"

definition path_matches :: "string \<Rightarrow> bool" where
  \<comment> \<open>\<open>_PATH_RE.fullmatch\<close>\<close>
  "path_matches s = (case s of [] \<Rightarrow> False | c # cs \<Rightarrow> (is_alnum c \<or> c = CHR ''.'')
     \<and> list_all (\<lambda>d. is_alnum d \<or> d \<in> set ''._/-'') cs)"

definition glob_matches :: "string \<Rightarrow> bool" where
  \<comment> \<open>\<open>_REPOSITORY_GLOB_RE.fullmatch\<close>\<close>
  "glob_matches s = (case s of [] \<Rightarrow> False | c # cs \<Rightarrow> (is_alnum c \<or> c \<in> set ''.*?['')
     \<and> list_all (\<lambda>d. is_alnum d \<or> d \<in> set ''._/*?[]-'') cs)"

definition outside :: "string \<Rightarrow> bool" where
  \<comment> \<open>\<open>value.startswith("/") or ".." in value.split("/")\<close>\<close>
  "outside value \<longleftrightarrow> startswith value ''/'' \<or> ''..'' \<in> set (split_char (CHR ''/'') value)"

definition validate_path :: "(string \<Rightarrow> bool) \<Rightarrow> pyval \<Rightarrow> rule \<Rightarrow> string \<Rightarrow> ValidationError list" where
  \<comment> \<open>the branches \<open>path\<close> and \<open>repositoryGlob\<close>\<close>
  "validate_path matches value r path = (case value of
       PStr s \<Rightarrow>
         if (case ru_maxLength r of Some n \<Rightarrow> n | None \<Rightarrow> 120) < length s then [err path ''too-long'']
         else if outside s \<or> \<not> matches s then [err path ''invalid-path''] else []
     | _ \<Rightarrow> [err path ''invalid-type''])"

definition validate_integer :: "pyval \<Rightarrow> rule \<Rightarrow> string \<Rightarrow> ValidationError list" where
  "validate_integer value r path = (case value of
       PInt i \<Rightarrow> (case ru_minimum r of Some m \<Rightarrow> if i < m then [err path ''out-of-range''] else [] | None \<Rightarrow> [])
         @ (case ru_maximum r of Some m \<Rightarrow> if m < i then [err path ''out-of-range''] else [] | None \<Rightarrow> [])
     | _ \<Rightarrow> [err path ''invalid-type''])"

definition validate_coverage :: "descriptor_schema \<Rightarrow> pyval \<Rightarrow> string \<Rightarrow> ValidationError list" where
  "validate_coverage sch value path = (case value of
       PBool _ \<Rightarrow> []
     | PStr s \<Rightarrow> if s \<in> set (sc_coverageValues sch) then [] else [err path ''invalid-value'']
     | _ \<Rightarrow> [err path ''invalid-value''])"

definition validate_string :: "(string \<Rightarrow> string \<Rightarrow> bool) \<Rightarrow> descriptor_schema \<Rightarrow> pyval \<Rightarrow> rule \<Rightarrow> string \<Rightarrow> ValidationError list" where
  "validate_string fullmatch sch value r path = (case value of
       PStr s \<Rightarrow>
         (if ru_environmentIdentifier r = Some True \<and> is_reserved_environment_identifier sch s
          then [err path ''reserved-environment-identifier''] else [])
         @ (if ru_enum r \<noteq> None \<and> s \<notin> set (the (ru_enum r)) then [err path ''invalid-value'']
            else (if ru_pattern r \<noteq> None \<and> \<not> fullmatch (the (ru_pattern r)) s then [err path ''invalid-value''] else [])
              @ (if ru_maxLength r \<noteq> None \<and> the (ru_maxLength r) < length s then [err path ''too-long''] else []))
     | _ \<Rightarrow> [err path ''invalid-type''])"

definition validate_scalar :: "(string \<Rightarrow> string \<Rightarrow> bool) \<Rightarrow> descriptor_schema \<Rightarrow> pyval \<Rightarrow> rule \<Rightarrow> string \<Rightarrow> ValidationError list" where
  "validate_scalar fullmatch sch value r path =
     (if ru_type r = Some ''integer'' then validate_integer value r path
      else if ru_type r = Some ''coverage'' then validate_coverage sch value path
      else if ru_type r = Some ''path'' then validate_path path_matches value r path
      else if ru_type r = Some ''repositoryGlob'' then validate_path glob_matches value r path
      else if ru_type r = Some ''string'' then validate_string fullmatch sch value r path
      else [err path ''schema-error''])"

section \<open>Mappings\<close>

definition properties_of :: "rule \<Rightarrow> (string \<times> rule) list" where
  "properties_of r = (case ru_properties r of None \<Rightarrow> [] | Some ps \<Rightarrow> ps)"

definition wrong_archetype :: "rule \<Rightarrow> string \<Rightarrow> bool" where
  \<comment> \<open>\<open>allowed and archetype and archetype not in allowed\<close>\<close>
  "wrong_archetype r archetype = (case ru_archetypes r of
       Some (a # as) \<Rightarrow> archetype \<noteq> [] \<and> archetype \<notin> set (a # as) | _ \<Rightarrow> False)"

definition key_errors :: "(string \<Rightarrow> string \<Rightarrow> bool) \<Rightarrow> descriptor_schema \<Rightarrow> rule \<Rightarrow> string \<Rightarrow> string \<Rightarrow> ValidationError list" where
  \<comment> \<open>the key of a dynamic mapping\<close>
  "key_errors fullmatch sch r key path =
     (case ru_keyPattern r of Some (c # cs) \<Rightarrow> if fullmatch (c # cs) key then [] else [err path ''invalid-key''] | _ \<Rightarrow> [])
     @ (if ru_keyEnvironmentIdentifier r = Some True \<and> is_reserved_environment_identifier sch key
        then [err path ''reserved-environment-identifier''] else [])"

fun missing_keys :: "descriptor_schema \<Rightarrow> string \<Rightarrow> string list \<Rightarrow> string \<Rightarrow> (string \<times> rule) list \<Rightarrow> ValidationError list res" where
  \<comment> \<open>the second loop of \<open>_validate_mapping\<close>\<close>
  "missing_keys sch archetype keys path [] = Inr []"
| "missing_keys sch archetype keys path ((key, r) # ps) =
     bindR (resolve_ref sch r) (\<lambda>r'.
     bindR (missing_keys sch archetype keys path ps) (\<lambda>es.
       Inr ((if ru_required r' = Some True \<and> \<not> wrong_archetype r' archetype \<and> key \<notin> set keys
             then [err (child_path path key) ''missing-key''] else []) @ es)))"

fun validate_value :: "(string \<Rightarrow> string \<Rightarrow> bool) \<Rightarrow> descriptor_schema \<Rightarrow> string \<Rightarrow> pyval \<Rightarrow> rule \<Rightarrow> string \<Rightarrow> ValidationError list res"
  and validate_entries :: "(string \<Rightarrow> string \<Rightarrow> bool) \<Rightarrow> descriptor_schema \<Rightarrow> string \<Rightarrow> (string \<times> pyval) list \<Rightarrow> rule \<Rightarrow> string \<Rightarrow> ValidationError list res"
  and validate_items :: "(string \<Rightarrow> string \<Rightarrow> bool) \<Rightarrow> descriptor_schema \<Rightarrow> string \<Rightarrow> pyval list \<Rightarrow> nat \<Rightarrow> rule \<Rightarrow> string \<Rightarrow> ValidationError list res" where
  "validate_value fm sch archetype v r path =
     (if ru_type r = Some ''mapping'' then (case v of
          PDict m \<Rightarrow> bindR (validate_entries fm sch archetype m r path) (\<lambda>es.
            bindR (missing_keys sch archetype (map fst m) path (properties_of r)) (\<lambda>ms. Inr (es @ ms)))
        | _ \<Rightarrow> Inr [err (if path = [] then ''<root>'' else path) ''invalid-type''])
      else if ru_type r = Some ''list'' then (case v of
          PList [] \<Rightarrow> Inr [err path ''empty-list'']
        | PList (x # xs) \<Rightarrow> (case ru_items r of None \<Rightarrow> Inl KeyError | Some ir \<Rightarrow> validate_items fm sch archetype (x # xs) 0 ir path)
        | _ \<Rightarrow> Inr [err path ''invalid-type''])
      else Inr (validate_scalar fm sch v r path))"
| "validate_entries fm sch archetype [] r path = Inr []"
| "validate_entries fm sch archetype ((key, v) # rest) r path =
     bindR (case (map_of (properties_of r) key, ru_additionalProperties r) of
         (None, None) \<Rightarrow> Inr [err (child_path path key) ''unknown-key'']
       | (p, additional) \<Rightarrow>
           bindR (resolve_ref sch (case p of Some r1 \<Rightarrow> r1 | None \<Rightarrow> the additional)) (\<lambda>r'.
           bindR (if wrong_archetype r' archetype then Inr [err (child_path path key) ''archetype-mismatch'']
             else validate_value fm sch archetype v r' (child_path path key)) (\<lambda>es.
             Inr ((if p = None then key_errors fm sch r key (child_path path key) else []) @ es)))) (\<lambda>es.
     bindR (validate_entries fm sch archetype rest r path) (\<lambda>es'. Inr (es @ es')))"
| "validate_items fm sch archetype [] n r path = Inr []"
| "validate_items fm sch archetype (v # vs) n r path =
     bindR (validate_value fm sch archetype v r (path @ ''['' @ show_nat n @ '']'')) (\<lambda>es.
     bindR (validate_items fm sch archetype vs (n + 1) r path) (\<lambda>es'. Inr (es @ es')))"

section \<open>Consistency and the whole validation\<close>

fun lookup_parts :: "pyval \<Rightarrow> string list \<Rightarrow> pyval" where
  "lookup_parts node [] = node"
| "lookup_parts node (p # ps) = (case node of
       PDict d \<Rightarrow> (case map_of d p of None \<Rightarrow> PNone | Some v \<Rightarrow> lookup_parts v ps)
     | _ \<Rightarrow> PNone)"

definition lookup_dotted :: "(string \<times> pyval) list \<Rightarrow> string \<Rightarrow> pyval" where
  \<comment> \<open>\<open>_lookup\<close>\<close>
  "lookup_dotted document dotted = lookup_parts (PDict document) (split_char (CHR ''.'') dotted)"

definition get_dict :: "(string \<times> pyval) list \<Rightarrow> string \<Rightarrow> (string \<times> pyval) list res" where
  \<comment> \<open>\<open>document.get(key, {})\<close> where the code goes on with a method of dictionaries\<close>
  "get_dict d key = (case map_of d key of None \<Rightarrow> Inr [] | Some (PDict e) \<Rightarrow> Inr e | Some _ \<Rightarrow> Inl AttributeError)"

definition binding_errors :: "string \<times> pyval \<Rightarrow> ValidationError list" where
  "binding_errors nb = (case nb of (name, PDict binding) \<Rightarrow>
       (let path = ''tests.acceptance.bindings.'' @ name @ ''.value''; literal = (map_of binding ''source'' = Some (PStr ''literal''));
            has_value = (map_of binding ''value'' \<noteq> None) in
        if literal \<and> \<not> has_value then [err path ''missing-key'']
        else if \<not> literal \<and> has_value then [err path ''source-value-mismatch''] else [])
     | _ \<Rightarrow> [])"

definition suite_errors :: "string \<Rightarrow> archetype_rule \<Rightarrow> string \<times> pyval \<Rightarrow> ValidationError list" where
  "suite_errors archetype rule sd = (case sd of (suite, PDict d) \<Rightarrow>
       (case map_of d ''type'' of
          Some t \<Rightarrow> if truthy t \<and> t \<noteq> PStr (if suite = ''acceptance'' \<and> archetype = ''python-uv-fastapi'' then ''python'' else ar_unitTestType rule)
                   then [err (''tests.'' @ suite @ ''.type'') ''test-type-mismatch''] else []
        | None \<Rightarrow> [])
     | _ \<Rightarrow> [])"

fun py_distinct :: "pyval list \<Rightarrow> bool" where
  \<comment> \<open>\<open>len(l) == len(set(l))\<close>\<close>
  "py_distinct [] = True"
| "py_distinct (x # xs) = (\<not> list_ex (py_eq x) xs \<and> py_distinct xs)"

definition validate_consistency :: "descriptor_schema \<Rightarrow> (string \<times> pyval) list \<Rightarrow> string \<Rightarrow> ValidationError list res" where
  "validate_consistency sch document archetype = (case map_of (sc_archetypes sch) archetype of
       None \<Rightarrow> Inr []
     | Some rule \<Rightarrow>
         bindR (get_dict document ''container'') (\<lambda>container.
         bindR (case lookup_dotted document ''build.python.compatibilityVersions'' of
             PList l \<Rightarrow> if list_all hashable l then Inr (if py_distinct l then [] else [err ''build.python.compatibilityVersions'' ''duplicate-value''])
                        else Inl TypeError
           | _ \<Rightarrow> Inr []) (\<lambda>compat.
         bindR (case lookup_dotted document ''tests.acceptance'' of
             PDict a \<Rightarrow> bindR (get_dict a ''bindings'') (\<lambda>bs. Inr (concat (map binding_errors bs)))
           | _ \<Rightarrow> Inr []) (\<lambda>bindings.
         bindR (get_dict document ''tests'') (\<lambda>tests.
           Inr ((case map_of container ''dockerfileProfile'' of
                   Some p \<Rightarrow> if truthy p \<and> p \<noteq> PStr (ar_dockerfileProfile rule) then [err ''container.dockerfileProfile'' ''profile-mismatch''] else []
                 | None \<Rightarrow> [])
             @ concat (map (\<lambda>k. if lookup_dotted document k = PNone then [err k ''missing-key''] else []) (ar_requiredKeys rule))
             @ compat
             @ (case lookup_dotted document ''tests.acceptance.runnerPath'' of
                   PStr s \<Rightarrow> if endswith s ''.py'' then [] else [err ''tests.acceptance.runnerPath'' ''invalid-path'']
                 | _ \<Rightarrow> [])
             @ bindings
             @ concat (map (suite_errors archetype rule) tests)))))))"

definition version_errors :: "descriptor_schema \<Rightarrow> (string \<times> pyval) list \<Rightarrow> ValidationError list" where
  "version_errors sch document = (case map_of document ''schemaVersion'' of
       None \<Rightarrow> [err ''schemaVersion'' ''missing-key'']
     | Some PNone \<Rightarrow> [err ''schemaVersion'' ''missing-key'']
     | Some (PInt v) \<Rightarrow> if v \<notin> set (sc_supportedSchemaVersions sch) \<and> v \<notin> set (sc_deprecatedSchemaVersions sch)
         then [err ''schemaVersion'' ''unsupported-schema-version''] else []
     | Some _ \<Rightarrow> [err ''schemaVersion'' ''invalid-type''])"

definition archetype_of :: "(string \<times> pyval) list \<Rightarrow> string" where
  "archetype_of document = (case map_of document ''service'' of
       Some (PDict s) \<Rightarrow> (case map_of s ''archetype'' of Some (PStr a) \<Rightarrow> a | _ \<Rightarrow> [])
     | _ \<Rightarrow> [])"

definition root_rule :: "descriptor_schema \<Rightarrow> rule" where
  \<comment> \<open>the arguments of the first call of \<open>_validate_mapping\<close>\<close>
  "root_rule sch = Rule None (Some ''mapping'') None None (Some (sc_properties sch)) None None None None None None None None None None"

definition validate :: "(string \<Rightarrow> string \<Rightarrow> bool) \<Rightarrow> descriptor_schema \<Rightarrow> (string \<times> pyval) list \<Rightarrow> ValidationError list res" where
  "validate fullmatch sch document =
     bindR (validate_value fullmatch sch (archetype_of document) (PDict document) (root_rule sch) []) (\<lambda>es.
       let errors = check_forbidden (map lower (sc_forbiddenKeys sch)) (PDict document) [] @ version_errors sch document @ es
       in if errors \<noteq> [] then Inr errors else validate_consistency sch document (archetype_of document))"

end
