(* ===== verification/Py_Json.thy ===== *)
theory Py_Json
  imports Py_Values
begin

text \<open>
  Texts that Python's module \<open>json\<close> writes: \<open>json.dumps\<close> with the separators \<open>(",", ":")\<close> and with \<open>indent=0\<close>.  Characters go
  up to 255.  The printing of floats is an argument where the code may meet them.
\<close>

definition hex_digit :: "nat \<Rightarrow> char" where
  "hex_digit n = (if n < 10 then char_of (48 + n) else char_of (87 + n))"

definition json_char :: "char \<Rightarrow> string" where
  \<comment> \<open>the escapes of \<open>json.dumps\<close> on the characters up to 255\<close>
  "json_char c = (let n = code c in
     if n = 34 then [CHR 0x5C, CHR 0x22] else if n = 92 then [CHR 0x5C, CHR 0x5C]
     else if n = 10 then [CHR 0x5C, CHR ''n''] else if n = 13 then [CHR 0x5C, CHR ''r''] else if n = 9 then [CHR 0x5C, CHR ''t'']
     else if n = 12 then [CHR 0x5C, CHR ''f''] else if n = 8 then [CHR 0x5C, CHR ''b'']
     else if n < 32 \<or> 126 < n then [CHR 0x5C, CHR ''u'', CHR ''0'', CHR ''0'', hex_digit (n div 16), hex_digit (n mod 16)]
     else [c])"

definition json_string :: "string \<Rightarrow> string" where
  "json_string s = [CHR 0x22] @ concat (map json_char s) @ [CHR 0x22]"

fun json_text :: "(pyfloat \<Rightarrow> string) \<Rightarrow> string \<Rightarrow> string \<Rightarrow> pyval \<Rightarrow> string"
  and json_elements :: "(pyfloat \<Rightarrow> string) \<Rightarrow> string \<Rightarrow> string \<Rightarrow> pyval list \<Rightarrow> string list"
  and json_members :: "(pyfloat \<Rightarrow> string) \<Rightarrow> string \<Rightarrow> string \<Rightarrow> (string \<times> pyval) list \<Rightarrow> string list" where
  \<comment> \<open>\<open>json.dumps(v, separators=(item, key))\<close>\<close>
  "json_text fl item key PNone = ''null''"
| "json_text fl item key (PBool b) = (if b then ''true'' else ''false'')"
| "json_text fl item key (PInt i) = show_int i"
| "json_text fl item key (PFloat f) = fl f"
| "json_text fl item key (PStr s) = json_string s"
| "json_text fl item key (PList l) = ''['' @ join item (json_elements fl item key l) @ '']''"
| "json_text fl item key (PDict d) = ''{'' @ join item (json_members fl item key d) @ ''}''"
| "json_elements fl item key [] = []"
| "json_elements fl item key (v # r) = json_text fl item key v # json_elements fl item key r"
| "json_members fl item key [] = []"
| "json_members fl item key ((k, v) # r) = (json_string k @ key @ json_text fl item key v) # json_members fl item key r"

definition json_dumps :: "pyval \<Rightarrow> string" where
  \<comment> \<open>with the separators \<open>(",", ":")\<close>, for values without floats\<close>
  "json_dumps v = json_text (\<lambda>_. []) '','' '':'' v"

definition json_default :: "(pyfloat \<Rightarrow> string) \<Rightarrow> pyval \<Rightarrow> string" where
  \<comment> \<open>\<open>json.dumps(v)\<close>\<close>
  "json_default fl v = json_text fl '', '' '': '' v"

fun json_indent0 :: "(pyfloat \<Rightarrow> string) \<Rightarrow> pyval \<Rightarrow> string"
  and json_indent0_items :: "(pyfloat \<Rightarrow> string) \<Rightarrow> pyval list \<Rightarrow> string list"
  and json_indent0_entries :: "(pyfloat \<Rightarrow> string) \<Rightarrow> (string \<times> pyval) list \<Rightarrow> string list" where
  \<comment> \<open>\<open>json.dumps(v, indent=0)\<close>: every item on a line of its own\<close>
  "json_indent0 fl PNone = ''null''"
| "json_indent0 fl (PBool b) = (if b then ''true'' else ''false'')"
| "json_indent0 fl (PInt i) = show_int i"
| "json_indent0 fl (PFloat f) = fl f"
| "json_indent0 fl (PStr s) = json_string s"
| "json_indent0 fl (PList l) = (if l = [] then ''[]'' else ''['' @ [CHR 0x0A] @ join ('','' @ [CHR 0x0A]) (json_indent0_items fl l) @ [CHR 0x0A] @ '']'')"
| "json_indent0 fl (PDict d) = (if d = [] then ''{}'' else ''{'' @ [CHR 0x0A] @ join ('','' @ [CHR 0x0A]) (json_indent0_entries fl d) @ [CHR 0x0A] @ ''}'')"
| "json_indent0_items fl [] = []"
| "json_indent0_items fl (v # r) = json_indent0 fl v # json_indent0_items fl r"
| "json_indent0_entries fl [] = []"
| "json_indent0_entries fl ((k, v) # r) = (json_string k @ '': '' @ json_indent0 fl v) # json_indent0_entries fl r"

end
