(* ===== verification/Descriptor_Resolve.thy ===== *)
theory Descriptor_Resolve
  imports Descriptor_Schema Py_Json
begin

text \<open>
  The resolution of the service descriptor into the outputs of the workflows: \<open>resolve\<close> and \<open>ResolvedConfig\<close> of
  \<open>.github/scripts/service-config/descriptor.py\<close>, and the command \<open>read_service_config.py\<close>.  The schema is the
  one of \<open>schema.json\<close>, without its comments and descriptions.  What the file system answers is an argument:
  whether the descriptor and Maven projects exist and the decoded text.  A field of the configuration holds a
  string; a value of another type, which the validation excludes, is a \<open>TypeError\<close>.
\<close>

section \<open>The schema (schema.json)\<close>

definition no_rule :: rule where
  "no_rule = Rule None None None None None None None None None None None None None None None"

definition of_type :: "string \<Rightarrow> rule" where
  "of_type t = Rule None (Some t) None None None None None None None None None None None None None"

definition with_ref :: "string \<Rightarrow> rule \<Rightarrow> rule" where
  "with_ref x r = (case r of Rule a b c d e f g h i j k l m n z \<Rightarrow> Rule (Some x) b c d e f g h i j k l m n z)"

definition with_archetypes :: "string list \<Rightarrow> rule \<Rightarrow> rule" where
  "with_archetypes x r = (case r of Rule a b c d e f g h i j k l m n z \<Rightarrow> Rule a b (Some x) d e f g h i j k l m n z)"

definition with_required :: "bool \<Rightarrow> rule \<Rightarrow> rule" where
  "with_required x r = (case r of Rule a b c d e f g h i j k l m n z \<Rightarrow> Rule a b c (Some x) e f g h i j k l m n z)"

definition with_properties :: "(string \<times> rule) list \<Rightarrow> rule \<Rightarrow> rule" where
  "with_properties x r = (case r of Rule a b c d e f g h i j k l m n z \<Rightarrow> Rule a b c d (Some x) f g h i j k l m n z)"

definition with_keyPattern :: "string \<Rightarrow> rule \<Rightarrow> rule" where
  "with_keyPattern x r = (case r of Rule a b c d e f g h i j k l m n z \<Rightarrow> Rule a b c d e (Some x) g h i j k l m n z)"

definition with_additionalProperties :: "rule \<Rightarrow> rule \<Rightarrow> rule" where
  "with_additionalProperties x r = (case r of Rule a b c d e f g h i j k l m n z \<Rightarrow> Rule a b c d e f (Some x) h i j k l m n z)"

definition with_keyEnvironmentIdentifier :: "rule \<Rightarrow> rule" where
  "with_keyEnvironmentIdentifier r = (case r of Rule a b c d e f g h i j k l m n z \<Rightarrow> Rule a b c d e f g (Some True) i j k l m n z)"

definition with_items :: "rule \<Rightarrow> rule \<Rightarrow> rule" where
  "with_items x r = (case r of Rule a b c d e f g h i j k l m n z \<Rightarrow> Rule a b c d e f g h (Some x) j k l m n z)"

definition with_minimum :: "int \<Rightarrow> rule \<Rightarrow> rule" where
  "with_minimum x r = (case r of Rule a b c d e f g h i j k l m n z \<Rightarrow> Rule a b c d e f g h i (Some x) k l m n z)"

definition with_maximum :: "int \<Rightarrow> rule \<Rightarrow> rule" where
  "with_maximum x r = (case r of Rule a b c d e f g h i j k l m n z \<Rightarrow> Rule a b c d e f g h i j (Some x) l m n z)"

definition with_maxLength :: "nat \<Rightarrow> rule \<Rightarrow> rule" where
  "with_maxLength x r = (case r of Rule a b c d e f g h i j k l m n z \<Rightarrow> Rule a b c d e f g h i j k (Some x) m n z)"

definition with_enum :: "string list \<Rightarrow> rule \<Rightarrow> rule" where
  "with_enum x r = (case r of Rule a b c d e f g h i j k l m n z \<Rightarrow> Rule a b c d e f g h i j k l (Some x) n z)"

definition with_pattern :: "string \<Rightarrow> rule \<Rightarrow> rule" where
  "with_pattern x r = (case r of Rule a b c d e f g h i j k l m n z \<Rightarrow> Rule a b c d e f g h i j k l m (Some x) z)"

definition with_environmentIdentifier :: "rule \<Rightarrow> rule" where
  "with_environmentIdentifier r = (case r of Rule a b c d e f g h i j k l m n z \<Rightarrow> Rule a b c d e f g h i j k l m n (Some True))"

definition rule_environmentIdentifier :: "rule" where
  "rule_environmentIdentifier = (with_pattern ''^[A-Za-z_][A-Za-z0-9_]{0,127}$'' (with_environmentIdentifier (of_type ''string'')))"

definition rule_unitTestSuite :: "rule" where
  "rule_unitTestSuite = (with_properties [(''type'', (with_enum [''maven'', ''pytest'', ''postman''] (of_type ''string''))),
      (''path'', (with_archetypes [''python-uv-fastapi''] (with_maxLength 120 (of_type ''path'')))),
      (''coverage'', (of_type ''coverage''))] (of_type ''mapping''))"

definition rule_serviceTestSuite :: "rule" where
  "rule_serviceTestSuite = (with_properties [(''type'', (with_enum [''pytest''] (of_type ''string''))),
      (''path'', (with_maxLength 120 (of_type ''path'')))] (of_type ''mapping''))"

definition rule_acceptanceTestSuite :: "rule" where
  "rule_acceptanceTestSuite = (with_properties [(''type'', (with_required True (with_enum [''maven'', ''python''] (of_type ''string'')))),
      (''path'', (with_required True (with_maxLength 120 (of_type ''path'')))),
      (''runnerPath'', (with_archetypes [''python-uv-fastapi''] (with_required True (with_maxLength 120 (of_type ''path''))))),
      (''mavenArguments'', (with_archetypes [''java-maven-azure''] (with_items ((with_maxLength 240 (with_pattern (''^[^'' @ [CHR 0x5C] @ ''s'' @ [CHR 0x5C] @ ''x00-'' @ [CHR 0x5C] @ ''x1F'' @ [CHR 0x5C] @ ''x7F]+$'') (of_type ''string'')))) (of_type ''list'')))),
      (''rootTokenEnv'', (with_ref ''environmentIdentifier'' no_rule)),
      (''noDataAccessTokenEnv'', (with_ref ''environmentIdentifier'' no_rule)),
      (''bindings'', (with_keyPattern ''^[A-Za-z_][A-Za-z0-9_]{0,127}$'' (with_keyEnvironmentIdentifier (with_additionalProperties ((with_properties [(''source'', (with_required True (with_enum [''gateway'', ''partition'', ''entitlementDomain'', ''storageAccount'', ''literal''] (of_type ''string'')))),
              (''suffix'', (with_maxLength 200 (with_pattern ''^[A-Za-z0-9._~:/@+-]+$'' (of_type ''string'')))),
              (''value'', (with_maxLength 240 (with_pattern ''^[A-Za-z0-9._~:/@+-]+$'' (of_type ''string''))))] (of_type ''mapping''))) (of_type ''mapping''))))),
      (''keyVaultBindings'', (with_keyPattern ''^[A-Za-z_][A-Za-z0-9_]{0,127}$'' (with_keyEnvironmentIdentifier (with_additionalProperties ((with_maxLength 127 (with_pattern ''^[A-Za-z0-9][A-Za-z0-9-]{0,126}$'' (of_type ''string'')))) (of_type ''mapping''))))),
      (''dependencies'', (with_keyPattern ''^[a-z0-9][a-z0-9-]{0,62}$'' (with_additionalProperties ((with_maxLength 200 (with_pattern ''^/[A-Za-z0-9._~/-]*$'' (of_type ''string'')))) (of_type ''mapping'')))),
      (''timeoutMinutes'', (with_minimum 1 (with_maximum 180 (of_type ''integer'')))),
      (''maxAttempts'', (with_minimum 1 (with_maximum 5 (of_type ''integer''))))] (of_type ''mapping''))"

definition rule_root_schemaVersion :: "rule" where
  "rule_root_schemaVersion = (with_required True (of_type ''integer''))"

definition rule_root_service :: "rule" where
  "rule_root_service = (with_required True (with_properties [(''name'', (with_required True (with_pattern ''^[a-z0-9][a-z0-9-]{0,62}$'' (of_type ''string'')))),
      (''archetype'', (with_required True (with_enum [''java-maven-azure'', ''python-uv-fastapi''] (of_type ''string'')))),
      (''description'', (with_maxLength 200 (of_type ''string'')))] (of_type ''mapping'')))"

definition rule_root_build :: "rule" where
  "rule_root_build = (with_properties [(''mavenProfiles'', (with_archetypes [''java-maven-azure''] (with_items ((with_pattern ''^[A-Za-z0-9][A-Za-z0-9._-]*$'' (of_type ''string''))) (of_type ''list'')))),
      (''artifact'', (with_archetypes [''java-maven-azure''] (with_properties [(''discovery'', (with_enum [''spring-boot-azure''] (of_type ''string''))),
          (''path'', (with_maxLength 160 (of_type ''repositoryGlob'')))] (of_type ''mapping'')))),
      (''python'', (with_archetypes [''python-uv-fastapi''] (with_properties [(''runtimeVersion'', (with_enum [''3.12''] (of_type ''string''))),
          (''compatibilityVersions'', (with_items ((with_enum [''3.11'', ''3.13''] (of_type ''string''))) (of_type ''list''))),
          (''packageManager'', (with_enum [''uv''] (of_type ''string''))),
          (''buildBackend'', (with_enum [''setuptools'', ''hatchling'', ''poetry-core'', ''flit-core''] (of_type ''string''))),
          (''lockfile'', (with_maxLength 120 (of_type ''path''))),
          (''distribution'', (with_pattern ''^[A-Za-z0-9][A-Za-z0-9._-]{0,63}$'' (of_type ''string''))),
          (''importPackage'', (with_pattern ''^[A-Za-z_][A-Za-z0-9_]{0,63}$'' (of_type ''string''))),
          (''testExtras'', (with_items ((with_pattern ''^[A-Za-z0-9][A-Za-z0-9._-]{0,63}$'' (of_type ''string''))) (of_type ''list''))),
          (''runtimeExtras'', (with_items ((with_pattern ''^[A-Za-z0-9][A-Za-z0-9._-]{0,63}$'' (of_type ''string''))) (of_type ''list'')))] (of_type ''mapping''))))] (of_type ''mapping''))"

definition rule_root_tests :: "rule" where
  "rule_root_tests = (with_properties [(''unit'', (with_ref ''unitTestSuite'' no_rule)),
      (''serviceInProcess'', (with_ref ''serviceTestSuite'' (with_archetypes [''python-uv-fastapi''] no_rule))),
      (''serviceSubprocess'', (with_ref ''serviceTestSuite'' (with_archetypes [''python-uv-fastapi''] no_rule))),
      (''acceptance'', (with_ref ''acceptanceTestSuite'' no_rule))] (of_type ''mapping''))"

definition rule_root_container :: "rule" where
  "rule_root_container = (with_properties [(''dockerfileProfile'', (with_enum [''java'', ''python''] (of_type ''string''))),
      (''appModule'', (with_archetypes [''python-uv-fastapi''] (with_maxLength 120 (with_pattern (''^[A-Za-z_][A-Za-z0-9_]*('' @ [CHR 0x5C] @ ''.[A-Za-z_][A-Za-z0-9_]*)*:[A-Za-z_][A-Za-z0-9_]*$'') (of_type ''string'')))))] (of_type ''mapping''))"

definition schema_archetypes :: "(string \<times> archetype_rule) list" where
  "schema_archetypes = [(''java-maven-azure'', \<lparr>ar_lane = ''java'', ar_laneImplemented = True, ar_requiredKeys = [],
     ar_dockerfileProfile = ''java'', ar_unitTestType = ''maven'', ar_coverage = ''jacoco'', ar_runtimeVersion = None\<rparr>),
     (''python-uv-fastapi'', \<lparr>ar_lane = ''python'', ar_laneImplemented = True, ar_requiredKeys = [''container.appModule''],
     ar_dockerfileProfile = ''python'', ar_unitTestType = ''pytest'', ar_coverage = ''pytest-cov'', ar_runtimeVersion = (Some ''3.12'')\<rparr>)]"

definition schema_forbiddenKeys :: "string list" where
  "schema_forbiddenKeys = [''action'', ''actions'', ''aks'', ''azure'', ''azureClientId'', ''cluster'',
     ''command'', ''containerName'', ''credentials'', ''deployment'', ''deploymentName'', ''entrypoint'',
     ''env'', ''environment'', ''identity'', ''image'', ''kubernetes'', ''namespace'',
     ''password'', ''permissions'', ''registry'', ''run'', ''runsOn'', ''script'',
     ''secret'', ''secrets'', ''shell'', ''subscription'', ''tenant'', ''token'',
     ''uses'', ''with'', ''workflow'']"

definition schema_reservedEnvironmentIdentifiers :: "string list" where
  "schema_reservedEnvironmentIdentifiers = [''PATH'', ''HOME'', ''SHELL'', ''PWD'',
     ''OLDPWD'', ''BASH_ENV'', ''ENV'', ''LD_PRELOAD'',
     ''LD_LIBRARY_PATH'', ''PYTHONPATH'', ''JAVA_TOOL_OPTIONS'', ''MAVEN_OPTS'',
     ''GITHUB_ENV'', ''GITHUB_OUTPUT'', ''GITHUB_PATH'', ''GITHUB_STEP_SUMMARY'',
     ''GITHUB_TOKEN'', ''AZURE_CLIENT_ID'', ''AZURE_TENANT_ID'', ''AZURE_SUBSCRIPTION_ID'',
     ''AZURE_FEDERATED_TOKEN_FILE'', ''ACTIONS_ID_TOKEN_REQUEST_URL'', ''ACTIONS_ID_TOKEN_REQUEST_TOKEN'']"

definition service_schema :: descriptor_schema where
  "service_schema = \<lparr>sc_supportedSchemaVersions = [2], sc_deprecatedSchemaVersions = [1],
     sc_reservedEnvironmentIdentifiers = schema_reservedEnvironmentIdentifiers, sc_reservedEnvironmentPrefixes = [''GITHUB_'', ''RUNNER_'', ''ACTIONS_''],
     sc_archetypes = schema_archetypes, sc_forbiddenKeys = schema_forbiddenKeys,
     sc_properties = [(''schemaVersion'', rule_root_schemaVersion), (''service'', rule_root_service), (''build'', rule_root_build), (''tests'', rule_root_tests), (''container'', rule_root_container)],
     sc_definitions = [(''environmentIdentifier'', rule_environmentIdentifier), (''unitTestSuite'', rule_unitTestSuite), (''serviceTestSuite'', rule_serviceTestSuite), (''acceptanceTestSuite'', rule_acceptanceTestSuite)],
     sc_coverageValues = [''jacoco'', ''cobertura'', ''pytest-cov'', ''none'']\<rparr>"

section \<open>The resolved configuration\<close>

record ResolvedConfig =
  descriptor_present :: bool
  rc_valid :: bool
  schema_version :: string
  rc_archetype :: string
  service_name :: string
  dockerfile_profile :: string
  unit_test_type :: string
  has_coverage :: string
  build_lane :: string
  lane_implemented :: string
  fallback :: string
  python_runtime_version :: string
  python_compatibility_versions :: string
  python_distribution :: string
  python_import_package :: string
  python_test_extras :: string
  python_runtime_extras :: string
  python_unit_test_path :: string
  python_service_in_process_test_path :: string
  python_service_subprocess_test_path :: string
  python_acceptance_test_path :: string
  python_acceptance_runner_path :: string
  app_module :: string
  acceptance_config :: string
  java_maven_profiles :: string
  service_target_jar :: string
  rc_errors :: "ValidationError list"

definition new_config :: "string \<Rightarrow> ResolvedConfig" where
  "new_config name = \<lparr>descriptor_present = False, rc_valid = True, schema_version = [], rc_archetype = [], service_name = name,
     dockerfile_profile = [], unit_test_type = [], has_coverage = ''false'', build_lane = ''none'', lane_implemented = ''false'',
     fallback = ''none'', python_runtime_version = [], python_compatibility_versions = [], python_distribution = [],
     python_import_package = [], python_test_extras = [], python_runtime_extras = [], python_unit_test_path = [],
     python_service_in_process_test_path = [], python_service_subprocess_test_path = [], python_acceptance_test_path = [],
     python_acceptance_runner_path = [], app_module = [], acceptance_config = [], java_maven_profiles = [],
     service_target_jar = [], rc_errors = []\<rparr>"

definition matrix_entry :: "string \<Rightarrow> pyval" where
  "matrix_entry version = PDict [(''version'', PStr version), (''artifact_suffix'', PStr (''-py'' @ py_replace ''.'' [] version))]"

definition compatibility_matrix :: "string \<Rightarrow> pyval" where
  "compatibility_matrix versions = (let vs = filter (\<lambda>v. v \<noteq> []) (split_char (CHR '','') versions) in
     PDict [(''include'', PList (if vs = [] then [PDict [(''version'', PStr []), (''artifact_suffix'', PStr [])]] else map matrix_entry vs))])"

definition outputs :: "ResolvedConfig \<Rightarrow> (string \<times> string) list" where
  "outputs c = [(''descriptor_present'', if descriptor_present c then ''true'' else ''false''),
     (''schema_version'', schema_version c), (''archetype'', rc_archetype c), (''service_name'', service_name c),
     (''dockerfile_profile'', dockerfile_profile c), (''unit_test_type'', unit_test_type c), (''has_coverage'', has_coverage c),
     (''build_lane'', build_lane c), (''lane_implemented'', lane_implemented c), (''fallback'', fallback c),
     (''python_runtime_version'', python_runtime_version c), (''python_compatibility_versions'', python_compatibility_versions c),
     (''python_compatibility_matrix'', json_dumps (compatibility_matrix (python_compatibility_versions c))),
     (''python_distribution'', python_distribution c), (''python_import_package'', python_import_package c),
     (''python_test_extras'', python_test_extras c), (''python_runtime_extras'', python_runtime_extras c),
     (''python_unit_test_path'', python_unit_test_path c),
     (''python_service_in_process_test_path'', python_service_in_process_test_path c),
     (''python_service_subprocess_test_path'', python_service_subprocess_test_path c),
     (''python_acceptance_test_path'', python_acceptance_test_path c),
     (''python_acceptance_runner_path'', python_acceptance_runner_path c), (''app_module'', app_module c),
     (''acceptance_config'', acceptance_config c), (''java_maven_profiles'', java_maven_profiles c),
     (''service_target_jar'', service_target_jar c)]"

section \<open>Resolution\<close>

type_synonym doc = "(string \<times> pyval) list"

definition str_of :: "pyval \<Rightarrow> string res" where
  "str_of v = (case v of PStr s \<Rightarrow> Inr s | _ \<Rightarrow> Inl TypeError)"

definition str_of_int :: "pyval \<Rightarrow> string" where
  \<comment> \<open>\<open>str(v)\<close> of the schema version, an integer\<close>
  "str_of_int v = (case v of PInt i \<Rightarrow> show_int i | _ \<Rightarrow> [])"

definition get_str :: "doc \<Rightarrow> string \<Rightarrow> string \<Rightarrow> string res" where
  \<comment> \<open>\<open>d.get(key, default)\<close> for a field of strings\<close>
  "get_str d key dflt = (case map_of d key of None \<Rightarrow> Inr dflt | Some v \<Rightarrow> str_of v)"

definition get_joined :: "doc \<Rightarrow> string \<Rightarrow> string res" where
  \<comment> \<open>\<open>",".join(d.get(key, []))\<close>\<close>
  "get_joined d key = (case map_of d key of
       None \<Rightarrow> Inr []
     | Some (PList l) \<Rightarrow> bindR (mapR str_of l) (\<lambda>ss. Inr (join '','' ss))
     | Some _ \<Rightarrow> Inl TypeError)"

definition index_val :: "doc \<Rightarrow> string \<Rightarrow> pyval res" where
  "index_val d key = ofOption KeyError (map_of d key)"

fun str_le :: "string \<Rightarrow> string \<Rightarrow> bool" where
  \<comment> \<open>the order of Python's strings\<close>
  "str_le [] b = True"
| "str_le (x # xs) [] = False"
| "str_le (x # xs) (y # ys) = (code x < code y \<or> x = y \<and> str_le xs ys)"

fun insert_item :: "string \<times> pyval \<Rightarrow> doc \<Rightarrow> doc" where
  "insert_item kv [] = [kv]"
| "insert_item kv (x # xs) = (if str_le (fst kv) (fst x) then kv # x # xs else x # insert_item kv xs)"

definition sorted_items :: "doc \<Rightarrow> doc" where
  \<comment> \<open>\<open>{name: d[name] for name in sorted(d)}\<close>\<close>
  "sorted_items d = foldr insert_item d []"

definition normalized_binding :: "string \<times> pyval \<Rightarrow> (string \<times> pyval) res" where
  "normalized_binding nb = (case nb of (name, PDict b) \<Rightarrow>
       bindR (index_val b ''source'') (\<lambda>s. Inr (name, PDict ([(''source'', s)]
         @ (case map_of b ''suffix'' of Some v \<Rightarrow> [(''suffix'', v)] | None \<Rightarrow> [])
         @ (case map_of b ''value'' of Some v \<Rightarrow> [(''value'', v)] | None \<Rightarrow> []))))
     | _ \<Rightarrow> Inl TypeError)"

definition or_default :: "doc \<Rightarrow> string \<Rightarrow> pyval \<Rightarrow> pyval" where
  "or_default d key dflt = (case map_of d key of None \<Rightarrow> dflt | Some v \<Rightarrow> v)"

definition acceptance_config_of :: "doc \<Rightarrow> string \<Rightarrow> string res" where
  \<comment> \<open>\<open>_acceptance_config\<close>\<close>
  "acceptance_config_of document archetype = bindR (get_dict document ''tests'') (\<lambda>tests.
     case map_of tests ''acceptance'' of
       Some (PDict a) \<Rightarrow>
         bindR (get_dict a ''bindings'') (\<lambda>bs.
         bindR (mapR normalized_binding (sorted_items bs)) (\<lambda>bindings.
         bindR (get_dict a ''keyVaultBindings'') (\<lambda>kvs.
         bindR (get_dict a ''dependencies'') (\<lambda>deps.
         bindR (index_val a ''type'') (\<lambda>ty.
         bindR (index_val a ''path'') (\<lambda>path.
           Inr (json_dumps (PDict [(''type'', ty), (''path'', path), (''runnerPath'', or_default a ''runnerPath'' (PStr [])),
             (''mavenArguments'', or_default a ''mavenArguments'' (PList (if archetype = ''java-maven-azure'' then [PStr ''verify''] else []))),
             (''rootTokenEnv'', or_default a ''rootTokenEnv'' (PStr ''ROOT_USER_TOKEN'')),
             (''noDataAccessTokenEnv'', or_default a ''noDataAccessTokenEnv'' (PStr [])),
             (''bindings'', PDict bindings), (''keyVaultBindings'', PDict (sorted_items kvs)),
             (''dependencies'', PDict (sorted_items deps)),
             (''timeoutMinutes'', or_default a ''timeoutMinutes'' (PInt 25)),
             (''maxAttempts'', or_default a ''maxAttempts'' (PInt 2))]))))))))
     | _ \<Rightarrow> Inr [])"

record checkout =
  \<comment> \<open>what the file system answers\<close>
  co_descriptor :: "(unit + string) option"
    \<comment> \<open>the decoded file, \<open>Inl\<close> when it is not UTF-8\<close>
  co_java_markers :: bool

definition java_fields :: "doc \<Rightarrow> ResolvedConfig \<Rightarrow> ResolvedConfig res" where
  "java_fields build c =
     bindR (get_joined build ''mavenProfiles'') (\<lambda>profiles.
     bindR (get_dict build ''artifact'') (\<lambda>artifact.
     bindR (get_str artifact ''path'' []) (\<lambda>jar.
       Inr (c\<lparr>java_maven_profiles := profiles, service_target_jar := jar\<rparr>))))"

definition suite_path :: "doc \<Rightarrow> string \<Rightarrow> string \<Rightarrow> string res" where
  \<comment> \<open>\<open>tests.get(suite, {}).get(key, "")\<close>\<close>
  "suite_path tests suite key = bindR (get_dict tests suite) (\<lambda>s. get_str s key [])"

definition python_fields :: "doc \<Rightarrow> doc \<Rightarrow> doc \<Rightarrow> archetype_rule \<Rightarrow> ResolvedConfig \<Rightarrow> ResolvedConfig res" where
  "python_fields build tests container rule c =
     bindR (get_dict build ''python'') (\<lambda>python.
     bindR (get_str python ''runtimeVersion'' (case ar_runtimeVersion rule of Some v \<Rightarrow> v | None \<Rightarrow> [])) (\<lambda>rt.
     bindR (get_joined python ''compatibilityVersions'') (\<lambda>cv.
     bindR (get_str python ''distribution'' []) (\<lambda>dist.
     bindR (get_str python ''importPackage'' []) (\<lambda>imp.
     bindR (get_joined python ''testExtras'') (\<lambda>te.
     bindR (get_joined python ''runtimeExtras'') (\<lambda>re.
     bindR (suite_path tests ''unit'' ''path'') (\<lambda>up.
     bindR (suite_path tests ''serviceInProcess'' ''path'') (\<lambda>ip.
     bindR (suite_path tests ''serviceSubprocess'' ''path'') (\<lambda>sp.
     bindR (suite_path tests ''acceptance'' ''path'') (\<lambda>ap.
     bindR (suite_path tests ''acceptance'' ''runnerPath'') (\<lambda>arp.
     bindR (get_str container ''appModule'' []) (\<lambda>am.
       Inr (c\<lparr>python_runtime_version := rt, python_compatibility_versions := cv, python_distribution := dist,
         python_import_package := imp, python_test_extras := te, python_runtime_extras := re, python_unit_test_path := up,
         python_service_in_process_test_path := ip, python_service_subprocess_test_path := sp,
         python_acceptance_test_path := ap, python_acceptance_runner_path := arp, app_module := am\<rparr>))))))))))))))"

definition resolve_document :: "descriptor_schema \<Rightarrow> doc \<Rightarrow> ResolvedConfig \<Rightarrow> ResolvedConfig res" where
  \<comment> \<open>the part of \<open>resolve\<close> after the validation\<close>
  "resolve_document sch document c =
     bindR (index_val document ''service'') (\<lambda>sv.
     bindR (v_index sv ''archetype'') (\<lambda>av. bindR (str_of av) (\<lambda>archetype.
     bindR (ofOption KeyError (map_of (sc_archetypes sch) archetype)) (\<lambda>rule.
     bindR (index_val document ''schemaVersion'') (\<lambda>version.
     bindR (v_index sv ''name'') (\<lambda>nv. bindR (str_of nv) (\<lambda>name.
     bindR (get_dict document ''container'') (\<lambda>container.
     bindR (get_str container ''dockerfileProfile'' (ar_dockerfileProfile rule)) (\<lambda>profile.
     bindR (get_dict document ''tests'') (\<lambda>tests.
     bindR (get_dict tests ''unit'') (\<lambda>unit.
     bindR (get_str unit ''type'' (ar_unitTestType rule)) (\<lambda>utt.
     bindR (get_dict document ''build'') (\<lambda>build.
     (let coverage = or_default unit ''coverage'' (PStr (ar_coverage rule));
          c1 = c\<lparr>schema_version := str_of_int version, rc_archetype := archetype, service_name := name, build_lane := ar_lane rule,
                lane_implemented := (if ar_laneImplemented rule then ''true'' else ''false''), dockerfile_profile := profile,
                unit_test_type := utt,
                has_coverage := (if py_eq coverage (PBool False) \<or> coverage = PStr ''none'' then ''false'' else ''true'')\<rparr>
      in bindR (if ar_lane rule = ''java'' then java_fields build c1 else Inr c1) (\<lambda>c2.
         bindR (acceptance_config_of document archetype) (\<lambda>ac.
           let c3 = c2\<lparr>acceptance_config := ac\<rparr> in
           if ar_lane rule = ''python'' then python_fields build tests container rule c3 else Inr c3))))))))))))))))"

definition resolve :: "(string \<Rightarrow> string \<Rightarrow> bool) \<Rightarrow> descriptor_schema \<Rightarrow> checkout \<Rightarrow> string \<Rightarrow> ResolvedConfig res" where
  "resolve fullmatch sch co name = (case co_descriptor co of
       None \<Rightarrow> Inr (if co_java_markers co
         then (new_config name)\<lparr>build_lane := ''java'', lane_implemented := ''true'', dockerfile_profile := ''java'',
                unit_test_type := ''maven'', has_coverage := ''true'', fallback := ''java-inference''\<rparr>
         else new_config name)
     | Some t \<Rightarrow>
         let c = (new_config name)\<lparr>descriptor_present := True\<rparr> in
         (case t of
            Inl _ \<Rightarrow> Inr (c\<lparr>rc_valid := False, rc_errors := [err ''.spi/service.yaml'' ''invalid-encoding'']\<rparr>)
          | Inr text \<Rightarrow> (case parse text of
              Inl IntegerTooLong \<Rightarrow> Inl ValueError
            | Inl _ \<Rightarrow> Inr (c\<lparr>rc_valid := False, rc_errors := [err ''.spi/service.yaml'' ''parse-error'']\<rparr>)
            | Inr document \<Rightarrow> bindR (validate fullmatch sch document) (\<lambda>errors.
                if errors \<noteq> [] then Inr (c\<lparr>rc_valid := False, rc_errors := errors\<rparr>)
                else resolve_document sch document c))))"

section \<open>The command (read_service_config.py)\<close>

definition multi_line :: "string \<Rightarrow> bool" where
  "multi_line s \<longleftrightarrow> CHR 0x0A \<in> set s \<or> CHR 0x0D \<in> set s"

definition read_service_config :: "(string \<Rightarrow> string \<Rightarrow> bool) \<Rightarrow> descriptor_schema \<Rightarrow> checkout \<Rightarrow> string \<Rightarrow> (nat \<times> string) res" where
  \<comment> \<open>\<open>main\<close> with \<open>--format github\<close>: the exit code and what is written to the output file\<close>
  "read_service_config fullmatch sch co name = bindR (resolve fullmatch sch co name) (\<lambda>config.
     if list_ex (\<lambda>(k, v). multi_line v) (outputs config) then Inr (1, [])
     else Inr (if rc_valid config then 0 else 1, concat (map (\<lambda>(k, v). k @ ''='' @ v @ [CHR 0x0A]) (outputs config))))"

end
