(* ===== verification/Descriptor_Safety.thy ===== *)
theory Descriptor_Safety
  imports Descriptor_Resolve
begin

text \<open>
  What the workflows may rely on: the validation of the service descriptor is total on parsed documents, what it
  accepts has the declared types, and the outputs of a valid descriptor are single lines and name paths inside of
  the repository.
\<close>

section \<open>Accepted values\<close>

definition accepted :: "(string \<Rightarrow> string \<Rightarrow> bool) \<Rightarrow> descriptor_schema \<Rightarrow> string \<Rightarrow> pyval \<Rightarrow> rule \<Rightarrow> bool" where
  "accepted fm sch a v r \<longleftrightarrow> (\<exists>path. validate_value fm sch a v r path = Inr [])"

definition sub_rule :: "descriptor_schema \<Rightarrow> rule \<Rightarrow> string \<Rightarrow> rule option" where
  \<comment> \<open>the resolved rule of a declared key\<close>
  "sub_rule sch r k = (case map_of (properties_of r) k of
       None \<Rightarrow> None
     | Some r1 \<Rightarrow> (case resolve_ref sch r1 of Inr r' \<Rightarrow> Some r' | Inl _ \<Rightarrow> None))"

lemma validate_entries_member:
  assumes "validate_entries fm sch a m r path = Inr []" and "(k, v) \<in> set m"
  shows "(case map_of (properties_of r) k of
      Some r1 \<Rightarrow> \<exists>r'. resolve_ref sch r1 = Inr r' \<and> \<not> wrong_archetype r' a \<and> accepted fm sch a v r'
    | None \<Rightarrow> \<exists>add r'. ru_additionalProperties r = Some add \<and> resolve_ref sch add = Inr r' \<and> \<not> wrong_archetype r' a
        \<and> key_errors fm sch r k (child_path path k) = [] \<and> accepted fm sch a v r')"
  using assms
proof (induction m)
  case (Cons x m)
  obtain k0 v0 where x: "x = (k0, v0)" by fastforce
  from Cons.prems(1) have rest: "validate_entries fm sch a m r path = Inr []"
    by (auto simp: x bindR_Inr_iff simp del: validate_value.simps)
  show ?case
  proof (cases "(k, v) = x")
    case False
    with Cons rest show ?thesis by simp
  next
    case True
    with Cons.prems(1) show ?thesis
      by (cases "map_of (properties_of r) k"; cases "ru_additionalProperties r")
        (auto simp: x bindR_Inr_iff accepted_def simp del: validate_value.simps split: if_splits)
  qed
qed simp

lemma missing_keys_present:
  assumes "missing_keys sch a keys path ps = Inr []" and "(k, r1) \<in> set ps" and "resolve_ref sch r1 = Inr r'"
    and "ru_required r' = Some True" and "\<not> wrong_archetype r' a"
  shows "k \<in> set keys"
  using assms by (induction ps) (auto simp: bindR_Inr_iff split: if_splits)

lemma accepted_mapping:
  assumes "accepted fm sch a v r" and "ru_type r = Some ''mapping''"
  shows "\<exists>m path. v = PDict m \<and> validate_entries fm sch a m r path = Inr [] \<and> missing_keys sch a (map fst m) path (properties_of r) = Inr []"
  using assms by (cases v) (auto simp: accepted_def bindR_Inr_iff split: if_splits)

lemma validate_items_member:
  "validate_items fm sch a vs n r path = Inr [] \<Longrightarrow> x \<in> set vs \<Longrightarrow> accepted fm sch a x r"
  by (induction vs arbitrary: n) (auto simp: bindR_Inr_iff accepted_def simp del: validate_value.simps)

lemma accepted_list:
  assumes "accepted fm sch a v r" and "ru_type r = Some ''list''"
  shows "\<exists>l ir. v = PList l \<and> l \<noteq> [] \<and> ru_items r = Some ir \<and> (\<forall>x\<in>set l. accepted fm sch a x ir)"
proof -
  from assms obtain path where ok: "validate_value fm sch a v r path = Inr []" by (auto simp: accepted_def)
  with assms(2) obtain l where l: "v = PList l" by (cases v) auto
  with ok assms(2) have "l \<noteq> []" by auto
  then obtain x xs where xs: "l = x # xs" by (cases l) auto
  with ok assms(2) l obtain ir where ir: "ru_items r = Some ir" "validate_items fm sch a l 0 ir path = Inr []"
    by (cases "ru_items r") (simp_all del: validate_items.simps)
  with l xs validate_items_member [OF ir(2)] show ?thesis by blast
qed

lemma accepted_scalar:
  assumes "accepted fm sch a v r" and "ru_type r \<notin> {Some ''mapping'', Some ''list''}"
  shows "\<exists>path. validate_scalar fm sch v r path = []"
  using assms by (auto simp: accepted_def)

definition stringy :: "rule \<Rightarrow> bool" where
  "stringy r \<longleftrightarrow> ru_type r = Some ''string'' \<or> ru_type r = Some ''path'' \<or> ru_type r = Some ''repositoryGlob''"

lemma accepted_string:
  assumes "accepted fm sch a v r" and "stringy r"
  shows "\<exists>s. v = PStr s \<and> (ru_type r \<noteq> Some ''string'' \<longrightarrow> \<not> outside s)
    \<and> (ru_type r = Some ''string'' \<and> ru_enum r \<noteq> None \<longrightarrow> s \<in> set (the (ru_enum r)))"
proof -
  have "ru_type r \<notin> {Some ''mapping'', Some ''list''}" using assms(2) by (auto simp: stringy_def)
  then obtain path where "validate_scalar fm sch v r path = []" using accepted_scalar [OF assms(1)] by blast
  with assms(2) show ?thesis
    by (cases v) (auto simp: validate_scalar_def stringy_def validate_path_def validate_string_def split: if_splits)
qed

section \<open>The validation is total on parsed documents\<close>

primrec good_rule :: "descriptor_schema \<Rightarrow> nat \<Rightarrow> rule \<Rightarrow> bool" where
  \<comment> \<open>references resolve and lists say what their items are, so many levels down\<close>
  "good_rule sch 0 r = True"
| "good_rule sch (Suc n) r \<longleftrightarrow>
     (ru_type r = Some ''list'' \<longrightarrow> (case ru_items r of None \<Rightarrow> False | Some ir \<Rightarrow> good_rule sch n ir))
     \<and> list_all (\<lambda>(k, p). case resolve_ref sch p of Inr p' \<Rightarrow> good_rule sch n p' | Inl _ \<Rightarrow> False) (properties_of r)
     \<and> (case ru_additionalProperties r of None \<Rightarrow> True
        | Some p \<Rightarrow> (case resolve_ref sch p of Inr p' \<Rightarrow> good_rule sch n p' | Inl _ \<Rightarrow> False))"

primrec depth_le :: "nat \<Rightarrow> pyval \<Rightarrow> bool" where
  "depth_le 0 v \<longleftrightarrow> (\<forall>m. v \<noteq> PDict m) \<and> (\<forall>l. v \<noteq> PList l)"
| "depth_le (Suc n) v \<longleftrightarrow> (case v of PDict m \<Rightarrow> list_all (\<lambda>(k, w). depth_le n w) m | PList l \<Rightarrow> list_all (depth_le n) l | _ \<Rightarrow> True)"

lemma missing_keys_total:
  "list_all (\<lambda>(k, p). case resolve_ref sch p of Inr p' \<Rightarrow> Q p' | Inl _ \<Rightarrow> False) ps \<Longrightarrow> \<exists>es. missing_keys sch a keys path ps = Inr es"
proof (induction ps)
  case (Cons p ps)
  obtain k b where p: "p = (k, b)" by fastforce
  with Cons obtain es where es: "missing_keys sch a keys path ps = Inr es" by auto
  show ?case using Cons.prems es by (cases "resolve_ref sch b") (simp_all add: p)
qed simp

lemma validate_value_scalar:
  assumes "\<forall>m. v \<noteq> PDict m" and "\<forall>l. v \<noteq> PList l"
  shows "\<exists>es. validate_value fm sch a v r path = Inr es"
  using assms by (cases v) auto

lemma validate_total: "good_rule sch n r \<Longrightarrow> depth_le n v \<Longrightarrow> \<exists>es. validate_value fm sch a v r path = Inr es"
proof (induction n arbitrary: r v path)
  case 0
  then show ?case using validate_value_scalar by simp
next
  case (Suc n)
  show ?case
  proof (cases v)
    case (PDict m)
    have "\<exists>es. validate_entries fm sch a m r path = Inr es" if "list_all (\<lambda>(k, w). depth_le n w) m"
      using that
    proof (induction m)
      case (Cons x m)
      obtain k w where x: "x = (k, w)" by fastforce
      have props: "\<exists>r'. resolve_ref sch r1 = Inr r' \<and> good_rule sch n r'" if "map_of (properties_of r) k = Some r1" for r1
      proof -
        from Suc.prems(1) have "case resolve_ref sch r1 of Inr p' \<Rightarrow> good_rule sch n p' | Inl _ \<Rightarrow> False"
          using map_of_SomeD [OF that] by (simp add: list_all_iff) blast
        then show ?thesis by (cases "resolve_ref sch r1") auto
      qed
      have add: "\<exists>r'. resolve_ref sch r1 = Inr r' \<and> good_rule sch n r'" if "ru_additionalProperties r = Some r1" for r1
        using that Suc.prems(1) by (cases "resolve_ref sch r1") auto
      from Cons obtain es where es: "validate_entries fm sch a m r path = Inr es" by (auto simp: x)
      have w: "\<exists>es. validate_value fm sch a w r' p = Inr es" if "good_rule sch n r'" for r' p
        using Suc.IH [OF that] Cons.prems by (simp add: x)
      have step: "\<exists>es. validate_entries fm sch a (x # m) r path = Inr es"
        if "map_of (properties_of r) k = Some r1 \<or> map_of (properties_of r) k = None \<and> ru_additionalProperties r = Some r1"
          and "resolve_ref sch r1 = Inr r'" and "good_rule sch n r'" for r1 r'
        using that w [OF that(3), of "child_path path k"] es
        by (elim exE disjE; cases "ru_additionalProperties r"; cases "wrong_archetype r' a")
          (simp_all add: x del: validate_value.simps)
      show ?case
      proof (cases "map_of (properties_of r) k")
        case None
        then show ?thesis
          using add step es by (cases "ru_additionalProperties r") (auto simp: x simp del: validate_value.simps validate_entries.simps(2), simp)
      next
        case (Some r1)
        then show ?thesis using props step by blast
      qed
    qed simp
    then obtain es where "validate_entries fm sch a m r path = Inr es" using Suc.prems(2) PDict by auto
    moreover obtain ms where "missing_keys sch a (map fst m) path (properties_of r) = Inr ms"
      using missing_keys_total Suc.prems(1) by fastforce
    ultimately show ?thesis using PDict by simp
  next
    case (PList l)
    show ?thesis
    proof (cases "ru_type r = Some ''list''")
      case True
      then obtain ir where ir: "ru_items r = Some ir" "good_rule sch n ir" using Suc.prems(1) by (auto split: option.splits)
      have "\<exists>es. validate_items fm sch a l i ir path = Inr es" if "list_all (depth_le n) l" for i
        using that
      proof (induction l arbitrary: i)
        case (Cons x l)
        obtain e1 where e1: "validate_value fm sch a x ir (path @ ''['' @ show_nat i @ '']'') = Inr e1"
          using Suc.IH [OF ir(2)] Cons.prems by auto
        obtain e2 where e2: "validate_items fm sch a l (i + 1) ir path = Inr e2" using Cons.IH Cons.prems by auto
        show ?case unfolding validate_items.simps e1 e2 by simp
      qed simp
      then show ?thesis using PList Suc.prems(2) ir by (cases l) (auto simp del: validate_items.simps)
    next
      case False
      with PList show ?thesis by simp
    qed
  qed (use validate_value_scalar in auto)
qed

lemma scalar_depth: "scalar_ok v \<Longrightarrow> depth_le n v"
  by (cases v; cases n) (simp_all add: scalar_ok_def)

lemma flow_depth: "flow_ok v \<Longrightarrow> depth_le (Suc n) v"
  using scalar_depth by (auto simp: flow_ok_def items_ok_def list_all_iff scalar_ok_def split: pyval.splits)

lemma node_depth: "node_ok d v \<Longrightarrow> depth_le (d + 2) v"
proof (induction d arbitrary: v)
  case 0
  then show ?case using flow_depth by (simp del: depth_le.simps)
next
  case (Suc d)
  from Suc.prems show ?case
    unfolding node_ok.simps
  proof (elim disjE exE conjE)
    assume "flow_ok v" then show ?thesis using flow_depth by simp
  next
    fix l assume "v = PList l" "items_ok flow_ok l"
    then show ?thesis using flow_depth by (auto simp: items_ok_def list_all_iff)
  next
    fix m assume "v = PDict m" "list_all (\<lambda>(k, w). valid_key k \<and> node_ok d w) m"
    then show ?thesis using Suc.IH by (auto simp: list_all_iff)
  qed
qed

lemma service_schema_good: "good_rule service_schema 8 (root_rule service_schema)"
  by code_simp

section \<open>Rules of the schema by path\<close>

definition rule_at :: "string list \<Rightarrow> rule option" where
  "rule_at ks = foldl (\<lambda>r k. case r of None \<Rightarrow> None | Some r' \<Rightarrow> sub_rule service_schema r' k) (Some (root_rule service_schema)) ks"

definition type_at :: "string list \<Rightarrow> string option" where
  "type_at ks = (case rule_at ks of Some r \<Rightarrow> ru_type r | None \<Rightarrow> None)"

definition item_type_at :: "string list \<Rightarrow> string option" where
  "item_type_at ks = (case rule_at ks of Some r \<Rightarrow> (case ru_items r of Some ir \<Rightarrow> ru_type ir | None \<Rightarrow> None) | None \<Rightarrow> None)"

definition required_at :: "string list \<Rightarrow> bool" where
  \<comment> \<open>required for every archetype\<close>
  "required_at ks = (case rule_at ks of Some r \<Rightarrow> ru_required r = Some True \<and> ru_archetypes r = None | None \<Rightarrow> False)"

lemma rule_at_snoc: "rule_at (ks @ [k]) = (case rule_at ks of None \<Rightarrow> None | Some r \<Rightarrow> sub_rule service_schema r k)"
  by (simp add: rule_at_def)

lemma type_at_rule: "type_at ks = Some t \<Longrightarrow> \<exists>r. rule_at ks = Some r \<and> ru_type r = Some t"
  by (auto simp: type_at_def split: option.splits)

lemma mapping_types:
  "type_at [''service''] = Some ''mapping''" "type_at [''container''] = Some ''mapping''" "type_at [''tests''] = Some ''mapping''"
  "type_at [''build''] = Some ''mapping''" "type_at [''build'', ''python''] = Some ''mapping''"
  "type_at [''build'', ''artifact''] = Some ''mapping''" "type_at [''tests'', ''unit''] = Some ''mapping''"
  "type_at [''tests'', ''serviceInProcess''] = Some ''mapping''" "type_at [''tests'', ''serviceSubprocess''] = Some ''mapping''"
  "type_at [''tests'', ''acceptance''] = Some ''mapping''" "type_at [''tests'', ''acceptance'', ''bindings''] = Some ''mapping''"
  "type_at [''tests'', ''acceptance'', ''keyVaultBindings''] = Some ''mapping''"
  "type_at [''tests'', ''acceptance'', ''dependencies''] = Some ''mapping''"
  by code_simp+

lemma string_types:
  "type_at [''service'', ''name''] = Some ''string''" "type_at [''service'', ''archetype''] = Some ''string''"
  "type_at [''container'', ''dockerfileProfile''] = Some ''string''" "type_at [''container'', ''appModule''] = Some ''string''"
  "type_at [''tests'', ''unit'', ''type''] = Some ''string''" "type_at [''build'', ''python'', ''runtimeVersion''] = Some ''string''"
  "type_at [''build'', ''python'', ''distribution''] = Some ''string''" "type_at [''build'', ''python'', ''importPackage''] = Some ''string''"
  by code_simp+

lemma path_types:
  "type_at [''build'', ''artifact'', ''path''] = Some ''repositoryGlob''" "type_at [''tests'', ''unit'', ''path''] = Some ''path''"
  "type_at [''tests'', ''serviceInProcess'', ''path''] = Some ''path''" "type_at [''tests'', ''serviceSubprocess'', ''path''] = Some ''path''"
  "type_at [''tests'', ''acceptance'', ''path''] = Some ''path''" "type_at [''tests'', ''acceptance'', ''runnerPath''] = Some ''path''"
  by code_simp+

lemma list_types:
  "type_at [''build'', ''mavenProfiles''] = Some ''list''" "item_type_at [''build'', ''mavenProfiles''] = Some ''string''"
  "type_at [''build'', ''python'', ''compatibilityVersions''] = Some ''list''" "item_type_at [''build'', ''python'', ''compatibilityVersions''] = Some ''string''"
  "type_at [''build'', ''python'', ''testExtras''] = Some ''list''" "item_type_at [''build'', ''python'', ''testExtras''] = Some ''string''"
  "type_at [''build'', ''python'', ''runtimeExtras''] = Some ''list''" "item_type_at [''build'', ''python'', ''runtimeExtras''] = Some ''string''"
  by code_simp+

lemma required_keys:
  "required_at [''schemaVersion'']" "required_at [''service'']" "required_at [''service'', ''name'']" "required_at [''service'', ''archetype'']"
  "required_at [''tests'', ''acceptance'', ''type'']" "required_at [''tests'', ''acceptance'', ''path'']"
  by code_simp+

section \<open>Entries of an accepted mapping\<close>

definition entries_ok :: "(string \<Rightarrow> string \<Rightarrow> bool) \<Rightarrow> string \<Rightarrow> string list \<Rightarrow> doc \<Rightarrow> bool" where
  "entries_ok fm a ks d \<longleftrightarrow> (\<forall>k w. map_of d k = Some w \<longrightarrow>
     (\<exists>n. node_ok n w) \<and> (\<forall>r. rule_at (ks @ [k]) = Some r \<longrightarrow> accepted fm service_schema a w r))"

definition keys_ok :: "string list \<Rightarrow> doc \<Rightarrow> bool" where
  "keys_ok ks d \<longleftrightarrow> (\<forall>k. required_at (ks @ [k]) \<longrightarrow> map_of d k \<noteq> None)"

lemma entries_ok_empty [simp]: "entries_ok fm a ks []"
  by (simp add: entries_ok_def)

lemma entry_node: "entries_ok fm a ks d \<Longrightarrow> map_of d k = Some w \<Longrightarrow> \<exists>n. node_ok n w"
  by (simp add: entries_ok_def)

lemma entry_accepted: "entries_ok fm a ks d \<Longrightarrow> map_of d k = Some w \<Longrightarrow> rule_at (ks @ [k]) = Some r \<Longrightarrow> accepted fm service_schema a w r"
  by (simp add: entries_ok_def)

lemma node_entry: "node_ok n (PDict m) \<Longrightarrow> (k, w) \<in> set m \<Longrightarrow> \<exists>d. node_ok d w"
  by (cases n) (auto simp: flow_ok_def scalar_ok_def list_all_iff)

lemma node_item: "node_ok n (PList l) \<Longrightarrow> x \<in> set l \<Longrightarrow> flow_ok x"
  by (cases n) (auto simp: flow_ok_def scalar_ok_def items_ok_def list_all_iff)

lemma accepted_entries:
  assumes "accepted fm service_schema a (PDict m) r" and "ru_type r = Some ''mapping''" and "rule_at ks = Some r" and "node_ok n (PDict m)"
  shows "entries_ok fm a ks m"
  unfolding entries_ok_def
proof (intro allI impI conjI)
  fix k w assume w: "map_of m k = Some w"
  show "\<exists>n. node_ok n w" using node_entry [OF assms(4) map_of_SomeD [OF w]] .
next
  fix k w r' assume w: "map_of m k = Some w" and r': "rule_at (ks @ [k]) = Some r'"
  obtain path where "validate_entries fm service_schema a m r path = Inr []" using accepted_mapping [OF assms(1,2)] by auto
  from validate_entries_member [OF this map_of_SomeD [OF w]] r' show "accepted fm service_schema a w r'"
    by (auto simp: rule_at_snoc assms(3) sub_rule_def split: option.splits sum.splits)
qed

lemma accepted_keys:
  assumes "accepted fm service_schema a (PDict m) r" and "ru_type r = Some ''mapping''" and "rule_at ks = Some r"
  shows "keys_ok ks m"
  unfolding keys_ok_def
proof (intro allI impI)
  fix k assume "required_at (ks @ [k])"
  then obtain r1 r' where r1: "map_of (properties_of r) k = Some r1" "resolve_ref service_schema r1 = Inr r'"
    and r': "ru_required r' = Some True" "\<not> wrong_archetype r' a"
    by (auto simp: required_at_def rule_at_snoc assms(3) sub_rule_def wrong_archetype_def split: option.splits sum.splits)
  obtain path where "missing_keys service_schema a (map fst m) path (properties_of r) = Inr []" using accepted_mapping [OF assms(1,2)] by auto
  from missing_keys_present [OF this map_of_SomeD [OF r1(1)] r1(2) r'] show "map_of m k \<noteq> None"
    by (simp add: map_of_eq_None_iff)
qed

lemma entry_dict:
  assumes "entries_ok fm a ks d" and "map_of d k = Some w" and "type_at (ks @ [k]) = Some ''mapping''"
  shows "\<exists>e r. w = PDict e \<and> rule_at (ks @ [k]) = Some r \<and> accepted fm service_schema a w r \<and> entries_ok fm a (ks @ [k]) e \<and> keys_ok (ks @ [k]) e"
proof -
  obtain r where r: "rule_at (ks @ [k]) = Some r" "ru_type r = Some ''mapping''" using type_at_rule [OF assms(3)] by blast
  have w: "accepted fm service_schema a w r" by (rule entry_accepted [OF assms(1,2) r(1)])
  obtain e where e: "w = PDict e" using accepted_mapping [OF w r(2)] by blast
  obtain n where n: "node_ok n w" using entry_node [OF assms(1,2)] by blast
  have "entries_ok fm a (ks @ [k]) e" by (rule accepted_entries [OF w [unfolded e] r(2,1) n [unfolded e]])
  moreover have "keys_ok (ks @ [k]) e" by (rule accepted_keys [OF w [unfolded e] r(2,1)])
  ultimately show ?thesis using e r(1) w by blast
qed

lemma get_dict_ok:
  assumes "entries_ok fm a ks d" and "type_at (ks @ [k]) = Some ''mapping''"
  shows "\<exists>e. get_dict d k = Inr e \<and> entries_ok fm a (ks @ [k]) e"
proof (cases "map_of d k")
  case (Some w)
  with entry_dict [OF assms(1) Some assms(2)] show ?thesis by (auto simp: get_dict_def)
qed (simp add: get_dict_def)

lemma get_str_ok:
  assumes "entries_ok fm a ks d" and "type_at (ks @ [k]) = Some t" and "t \<in> {''string'', ''path'', ''repositoryGlob''}" and "one_line dflt"
  shows "\<exists>s. get_str d k dflt = Inr s \<and> one_line s \<and> (t \<noteq> ''string'' \<longrightarrow> s = dflt \<or> \<not> outside s)"
proof (cases "map_of d k")
  case (Some w)
  obtain r where r: "rule_at (ks @ [k]) = Some r" "ru_type r = Some t" using type_at_rule [OF assms(2)] by blast
  then have "accepted fm service_schema a w r" "stringy r" using assms(1,3) Some by (auto simp: entries_ok_def stringy_def)
  then obtain s where s: "w = PStr s" "t \<noteq> ''string'' \<longrightarrow> \<not> outside s" using accepted_string r(2) by fastforce
  obtain n where "node_ok n w" using entry_node [OF assms(1) Some] by blast
  then have "one_line s" using s(1) by (cases n) (auto simp: flow_ok_def scalar_ok_def)
  with s Some show ?thesis by (simp add: get_str_def str_of_def)
qed (simp add: get_str_def assms(4))

lemma one_line_join: "one_line sep \<Longrightarrow> list_all one_line ss \<Longrightarrow> one_line (join sep ss)"
  by (induction sep ss rule: join.induct) auto

lemma mapR_strings: "\<forall>x\<in>set l. \<exists>s. x = PStr s \<and> Q s \<Longrightarrow> \<exists>ss. mapR str_of l = Inr ss \<and> list_all Q ss"
  by (induction l) (auto simp: str_of_def)

lemma entry_strings:
  assumes "entries_ok fm a ks d" and "map_of d k = Some w" and "type_at (ks @ [k]) = Some ''list''" and "item_type_at (ks @ [k]) = Some ''string''"
  shows "\<exists>l. w = PList l \<and> (\<forall>x\<in>set l. \<exists>s. x = PStr s \<and> one_line s)"
proof -
  obtain r where r: "rule_at (ks @ [k]) = Some r" "ru_type r = Some ''list''" using type_at_rule [OF assms(3)] by blast
  then have "accepted fm service_schema a w r" using assms(1,2) by (auto simp: entries_ok_def)
  then obtain l ir where l: "w = PList l" "ru_items r = Some ir" "\<forall>x\<in>set l. accepted fm service_schema a x ir"
    using accepted_list [OF _ r(2)] by blast
  have "stringy ir" using assms(4) l(2) r(1) by (simp add: item_type_at_def stringy_def)
  moreover obtain n where "node_ok n w" using entry_node [OF assms(1,2)] by blast
  ultimately have "\<exists>s. x = PStr s \<and> one_line s" if "x \<in> set l" for x
    using accepted_string [of fm service_schema a x ir] node_item [of n l x] that l(1,3) by (auto simp: flow_ok_def scalar_ok_def)
  with l(1) show ?thesis by blast
qed

lemma get_joined_ok:
  assumes "entries_ok fm a ks d" and "type_at (ks @ [k]) = Some ''list''" and "item_type_at (ks @ [k]) = Some ''string''"
  shows "\<exists>s. get_joined d k = Inr s \<and> one_line s"
proof (cases "map_of d k")
  case (Some w)
  then obtain l where l: "w = PList l" "\<forall>x\<in>set l. \<exists>s. x = PStr s \<and> one_line s" using entry_strings [OF assms(1) _ assms(2,3)] by blast
  obtain ss where ss: "mapR str_of l = Inr ss" "list_all one_line ss" using mapR_strings [OF l(2)] by blast
  have "one_line '',''" by code_simp
  with ss Some l(1) show ?thesis using one_line_join by (simp add: get_joined_def)
qed (simp add: get_joined_def)

end
