(* ===== verification/Descriptor_Outputs.thy ===== *)
theory Descriptor_Outputs
  imports Descriptor_Safety
begin

text \<open>
  The resolution of a descriptor that the validation accepts: it does not raise, and its outputs are single lines
  and paths inside of the repository.
\<close>

section \<open>Text of the outputs\<close>

lemma code_less: "code c < 256"
  by (simp add: code_def)

lemma hex_digit_one_line: "n < 16 \<Longrightarrow> \<not> is_line_break (hex_digit n)"
  by (auto simp: is_line_break_def hex_digit_def code_def)

lemma digit_one_line: "n < 10 \<Longrightarrow> \<not> is_line_break (digit_char n)"
  by (simp add: is_line_break_def code_digit_char)

lemma json_char_one_line: "one_line (json_char c)"
proof -
  have escapes: "one_line [CHR 0x5C, CHR 0x22]" "one_line [CHR 0x5C, CHR 0x5C]" "one_line [CHR 0x5C, CHR ''n'']" "one_line [CHR 0x5C, CHR ''r'']"
    "one_line [CHR 0x5C, CHR ''t'']" "one_line [CHR 0x5C, CHR ''f'']" "one_line [CHR 0x5C, CHR ''b'']"
    "one_line [CHR 0x5C, CHR ''u'', CHR ''0'', CHR ''0'']" by code_simp+
  have "\<not> is_line_break (hex_digit (code c div 16))" using code_less [of c] by (intro hex_digit_one_line) simp
  moreover have "\<not> is_line_break (hex_digit (code c mod 16))" by (intro hex_digit_one_line) simp
  ultimately have hex: "one_line [CHR 0x5C, CHR ''u'', CHR ''0'', CHR ''0'', hex_digit (code c div 16), hex_digit (code c mod 16)]"
    using escapes(8) by simp
  have plain: "one_line [c]" if "\<not> (code c < 32 \<or> 126 < code c)"
    using that by (auto simp: is_line_break_def)
  show ?thesis unfolding json_char_def Let_def using escapes(1-7) hex plain by presburger
qed

lemma json_string_one_line: "one_line (json_string s)"
  using json_char_one_line quotes_one_line(1) by (simp add: json_string_def list_all_iff)

lemma show_nat_one_line: "one_line (show_nat n)"
  by (induction n rule: show_nat.induct) (subst show_nat.simps, simp add: digit_one_line)

lemma show_int_one_line: "one_line (show_int i)"
  using show_nat_one_line by (simp add: show_int_def is_line_break_def code_def)

lemma word_one_line: "one_line ''null''" "one_line ''true''" "one_line ''false''"
  by code_simp+

lemma json_text_one_line:
  assumes "one_line item" and "one_line key" and "\<And>f. one_line (fl f)"
  shows "one_line (json_text fl item key v)"
    and "list_all one_line (json_elements fl item key l)"
    and "list_all one_line (json_members fl item key d)"
  using assms
proof (induction fl item key v and fl item key l and fl item key d rule: json_text_json_elements_json_members.induct)
  case (1 fl item key)
  show ?case unfolding json_text.simps by (rule word_one_line)
next
  case (2 fl item key b)
  show ?case unfolding json_text.simps using word_one_line(2,3) by presburger
next
  case (6 fl item key l)
  have "one_line ''[''" "one_line '']''" by code_simp+
  with 6 one_line_join [of item] show ?case by simp
next
  case (7 fl item key d)
  have "one_line ''{''" "one_line ''}''" by code_simp+
  with 7 one_line_join [of item] show ?case by simp
next
  case (11 fl item key k v r)
  with json_string_one_line show ?case by simp
qed (simp_all add: show_int_one_line json_string_one_line)

lemma json_dumps_one_line: "one_line (json_dumps v)"
proof -
  have "one_line '',''" "one_line '':''" by code_simp+
  then show ?thesis unfolding json_dumps_def by (intro json_text_one_line) simp_all
qed

section \<open>The validation of a parsed document returns\<close>

lemma lookup_step:
  assumes "entries_ok fm a ks d" and "type_at (ks @ [k]) = Some ''mapping''"
  shows "lookup_parts (PDict d) (k # ps) = PNone
    \<or> (\<exists>e. entries_ok fm a (ks @ [k]) e \<and> lookup_parts (PDict d) (k # ps) = lookup_parts (PDict e) ps)"
proof (cases "map_of d k")
  case (Some w)
  with entry_dict [OF assms(1) Some assms(2)] show ?thesis by auto
qed simp

lemma dotted_keys:
  "split_char (CHR ''.'') ''build.python.compatibilityVersions'' = [''build'', ''python'', ''compatibilityVersions'']"
  "split_char (CHR ''.'') ''tests.acceptance'' = [''tests'', ''acceptance'']"
  by code_simp+

lemma compat_hashable:
  assumes "entries_ok fm a [] d" and "lookup_dotted d ''build.python.compatibilityVersions'' = PList l"
  shows "list_all hashable l"
proof -
  obtain e1 where e1: "entries_ok fm a [''build''] e1" "lookup_parts (PDict e1) [''python'', ''compatibilityVersions''] = PList l"
    using lookup_step [OF assms(1), of "''build''" "[''python'', ''compatibilityVersions'']"] assms(2)
    by (auto simp: lookup_dotted_def dotted_keys mapping_types simp del: lookup_parts.simps)
  obtain e2 where e2: "entries_ok fm a [''build'', ''python''] e2" "lookup_parts (PDict e2) [''compatibilityVersions''] = PList l"
    using lookup_step [OF e1(1), of "''python''" "[''compatibilityVersions'']"] e1(2)
    by (auto simp: mapping_types simp del: lookup_parts.simps)
  then have "map_of e2 ''compatibilityVersions'' = Some (PList l)" by (auto split: option.splits)
  from entry_strings [OF e2(1) this] show ?thesis by (auto simp: list_types list_all_iff)
qed

lemma acceptance_bindings:
  assumes "entries_ok fm a [] d" and "lookup_dotted d ''tests.acceptance'' = PDict e"
  shows "\<exists>bs. get_dict e ''bindings'' = Inr bs"
proof -
  obtain e1 where e1: "entries_ok fm a [''tests''] e1" "lookup_parts (PDict e1) [''acceptance''] = PDict e"
    using lookup_step [OF assms(1), of "''tests''" "[''acceptance'']"] assms(2)
    by (auto simp: lookup_dotted_def dotted_keys mapping_types simp del: lookup_parts.simps)
  obtain e2 where e2: "entries_ok fm a [''tests'', ''acceptance''] e2" "lookup_parts (PDict e2) [] = PDict e"
    using lookup_step [OF e1(1), of "''acceptance''" "[]"] e1(2)
    by (auto simp: mapping_types simp del: lookup_parts.simps)
  then show ?thesis using get_dict_ok [OF e2(1), of "''bindings''"] by (auto simp: mapping_types)
qed

lemma consistency_total:
  assumes "entries_ok fm a [] d"
  shows "\<exists>es. validate_consistency service_schema d b = Inr es"
proof -
  obtain container where container: "get_dict d ''container'' = Inr container"
    using get_dict_ok [OF assms, of "''container''"] by (auto simp: mapping_types)
  obtain tests where tests: "get_dict d ''tests'' = Inr tests"
    using get_dict_ok [OF assms, of "''tests''"] by (auto simp: mapping_types)
  have compat: "\<exists>es. (case lookup_dotted d ''build.python.compatibilityVersions'' of
             PList l \<Rightarrow> if list_all hashable l then Inr (if py_distinct l then [] else [err ''build.python.compatibilityVersions'' ''duplicate-value''])
                        else Inl TypeError
           | _ \<Rightarrow> Inr []) = (Inr es :: ValidationError list res)"
    using compat_hashable [OF assms] by (simp split: pyval.split)
  have bindings: "\<exists>es. (case lookup_dotted d ''tests.acceptance'' of
             PDict a \<Rightarrow> bindR (get_dict a ''bindings'') (\<lambda>bs. Inr (concat (map binding_errors bs)))
           | _ \<Rightarrow> Inr []) = (Inr es :: ValidationError list res)"
    using acceptance_bindings [OF assms] by (auto split: pyval.split)
  obtain es1 es2 where "(case lookup_dotted d ''build.python.compatibilityVersions'' of
             PList l \<Rightarrow> if list_all hashable l then Inr (if py_distinct l then [] else [err ''build.python.compatibilityVersions'' ''duplicate-value''])
                        else Inl TypeError
           | _ \<Rightarrow> Inr []) = (Inr es1 :: ValidationError list res)"
    "(case lookup_dotted d ''tests.acceptance'' of
             PDict a \<Rightarrow> bindR (get_dict a ''bindings'') (\<lambda>bs. Inr (concat (map binding_errors bs)))
           | _ \<Rightarrow> Inr []) = (Inr es2 :: ValidationError list res)"
    using compat bindings by blast
  then show ?thesis
    unfolding validate_consistency_def container tests by (cases "map_of (sc_archetypes service_schema) b") simp_all
qed

lemma root_rule_at: "rule_at [] = Some (root_rule service_schema)" "ru_type (root_rule service_schema) = Some ''mapping''"
  by (simp_all add: rule_at_def root_rule_def)

lemma parsed_entries:
  assumes "parse text = Inr d" and "validate_value fm service_schema a (PDict d) (root_rule service_schema) path = Inr []"
  shows "entries_ok fm a [] d" and "keys_ok [] d"
proof -
  have "accepted fm service_schema a (PDict d) (root_rule service_schema)" using assms(2) by (auto simp: accepted_def)
  then show "entries_ok fm a [] d" and "keys_ok [] d"
    using accepted_entries accepted_keys root_rule_at parse_node_ok [OF assms(1)] by blast+
qed

lemma validate_returns:
  assumes "parse text = Inr d"
  shows "\<exists>es. validate fm service_schema d = Inr es"
proof -
  have "depth_le 8 (PDict d)" using node_depth [OF parse_node_ok [OF assms]] by (simp add: MAX_DEPTH_def)
  then obtain es where es: "validate_value fm service_schema (archetype_of d) (PDict d) (root_rule service_schema) [] = Inr es"
    using validate_total [OF service_schema_good] by blast
  show ?thesis
  proof (cases "es = []")
    case True
    obtain es' where "validate_consistency service_schema d (archetype_of d) = Inr es'"
      using consistency_total [OF parsed_entries(1) [OF assms es [unfolded True]]] by blast
    then show ?thesis unfolding validate_def es by (simp add: Let_def)
  next
    case False
    then show ?thesis unfolding validate_def es by (simp add: Let_def)
  qed
qed

section \<open>Resolution of an accepted document\<close>

definition repository_paths :: "ResolvedConfig \<Rightarrow> string list" where
  \<comment> \<open>the outputs that the workflows use as paths\<close>
  "repository_paths c = [python_unit_test_path c, python_service_in_process_test_path c, python_service_subprocess_test_path c,
     python_acceptance_test_path c, python_acceptance_runner_path c, service_target_jar c]"

definition safe_config :: "ResolvedConfig \<Rightarrow> bool" where
  "safe_config c \<longleftrightarrow> list_all (\<lambda>(k, v). one_line v) (outputs c) \<and> list_all (\<lambda>p. \<not> outside p) (repository_paths c)"

lemmas safe_simps = safe_config_def outputs_def repository_paths_def

lemma not_outside_empty [simp]: "\<not> outside []"
  by code_simp

lemma mapR_total: "\<forall>x\<in>set xs. \<exists>y. f x = Inr y \<Longrightarrow> \<exists>ys. mapR f xs = Inr ys"
  by (induction xs) auto

lemma set_insert_item: "set (insert_item kv d) = insert kv (set d)"
  by (induction d) auto

lemma set_sorted_items: "set (sorted_items d) = set d"
  by (induction d) (simp_all add: sorted_items_def set_insert_item)

lemma binding_rule:
  "case rule_at [''tests'', ''acceptance'', ''bindings''] of Some r \<Rightarrow> properties_of r = []
      \<and> (case ru_additionalProperties r of Some p \<Rightarrow> resolve_ref service_schema p = Inr p \<and> ru_type p = Some ''mapping''
            \<and> (case map_of (properties_of p) ''source'' of Some q \<Rightarrow> resolve_ref service_schema q = Inr q \<and> ru_required q = Some True
                 \<and> ru_archetypes q = None | None \<Rightarrow> False)
          | None \<Rightarrow> False)
    | None \<Rightarrow> False"
  by code_simp

lemma bindings_ok:
  assumes "entries_ok fm a [''tests'', ''acceptance''] e"
  shows "\<exists>bs. get_dict e ''bindings'' = Inr bs \<and> (\<forall>(n, b)\<in>set bs. \<exists>m. b = PDict m \<and> map_of m ''source'' \<noteq> None)"
proof (cases "map_of e ''bindings''")
  case (Some w)
  obtain bs r where bs: "w = PDict bs" and r: "rule_at [''tests'', ''acceptance'', ''bindings''] = Some r" "ru_type r = Some ''mapping''"
    and acc: "accepted fm service_schema a (PDict bs) r"
    using entry_dict [OF assms Some] type_at_rule [OF mapping_types(11)] by (auto simp: mapping_types)
  obtain p q where p: "properties_of r = []" "ru_additionalProperties r = Some p" "resolve_ref service_schema p = Inr p" "ru_type p = Some ''mapping''"
    and q: "map_of (properties_of p) ''source'' = Some q" "resolve_ref service_schema q = Inr q" "ru_required q = Some True" "ru_archetypes q = None"
    using binding_rule unfolding r(1) by (auto split: option.splits)
  have "\<exists>m. b = PDict m \<and> map_of m ''source'' \<noteq> None" if "(n, b) \<in> set bs" for n b
  proof -
    obtain path where "validate_entries fm service_schema a bs r path = Inr []" using accepted_mapping [OF acc r(2)] by auto
    from validate_entries_member [OF this that] have "accepted fm service_schema a b p" by (simp add: p)
    then obtain m path' where m: "b = PDict m" "missing_keys service_schema a (map fst m) path' (properties_of p) = Inr []"
      using accepted_mapping [OF _ p(4)] by blast
    have "\<not> wrong_archetype q a" by (simp add: wrong_archetype_def q(4))
    from missing_keys_present [OF m(2) map_of_SomeD [OF q(1)] q(2,3) this] m(1) show ?thesis by (simp add: map_of_eq_None_iff)
  qed
  with Some bs show ?thesis by (auto simp: get_dict_def)
qed (simp add: get_dict_def)

lemma acceptance_config_ok:
  assumes "entries_ok fm a [] d"
  shows "\<exists>s. acceptance_config_of d b = Inr s \<and> one_line s"
proof -
  obtain tests where tests: "get_dict d ''tests'' = Inr tests" "entries_ok fm a [''tests''] tests"
    using get_dict_ok [OF assms, of "''tests''"] by (auto simp: mapping_types)
  show ?thesis
  proof (cases "map_of tests ''acceptance''")
    case None
    with tests show ?thesis by (simp add: acceptance_config_of_def)
  next
    case (Some w)
    obtain e where e: "w = PDict e" "entries_ok fm a [''tests'', ''acceptance''] e" "keys_ok [''tests'', ''acceptance''] e"
      using entry_dict [OF tests(2) Some] by (auto simp: mapping_types)
    obtain bs where bs: "get_dict e ''bindings'' = Inr bs" "\<forall>(n, b)\<in>set bs. \<exists>m. b = PDict m \<and> map_of m ''source'' \<noteq> None"
      using bindings_ok [OF e(2)] by blast
    have "\<forall>x\<in>set (sorted_items bs). \<exists>y. normalized_binding x = Inr y"
      unfolding set_sorted_items
    proof
      fix x assume "x \<in> set bs"
      with bs(2) obtain n m s where "x = (n, PDict m)" "map_of m ''source'' = Some s" by fastforce
      then show "\<exists>y. normalized_binding x = Inr y" by (simp add: normalized_binding_def index_val_def)
    qed
    then obtain bindings where bindings: "mapR normalized_binding (sorted_items bs) = Inr bindings" using mapR_total by blast
    obtain kvs where kvs: "get_dict e ''keyVaultBindings'' = Inr kvs"
      using get_dict_ok [OF e(2), of "''keyVaultBindings''"] by (auto simp: mapping_types)
    obtain deps where deps: "get_dict e ''dependencies'' = Inr deps"
      using get_dict_ok [OF e(2), of "''dependencies''"] by (auto simp: mapping_types)
    obtain ty path where ty: "map_of e ''type'' = Some ty" "map_of e ''path'' = Some path"
      using e(3) required_keys(5,6) unfolding keys_ok_def by fastforce
    have "acceptance_config_of d b = Inr (json_dumps (PDict [(''type'', ty), (''path'', path), (''runnerPath'', or_default e ''runnerPath'' (PStr [])),
             (''mavenArguments'', or_default e ''mavenArguments'' (PList (if b = ''java-maven-azure'' then [PStr ''verify''] else []))),
             (''rootTokenEnv'', or_default e ''rootTokenEnv'' (PStr ''ROOT_USER_TOKEN'')),
             (''noDataAccessTokenEnv'', or_default e ''noDataAccessTokenEnv'' (PStr [])),
             (''bindings'', PDict bindings), (''keyVaultBindings'', PDict (sorted_items kvs)),
             (''dependencies'', PDict (sorted_items deps)),
             (''timeoutMinutes'', or_default e ''timeoutMinutes'' (PInt 25)),
             (''maxAttempts'', or_default e ''maxAttempts'' (PInt 2))]))"
      unfolding acceptance_config_of_def tests(1) using Some by (simp add: e(1) bs(1) bindings kvs deps ty index_val_def)
    then show ?thesis using json_dumps_one_line by blast
  qed
qed

lemma java_fields_ok:
  assumes "entries_ok fm a [''build''] build" and "safe_config c"
  shows "\<exists>c'. java_fields build c = Inr c' \<and> safe_config c' \<and> rc_valid c' = rc_valid c \<and> build_lane c' = build_lane c \<and> lane_implemented c' = lane_implemented c"
proof -
  obtain profiles where profiles: "get_joined build ''mavenProfiles'' = Inr profiles" "one_line profiles"
    using get_joined_ok [OF assms(1), of "''mavenProfiles''"] by (auto simp: list_types)
  obtain artifact where artifact: "get_dict build ''artifact'' = Inr artifact" "entries_ok fm a [''build'', ''artifact''] artifact"
    using get_dict_ok [OF assms(1), of "''artifact''"] by (auto simp: mapping_types)
  obtain jar where jar: "get_str artifact ''path'' [] = Inr jar" "one_line jar" "\<not> outside jar"
    using get_str_ok [OF artifact(2), of "''path''" "''repositoryGlob''" "[]"] by (auto simp: path_types)
  show ?thesis
    unfolding java_fields_def profiles(1) artifact(1) using assms(2) profiles(2) jar by (simp add: safe_simps)
qed

lemma suite_path_ok:
  assumes "entries_ok fm a [''tests''] tests" and "type_at [''tests'', suite] = Some ''mapping''" and "type_at [''tests'', suite, k] = Some ''path''"
  shows "\<exists>s. suite_path tests suite k = Inr s \<and> one_line s \<and> \<not> outside s"
proof -
  obtain e where e: "get_dict tests suite = Inr e" "entries_ok fm a [''tests'', suite] e"
    using get_dict_ok [OF assms(1), of suite] assms(2) by auto
  then show ?thesis using get_str_ok [OF e(2), of k "''path''" "[]"] assms(3) by (auto simp: suite_path_def)
qed

lemma python_fields_ok:
  assumes "entries_ok fm a [''build''] build" and "entries_ok fm a [''tests''] tests" and "entries_ok fm a [''container''] container"
    and "safe_config c" and "one_line (case ar_runtimeVersion rule of Some v \<Rightarrow> v | None \<Rightarrow> [])"
  shows "\<exists>c'. python_fields build tests container rule c = Inr c' \<and> safe_config c' \<and> rc_valid c' = rc_valid c \<and> build_lane c' = build_lane c \<and> lane_implemented c' = lane_implemented c"
proof -
  obtain python where python: "get_dict build ''python'' = Inr python" "entries_ok fm a [''build'', ''python''] python"
    using get_dict_ok [OF assms(1), of "''python''"] by (auto simp: mapping_types)
  obtain rt where rt: "get_str python ''runtimeVersion'' (case ar_runtimeVersion rule of Some v \<Rightarrow> v | None \<Rightarrow> []) = Inr rt" "one_line rt"
    using get_str_ok [OF python(2), of "''runtimeVersion''" "''string''", OF _ _ assms(5)] by (auto simp: string_types)
  obtain cv where cv: "get_joined python ''compatibilityVersions'' = Inr cv" "one_line cv"
    using get_joined_ok [OF python(2), of "''compatibilityVersions''"] by (auto simp: list_types)
  obtain dist where dist: "get_str python ''distribution'' [] = Inr dist" "one_line dist"
    using get_str_ok [OF python(2), of "''distribution''" "''string''" "[]"] by (auto simp: string_types)
  obtain imp where imp: "get_str python ''importPackage'' [] = Inr imp" "one_line imp"
    using get_str_ok [OF python(2), of "''importPackage''" "''string''" "[]"] by (auto simp: string_types)
  obtain te where te: "get_joined python ''testExtras'' = Inr te" "one_line te"
    using get_joined_ok [OF python(2), of "''testExtras''"] by (auto simp: list_types)
  obtain re where re: "get_joined python ''runtimeExtras'' = Inr re" "one_line re"
    using get_joined_ok [OF python(2), of "''runtimeExtras''"] by (auto simp: list_types)
  obtain up ip sp ap arp where paths:
    "suite_path tests ''unit'' ''path'' = Inr up" "one_line up" "\<not> outside up"
    "suite_path tests ''serviceInProcess'' ''path'' = Inr ip" "one_line ip" "\<not> outside ip"
    "suite_path tests ''serviceSubprocess'' ''path'' = Inr sp" "one_line sp" "\<not> outside sp"
    "suite_path tests ''acceptance'' ''path'' = Inr ap" "one_line ap" "\<not> outside ap"
    "suite_path tests ''acceptance'' ''runnerPath'' = Inr arp" "one_line arp" "\<not> outside arp"
    using suite_path_ok [OF assms(2)] mapping_types path_types by metis
  obtain am where am: "get_str container ''appModule'' [] = Inr am" "one_line am"
    using get_str_ok [OF assms(3), of "''appModule''" "''string''" "[]"] by (auto simp: string_types)
  show ?thesis
    unfolding python_fields_def python(1) rt(1) bindR_simps cv(1) dist(1) imp(1) te(1) re(1) paths am(1)
    using assms(4) rt(2) cv(2) dist(2) imp(2) te(2) re(2) paths am(2) by (simp add: safe_simps json_dumps_one_line)
qed

lemma archetype_enum: "map_option ru_enum (rule_at [''service'', ''archetype'']) = Some (Some [''java-maven-azure'', ''python-uv-fastapi''])"
  by code_simp

lemma archetype_rules:
  assumes "b \<in> set [''java-maven-azure'', ''python-uv-fastapi'']"
  shows "\<exists>rule. map_of (sc_archetypes service_schema) b = Some rule \<and> ar_lane rule \<in> {''java'', ''python''} \<and> ar_laneImplemented rule
    \<and> one_line (ar_lane rule) \<and> one_line (ar_dockerfileProfile rule) \<and> one_line (ar_unitTestType rule)
    \<and> one_line (case ar_runtimeVersion rule of Some v \<Rightarrow> v | None \<Rightarrow> [])"
proof -
  have "one_line ''java''" "one_line ''python''" "one_line ''maven''" "one_line ''pytest''" "one_line ''3.12''" by code_simp+
  with assms show ?thesis by (auto simp: service_schema_def schema_archetypes_def)
qed

lemma archetype_one_line: "b \<in> set [''java-maven-azure'', ''python-uv-fastapi''] \<Longrightarrow> one_line b"
  by (auto simp: is_line_break_def code_def)

lemma service_ok:
  assumes "entries_ok fm a [] d" and "keys_ok [] d"
  shows "\<exists>sv b name. map_of d ''service'' = Some (PDict sv) \<and> map_of sv ''archetype'' = Some (PStr b) \<and> map_of sv ''name'' = Some (PStr name)
    \<and> b \<in> set [''java-maven-azure'', ''python-uv-fastapi''] \<and> one_line name"
proof -
  obtain w where w: "map_of d ''service'' = Some w" using assms(2) required_keys(2) unfolding keys_ok_def by fastforce
  obtain sv where sv: "w = PDict sv" "entries_ok fm a [''service''] sv" "keys_ok [''service''] sv"
    using entry_dict [OF assms(1) w] by (auto simp: mapping_types)
  obtain v n where v: "map_of sv ''archetype'' = Some v" and n: "map_of sv ''name'' = Some n"
    using sv(3) required_keys(3,4) unfolding keys_ok_def by fastforce
  obtain r where r: "rule_at [''service'', ''archetype''] = Some r" "ru_type r = Some ''string''" "ru_enum r = Some [''java-maven-azure'', ''python-uv-fastapi'']"
    using archetype_enum type_at_rule [OF string_types(2)] by auto
  then have "accepted fm service_schema a v r" using entry_accepted [OF sv(2) v] by simp
  moreover have "stringy r" by (simp add: stringy_def r(2))
  ultimately obtain b where b: "v = PStr b" "b \<in> set [''java-maven-azure'', ''python-uv-fastapi'']"
    using accepted_string r(2,3) by (metis option.distinct(1) option.sel)
  obtain name where "get_str sv ''name'' [] = Inr name" "one_line name"
    using get_str_ok [OF sv(2), of "''name''" "''string''" "[]"] by (auto simp: string_types)
  then have "n = PStr name" "one_line name" using n by (auto simp: get_str_def str_of_def split: pyval.splits)
  with w sv(1) v n b show ?thesis by auto
qed

lemma str_of_int_one_line: "one_line (str_of_int v)"
  using show_int_one_line by (simp add: str_of_int_def split: pyval.split)

lemma safe_base:
  assumes "safe_config c" and "one_line b" and "one_line name" and "one_line lane" and "one_line profile" and "one_line utt"
  shows "safe_config (c\<lparr>schema_version := str_of_int version, rc_archetype := b, service_name := name, build_lane := lane,
     lane_implemented := (if impl then ''true'' else ''false''), dockerfile_profile := profile, unit_test_type := utt,
     has_coverage := (if cov then ''false'' else ''true'')\<rparr>)"
  using assms word_one_line str_of_int_one_line by (simp add: safe_simps)

lemma resolve_document_ok:
  assumes "entries_ok fm a [] d" and "keys_ok [] d" and "safe_config c"
  shows "\<exists>c'. resolve_document service_schema d c = Inr c' \<and> safe_config c' \<and> rc_valid c' = rc_valid c \<and> build_lane c' \<in> {''java'', ''python''} \<and> lane_implemented c' = ''true''"
proof -
  obtain sv b name where sv: "map_of d ''service'' = Some (PDict sv)" "map_of sv ''archetype'' = Some (PStr b)" "map_of sv ''name'' = Some (PStr name)"
    and b: "b \<in> set [''java-maven-azure'', ''python-uv-fastapi'']" and name: "one_line name"
    using service_ok [OF assms(1,2)] by blast
  obtain rule where rule: "map_of (sc_archetypes service_schema) b = Some rule" "ar_lane rule \<in> {''java'', ''python''}" "ar_laneImplemented rule"
    "one_line (ar_lane rule)" "one_line (ar_dockerfileProfile rule)" "one_line (ar_unitTestType rule)"
    "one_line (case ar_runtimeVersion rule of Some v \<Rightarrow> v | None \<Rightarrow> [])" using archetype_rules [OF b] by blast
  obtain version where version: "map_of d ''schemaVersion'' = Some version" using assms(2) required_keys(1) unfolding keys_ok_def by fastforce
  obtain container where container: "get_dict d ''container'' = Inr container" "entries_ok fm a [''container''] container"
    using get_dict_ok [OF assms(1), of "''container''"] by (auto simp: mapping_types)
  obtain tests where tests: "get_dict d ''tests'' = Inr tests" "entries_ok fm a [''tests''] tests"
    using get_dict_ok [OF assms(1), of "''tests''"] by (auto simp: mapping_types)
  obtain build where build: "get_dict d ''build'' = Inr build" "entries_ok fm a [''build''] build"
    using get_dict_ok [OF assms(1), of "''build''"] by (auto simp: mapping_types)
  obtain unit where unit: "get_dict tests ''unit'' = Inr unit" "entries_ok fm a [''tests'', ''unit''] unit"
    using get_dict_ok [OF tests(2), of "''unit''"] by (auto simp: mapping_types)
  obtain profile where profile: "get_str container ''dockerfileProfile'' (ar_dockerfileProfile rule) = Inr profile" "one_line profile"
    using get_str_ok [OF container(2), of "''dockerfileProfile''" "''string''", OF _ _ rule(5)] by (auto simp: string_types)
  obtain utt where utt: "get_str unit ''type'' (ar_unitTestType rule) = Inr utt" "one_line utt"
    using get_str_ok [OF unit(2), of "''type''" "''string''", OF _ _ rule(6)] by (auto simp: string_types)
  obtain ac where ac: "acceptance_config_of d b = Inr ac" "one_line ac" using acceptance_config_ok [OF assms(1)] by blast
  define cov where "cov = (py_eq (or_default unit ''coverage'' (PStr (ar_coverage rule))) (PBool False) \<or> or_default unit ''coverage'' (PStr (ar_coverage rule)) = PStr ''none'')"
  define c1 where "c1 = c\<lparr>schema_version := str_of_int version, rc_archetype := b, service_name := name, build_lane := ar_lane rule,
     lane_implemented := (if ar_laneImplemented rule then ''true'' else ''false''), dockerfile_profile := profile, unit_test_type := utt,
     has_coverage := (if cov then ''false'' else ''true'')\<rparr>"
  have c1: "safe_config c1" "rc_valid c1 = rc_valid c" "build_lane c1 = ar_lane rule" "lane_implemented c1 = ''true''"
    unfolding c1_def by (rule safe_base [OF assms(3) archetype_one_line [OF b] name rule(4) profile(2) utt(2)]) (use rule(3) in simp_all)
  have split: "resolve_document service_schema d c = bindR (if ar_lane rule = ''java'' then java_fields build c1 else Inr c1) (\<lambda>c2.
           if ar_lane rule = ''python'' then python_fields build tests container rule (c2\<lparr>acceptance_config := ac\<rparr>) else Inr (c2\<lparr>acceptance_config := ac\<rparr>))"
    by (simp add: resolve_document_def index_val_def sv version str_of_def rule(1) container(1) tests(1) unit(1) build(1) profile(1) utt(1) ac(1) Let_def c1_def cov_def)
  obtain c2 where c2: "(if ar_lane rule = ''java'' then java_fields build c1 else Inr c1) = Inr c2" "safe_config c2"
    "rc_valid c2 = rc_valid c1" "build_lane c2 = build_lane c1" "lane_implemented c2 = lane_implemented c1"
    using java_fields_ok [OF build(2) c1(1)] c1(1) by (cases "ar_lane rule = ''java''") auto
  have c3: "safe_config (c2\<lparr>acceptance_config := ac\<rparr>)" using c2(2) ac(2) by (simp add: safe_simps)
  show ?thesis
    unfolding split c2(1) using python_fields_ok [OF build(2) tests(2) container(2) c3 rule(7)] c3 c2(3-5) c1(2-4) rule(2)
    by (cases "ar_lane rule = ''python''") auto
qed

section \<open>The outputs of a checkout\<close>

lemma safe_new_config:
  assumes "one_line name"
  shows "safe_config (new_config name)" and "safe_config ((new_config name)\<lparr>descriptor_present := True\<rparr>)"
proof -
  have "one_line ''none''" by code_simp
  with assms word_one_line show "safe_config (new_config name)" "safe_config ((new_config name)\<lparr>descriptor_present := True\<rparr>)"
    by (simp_all add: safe_simps new_config_def json_dumps_one_line)
qed

lemma one_line_not_multi: "one_line s \<Longrightarrow> \<not> multi_line s"
  by (auto simp: multi_line_def list_all_iff is_line_break_def code_def)

lemma safe_not_multi: "safe_config c \<Longrightarrow> \<not> list_ex (\<lambda>(k, v). multi_line v) (outputs c)"
  using one_line_not_multi by (fastforce simp: safe_config_def list_all_iff list_ex_iff)

text \<open>C15: What the workflows receive from a service descriptor.  Unless an integer of the text is too long for
  \<open>int\<close>, the resolution of a decoded descriptor against \<open>schema.json\<close> returns.  Every output is a single line, so that
  \<open>read_service_config.py\<close> never stops at its guard against injected outputs and writes all of them.  The paths are
  relative and do not leave the repository, and the lane of a valid descriptor is implemented.\<close>

theorem resolved_outputs_safe:
  assumes "co_descriptor co = Some (Inr text)" and "one_line name"
  shows "if parse text = Inl IntegerTooLong then resolve fm service_schema co name = Inl ValueError
    else \<exists>c. resolve fm service_schema co name = Inr c
      \<and> list_all (\<lambda>(k, v). one_line v) (outputs c) \<and> list_all (\<lambda>p. \<not> outside p) (repository_paths c)
      \<and> (rc_valid c \<longrightarrow> build_lane c \<in> {''java'', ''python''} \<and> lane_implemented c = ''true'')
      \<and> read_service_config fm service_schema co name
          = Inr (if rc_valid c then 0 else 1, concat (map (\<lambda>(k, v). k @ ''='' @ v @ [CHR 0x0A]) (outputs c)))"
proof (cases "parse text = Inl IntegerTooLong")
  case True
  with assms(1) show ?thesis by (simp add: resolve_def)
next
  case False
  define c0 where "c0 = (new_config name)\<lparr>descriptor_present := True\<rparr>"
  have c0: "safe_config c0" using safe_new_config [OF assms(2)] by (simp add: c0_def)
  have bad: "safe_config (c0\<lparr>rc_valid := False, rc_errors := es\<rparr>)" for es using c0 by (simp add: safe_simps)
  have "\<exists>c. resolve fm service_schema co name = Inr c \<and> safe_config c \<and> (rc_valid c \<longrightarrow> build_lane c \<in> {''java'', ''python''} \<and> lane_implemented c = ''true'')"
  proof (cases "parse text")
    case (Inl e)
    with False have "resolve fm service_schema co name = Inr (c0\<lparr>rc_valid := False, rc_errors := [err ''.spi/service.yaml'' ''parse-error'']\<rparr>)"
      using assms(1) by (cases e) (simp_all add: resolve_def c0_def)
    with bad show ?thesis by simp
  next
    case (Inr d)
    obtain es where es: "validate fm service_schema d = Inr es" using validate_returns [OF Inr] by blast
    show ?thesis
    proof (cases "es = []")
      case True
      then obtain vs where "validate_value fm service_schema (archetype_of d) (PDict d) (root_rule service_schema) [] = Inr vs" "vs = []"
        using es unfolding validate_def by (auto simp: bindR_Inr_iff Let_def simp del: validate_value.simps split: if_splits)
      then obtain c where "resolve_document service_schema d c0 = Inr c" "safe_config c" "build_lane c \<in> {''java'', ''python''}" "lane_implemented c = ''true''"
        using resolve_document_ok [OF parsed_entries [OF Inr] c0] by blast
      then show ?thesis using assms(1) Inr es True by (simp add: resolve_def c0_def)
    next
      case False
      then show ?thesis using assms(1) Inr es bad by (simp add: resolve_def c0_def)
    qed
  qed
  then obtain c where c: "resolve fm service_schema co name = Inr c" "safe_config c"
    "rc_valid c \<longrightarrow> build_lane c \<in> {''java'', ''python''} \<and> lane_implemented c = ''true''" by blast
  moreover have "read_service_config fm service_schema co name
      = Inr (if rc_valid c then 0 else 1, concat (map (\<lambda>(k, v). k @ ''='' @ v @ [CHR 0x0A]) (outputs c)))"
    using safe_not_multi [OF c(2)] by (simp add: read_service_config_def c(1))
  ultimately show ?thesis using False by (auto simp: safe_config_def)
qed

definition java_descriptor :: string where
  "java_descriptor = ''schemaVersion: 2'' @ [CHR 0x0A] @ ''service:'' @ [CHR 0x0A] @ ''  name: wdms'' @ [CHR 0x0A]
     @ ''  archetype: java-maven-azure''"

definition java_document :: doc where
  "java_document = [(''schemaVersion'', PInt 2), (''service'', PDict [(''name'', PStr ''wdms''), (''archetype'', PStr ''java-maven-azure'')])]"

definition java_checkout :: checkout where
  "java_checkout = \<lparr>co_descriptor = Some (Inr java_descriptor), co_java_markers = False\<rparr>"

lemma java_descriptor_parsed: "parse java_descriptor = Inr java_document"
proof -
  have len: "utf8_length java_descriptor = length java_descriptor" by code_simp
  have 1: "\<not> MAX_BYTES < utf8_length java_descriptor" unfolding len by (simp add: MAX_BYTES_def java_descriptor_def)
  have 2: "CHR 0x09 \<notin> set java_descriptor" by code_simp
  have 3: "splitlines java_descriptor = [''schemaVersion: 2'', ''service:'', ''  name: wdms'', ''  archetype: java-maven-azure'']" by code_simp
  have 4: "\<not> MAX_LINES < length (splitlines java_descriptor)" by (simp add: MAX_LINES_def 3)
  have 5: "scan_lines 1 False False [''schemaVersion: 2'', ''service:'', ''  name: wdms'', ''  archetype: java-maven-azure'']
      = Inr [(0, ''schemaVersion: 2'', 1), (0, ''service:'', 2), (2, ''name: wdms'', 3), (2, ''archetype: java-maven-azure'', 4)]"
    by code_simp
  have 6: "parse_block (parse_fuel [(0, ''schemaVersion: 2'', 1), (0, ''service:'', 2), (2, ''name: wdms'', 3), (2, ''archetype: java-maven-azure'', 4)]) 0 1
      [(0, ''schemaVersion: 2'', 1), (0, ''service:'', 2), (2, ''name: wdms'', 3), (2, ''archetype: java-maven-azure'', 4)] = Inr (PDict java_document, [])"
    by code_simp
  show ?thesis unfolding parse_def Let_def 3 5 using 1 2 4 6 by (simp add: 3 document_of_def del: parse_block.simps)
qed

lemma java_document_valid: "validate (\<lambda>_ _. True) service_schema java_document = Inr []"
  by code_simp

lemma java_document_resolved:
  "case resolve_document service_schema java_document ((new_config ''svc'')\<lparr>descriptor_present := True\<rparr>) of
     Inr c \<Rightarrow> rc_valid c \<and> service_name c = ''wdms'' | Inl _ \<Rightarrow> False"
  by code_simp

lemma java_resolved: "\<exists>c. resolve (\<lambda>_ _. True) service_schema java_checkout ''svc'' = Inr c \<and> rc_valid c \<and> service_name c = ''wdms''"
proof -
  obtain c where "resolve_document service_schema java_document ((new_config ''svc'')\<lparr>descriptor_present := True\<rparr>) = Inr c" "rc_valid c \<and> service_name c = ''wdms''"
    using java_document_resolved by (auto split: sum.splits)
  then show ?thesis
    by (simp add: resolve_def java_checkout_def java_descriptor_parsed java_document_valid)
qed

theorem resolved_outputs_safe_witness:
  "\<exists>c. resolve (\<lambda>_ _. True) service_schema java_checkout ''svc'' = Inr c \<and> service_name c = ''wdms''
     \<and> build_lane c \<in> {''java'', ''python''} \<and> list_all (\<lambda>p. \<not> outside p) (repository_paths c)
     \<and> read_service_config (\<lambda>_ _. True) service_schema java_checkout ''svc''
          = Inr (0, concat (map (\<lambda>(k, v). k @ ''='' @ v @ [CHR 0x0A]) (outputs c)))"
proof -
  have "co_descriptor java_checkout = Some (Inr java_descriptor)" by (simp add: java_checkout_def)
  moreover have "one_line ''svc''" by code_simp
  ultimately show ?thesis
    using resolved_outputs_safe [of java_checkout java_descriptor "''svc''" "\<lambda>_ _. True"] java_descriptor_parsed java_resolved by auto
qed

end
