(* ===== verification/Client_Variables.thy ===== *)
theory Client_Variables
  imports Py_Json
begin

text \<open>
  The variables of the test client, \<open>wdms_client/variables.py\<close>, which are substituted into the requests.  A variable may
  refer to others, and nothing in the code bounds the substitution: it is defined with a number of steps, and \<open>None\<close> is
  a call that has not returned after them (in Python it loops, or ends with a \<open>RecursionError\<close>).  The printing of floats
  is an argument.
\<close>

section \<open>Text\<close>

fun find_at :: "string \<Rightarrow> string \<Rightarrow> nat option" where
  "find_at pat [] = (if pat = [] then Some 0 else None)"
| "find_at pat (c # cs) = (if startswith (c # cs) pat then Some 0 else map_option Suc (find_at pat cs))"

definition find_from :: "string \<Rightarrow> string \<Rightarrow> nat \<Rightarrow> nat option" where
  \<comment> \<open>\<open>value.find(pat, start)\<close>, where -1 is \<open>None\<close>\<close>
  "find_from pat s start = (if length s < start then None else map_option (\<lambda>k. k + start) (find_at pat (drop start s)))"

definition repr_char :: "char \<Rightarrow> char \<Rightarrow> string" where
  "repr_char quote c = (let n = code c in
     if c = quote \<or> n = 92 then [CHR 0x5C, c]
     else if n = 9 then [CHR 0x5C, CHR ''t''] else if n = 10 then [CHR 0x5C, CHR ''n''] else if n = 13 then [CHR 0x5C, CHR ''r'']
     else if n < 32 \<or> 127 \<le> n \<and> n \<le> 160 \<or> n = 173 then [CHR 0x5C, CHR ''x'', digit_char (n div 16), digit_char (n mod 16)]
     else [c])"

definition repr_string :: "string \<Rightarrow> string" where
  "repr_string s = (let quote = (if CHR 0x27 \<in> set s \<and> CHR 0x22 \<notin> set s then CHR 0x22 else CHR 0x27) in
     [quote] @ concat (map (repr_char quote) s) @ [quote])"

fun py_repr :: "(pyfloat \<Rightarrow> string) \<Rightarrow> pyval \<Rightarrow> string"
  and py_repr_items :: "(pyfloat \<Rightarrow> string) \<Rightarrow> pyval list \<Rightarrow> string list"
  and py_repr_entries :: "(pyfloat \<Rightarrow> string) \<Rightarrow> (string \<times> pyval) list \<Rightarrow> string list" where
  "py_repr fl PNone = ''None''"
| "py_repr fl (PBool b) = (if b then ''True'' else ''False'')"
| "py_repr fl (PInt i) = show_int i"
| "py_repr fl (PFloat f) = fl f"
| "py_repr fl (PStr s) = repr_string s"
| "py_repr fl (PList l) = ''['' @ join '', '' (py_repr_items fl l) @ '']''"
| "py_repr fl (PDict d) = ''{'' @ join '', '' (py_repr_entries fl d) @ ''}''"
| "py_repr_items fl [] = []"
| "py_repr_items fl (v # r) = py_repr fl v # py_repr_items fl r"
| "py_repr_entries fl [] = []"
| "py_repr_entries fl ((k, v) # r) = (repr_string k @ '': '' @ py_repr fl v) # py_repr_entries fl r"

definition py_str :: "(pyfloat \<Rightarrow> string) \<Rightarrow> pyval \<Rightarrow> string" where
  "py_str fl v = (case v of PStr s \<Rightarrow> s | _ \<Rightarrow> py_repr fl v)"

definition variable_text :: "(pyfloat \<Rightarrow> string) \<Rightarrow> pyval \<Rightarrow> string" where
  \<comment> \<open>what a nested variable is replaced with\<close>
  "variable_text fl v = (case v of PDict d \<Rightarrow> json_indent0 fl (PDict d) | _ \<Rightarrow> py_str fl v)"

section \<open>Substitution\<close>

type_synonym variables = "(string \<times> pyval) list"

definition hole :: "string \<Rightarrow> string" where
  "hole name = ''{{'' @ name @ ''}}''"

definition nested_var :: "variables \<Rightarrow> string \<Rightarrow> nat \<Rightarrow> (string \<times> pyval) option" where
  \<comment> \<open>the variable between the braces at the position, where there is one\<close>
  "nested_var vars value idx = (case find_from ''}}'' value idx of
       Some e \<Rightarrow> if idx + 2 < e
         then (let name = take (e - (idx + 2)) (drop (idx + 2) value) in map_option (Pair name) (map_of vars name))
         else None
     | None \<Rightarrow> None)"

function (sequential) resolve_in :: "(pyfloat \<Rightarrow> string) \<Rightarrow> nat \<Rightarrow> variables \<Rightarrow> pyval \<Rightarrow> pyval option"
  and resolve_entries :: "(pyfloat \<Rightarrow> string) \<Rightarrow> nat \<Rightarrow> variables \<Rightarrow> (string \<times> pyval) list \<Rightarrow> (string \<times> pyval) list option"
  and resolve_elements :: "(pyfloat \<Rightarrow> string) \<Rightarrow> nat \<Rightarrow> variables \<Rightarrow> pyval list \<Rightarrow> pyval list option"
  and resolve_text :: "(pyfloat \<Rightarrow> string) \<Rightarrow> nat \<Rightarrow> variables \<Rightarrow> nat \<Rightarrow> string \<Rightarrow> string option" where
  "resolve_in fl n vars (PDict d) = map_option PDict (resolve_entries fl n vars d)"
| "resolve_in fl n vars (PList l) = map_option PList (resolve_elements fl n vars l)"
| "resolve_in fl n vars (PStr s) = map_option PStr (resolve_text fl n vars 0 s)"
| "resolve_in fl n vars v = Some v"
| "resolve_entries fl n vars [] = Some []"
| "resolve_entries fl n vars ((k, v) # r) = (case resolve_in fl n vars v of
       None \<Rightarrow> None
     | Some v' \<Rightarrow> map_option (\<lambda>r'. (k, v') # r') (resolve_entries fl n vars r))"
| "resolve_elements fl n vars [] = Some []"
| "resolve_elements fl n vars (v # r) = (case resolve_in fl n vars v of
       None \<Rightarrow> None
     | Some v' \<Rightarrow> map_option (\<lambda>r'. v' # r') (resolve_elements fl n vars r))"
| "resolve_text fl 0 vars start value = None"
| "resolve_text fl (Suc n) vars start value = (case find_from ''{{'' value start of
       None \<Rightarrow> Some value
     | Some idx \<Rightarrow> (case nested_var vars value idx of
         None \<Rightarrow> resolve_text fl n vars (idx + 2) value
       | Some (name, raw) \<Rightarrow> (case resolve_in fl n vars raw of
           None \<Rightarrow> None
         | Some v \<Rightarrow> resolve_text fl n vars 2 (py_replace (hole name) (variable_text fl v) value))))"
  by pat_completeness auto
termination
  by (relation "measures [\<lambda>x. case x of Inl (Inl (fl, n, vars, v)) \<Rightarrow> n | Inl (Inr (fl, n, vars, d)) \<Rightarrow> n
        | Inr (Inl (fl, n, vars, l)) \<Rightarrow> n | Inr (Inr (fl, n, vars, i, s)) \<Rightarrow> n,
      \<lambda>x. case x of Inl (Inl (fl, n, vars, v)) \<Rightarrow> Suc (size v) | Inl (Inr (fl, n, vars, d)) \<Rightarrow> Suc (size_list (size_prod (\<lambda>_. 0) size) d)
        | Inr (Inl (fl, n, vars, l)) \<Rightarrow> Suc (size_list size l) | Inr (Inr (fl, n, vars, i, s)) \<Rightarrow> 0]") auto

section \<open>Operations of Variables\<close>

definition contains :: "variables \<Rightarrow> string \<Rightarrow> bool" where
  "contains vars key \<longleftrightarrow> map_of vars key \<noteq> None"

definition get_variable :: "(pyfloat \<Rightarrow> string) \<Rightarrow> nat \<Rightarrow> variables \<Rightarrow> string \<Rightarrow> pyval \<Rightarrow> pyval option" where
  "get_variable fl n vars key dflt = resolve_in fl n vars (case map_of vars key of None \<Rightarrow> dflt | Some v \<Rightarrow> v)"

definition getitem :: "(pyfloat \<Rightarrow> string) \<Rightarrow> nat \<Rightarrow> variables \<Rightarrow> string \<Rightarrow> pyval option res" where
  "getitem fl n vars key = bindR (ofOption KeyError (map_of vars key)) (\<lambda>v. Inr (resolve_in fl n vars v))"

definition set_variable :: "string \<Rightarrow> pyval \<Rightarrow> variables \<Rightarrow> variables" where
  "set_variable key v vars = AList.update key v vars"

definition update_variables :: "variables \<Rightarrow> variables \<Rightarrow> variables" where
  \<comment> \<open>\<open>update\<close> and \<open>update_env\<close>\<close>
  "update_variables vars other = foldl (\<lambda>acc (k, v). set_variable k v acc) vars other"

definition from_dict :: "variables \<Rightarrow> variables" where
  "from_dict d = foldl (\<lambda>acc (k, v). if k \<noteq> [] then set_variable k v acc else acc) [] d"

definition add_pm_variable :: "bool \<Rightarrow> pyval \<Rightarrow> variables \<Rightarrow> variables res" where
  "add_pm_variable ignore_empty var_data vars =
     bindR (v_get_default var_data ''enabled'' (PBool True)) (\<lambda>enabled.
     if \<not> truthy enabled then Inr vars else
     bindR (v_index var_data ''value'') (\<lambda>value.
     if truthy value \<or> \<not> ignore_empty then
       bindR (v_index var_data ''key'') (\<lambda>key. case key of
           PStr k \<Rightarrow> Inr (set_variable k value vars)
         | _ \<Rightarrow> Inl TypeError)
     else Inr vars))"

fun add_pm_variables :: "bool \<Rightarrow> pyval list \<Rightarrow> variables \<Rightarrow> variables res" where
  "add_pm_variables ignore_empty [] vars = Inr vars"
| "add_pm_variables ignore_empty (d # ds) vars =
     bindR (add_pm_variable ignore_empty d vars) (add_pm_variables ignore_empty ds)"

definition from_pm_env_obj :: "pyval \<Rightarrow> bool \<Rightarrow> variables res" where
  \<comment> \<open>a Postman environment; its keys are strings\<close>
  "from_pm_env_obj data ignore_empty = bindR (v_index data ''values'') (\<lambda>values.
     bindR (v_iter values) (\<lambda>l. add_pm_variables ignore_empty l []))"

definition scoped_update :: "variables \<Rightarrow> (exn, variables, 'a) prog \<Rightarrow> (exn, variables, 'a) prog" where
  \<comment> \<open>the body of a \<open>with\<close> block; without a \<open>finally\<close> the variables are not put back when it raises\<close>
  "scoped_update changes body = (\<lambda>vars. case body (update_variables vars changes) of
       (Inl e, vars') \<Rightarrow> (Inl e, vars')
     | (Inr x, vars') \<Rightarrow> (Inr x, vars))"

section \<open>Templates\<close>

datatype seg = Txt string | Hole string

primrec seg_text :: "seg \<Rightarrow> string" where
  "seg_text (Txt a) = a"
| "seg_text (Hole x) = hole x"

primrec fill :: "(string \<Rightarrow> string) \<Rightarrow> seg \<Rightarrow> string" where
  "fill val (Txt a) = a"
| "fill val (Hole x) = val x"

definition render :: "seg list \<Rightarrow> string" where
  "render t = concat (map seg_text t)"

definition fills :: "(string \<Rightarrow> string) \<Rightarrow> seg list \<Rightarrow> string" where
  "fills val t = concat (map (fill val) t)"

definition braceless :: "string \<Rightarrow> bool" where
  "braceless s \<longleftrightarrow> CHR ''{'' \<notin> set s \<and> CHR ''}'' \<notin> set s"

primrec wf_seg :: "seg \<Rightarrow> bool" where
  "wf_seg (Txt a) = braceless a"
| "wf_seg (Hole x) = (braceless x \<and> x \<noteq> [])"

definition holes :: "seg list \<Rightarrow> string set" where
  "holes t = {x. Hole x \<in> set t}"

definition put :: "string \<Rightarrow> string \<Rightarrow> seg list \<Rightarrow> seg list" where
  "put x w t = map (\<lambda>g. if g = Hole x then Txt w else g) t"

lemma seg_simps [simp]:
  "render [] = []" "render (g # t) = seg_text g @ render t" "render (t @ u) = render t @ render u"
  "fills val [] = []" "fills val (g # t) = fill val g @ fills val t"
  "put x w [] = []" "put x w (g # t) = (if g = Hole x then Txt w else g) # put x w t"
  "holes [] = {}" "holes (Txt a # t) = holes t" "holes (Hole x # t) = insert x (holes t)"
  by (auto simp: render_def fills_def put_def holes_def)

lemma finite_holes [simp]: "finite (holes t)"
proof (induction t)
  case (Cons g t)
  then show ?case by (cases g) simp_all
qed simp

lemma brace_prefix:
  assumes "c \<notin> set x" and "c \<notin> set y" and "prefix (x @ c # u) (y @ c # v)"
  shows "x = y"
  using assms
proof (induction x arbitrary: y)
  case Nil
  then show ?case by (cases y) auto
next
  case (Cons a x)
  then show ?case by (cases y) auto
qed

lemma replace_skip: "CHR ''{'' \<notin> set a \<Longrightarrow> py_replace (hole x) w (a @ t) = a @ py_replace (hole x) w t"
  by (induction a) (auto simp: hole_def)

lemma replace_other:
  assumes "braceless x" and "wf_seg (Hole y)" and "x \<noteq> y"
  shows "py_replace (hole x) w (hole y @ t) = hole y @ py_replace (hole x) w t"
proof -
  have "\<not> prefix (hole x) (hole y @ t)"
  proof
    assume "prefix (hole x) (hole y @ t)"
    then have "prefix (x @ CHR ''}'' # ''}'') (y @ CHR ''}'' # (''}'' @ t))" by (simp add: hole_def)
    then have "x = y" using assms brace_prefix [of "CHR ''}''" x y] by (simp add: braceless_def)
    with assms(3) show False by simp
  qed
  moreover have "\<not> prefix (hole x) (CHR ''{'' # y @ ''}}'' @ t)"
    using assms(2) by (cases y) (auto simp: hole_def braceless_def)
  moreover have "py_replace (hole x) w ((y @ ''}}'') @ t) = (y @ ''}}'') @ py_replace (hole x) w t"
    using assms(2) by (intro replace_skip) (auto simp: braceless_def)
  ultimately show ?thesis by (simp add: hole_def)
qed

lemma replace_render:
  assumes "list_all wf_seg t" and "wf_seg (Hole x)"
  shows "py_replace (hole x) w (render t) = render (put x w t)"
  using assms(1)
proof (induction t)
  case (Cons g t)
  show ?case
  proof (cases g)
    case (Txt a)
    with Cons replace_skip [of a] show ?thesis by (simp add: braceless_def)
  next
    case (Hole y)
    show ?thesis
    proof (cases "x = y")
      case True
      with Hole Cons py_replace_front [of "hole y"] show ?thesis by (simp add: hole_def)
    next
      case False
      with Hole Cons assms(2) replace_other [of x y] show ?thesis by simp
    qed
  qed
qed simp

section \<open>The position of the next variable\<close>

lemma lits_simps [simp]: "render (map Txt p @ t) = concat p @ render t" "holes (map Txt p @ t) = holes t"
  "put x w (map Txt p @ t) = map Txt p @ put x w t" "fills val (map Txt p @ t) = concat p @ fills val t"
  by (induction p) auto

lemma lits_only [simp]: "render (map Txt p) = concat p" "holes (map Txt p) = {}" "fills val (map Txt p) = concat p"
  by (induction p) auto

lemma lits_plain: "list_all wf_seg (map Txt p @ t) \<longleftrightarrow> braceless (concat p) \<and> list_all wf_seg t"
  by (induction p) (auto simp: braceless_def)

lemma split_first_hole: "(\<exists>p. t = map Txt p) \<or> (\<exists>p x r. t = map Txt p @ Hole x # r)"
proof (induction t)
  case Nil
  have "[] = map Txt []" by simp
  then show ?case by blast
next
  case (Cons g t)
  show ?case
  proof (cases g)
    case (Txt a)
    have "g # map Txt p = map Txt (a # p)" "g # map Txt p @ u = map Txt (a # p) @ u" for p u by (simp_all add: Txt)
    with Cons show ?thesis by metis
  next
    case (Hole x)
    then have "g # t = map Txt [] @ Hole x # t" by simp
    then show ?thesis by blast
  qed
qed

lemma find_at_none: "CHR ''{'' \<notin> set s \<Longrightarrow> find_at ''{{'' s = None"
  by (induction s) (auto simp: startswith_def)

lemma find_at_skip: "CHR ''{'' \<notin> set a \<Longrightarrow> find_at ''{{'' (a @ hole x @ t) = Some (length a)"
  by (induction a) (auto simp: hole_def startswith_def)

lemma find_at_close: "CHR ''}'' \<notin> set a \<Longrightarrow> find_at ''}}'' (a @ ''}}'' @ t) = Some (length a)"
  by (induction a) (auto simp: startswith_def)

lemma find_from_hole:
  assumes "CHR ''{'' \<notin> set a" and "start \<le> length a"
  shows "find_from ''{{'' (a @ hole x @ t) start = Some (length a)"
proof -
  have "CHR ''{'' \<notin> set (drop start a)" using assms(1) by (auto dest: in_set_dropD)
  from find_at_skip [OF this, of x t] assms(2) show ?thesis by (simp add: find_from_def)
qed

lemma find_from_none: "CHR ''{'' \<notin> set s \<Longrightarrow> find_from ''{{'' s start = None"
  using find_at_none [of "drop start s"] in_set_dropD [of "CHR ''{''" start s] by (auto simp: find_from_def)

lemma nested_var_hole:
  assumes "wf_seg (Hole x)"
  shows "nested_var vars (a @ hole x @ t) (length a) = map_option (Pair x) (map_of vars x)"
proof -
  have "find_at ''}}'' ((''{{'' @ x) @ ''}}'' @ t) = Some (length (''{{'' @ x))"
    using assms by (intro find_at_close) (simp add: braceless_def)
  then have "find_from ''}}'' (a @ hole x @ t) (length a) = Some (length a + 2 + length x)"
    by (simp add: find_from_def hole_def)
  with assms show ?thesis by (simp add: nested_var_def hole_def Let_def)
qed

section \<open>Substitution of templates\<close>

definition first_step_ok :: "(string \<Rightarrow> string) \<Rightarrow> seg list \<Rightarrow> bool" where
  \<comment> \<open>after the first substitution the search goes on at position 2: what follows must start behind it\<close>
  "first_step_ok val t \<longleftrightarrow> (\<forall>p x r. t = map Txt p @ Hole x # r \<longrightarrow> holes r \<subseteq> {x} \<or> 2 \<le> length (concat p) + length (val x))"

lemma holes_put: "holes (put x w t) = holes t - {x}"
  by (auto simp: holes_def put_def image_iff)

lemma wf_put: "list_all wf_seg t \<Longrightarrow> braceless w \<Longrightarrow> list_all wf_seg (put x w t)"
  by (auto simp: put_def list_all_iff)

lemma fills_put: "fills val (put x (val x) t) = fills val t"
  by (induction t) auto

lemma wf_hole: "list_all wf_seg t \<Longrightarrow> x \<in> holes t \<Longrightarrow> wf_seg (Hole x)"
  by (auto simp: holes_def list_all_iff)

lemma resolve_text_done:
  assumes "list_all wf_seg t" and "holes t = {}"
  shows "resolve_text fl (Suc n) vars start (render t) = Some (fills val t)"
proof -
  obtain p where p: "t = map Txt p" using split_first_hole [of t] assms(2) by auto
  then have "braceless (concat p)" using assms(1) lits_plain [of p "[]"] by simp
  then have "find_from ''{{'' (render t) start = None" by (intro find_from_none) (simp add: p braceless_def)
  moreover have "fills val t = render t" by (simp add: p)
  ultimately show ?thesis by simp
qed

definition resolved_to :: "(pyfloat \<Rightarrow> string) \<Rightarrow> nat \<Rightarrow> variables \<Rightarrow> (string \<Rightarrow> string) \<Rightarrow> string \<Rightarrow> bool" where
  \<comment> \<open>with so many steps or more, the variable is resolved to a text without braces\<close>
  "resolved_to fl n vars val x \<longleftrightarrow> braceless (val x) \<and> (\<exists>raw. map_of vars x = Some raw \<and> (\<forall>m\<ge>n. \<exists>v. resolve_in fl m vars raw = Some v \<and> variable_text fl v = val x))"

lemma resolve_text_step:
  assumes "list_all wf_seg t" and "t = map Txt p @ Hole x # r" and "start \<le> length (concat p)" and "resolved_to fl n vars val x" and "n \<le> m"
  shows "resolve_text fl (Suc m) vars start (render t) = resolve_text fl m vars 2 (render (put x (val x) t))"
proof -
  have pl: "CHR ''{'' \<notin> set (concat p)" and x: "wf_seg (Hole x)" using assms(1) unfolding assms(2) lits_plain by (auto simp: braceless_def)
  have t: "render t = concat p @ hole x @ render r" by (simp add: assms(2))
  obtain raw v where raw: "map_of vars x = Some raw" "resolve_in fl m vars raw = Some v" "variable_text fl v = val x"
    using assms(4,5) by (auto simp: resolved_to_def)
  show ?thesis
    using find_from_hole [OF pl assms(3), of x "render r"] nested_var_hole [OF x, of vars "concat p" "render r"] raw
      replace_render [OF assms(1) x, of "val x"] by (simp flip: t)
qed

lemma lead_prefix: "map Txt p @ t = map Txt q @ Hole y # u \<Longrightarrow> length (concat p) \<le> length (concat q)"
proof (induction p arbitrary: q)
  case (Cons a p)
  then show ?case by (cases q) auto
qed simp

lemma resolve_text_template:
  assumes "list_all wf_seg t" and "\<forall>x\<in>holes t. resolved_to fl n vars val x"
    and "\<forall>p x r. t = map Txt p @ Hole x # r \<longrightarrow> start \<le> length (concat p) \<and> (holes r \<subseteq> {x} \<or> 2 \<le> length (concat p) + length (val x))"
    and "n + card (holes t) < m"
  shows "resolve_text fl m vars start (render t) = Some (fills val t)"
  using assms
proof (induction "card (holes t)" arbitrary: t start m)
  case 0
  then obtain m' where "m = Suc m'" by (cases m) auto
  with 0 resolve_text_done show ?case by simp
next
  case (Suc k)
  then obtain m' where m: "m = Suc m'" by (cases m) auto
  have "holes t \<noteq> {}" using Suc.hyps(2) by auto
  then obtain p x r where t: "t = map Txt p @ Hole x # r" using split_first_hole [of t] by auto
  have x: "x \<in> holes t" "braceless (val x)" using Suc.prems(2) by (auto simp: t resolved_to_def)
  have start: "start \<le> length (concat p)" "holes r \<subseteq> {x} \<or> 2 \<le> length (concat p) + length (val x)" using Suc.prems(3) t by blast+
  let ?t = "put x (val x) t"
  have "resolve_text fl m vars start (render t) = resolve_text fl m' vars 2 (render ?t)"
    unfolding m using Suc.prems(2,4) x(1) m by (intro resolve_text_step [OF Suc.prems(1) t start(1), of fl n]) auto
  also have "\<dots> = Some (fills val ?t)"
  proof (rule Suc.hyps(1))
    show "k = card (holes ?t)" using Suc.hyps(2) x(1) by (simp add: holes_put)
    show "list_all wf_seg ?t" by (rule wf_put [OF Suc.prems(1) x(2)])
    show "\<forall>y\<in>holes ?t. resolved_to fl n vars val y" using Suc.prems(2) by (simp add: holes_put)
    show "n + card (holes ?t) < m'" using Suc.prems(4) Suc.hyps(2) m x(1) by (simp add: holes_put)
    show "\<forall>q y u. ?t = map Txt q @ Hole y # u \<longrightarrow> 2 \<le> length (concat q) \<and> (holes u \<subseteq> {y} \<or> 2 \<le> length (concat q) + length (val y))"
    proof (intro allI impI)
      fix q y u assume q: "?t = map Txt q @ Hole y # u"
      have "y \<in> holes ?t" by (simp add: q)
      then have "\<not> holes r \<subseteq> {x}" by (auto simp: holes_put t)
      with start(2) have two: "2 \<le> length (concat p) + length (val x)" by simp
      have "map Txt (p @ [val x]) @ put x (val x) r = map Txt q @ Hole y # u" using q by (simp add: t)
      from lead_prefix [OF this] have "length (concat (p @ [val x])) \<le> length (concat q)" .
      with two show "2 \<le> length (concat q) \<and> (holes u \<subseteq> {y} \<or> 2 \<le> length (concat q) + length (val y))" by simp
    qed
  qed
  finally show ?case by (simp add: fills_put)
qed

section \<open>Variables that refer to each other\<close>

definition good_variables :: "variables \<Rightarrow> (string \<Rightarrow> seg list) \<Rightarrow> (string \<Rightarrow> string) \<Rightarrow> (string \<Rightarrow> nat) \<Rightarrow> string set \<Rightarrow> bool" where
  \<comment> \<open>the variables are templates over each other, without cycles\<close>
  "good_variables vars tmpl val rank X \<longleftrightarrow> (\<forall>x\<in>X. map_of vars x = Some (PStr (render (tmpl x))) \<and> list_all wf_seg (tmpl x)
     \<and> first_step_ok val (tmpl x) \<and> val x = fills val (tmpl x) \<and> (\<forall>y\<in>holes (tmpl x). y \<in> X \<and> rank y < rank x))"

lemma braceless_fills:
  assumes "list_all wf_seg t" and "\<forall>x\<in>holes t. braceless (val x)"
  shows "braceless (fills val t)"
  using assms
proof (induction t)
  case (Cons g t)
  then show ?case by (cases g) (auto simp: braceless_def)
qed (simp add: braceless_def)

lemma common_steps:
  assumes "finite H" and "\<forall>x\<in>H. \<exists>n. P n x" and "\<And>n m x. P n x \<Longrightarrow> n \<le> m \<Longrightarrow> P m x"
  shows "\<exists>n. \<forall>x\<in>H. P (n::nat) x"
  using assms(1,2)
proof (induction H)
  case (insert x H)
  then obtain n m where "\<forall>y\<in>H. P n y" "P m x" by auto
  then have "\<forall>y\<in>insert x H. P (max n m) y" using assms(3) by (auto intro: max.cobounded1 max.cobounded2)
  then show ?case by blast
qed simp

lemma resolved_to_mono: "resolved_to fl n vars val x \<Longrightarrow> n \<le> m \<Longrightarrow> resolved_to fl m vars val x"
  by (auto simp: resolved_to_def)

lemma template_steps:
  assumes "list_all wf_seg t" and "first_step_ok val t" and "\<forall>x\<in>holes t. \<exists>n. resolved_to fl n vars val x"
  shows "\<exists>n. \<forall>m\<ge>n. resolve_in fl m vars (PStr (render t)) = Some (PStr (fills val t))"
proof -
  obtain n where n: "\<forall>x\<in>holes t. resolved_to fl n vars val x"
    using common_steps [OF finite_holes assms(3)] resolved_to_mono by blast
  have "resolve_text fl m vars 0 (render t) = Some (fills val t)" if "n + card (holes t) + 1 \<le> m" for m
    using assms(2) that by (intro resolve_text_template [OF assms(1) n]) (auto simp: first_step_ok_def)
  then show ?thesis by (intro exI [of _ "n + card (holes t) + 1"]) simp
qed

lemma good_variable_resolved:
  assumes "good_variables vars tmpl val rank X" and "x \<in> X"
  shows "\<exists>n. resolved_to fl n vars val x"
  using assms(2)
proof (induction "rank x" arbitrary: x rule: less_induct)
  case less
  have good: "map_of vars x = Some (PStr (render (tmpl x)))" "list_all wf_seg (tmpl x)" "first_step_ok val (tmpl x)" "val x = fills val (tmpl x)"
    and below: "\<forall>y\<in>holes (tmpl x). y \<in> X \<and> rank y < rank x"
    using assms(1) less.prems by (auto simp: good_variables_def)
  have nested: "\<forall>y\<in>holes (tmpl x). \<exists>n. resolved_to fl n vars val y" using below less.hyps by blast
  then have "braceless (val x)" unfolding good(4) using braceless_fills [OF good(2)] by (auto simp: resolved_to_def)
  moreover obtain n where "\<forall>m\<ge>n. resolve_in fl m vars (PStr (render (tmpl x))) = Some (PStr (val x))"
    using template_steps [OF good(2,3) nested] good(4) by auto
  ultimately have "resolved_to fl n vars val x" using good(1) by (auto simp: resolved_to_def variable_text_def py_str_def)
  then show ?case by blast
qed

text \<open>C18: The substitution of variables in a request returns, and replaces every variable by its value, when the variables
  that occur, directly or in the values of others, are defined and do not refer to each other in a cycle, and when the first
  replacement leaves at least two characters before the next variable.\<close>

theorem variables_resolved:
  assumes "good_variables vars tmpl val rank X" and "list_all wf_seg t" and "holes t \<subseteq> X" and "first_step_ok val t"
  shows "\<exists>n. \<forall>m\<ge>n. resolve_in fl m vars (PStr (render t)) = Some (PStr (fills val t))"
  using template_steps [OF assms(2,4)] good_variable_resolved [OF assms(1)] assms(3) by blast

text \<open>C19: Where the substitution does not do what the documentation says.  A variable that refers to itself is never
  resolved: the call does not return.  And after a replacement that leaves the next variable at the start of the text, the
  search goes on behind its braces, so that it stays in the text although it is defined.\<close>

theorem substitution_gaps:
  assumes "wf_seg (Hole x)" and "wf_seg (Hole y)" and "x \<noteq> y"
  shows "(map_of vars x = Some (PStr (hole x)) \<longrightarrow> (\<forall>n. resolve_in fl n vars (PStr (hole x)) = None))
    \<and> (map_of vars x = Some (PStr []) \<longrightarrow> (\<forall>n\<ge>3. resolve_in fl n vars (PStr (hole x @ hole y)) = Some (PStr (hole y))))"
proof -
  have find: "find_from ''{{'' (hole x @ t) 0 = Some 0" "nested_var vars (hole x @ t) 0 = map_option (Pair x) (map_of vars x)" for t
    using find_from_hole [of "[]" 0 x t] nested_var_hole [OF assms(1), of vars "[]" t] by simp_all
  have loop: "resolve_text fl n vars 0 (hole x) = None" if "map_of vars x = Some (PStr (hole x))" for n
  proof (induction n)
    case (Suc n)
    then show ?case using find [of "[]"] that by simp
  qed simp
  have stop: "find_from ''{{'' (hole y) 2 = None"
    using find_at_none [of "y @ ''}}''"] assms(2) by (simp add: find_from_def hole_def braceless_def)
  have "resolve_text fl n vars 0 (hole x @ hole y) = Some (hole y)" if e: "map_of vars x = Some (PStr [])" and three: "3 \<le> n" for n
  proof -
    define k where "k = n - 3"
    have n: "n = Suc (Suc (Suc k))" using three by (simp add: k_def)
    have "py_replace (hole x) [] (hole x @ hole y) = hole y"
      using replace_render [of "[Hole x, Hole y]" x "[]"] assms by simp
    then show ?thesis using find [of "hole y"] e stop by (simp add: n variable_text_def py_str_def find_from_def [of _ "[]"])
  qed
  with loop show ?thesis by simp
qed

definition test_variables :: variables where
  "test_variables = [(''base_url'', PStr ''https://host''), (''kind'', PStr ''{{authority}}:wks''), (''authority'', PStr ''osdu''),
     (''empty'', PStr []), (''self'', PStr ''{{self}}'')]"

definition test_template :: "string \<Rightarrow> seg list" where
  "test_template x = (if x = ''base_url'' then [Txt ''https://host''] else if x = ''kind'' then [Hole ''authority'', Txt '':wks''] else [Txt ''osdu''])"

definition test_value :: "string \<Rightarrow> string" where
  "test_value x = (if x = ''base_url'' then ''https://host'' else if x = ''kind'' then ''osdu:wks'' else ''osdu'')"

lemma test_variables_good:
  "good_variables test_variables test_template test_value (\<lambda>x. if x = ''kind'' then 1 else 0) {''base_url'', ''kind'', ''authority''}"
  by (auto simp: good_variables_def test_variables_def test_template_def test_value_def hole_def braceless_def first_step_ok_def append_eq_Cons_conv Cons_eq_append_conv)

theorem variables_resolved_witness:
  "\<exists>n. \<forall>m\<ge>n. resolve_in (\<lambda>_. []) m test_variables (PStr ''{{base_url}}/a/{{kind}}'') = Some (PStr ''https://host/a/osdu:wks'')"
proof -
  let ?t = "[Hole ''base_url'', Txt ''/a/'', Hole ''kind'']"
  have "list_all wf_seg ?t" by (simp add: braceless_def)
  moreover have "first_step_ok test_value ?t" by (auto simp: first_step_ok_def test_value_def Cons_eq_append_conv append_eq_Cons_conv)
  moreover have "holes ?t \<subseteq> {''base_url'', ''kind'', ''authority''}" by auto
  ultimately have "\<exists>n. \<forall>m\<ge>n. resolve_in (\<lambda>_. []) m test_variables (PStr (render ?t)) = Some (PStr (fills test_value ?t))"
    using variables_resolved [OF test_variables_good] by blast
  then show ?thesis by (simp add: hole_def test_value_def)
qed

theorem substitution_gaps_witness:
  "resolve_in (\<lambda>_. []) 7 test_variables (PStr (hole ''self'')) = None
   \<and> resolve_in (\<lambda>_. []) 7 test_variables (PStr (hole ''empty'' @ hole ''authority'')) = Some (PStr (hole ''authority''))"
proof -
  have "wf_seg (Hole ''self'')" "wf_seg (Hole ''empty'')" "wf_seg (Hole ''authority'')" by (simp_all add: braceless_def)
  moreover have "map_of test_variables ''self'' = Some (PStr (hole ''self''))" "map_of test_variables ''empty'' = Some (PStr [])"
    by (simp_all add: test_variables_def hole_def)
  ultimately show ?thesis
    using substitution_gaps [of "''self''" "''empty''" test_variables "\<lambda>_. []"]
      substitution_gaps [of "''empty''" "''authority''" test_variables "\<lambda>_. []"] by simp
qed

end
