(* ===== verification/Workflow_Inputs.thy ===== *)
theory Workflow_Inputs
  imports Descriptor_Outputs Client_Variables
begin

text \<open>
  The steps of the workflows that check their inputs before anything runs: \<open>resolve_acceptance_config.py\<close>, which reads the
  configuration of the acceptance tests that the service descriptor publishes, \<open>validate_runner_inputs.py\<close> of the test
  runner and \<open>parse_image_reference.py\<close> of the deployment.  The regular expressions are written out on characters up to 255.
  \<open>json.loads\<close>, the file system and the printing of floats are arguments.
\<close>

section \<open>Names\<close>

definition is_word :: "char \<Rightarrow> bool" where
  "is_word c \<longleftrightarrow> is_alnum c \<or> c = CHR ''_''"

definition ENV_NAME_RE :: "string \<Rightarrow> bool" where
  "ENV_NAME_RE s = (case s of [] \<Rightarrow> False | c # cs \<Rightarrow> is_word c \<and> \<not> is_digit c \<and> length cs \<le> 127 \<and> list_all is_word cs)"

definition is_slug_char :: "char \<Rightarrow> bool" where
  "is_slug_char c \<longleftrightarrow> 97 \<le> code c \<and> code c \<le> 122 \<or> is_digit c"

definition SERVICE_RE :: "string \<Rightarrow> bool" where
  "SERVICE_RE s = (case s of [] \<Rightarrow> False | c # cs \<Rightarrow> is_slug_char c \<and> length cs \<le> 62 \<and> list_all (\<lambda>d. is_slug_char d \<or> d = CHR ''-'') cs)"

definition SECRET_NAME_RE :: "string \<Rightarrow> bool" where
  "SECRET_NAME_RE s = (case s of [] \<Rightarrow> False | c # cs \<Rightarrow> is_alnum c \<and> length cs \<le> 126 \<and> list_all (\<lambda>d. is_alnum d \<or> d = CHR ''-'') cs)"

definition HEALTH_PATH_RE :: "string \<Rightarrow> bool" where
  "HEALTH_PATH_RE s = (case s of [] \<Rightarrow> False | c # cs \<Rightarrow> c = CHR ''/''
     \<and> list_all (\<lambda>d. is_alnum d \<or> d \<in> set (''._~!$&()*+,;=:'' @ [CHR 0x27, CHR 0x40] @ ''%/-'')) cs)"

definition is_control :: "char \<Rightarrow> bool" where
  "is_control c \<longleftrightarrow> code c < 32 \<or> code c = 127"

definition MAVEN_ARG_RE :: "string \<Rightarrow> bool" where
  "MAVEN_ARG_RE s \<longleftrightarrow> s \<noteq> [] \<and> length s \<le> 240 \<and> list_all (\<lambda>c. \<not> py_isspace c \<and> \<not> is_control c) s"

definition EXPECTED_KEYS :: "string list" where
  "EXPECTED_KEYS = [''type'', ''path'', ''runnerPath'', ''mavenArguments'', ''rootTokenEnv'', ''noDataAccessTokenEnv'', ''bindings'',
     ''keyVaultBindings'', ''dependencies'', ''timeoutMinutes'', ''maxAttempts'']"

definition FACT_SOURCES :: "(string \<times> string) list" where
  "FACT_SOURCES = [(''gateway'', ''GATEWAY_URL''), (''partition'', ''DATA_PARTITION_ID''), (''entitlementDomain'', ''ENTITLEMENT_DOMAIN''),
     (''storageAccount'', ''STORAGE_ACCOUNT_NAME'')]"

definition RESERVED_ENV_NAMES :: "string list" where
  "RESERVED_ENV_NAMES = [''ACTIONS_ID_TOKEN_REQUEST_TOKEN'', ''ACTIONS_ID_TOKEN_REQUEST_URL'', ''AZURE_CLIENT_ID'',
     ''AZURE_FEDERATED_TOKEN_FILE'', ''AZURE_SUBSCRIPTION_ID'', ''AZURE_TENANT_ID'', ''BASH_ENV'', ''ENV'', ''GITHUB_ENV'', ''GITHUB_OUTPUT'',
     ''GITHUB_PATH'', ''GITHUB_STEP_SUMMARY'', ''GITHUB_TOKEN'', ''HOME'', ''JAVA_TOOL_OPTIONS'', ''LD_LIBRARY_PATH'', ''LD_PRELOAD'',
     ''MAVEN_OPTS'', ''OLDPWD'', ''PATH'', ''PWD'', ''PYTHONPATH'', ''SHELL'']"

definition RESERVED_ENV_PREFIXES :: "string list" where
  "RESERVED_ENV_PREFIXES = [''ACTIONS_'', ''GITHUB_'', ''RUNNER_'']"

section \<open>The configuration of the acceptance tests\<close>

definition compact_object :: "doc \<Rightarrow> string" where
  \<comment> \<open>\<open>_compact\<close> of a dict of strings: the keys are sorted\<close>
  "compact_object d = json_dumps (PDict (sorted_items d))"

definition ac_object :: "pyval \<Rightarrow> doc res" where
  "ac_object v = (case v of PDict d \<Rightarrow> Inr d | _ \<Rightarrow> Inl ValueError)"

definition ac_string :: "pyval \<Rightarrow> string res" where
  "ac_string v = (case v of PStr s \<Rightarrow> if list_ex is_control s then Inl ValueError else Inr s | _ \<Rightarrow> Inl ValueError)"

definition ac_env_name :: "pyval \<Rightarrow> string res" where
  "ac_env_name v = bindR (ac_string v) (\<lambda>s.
     if \<not> ENV_NAME_RE s then Inl ValueError
     else if s \<in> set RESERVED_ENV_NAMES \<or> list_ex (startswith s) RESERVED_ENV_PREFIXES then Inl ValueError
     else Inr s)"

definition get_or_none :: "doc \<Rightarrow> string \<Rightarrow> pyval" where
  "get_or_none d key = or_default d key PNone"

definition binding_value :: "doc \<Rightarrow> doc \<Rightarrow> string res" where
  "binding_value facts binding = bindR (ac_string (get_or_none binding ''source'')) (\<lambda>source.
     bindR (ac_string (or_default binding ''suffix'' (PStr []))) (\<lambda>suffix.
     bindR (if source = ''literal'' then bindR (ofOption ValueError (map_of binding ''value'')) ac_string
       else bindR (ofOption ValueError (map_of FACT_SOURCES source)) (\<lambda>fact_name.
         if map_of binding ''value'' \<noteq> None then Inl ValueError else
         let base = strip (case map_of facts fact_name of Some (PStr s) \<Rightarrow> s | _ \<Rightarrow> []) in
         if base = [] then Inl ValueError
         else Inr (if source = ''gateway'' then rev (dropWhile (\<lambda>c. c = CHR ''/'') (rev base)) else base)))
     (\<lambda>value. Inr (value @ suffix))))"

definition resolve_binding :: "doc \<Rightarrow> string \<times> pyval \<Rightarrow> (string \<times> pyval) res" where
  "resolve_binding facts nb = bindR (ac_env_name (PStr (fst nb))) (\<lambda>_.
     bindR (ac_object (snd nb)) (\<lambda>binding.
     if \<not> set (map fst binding) \<subseteq> {''source'', ''suffix'', ''value''} then Inl ValueError
     else bindR (binding_value facts binding) (\<lambda>v. Inr (fst nb, PStr v))))"

definition resolve_bindings :: "doc \<Rightarrow> doc \<Rightarrow> doc res" where
  "resolve_bindings bindings facts = mapR (resolve_binding facts) bindings"

definition checked_secret :: "string \<times> pyval \<Rightarrow> (string \<times> pyval) res" where
  "checked_secret nb = bindR (ac_env_name (PStr (fst nb))) (\<lambda>_. bindR (ac_string (snd nb)) (\<lambda>s.
     if SECRET_NAME_RE s then Inr nb else Inl ValueError))"

definition checked_dependency :: "string \<times> pyval \<Rightarrow> (string \<times> pyval) res" where
  "checked_dependency nb = (if \<not> SERVICE_RE (fst nb) then Inl ValueError else bindR (ac_string (snd nb)) (\<lambda>s.
     if HEALTH_PATH_RE s then Inr nb else Inl ValueError))"

definition checked_maven_arguments :: "string \<Rightarrow> pyval \<Rightarrow> pyval list res" where
  "checked_maven_arguments test_type v = (case v of
       PList l \<Rightarrow> if test_type = ''maven'' \<and> l = [] \<or> test_type = ''python'' \<and> l \<noteq> [] then Inl ValueError
         else if list_all (\<lambda>a. case a of PStr s \<Rightarrow> MAVEN_ARG_RE s | _ \<Rightarrow> False) l then Inr l else Inl ValueError
     | _ \<Rightarrow> Inl ValueError)"

definition default_maven_arguments :: "string \<Rightarrow> pyval" where
  "default_maven_arguments test_type = PList (if test_type = ''maven'' then [PStr ''verify''] else [])"

definition checked_int :: "int \<Rightarrow> pyval \<Rightarrow> int res" where
  \<comment> \<open>an integer that is not a bool, from 1 to a maximum\<close>
  "checked_int maximum v = (case v of PInt i \<Rightarrow> if 1 \<le> i \<and> i \<le> maximum then Inr i else Inl ValueError | _ \<Rightarrow> Inl ValueError)"

definition checked_type :: "doc \<Rightarrow> (string \<times> string \<times> string) res" where
  \<comment> \<open>type, directory and runner\<close>
  "checked_type config = bindR (ac_string (get_or_none config ''type'')) (\<lambda>test_type.
     if test_type \<notin> {''maven'', ''python''} then Inl ValueError else
     bindR (ac_string (get_or_none config ''path'')) (\<lambda>test_dir.
     bindR (ac_string (or_default config ''runnerPath'' (PStr []))) (\<lambda>runner.
     if test_type = ''python'' \<and> runner = [] \<or> test_type = ''maven'' \<and> runner \<noteq> [] then Inl ValueError
     else Inr (test_type, test_dir, runner))))"

definition no_data_access_token :: "(pyfloat \<Rightarrow> string) \<Rightarrow> doc \<Rightarrow> string res" where
  \<comment> \<open>a false value of another type is printed as it is\<close>
  "no_data_access_token fl config = (let v = or_default config ''noDataAccessTokenEnv'' (PStr []) in
     if truthy v then ac_env_name v else Inr (py_str fl v))"

definition resolve_acceptance :: "(pyfloat \<Rightarrow> string) \<Rightarrow> (string \<Rightarrow> pyval option) \<Rightarrow> string \<Rightarrow> doc \<Rightarrow> (string \<times> string) list res" where
  "resolve_acceptance fl loads raw facts = bindR (ofOption ValueError (loads raw)) (\<lambda>parsed.
     bindR (ac_object parsed) (\<lambda>config.
     if \<not> set (map fst config) \<subseteq> set EXPECTED_KEYS then Inl ValueError else
     bindR (checked_type config) (\<lambda>(test_type, test_dir, runner).
     bindR (checked_maven_arguments test_type (or_default config ''mavenArguments'' (default_maven_arguments test_type))) (\<lambda>maven_arguments.
     bindR (ac_env_name (or_default config ''rootTokenEnv'' (PStr ''ROOT_USER_TOKEN''))) (\<lambda>root_token_env.
     bindR (no_data_access_token fl config) (\<lambda>no_data_env.
     bindR (bindR (ac_object (or_default config ''bindings'' (PDict []))) (\<lambda>bs. resolve_bindings bs facts)) (\<lambda>env_map.
     bindR (bindR (ac_object (or_default config ''keyVaultBindings'' (PDict []))) (mapR checked_secret)) (\<lambda>key_vault_bindings.
     bindR (bindR (ac_object (or_default config ''dependencies'' (PDict []))) (mapR checked_dependency)) (\<lambda>dependencies.
     bindR (checked_int 180 (or_default config ''timeoutMinutes'' (PInt 25))) (\<lambda>timeout.
     bindR (checked_int 5 (or_default config ''maxAttempts'' (PInt 2))) (\<lambda>attempts.
     Inr [(''test_type'', test_type), (''test_dir'', test_dir), (''python_runner'', runner),
       (''maven_arguments'', json_dumps (PList maven_arguments)), (''root_token_env'', root_token_env),
       (''no_data_access_token_env'', no_data_env), (''env_map'', compact_object env_map),
       (''secret_map'', compact_object key_vault_bindings), (''dependencies'', compact_object dependencies),
       (''timeout_minutes'', show_int timeout), (''max_attempts'', show_int attempts)])))))))))))"

definition acceptance_main :: "(pyfloat \<Rightarrow> string) \<Rightarrow> (string \<Rightarrow> pyval option) \<Rightarrow> (string \<times> string) list \<Rightarrow> nat \<times> string" where
  \<comment> \<open>the exit code for an environment, and what is appended to the file of outputs\<close>
  "acceptance_main fl loads env = (let environ = (\<lambda>k. case map_of env k of Some s \<Rightarrow> s | None \<Rightarrow> []) in
     case resolve_acceptance fl loads (environ ''ACCEPTANCE_CONFIG'') (map (\<lambda>(source, n). (n, PStr (environ n))) FACT_SOURCES) of
       Inr outs \<Rightarrow> if map_of env ''GITHUB_OUTPUT'' = None then (1, [])
         else (0, concat (map (\<lambda>(k, v). k @ ''='' @ v @ [CHR 0x0A]) outs))
     | Inl _ \<Rightarrow> (1, []))"

section \<open>Inputs of the test runner\<close>

record workspace =
  ws_resolve :: "string \<Rightarrow> string list"
    \<comment> \<open>the segments of the resolved path of a file below the root\<close>
  ws_root :: "string list"
  ws_is_dir :: "string list \<Rightarrow> bool"
  ws_is_file :: "string list \<Rightarrow> bool"
  ws_test_dir :: "string \<Rightarrow> bool"
    \<comment> \<open>a path, absolute or below the root, names a directory\<close>
  ws_suffix :: "string list \<Rightarrow> string"

definition version_numbers :: "string \<Rightarrow> nat set \<Rightarrow> bool" where
  \<comment> \<open>numbers with dots between them\<close>
  "version_numbers s ns = (let parts = split_char (CHR ''.'') s in length parts \<in> ns \<and> list_all (\<lambda>p. p \<noteq> [] \<and> list_all is_digit p) parts)"

definition EXTRA_RE :: "string \<Rightarrow> bool" where
  "EXTRA_RE s = (case s of [] \<Rightarrow> False | c # cs \<Rightarrow> is_alnum c \<and> length cs \<le> 63 \<and> list_all (\<lambda>d. is_alnum d \<or> d \<in> set ''._-'') cs)"

definition repository_path :: "workspace \<Rightarrow> string \<Rightarrow> string list res" where
  "repository_path ws value =
     (if value = [] \<or> outside value \<or> startswith value [CHR 0x5C] \<or> CHR 0x5C \<in> set value \<or> \<not> path_matches value then Inl ValueError
      else let resolved = ws_resolve ws value in if prefix (ws_root ws) resolved then Inr resolved else Inl ValueError)"

definition validate_runner :: "workspace \<Rightarrow> string \<Rightarrow> string \<Rightarrow> string \<Rightarrow> string \<Rightarrow> string \<Rightarrow> string \<Rightarrow> unit res" where
  "validate_runner ws test_type test_dir python_runner python_version uv_version extras =
     (if test_type \<notin> {''maven'', ''python''} then Inl ValueError
      else if test_type = ''maven'' then if ws_test_dir ws test_dir then Inr () else Inl ValueError
      else bindR (repository_path ws test_dir) (\<lambda>directory.
        if \<not> ws_is_dir ws directory then Inl ValueError else
        bindR (repository_path ws python_runner) (\<lambda>runner.
        if \<not> ws_is_file ws runner \<or> ws_suffix ws runner \<noteq> ''.py'' then Inl ValueError
        else if \<not> version_numbers python_version {2, 3} \<or> \<not> version_numbers uv_version {3} then Inl ValueError
        else let extra_names = filter (\<lambda>i. i \<noteq> []) (map strip (split_char (CHR '','') extras)) in
          if distinct extra_names \<and> list_all EXTRA_RE extra_names then Inr () else Inl ValueError)))"

section \<open>Image references\<close>

definition is_hex :: "char \<Rightarrow> bool" where
  "is_hex c \<longleftrightarrow> is_digit c \<or> 97 \<le> code c \<and> code c \<le> 102"

definition image_digest :: "string \<Rightarrow> bool" where
  "image_digest s \<longleftrightarrow> startswith s ''sha256:'' \<and> length s = 71 \<and> list_all is_hex (drop 7 s)"

definition parse_image_reference :: "string \<Rightarrow> (string \<times> string) res" where
  "parse_image_reference img = (let repository = takeWhile (\<lambda>c. c \<noteq> CHR 0x40) img; rest = dropWhile (\<lambda>c. c \<noteq> CHR 0x40) img in
     if repository \<noteq> [] \<and> list_all (\<lambda>c. \<not> py_isspace c) repository \<and> rest \<noteq> [] \<and> image_digest (tl rest)
     then Inr (repository, tl rest) else Inl ValueError)"

definition image_outputs :: "string \<Rightarrow> (nat \<times> string)" where
  \<comment> \<open>\<open>main\<close>: the exit code and the written outputs\<close>
  "image_outputs img = (case parse_image_reference img of
       Inl _ \<Rightarrow> (1, [])
     | Inr (repository, digest) \<Rightarrow> (0, ''image='' @ img @ [CHR 0x0A] @ ''repository='' @ repository @ [CHR 0x0A] @ ''digest='' @ digest @ [CHR 0x0A]))"

section \<open>What passes\<close>

definition proper_env_name :: "string \<Rightarrow> bool" where
  "proper_env_name s \<longleftrightarrow> ENV_NAME_RE s \<and> s \<notin> set RESERVED_ENV_NAMES \<and> (\<forall>p\<in>set RESERVED_ENV_PREFIXES. \<not> startswith s p)"

lemma ac_string_Inr: "ac_string v = Inr s \<Longrightarrow> v = PStr s \<and> \<not> list_ex is_control s"
  by (auto simp: ac_string_def split: pyval.splits if_splits)

lemma ac_env_name_Inr: "ac_env_name v = Inr s \<Longrightarrow> v = PStr s \<and> proper_env_name s \<and> \<not> list_ex is_control s"
  by (auto simp: ac_env_name_def bindR_Inr_iff proper_env_name_def list_ex_iff dest!: ac_string_Inr split: if_splits)

lemma ac_object_Inr: "ac_object v = Inr d \<longleftrightarrow> v = PDict d"
  by (auto simp: ac_object_def split: pyval.splits)

lemma ofOption_Inr: "ofOption e x = Inr y \<longleftrightarrow> x = Some y"
  by (cases x) simp_all

lemma bindR_InrE: "bindR x f = Inr y \<Longrightarrow> (\<And>a. x = Inr a \<Longrightarrow> f a = Inr y \<Longrightarrow> thesis) \<Longrightarrow> thesis"
  by (auto simp: bindR_Inr_iff)

lemma guard_InrE: "(if b then Inl e else x) = Inr y \<Longrightarrow> (\<not> b \<Longrightarrow> x = Inr y \<Longrightarrow> thesis) \<Longrightarrow> thesis"
  by (auto split: if_splits)

lemma bindR_triple_InrE:
  "bindR x (\<lambda>(a, b, c). f a b c) = Inr y \<Longrightarrow> (\<And>a b c. x = Inr (a, b, c) \<Longrightarrow> f a b c = Inr y \<Longrightarrow> thesis) \<Longrightarrow> thesis"
  by (auto simp: bindR_Inr_iff)

lemma no_control_line: "\<not> list_ex is_control s \<Longrightarrow> \<not> multi_line s"
  by (auto simp: multi_line_def list_ex_iff is_control_def code_def)

lemma one_line_single: "one_line s \<Longrightarrow> \<not> multi_line s"
  by (auto simp: multi_line_def list_all_iff is_line_break_def code_def)

lemma resolve_binding_Inr:
  assumes "resolve_binding facts nb = Inr e"
  shows "proper_env_name (fst e) \<and> fst e = fst nb
    \<and> (\<exists>b v. snd nb = PDict b \<and> binding_value facts b = Inr v \<and> snd e = PStr v)"
  using assms
  by (auto simp: resolve_binding_def bindR_Inr_iff ac_object_def dest!: ac_env_name_Inr split: if_splits pyval.splits)

lemma checked_secret_Inr:
  assumes "checked_secret nb = Inr e"
  shows "e = nb \<and> proper_env_name (fst nb) \<and> (\<exists>s. snd nb = PStr s \<and> SECRET_NAME_RE s)"
  using assms by (auto simp: checked_secret_def bindR_Inr_iff dest!: ac_env_name_Inr ac_string_Inr split: if_splits)

lemma checked_dependency_Inr:
  assumes "checked_dependency nb = Inr e"
  shows "e = nb \<and> SERVICE_RE (fst nb) \<and> (\<exists>s. snd nb = PStr s \<and> HEALTH_PATH_RE s)"
  using assms by (auto simp: checked_dependency_def bindR_Inr_iff dest!: ac_string_Inr split: if_splits)

lemma mapR_elements: "mapR f xs = Inr ys \<Longrightarrow> list_all2 (\<lambda>x y. f x = Inr y) xs ys"
  by (induction xs arbitrary: ys) (auto simp: bindR_Inr_iff)

lemma mapR_image:
  assumes "mapR f xs = Inr ys" and "\<And>x y. f x = Inr y \<Longrightarrow> P x y"
  shows "\<forall>y\<in>set ys. \<exists>x\<in>set xs. P x y"
  using mapR_elements [OF assms(1)] assms(2) by (induction rule: list_all2_induct) auto

lemma resolve_bindings_Inr:
  assumes "resolve_bindings bs facts = Inr envs" and "(k, v) \<in> set envs"
  shows "proper_env_name k \<and> (\<exists>b s. (k, PDict b) \<in> set bs \<and> binding_value facts b = Inr s \<and> v = PStr s)"
proof -
  from mapR_image [OF assms(1) [unfolded resolve_bindings_def] resolve_binding_Inr] assms(2)
  obtain nb b s where nb: "nb \<in> set bs" and e: "proper_env_name k" "k = fst nb" "snd nb = PDict b" "binding_value facts b = Inr s" "v = PStr s"
    by force
  have "nb = (k, PDict b)" using e(2,3) by (simp add: prod_eq_iff)
  with nb e(1,4,5) show ?thesis by blast
qed

lemma checked_int_Inr: "checked_int m v = Inr i \<Longrightarrow> 1 \<le> i \<and> i \<le> m"
  by (auto simp: checked_int_def split: pyval.splits if_splits)

lemma checked_type_Inr:
  assumes "checked_type config = Inr (t, d, r)"
  shows "(t = ''maven'' \<and> r = [] \<or> t = ''python'' \<and> r \<noteq> []) \<and> \<not> multi_line d \<and> \<not> multi_line r"
  using assms by (auto simp: checked_type_def bindR_Inr_iff no_control_line dest!: ac_string_Inr split: if_splits)

lemma maven_argument: "(case a of PStr s \<Rightarrow> MAVEN_ARG_RE s | _ \<Rightarrow> False) \<longleftrightarrow> (\<exists>s. a = PStr s \<and> MAVEN_ARG_RE s)"
  by (cases a) simp_all

lemma checked_maven_arguments_Inr:
  assumes "checked_maven_arguments t v = Inr l"
  shows "(t = ''maven'' \<longrightarrow> l \<noteq> []) \<and> (t = ''python'' \<longrightarrow> l = []) \<and> (\<forall>a\<in>set l. \<exists>s. a = PStr s \<and> MAVEN_ARG_RE s)"
  using assms unfolding checked_maven_arguments_def maven_argument list_all_iff by (cases v) (auto split: if_splits)

lemma falsy_text:
  assumes "\<not> truthy v" and "\<And>f. one_line (fl f)"
  shows "\<not> multi_line (py_str fl v)"
proof -
  have texts: "one_line ''None''" "one_line ''False''" "one_line ''[]''" "one_line ''{}''" by code_simp+
  then show ?thesis using assms show_int_one_line
    by (intro one_line_single) (cases v; auto simp: py_str_def truthy_def split: if_splits)
qed

lemma no_data_access_token_Inr:
  assumes "no_data_access_token fl config = Inr s" and "\<And>f. one_line (fl f)"
  shows "\<not> multi_line s \<and> (let v = or_default config ''noDataAccessTokenEnv'' (PStr []) in
     if truthy v then v = PStr s \<and> proper_env_name s else s = py_str fl v)"
  using assms falsy_text [OF _ assms(2)]
  by (auto simp: no_data_access_token_def Let_def no_control_line dest!: ac_env_name_Inr split: if_splits)

text \<open>C21: The configuration of the acceptance tests is safe to publish.  Where the step succeeds, it gives eleven outputs, each of them
  a single line.  A runner is given exactly for Python and Maven gets at least one argument, each a single word.  Every environment variable
  that the tests will be given, for a fact, a literal, a secret or the token of the root user, has a proper name that is
  not reserved, and the value of a fact or a literal comes from the binding of that name.  So has the variable for the token of
  the user without access to data, when the configuration has a true value for it; a false value, as 0 or an empty list, is not
  checked and its text is published.  Further, the dependencies are services with a path on the gateway; the time limit is between
  1 and 180 minutes and the number of attempts between 1 and 5.\<close>

theorem acceptance_resolved:
  assumes "resolve_acceptance fl loads raw facts = Inr outs" and "\<And>f. one_line (fl f)"
  shows "(\<forall>(k, v)\<in>set outs. \<not> multi_line v)
    \<and> (\<exists>config t d r args root nodata envs secrets deps timeout attempts. loads raw = Some (PDict config)
      \<and> outs = [(''test_type'', t), (''test_dir'', d), (''python_runner'', r), (''maven_arguments'', json_dumps (PList args)),
          (''root_token_env'', root), (''no_data_access_token_env'', nodata), (''env_map'', compact_object envs),
          (''secret_map'', compact_object secrets), (''dependencies'', compact_object deps),
          (''timeout_minutes'', show_int timeout), (''max_attempts'', show_int attempts)]
      \<and> (t = ''maven'' \<and> r = [] \<and> args \<noteq> [] \<or> t = ''python'' \<and> r \<noteq> [] \<and> args = [])
      \<and> (\<forall>a\<in>set args. \<exists>s. a = PStr s \<and> MAVEN_ARG_RE s) \<and> proper_env_name root
      \<and> (let v = or_default config ''noDataAccessTokenEnv'' (PStr []) in
           if truthy v then v = PStr nodata \<and> proper_env_name nodata else nodata = py_str fl v)
      \<and> (\<forall>(k, v)\<in>set envs. proper_env_name k
          \<and> (\<exists>b s. (k, PDict b) \<in> set (case or_default config ''bindings'' (PDict []) of PDict bs \<Rightarrow> bs | _ \<Rightarrow> [])
              \<and> binding_value facts b = Inr s \<and> v = PStr s))
      \<and> (\<forall>(k, v)\<in>set secrets. proper_env_name k \<and> (\<exists>s. v = PStr s \<and> SECRET_NAME_RE s))
      \<and> (\<forall>(k, v)\<in>set deps. SERVICE_RE k \<and> (\<exists>s. v = PStr s \<and> HEALTH_PATH_RE s))
      \<and> 1 \<le> timeout \<and> timeout \<le> 180 \<and> 1 \<le> attempts \<and> attempts \<le> 5)"
proof -
  obtain parsed config t d r args root nodata bs envs kvs secrets ds deps timeout attempts where
    parsed: "ofOption ValueError (loads raw) = Inr parsed" "ac_object parsed = Inr config" and ty: "checked_type config = Inr (t, d, r)"
    and args: "checked_maven_arguments t (or_default config ''mavenArguments'' (default_maven_arguments t)) = Inr args"
    and root: "ac_env_name (or_default config ''rootTokenEnv'' (PStr ''ROOT_USER_TOKEN'')) = Inr root"
    and nodata: "no_data_access_token fl config = Inr nodata"
    and bs: "ac_object (or_default config ''bindings'' (PDict [])) = Inr bs" and envs: "resolve_bindings bs facts = Inr envs"
    and kvs: "ac_object (or_default config ''keyVaultBindings'' (PDict [])) = Inr kvs" and secrets: "mapR checked_secret kvs = Inr secrets"
    and ds: "ac_object (or_default config ''dependencies'' (PDict [])) = Inr ds" and deps: "mapR checked_dependency ds = Inr deps"
    and timeout: "checked_int 180 (or_default config ''timeoutMinutes'' (PInt 25)) = Inr timeout"
    and attempts: "checked_int 5 (or_default config ''maxAttempts'' (PInt 2)) = Inr attempts"
    and result: "Inr [(''test_type'', t), (''test_dir'', d), (''python_runner'', r), (''maven_arguments'', json_dumps (PList args)),
          (''root_token_env'', root), (''no_data_access_token_env'', nodata), (''env_map'', compact_object envs),
          (''secret_map'', compact_object secrets), (''dependencies'', compact_object deps),
          (''timeout_minutes'', show_int timeout), (''max_attempts'', show_int attempts)] = (Inr outs :: (string \<times> string) list res)"
    using assms(1) unfolding resolve_acceptance_def by (elim bindR_triple_InrE bindR_InrE guard_InrE) (rule that)
  note outs = result [THEN sum.inject(2) [THEN iffD1], symmetric]
  have config: "loads raw = Some (PDict config)" using parsed by (simp add: ofOption_Inr ac_object_Inr)
  have bs': "or_default config ''bindings'' (PDict []) = PDict bs" using bs by (simp add: ac_object_Inr)
  have lines: "\<not> multi_line (json_dumps v)" "\<not> multi_line (compact_object e)" "\<not> multi_line (show_int i)" for v e i
    by (simp_all add: one_line_single json_dumps_one_line compact_object_def show_int_one_line)
  have "\<not> multi_line ''maven''" "\<not> multi_line ''python''" by code_simp+
  then have single: "\<forall>(k, v)\<in>set outs. \<not> multi_line v"
    unfolding outs using checked_type_Inr [OF ty] ac_env_name_Inr [OF root] no_data_access_token_Inr [OF nodata assms(2)] lines no_control_line
    by auto
  have type_args: "t = ''maven'' \<and> r = [] \<and> args \<noteq> [] \<or> t = ''python'' \<and> r \<noteq> [] \<and> args = []"
    and words: "\<forall>a\<in>set args. \<exists>s. a = PStr s \<and> MAVEN_ARG_RE s"
    using checked_type_Inr [OF ty] checked_maven_arguments_Inr [OF args] by blast+
  have name: "proper_env_name root" using ac_env_name_Inr [OF root] by blast
  have other: "let v = or_default config ''noDataAccessTokenEnv'' (PStr []) in
      if truthy v then v = PStr nodata \<and> proper_env_name nodata else nodata = py_str fl v"
    using no_data_access_token_Inr [OF nodata assms(2)] by blast
  have bound: "\<forall>(k, v)\<in>set envs. proper_env_name k \<and> (\<exists>b s. (k, PDict b) \<in> set bs \<and> binding_value facts b = Inr s \<and> v = PStr s)"
    using resolve_bindings_Inr [OF envs] by blast
  have kept: "\<forall>(k, v)\<in>set secrets. proper_env_name k \<and> (\<exists>s. v = PStr s \<and> SECRET_NAME_RE s)"
    using mapR_image [OF secrets checked_secret_Inr] by fastforce
  have needed: "\<forall>(k, v)\<in>set deps. SERVICE_RE k \<and> (\<exists>s. v = PStr s \<and> HEALTH_PATH_RE s)"
    using mapR_image [OF deps checked_dependency_Inr] by fastforce
  have limits: "1 \<le> timeout" "timeout \<le> 180" "1 \<le> attempts" "attempts \<le> 5"
    using checked_int_Inr [OF timeout] checked_int_Inr [OF attempts] by blast+
  show ?thesis
    by (rule conjI [OF single], rule exI [of _ config], rule exI [of _ t], rule exI [of _ d], rule exI [of _ r], rule exI [of _ args], rule exI [of _ root],
        rule exI [of _ nodata], rule exI [of _ envs], rule exI [of _ secrets], rule exI [of _ deps], rule exI [of _ timeout], rule exI [of _ attempts], unfold bs' pyval.case, intro conjI)
      (rule config outs type_args words name other bound kept needed limits)+
qed

definition example_acceptance :: doc where
  "example_acceptance = [(''type'', PStr ''python''), (''path'', PStr ''tests''), (''runnerPath'', PStr ''run.py''),
     (''bindings'', PDict [(''URL'', PDict [(''source'', PStr ''gateway''), (''suffix'', PStr ''/api'')])])]"

lemma example_acceptance_outputs:
  "resolve_acceptance (\<lambda>_. []) (\<lambda>_. Some (PDict example_acceptance)) [] [(''GATEWAY_URL'', PStr ''https://h/ '')]
     = Inr [(''test_type'', ''python''), (''test_dir'', ''tests''), (''python_runner'', ''run.py''), (''maven_arguments'', ''[]''),
         (''root_token_env'', ''ROOT_USER_TOKEN''), (''no_data_access_token_env'', []),
         (''env_map'', compact_object [(''URL'', PStr ''https://h/api'')]),
         (''secret_map'', ''{}''), (''dependencies'', ''{}''), (''timeout_minutes'', ''25''), (''max_attempts'', ''2'')]"
  by code_simp

theorem acceptance_resolved_witness: "\<not> multi_line (compact_object [(''URL'', PStr ''https://h/api'')])"
  using acceptance_resolved [OF example_acceptance_outputs] by simp

lemma parse_image_reference_iff:
  "parse_image_reference img = Inr (repository, digest)
   \<longleftrightarrow> img = repository @ [CHR 0x40] @ digest \<and> repository \<noteq> [] \<and> CHR 0x40 \<notin> set repository
     \<and> list_all (\<lambda>c. \<not> py_isspace c) repository \<and> image_digest digest"
proof
  let ?P = "\<lambda>c. c \<noteq> CHR 0x40"
  assume "parse_image_reference img = Inr (repository, digest)"
  then have r: "repository = takeWhile ?P img" "digest = tl (dropWhile ?P img)" "dropWhile ?P img \<noteq> []" "repository \<noteq> []"
    "list_all (\<lambda>c. \<not> py_isspace c) repository" "image_digest digest"
    by (auto simp: parse_image_reference_def Let_def split: if_splits)
  have "img = takeWhile ?P img @ dropWhile ?P img" by simp
  also have "dropWhile ?P img = [CHR 0x40] @ digest" using r(2,3) hd_dropWhile [OF r(3)] by (cases "dropWhile ?P img") auto
  finally show "img = repository @ [CHR 0x40] @ digest \<and> repository \<noteq> [] \<and> CHR 0x40 \<notin> set repository
     \<and> list_all (\<lambda>c. \<not> py_isspace c) repository \<and> image_digest digest"
    using r by (auto dest: set_takeWhileD)
next
  assume "img = repository @ [CHR 0x40] @ digest \<and> repository \<noteq> [] \<and> CHR 0x40 \<notin> set repository
     \<and> list_all (\<lambda>c. \<not> py_isspace c) repository \<and> image_digest digest"
  then show "parse_image_reference img = Inr (repository, digest)"
    by (auto simp: parse_image_reference_def Let_def takeWhile_append dropWhile_append)
qed

end
