(* ===== verification/Client_Requests.thy ===== *)
theory Client_Requests
  imports Client_Variables Application
begin

text \<open>
  The requests of the test client, \<open>wdms_client/request_builders\<close>: every builder with its method, address, headers and
  payload.  The texts of the records that the create requests post (some hundred lines of JSON each) are arguments.  The
  client and the service are two views of the same interface: the theorem at the end compares them.
\<close>

section \<open>Requests\<close>

datatype payload = NoPayload | Json pyval | Frame DataFrame | Binary string

record client_request =
  rq_name :: string
  rq_method :: string
  rq_url :: string
  rq_headers :: variables
  rq_payload :: payload

definition request :: "string \<Rightarrow> string \<Rightarrow> string \<Rightarrow> variables \<Rightarrow> payload \<Rightarrow> client_request" where
  "request name method url headers payload =
     \<lparr>rq_name = name, rq_method = method, rq_url = url, rq_headers = headers, rq_payload = payload\<rparr>"

definition record_headers :: variables where
  "record_headers = [(''accept'', PStr ''application/json''), (''data-partition-id'', PStr ''{{data_partition}}''),
     (''Connection'', PStr ''{{header_connection}}''), (''Authorization'', PStr ''Bearer {{token}}'')]"

definition create_headers :: variables where
  "create_headers = [(''accept'', PStr ''application/json''), (''Content-Type'', PStr ''application/json''),
     (''data-partition-id'', PStr ''{{data_partition}}''), (''Connection'', PStr ''{{header_connection}}''),
     (''Authorization'', PStr ''Bearer {{token}}'')]"

definition about_headers :: variables where
  "about_headers = [(''accept'', PStr ''application/json''), (''Connection'', PStr ''{{header_connection}}''),
     (''Authorization'', PStr ''Bearer {{token}}'')]"

definition session_headers :: variables where
  "session_headers = record_headers @ [(''Content-Type'', PStr ''application/json'')]"

section \<open>Builders\<close>

definition build_request_about :: "client_request" where
  "build_request_about = request ''about'' ''GET'' (''{{base_url}}/about'') about_headers NoPayload"

definition build_request_version :: "client_request" where
  "build_request_version = request ''version'' ''GET'' (''{{base_url}}/version'') about_headers NoPayload"

definition build_request_delete_osdu_wellbore :: "client_request" where
  "build_request_delete_osdu_wellbore = request ''Delete wellbore'' ''DELETE'' (''{{base_url}}/ddms/v3/wellbores/{{osdu_wellbore_record_id}}'') record_headers NoPayload"

definition build_request_get_osdu_wellbore_specific_version :: "client_request" where
  "build_request_get_osdu_wellbore_specific_version = request ''Get wellbore specific version'' ''GET'' (''{{base_url}}/ddms/v3/wellbores/{{osdu_wellbore_record_id}}/versions/{{osdu_wellbore_record_version}}'') record_headers NoPayload"

definition build_request_get_osdu_wellbore :: "client_request" where
  "build_request_get_osdu_wellbore = request ''Get wellbore'' ''GET'' (''{{base_url}}/ddms/v3/wellbores/{{osdu_wellbore_record_id}}'') record_headers NoPayload"

definition build_request_get_versions_of_osdu_wellbore :: "client_request" where
  "build_request_get_versions_of_osdu_wellbore = request ''Get versions of wellbore'' ''GET'' (''{{base_url}}/ddms/v3/wellbores/{{osdu_wellbore_record_id}}/versions'') record_headers NoPayload"

definition build_request_create_osdu_wellbore :: "string \<Rightarrow> client_request" where
  "build_request_create_osdu_wellbore payload = request ''Create OSDU wellbore'' ''POST'' (''{{base_url}}/ddms/v3/wellbores'') create_headers (Json (PStr payload))"

definition build_request_delete_osdu_wellbore_120 :: "client_request" where
  "build_request_delete_osdu_wellbore_120 = request ''Delete wellbore'' ''DELETE'' (''{{base_url}}/ddms/v3/wellbores/{{osdu_wellbore_120_record_id}}'') record_headers NoPayload"

definition build_request_get_osdu_wellbore_120_specific_version :: "client_request" where
  "build_request_get_osdu_wellbore_120_specific_version = request ''Get wellbore specific version'' ''GET'' (''{{base_url}}/ddms/v3/wellbores/{{osdu_wellbore_120_record_id}}/versions/{{osdu_wellbore_120_record_version}}'') record_headers NoPayload"

definition build_request_get_osdu_wellbore_120 :: "client_request" where
  "build_request_get_osdu_wellbore_120 = request ''Get wellbore'' ''GET'' (''{{base_url}}/ddms/v3/wellbores/{{osdu_wellbore_120_record_id}}'') record_headers NoPayload"

definition build_request_get_versions_of_osdu_wellbore_120 :: "client_request" where
  "build_request_get_versions_of_osdu_wellbore_120 = request ''Get versions of wellbore'' ''GET'' (''{{base_url}}/ddms/v3/wellbores/{{osdu_wellbore_120_record_id}}/versions'') record_headers NoPayload"

definition build_request_create_osdu_wellbore_120 :: "string \<Rightarrow> client_request" where
  "build_request_create_osdu_wellbore_120 payload = request ''Create OSDU wellbore'' ''POST'' (''{{base_url}}/ddms/v3/wellbores'') create_headers (Json (PStr payload))"

definition build_request_delete_osdu_wellbore_100 :: "client_request" where
  "build_request_delete_osdu_wellbore_100 = request ''Delete wellbore'' ''DELETE'' (''{{base_url}}/ddms/v3/wellbores/{{osdu_wellbore_100_record_id}}'') record_headers NoPayload"

definition build_request_get_osdu_wellbore_100_specific_version :: "client_request" where
  "build_request_get_osdu_wellbore_100_specific_version = request ''Get wellbore specific version'' ''GET'' (''{{base_url}}/ddms/v3/wellbores/{{osdu_wellbore_100_record_id}}/versions/{{osdu_wellbore_100_record_version}}'') record_headers NoPayload"

definition build_request_get_osdu_wellbore_100 :: "client_request" where
  "build_request_get_osdu_wellbore_100 = request ''Get wellbore'' ''GET'' (''{{base_url}}/ddms/v3/wellbores/{{osdu_wellbore_100_record_id}}'') record_headers NoPayload"

definition build_request_get_versions_of_osdu_wellbore_100 :: "client_request" where
  "build_request_get_versions_of_osdu_wellbore_100 = request ''Get versions of wellbore'' ''GET'' (''{{base_url}}/ddms/v3/wellbores/{{osdu_wellbore_100_record_id}}/versions'') record_headers NoPayload"

definition build_request_create_osdu_wellbore_100 :: "string \<Rightarrow> client_request" where
  "build_request_create_osdu_wellbore_100 payload = request ''Create OSDU wellbore'' ''POST'' (''{{base_url}}/ddms/v3/wellbores'') create_headers (Json (PStr payload))"

definition build_request_delete_osdu_wellbore_111 :: "client_request" where
  "build_request_delete_osdu_wellbore_111 = request ''Delete wellbore'' ''DELETE'' (''{{base_url}}/ddms/v3/wellbores/{{osdu_wellbore_111_record_id}}'') record_headers NoPayload"

definition build_request_get_osdu_wellbore_111_specific_version :: "client_request" where
  "build_request_get_osdu_wellbore_111_specific_version = request ''Get wellbore specific version'' ''GET'' (''{{base_url}}/ddms/v3/wellbores/{{osdu_wellbore_111_record_id}}/versions/{{osdu_wellbore_111_record_version}}'') record_headers NoPayload"

definition build_request_get_osdu_wellbore_111 :: "client_request" where
  "build_request_get_osdu_wellbore_111 = request ''Get wellbore'' ''GET'' (''{{base_url}}/ddms/v3/wellbores/{{osdu_wellbore_111_record_id}}'') record_headers NoPayload"

definition build_request_get_versions_of_osdu_wellbore_111 :: "client_request" where
  "build_request_get_versions_of_osdu_wellbore_111 = request ''Get versions of wellbore'' ''GET'' (''{{base_url}}/ddms/v3/wellbores/{{osdu_wellbore_111_record_id}}/versions'') record_headers NoPayload"

definition build_request_create_osdu_wellbore_111 :: "string \<Rightarrow> client_request" where
  "build_request_create_osdu_wellbore_111 payload = request ''Create OSDU wellbore'' ''POST'' (''{{base_url}}/ddms/v3/wellbores'') create_headers (Json (PStr payload))"

definition build_request_delete_osdu_well :: "client_request" where
  "build_request_delete_osdu_well = request ''Delete well'' ''DELETE'' (''{{base_url}}/ddms/v3/wells/{{osdu_well_record_id}}'') record_headers NoPayload"

definition build_request_delete_osdu_well_100 :: "client_request" where
  "build_request_delete_osdu_well_100 = request ''Delete well'' ''DELETE'' (''{{base_url}}/ddms/v3/wells/{{osdu_well_100_record_id}}'') record_headers NoPayload"

definition build_request_delete_osdu_well_110 :: "client_request" where
  "build_request_delete_osdu_well_110 = request ''Delete well'' ''DELETE'' (''{{base_url}}/ddms/v3/wells/{{osdu_well_110_record_id}}'') record_headers NoPayload"

definition build_request_get_osdu_well_specific_version :: "client_request" where
  "build_request_get_osdu_well_specific_version = request ''Get well specific version'' ''GET'' (''{{base_url}}/ddms/v3/wells/{{osdu_well_record_id}}/versions/{{osdu_well_record_version}}'') record_headers NoPayload"

definition build_request_get_osdu_well_100_specific_version :: "client_request" where
  "build_request_get_osdu_well_100_specific_version = request ''Get well specific version'' ''GET'' (''{{base_url}}/ddms/v3/wells/{{osdu_well_100_record_id}}/versions/{{osdu_well_100_record_version}}'') record_headers NoPayload"

definition build_request_get_osdu_well_110_specific_version :: "client_request" where
  "build_request_get_osdu_well_110_specific_version = request ''Get well specific version'' ''GET'' (''{{base_url}}/ddms/v3/wells/{{osdu_well_110_record_id}}/versions/{{osdu_well_110_record_version}}'') record_headers NoPayload"

definition build_request_get_osdu_well :: "client_request" where
  "build_request_get_osdu_well = request ''Get well'' ''GET'' (''{{base_url}}/ddms/v3/wells/{{osdu_well_record_id}}'') record_headers NoPayload"

definition build_request_get_osdu_well_100 :: "client_request" where
  "build_request_get_osdu_well_100 = request ''Get well'' ''GET'' (''{{base_url}}/ddms/v3/wells/{{osdu_well_100_record_id}}'') record_headers NoPayload"

definition build_request_get_osdu_well_110 :: "client_request" where
  "build_request_get_osdu_well_110 = request ''Get well'' ''GET'' (''{{base_url}}/ddms/v3/wells/{{osdu_well_110_record_id}}'') record_headers NoPayload"

definition build_request_get_versions_of_osdu_well :: "client_request" where
  "build_request_get_versions_of_osdu_well = request ''Get versions of well'' ''GET'' (''{{base_url}}/ddms/v3/wells/{{osdu_well_record_id}}/versions'') record_headers NoPayload"

definition build_request_get_versions_of_osdu_well_100 :: "client_request" where
  "build_request_get_versions_of_osdu_well_100 = request ''Get versions of well'' ''GET'' (''{{base_url}}/ddms/v3/wells/{{osdu_well_100_record_id}}/versions'') record_headers NoPayload"

definition build_request_get_versions_of_osdu_well_110 :: "client_request" where
  "build_request_get_versions_of_osdu_well_110 = request ''Get versions of well'' ''GET'' (''{{base_url}}/ddms/v3/wells/{{osdu_well_110_record_id}}/versions'') record_headers NoPayload"

definition build_request_create_osdu_well :: "string \<Rightarrow> client_request" where
  "build_request_create_osdu_well payload = request ''Create OSDU well'' ''POST'' (''{{base_url}}/ddms/v3/wells'') create_headers (Json (PStr payload))"

definition build_request_create_osdu_well_100 :: "string \<Rightarrow> client_request" where
  "build_request_create_osdu_well_100 payload = request ''Create OSDU well'' ''POST'' (''{{base_url}}/ddms/v3/wells'') create_headers (Json (PStr payload))"

definition build_request_create_osdu_well_110 :: "string \<Rightarrow> client_request" where
  "build_request_create_osdu_well_110 payload = request ''Create OSDU well'' ''POST'' (''{{base_url}}/ddms/v3/wells'') create_headers (Json (PStr payload))"

definition build_request_delete_osdu_welllog :: "string \<Rightarrow> client_request" where
  "build_request_delete_osdu_welllog record_id = request ''Delete welllog'' ''DELETE'' (''{{base_url}}/ddms/v3/welllogs/'' @ record_id) record_headers NoPayload"

definition build_request_get_osdu_welllog_specific_version :: "client_request" where
  "build_request_get_osdu_welllog_specific_version = request ''Get welllog specific version'' ''GET'' (''{{base_url}}/ddms/v3/welllogs/{{osdu_welllog_record_id}}/versions/{{osdu_welllog_record_version}}'') record_headers NoPayload"

definition build_request_get_osdu_welllog :: "client_request" where
  "build_request_get_osdu_welllog = request ''Get welllog'' ''GET'' (''{{base_url}}/ddms/v3/welllogs/{{osdu_welllog_record_id}}'') record_headers NoPayload"

definition build_request_get_versions_of_osdu_welllog :: "client_request" where
  "build_request_get_versions_of_osdu_welllog = request ''Get versions of welllog'' ''GET'' (''{{base_url}}/ddms/v3/welllogs/{{osdu_welllog_record_id}}/versions'') record_headers NoPayload"

definition build_request_create_osdu_unknown_kind_welllog :: "string \<Rightarrow> client_request" where
  "build_request_create_osdu_unknown_kind_welllog payload = request ''Create OSDU welllog'' ''POST'' (''{{base_url}}/ddms/v3/welllogs'') create_headers (Json (PStr payload))"

definition build_request_create_osdu_welllog :: "string \<Rightarrow> client_request" where
  "build_request_create_osdu_welllog payload = request ''Create OSDU welllog'' ''POST'' (''{{base_url}}/ddms/v3/welllogs'') create_headers (Json (PStr payload))"

definition build_request_delete_osdu_wellboretrajectory :: "string \<Rightarrow> client_request" where
  "build_request_delete_osdu_wellboretrajectory record_id = request ''Delete wellboretrajectory'' ''DELETE'' (''{{base_url}}/ddms/v3/wellboretrajectories/'' @ record_id) record_headers NoPayload"

definition build_request_get_osdu_wellboretrajectory_specific_version :: "client_request" where
  "build_request_get_osdu_wellboretrajectory_specific_version = request ''Get wellboretrajectory specific version'' ''GET'' (''{{base_url}}/ddms/v3/wellboretrajectories/{{osdu_wellboretrajectory_record_id}}/versions/{{osdu_wellboretrajectory_record_version}}'') record_headers NoPayload"

definition build_request_get_osdu_wellboretrajectory :: "client_request" where
  "build_request_get_osdu_wellboretrajectory = request ''Get wellboretrajectory'' ''GET'' (''{{base_url}}/ddms/v3/wellboretrajectories/{{osdu_wellboretrajectory_record_id}}'') record_headers NoPayload"

definition build_request_get_versions_of_osdu_wellboretrajectory :: "client_request" where
  "build_request_get_versions_of_osdu_wellboretrajectory = request ''Get versions of wellboretrajectory'' ''GET'' (''{{base_url}}/ddms/v3/wellboretrajectories/{{osdu_wellboretrajectory_record_id}}/versions'') record_headers NoPayload"

definition build_request_create_osdu_wellboretrajectory :: "string \<Rightarrow> client_request" where
  "build_request_create_osdu_wellboretrajectory payload = request ''Create OSDU wellboretrajectory'' ''POST'' (''{{base_url}}/ddms/v3/wellboretrajectories'') create_headers (Json (PStr payload))"

definition build_request_delete_osdu_wellboremarkerset :: "client_request" where
  "build_request_delete_osdu_wellboremarkerset = request ''Delete wellboremarkerset'' ''DELETE'' (''{{base_url}}/ddms/v3/wellboremarkersets/{{osdu_wellboremarkerset_record_id}}'') record_headers NoPayload"

definition build_request_get_osdu_wellboremarkerset_specific_version :: "client_request" where
  "build_request_get_osdu_wellboremarkerset_specific_version = request ''Get wellboremarkerset specific version'' ''GET'' (''{{base_url}}/ddms/v3/wellboremarkersets/{{osdu_wellboremarkerset_record_id}}/versions/{{osdu_wellboremarkerset_record_version}}'') record_headers NoPayload"

definition build_request_get_osdu_wellboremarkerset :: "client_request" where
  "build_request_get_osdu_wellboremarkerset = request ''Get wellboremarkerset'' ''GET'' (''{{base_url}}/ddms/v3/wellboremarkersets/{{osdu_wellboremarkerset_record_id}}'') record_headers NoPayload"

definition build_request_get_versions_of_osdu_wellboremarkerset :: "client_request" where
  "build_request_get_versions_of_osdu_wellboremarkerset = request ''Get versions of wellboremarkerset'' ''GET'' (''{{base_url}}/ddms/v3/wellboremarkersets/{{osdu_wellboremarkerset_record_id}}/versions'') record_headers NoPayload"

definition build_request_create_osdu_wellboremarkerset :: "string \<Rightarrow> client_request" where
  "build_request_create_osdu_wellboremarkerset payload = request ''Create OSDU wellboremarkerset'' ''POST'' (''{{base_url}}/ddms/v3/wellboremarkersets'') create_headers (Json (PStr payload))"

definition build_request_delete_osdu_wellboreintervalset_100 :: "client_request" where
  "build_request_delete_osdu_wellboreintervalset_100 = request ''Delete wellboreintervalset'' ''DELETE'' (''{{base_url}}/ddms/v3/wellboreintervalsets/{{osdu_wellboreintervalset_100_record_id}}'') record_headers NoPayload"

definition build_request_get_osdu_wellboreintervalset_100_specific_version :: "client_request" where
  "build_request_get_osdu_wellboreintervalset_100_specific_version = request ''Get wellboreintervalset specific version'' ''GET'' (''{{base_url}}/ddms/v3/wellboreintervalsets/{{osdu_wellboreintervalset_100_record_id}}/versions/{{osdu_wellboreintervalset_100_record_version}}'') record_headers NoPayload"

definition build_request_get_osdu_wellboreintervalset_100 :: "client_request" where
  "build_request_get_osdu_wellboreintervalset_100 = request ''Get wellboreintervalset'' ''GET'' (''{{base_url}}/ddms/v3/wellboreintervalsets/{{osdu_wellboreintervalset_100_record_id}}'') record_headers NoPayload"

definition build_request_get_versions_of_osdu_wellboreintervalset_100 :: "client_request" where
  "build_request_get_versions_of_osdu_wellboreintervalset_100 = request ''Get versions of wellboreintervalset'' ''GET'' (''{{base_url}}/ddms/v3/wellboreintervalsets/{{osdu_wellboreintervalset_100_record_id}}/versions'') record_headers NoPayload"

definition build_request_create_osdu_wellboreintervalset_100 :: "string \<Rightarrow> client_request" where
  "build_request_create_osdu_wellboreintervalset_100 payload = request ''Create OSDU wellboreintervalset'' ''POST'' (''{{base_url}}/ddms/v3/wellboreintervalsets'') create_headers (Json (PStr payload))"

definition build_request_delete_osdu_welllogacquisition :: "client_request" where
  "build_request_delete_osdu_welllogacquisition = request ''Delete WellLogAcquisition'' ''DELETE'' (''{{base_url}}/ddms/v3/welllogacquisition/{{osdu_welllogacquisition_record_id}}'') record_headers NoPayload"

definition build_request_get_osdu_welllogacquisition_specific_version :: "client_request" where
  "build_request_get_osdu_welllogacquisition_specific_version = request ''Get WellLogAcquisition specific version'' ''GET'' (''{{base_url}}/ddms/v3/welllogacquisition/{{osdu_welllogacquisition_record_id}}/versions/{{osdu_welllogacquisition_record_version}}'') record_headers NoPayload"

definition build_request_get_osdu_welllogacquisition :: "client_request" where
  "build_request_get_osdu_welllogacquisition = request ''Get WellLogAcquisition'' ''GET'' (''{{base_url}}/ddms/v3/welllogacquisition/{{osdu_welllogacquisition_record_id}}'') record_headers NoPayload"

definition build_request_get_versions_of_osdu_welllogacquisition :: "client_request" where
  "build_request_get_versions_of_osdu_welllogacquisition = request ''Get versions of WellLogAcquisition'' ''GET'' (''{{base_url}}/ddms/v3/welllogacquisition/{{osdu_welllogacquisition_record_id}}/versions'') record_headers NoPayload"

definition build_request_create_osdu_welllogacquisition :: "string \<Rightarrow> client_request" where
  "build_request_create_osdu_welllogacquisition payload = request ''Create OSDU WellLogAcquisition'' ''POST'' (''{{base_url}}/ddms/v3/welllogacquisition'') create_headers (Json (PStr payload))"

definition build_request_delete_osdu_ppfgdataset :: "string \<Rightarrow> client_request" where
  "build_request_delete_osdu_ppfgdataset record_id = request ''Delete PPFGDataset'' ''DELETE'' (''{{base_url}}/ddms/v3/ppfgdataset/'' @ record_id) record_headers NoPayload"

definition build_request_get_osdu_ppfgdataset_specific_version :: "client_request" where
  "build_request_get_osdu_ppfgdataset_specific_version = request ''Get PPFGDataset specific version'' ''GET'' (''{{base_url}}/ddms/v3/ppfgdataset/{{osdu_ppfgdataset_record_id}}/versions/{{osdu_ppfgdataset_record_version}}'') record_headers NoPayload"

definition build_request_get_osdu_ppfgdataset :: "client_request" where
  "build_request_get_osdu_ppfgdataset = request ''Get PPFGDataset'' ''GET'' (''{{base_url}}/ddms/v3/ppfgdataset/{{osdu_ppfgdataset_record_id}}'') record_headers NoPayload"

definition build_request_get_versions_of_osdu_ppfgdataset :: "client_request" where
  "build_request_get_versions_of_osdu_ppfgdataset = request ''Get versions of PPFGDataset'' ''GET'' (''{{base_url}}/ddms/v3/ppfgdataset/{{osdu_ppfgdataset_record_id}}/versions'') record_headers NoPayload"

definition build_request_create_osdu_ppfgdataset :: "string \<Rightarrow> client_request" where
  "build_request_create_osdu_ppfgdataset payload = request ''Create OSDU PPFGDataset'' ''POST'' (''{{base_url}}/ddms/v3/ppfgdataset'') create_headers (Json (PStr payload))"

definition build_request_delete_osdu_wellpressuretestrawmeasurement :: "string \<Rightarrow> client_request" where
  "build_request_delete_osdu_wellpressuretestrawmeasurement record_id = request ''Delete WellPressureTestRawMeasurement'' ''DELETE'' (''{{base_url}}/ddms/v3/wellpressuretestrawmeasurement/'' @ record_id) record_headers NoPayload"

definition build_request_get_osdu_wellpressuretestrawmeasurement_specific_version :: "client_request" where
  "build_request_get_osdu_wellpressuretestrawmeasurement_specific_version = request ''Get WellPressureTestRawMeasurement specific version'' ''GET'' (''{{base_url}}/ddms/v3/wellpressuretestrawmeasurement/{{osdu_wellpressuretestrawmeasurement_record_id}}/versions/{{osdu_wellpressuretestrawmeasurement_record_version}}'') record_headers NoPayload"

definition build_request_get_osdu_wellpressuretestrawmeasurement :: "client_request" where
  "build_request_get_osdu_wellpressuretestrawmeasurement = request ''Get WellPressureTestRawMeasurement'' ''GET'' (''{{base_url}}/ddms/v3/wellpressuretestrawmeasurement/{{osdu_wellpressuretestrawmeasurement_record_id}}'') record_headers NoPayload"

definition build_request_get_versions_of_osdu_wellpressuretestrawmeasurement :: "client_request" where
  "build_request_get_versions_of_osdu_wellpressuretestrawmeasurement = request ''Get versions of WellPressureTestRawMeasurement'' ''GET'' (''{{base_url}}/ddms/v3/wellpressuretestrawmeasurement/{{osdu_wellpressuretestrawmeasurement_record_id}}/versions'') record_headers NoPayload"

definition build_request_create_osdu_wellpressuretestrawmeasurement :: "string \<Rightarrow> client_request" where
  "build_request_create_osdu_wellpressuretestrawmeasurement payload = request ''Create OSDU WellPressureTestRawMeasurement'' ''POST'' (''{{base_url}}/ddms/v3/wellpressuretestrawmeasurement'') create_headers (Json (PStr payload))"

definition request_path_dict :: "(string \<Rightarrow> string) \<Rightarrow> (string \<times> client_request) list" where
  \<comment> \<open>the argument gives the record texts of the create requests, by the name of the builder\<close>
  "request_path_dict texts = [
     (''crud.osdu_wellbore.delete_osdu_wellbore'', build_request_delete_osdu_wellbore),
     (''crud.osdu_wellbore.get_osdu_wellbore_specific_version'', build_request_get_osdu_wellbore_specific_version),
     (''crud.osdu_wellbore.get_osdu_wellbore'', build_request_get_osdu_wellbore),
     (''crud.osdu_wellbore.get_versions_of_osdu_wellbore'', build_request_get_versions_of_osdu_wellbore),
     (''crud.osdu_wellbore.create_osdu_wellbore'', build_request_create_osdu_wellbore (texts ''build_request_create_osdu_wellbore'')),
     (''crud.osdu_wellbore_100.delete_osdu_wellbore_100'', build_request_delete_osdu_wellbore_100),
     (''crud.osdu_wellbore_100.get_osdu_wellbore_100_specific_version'', build_request_get_osdu_wellbore_100_specific_version),
     (''crud.osdu_wellbore_100.get_osdu_wellbore_100'', build_request_get_osdu_wellbore_100),
     (''crud.osdu_wellbore_100.get_versions_of_osdu_wellbore_100'', build_request_get_versions_of_osdu_wellbore_100),
     (''crud.osdu_wellbore_100.create_osdu_wellbore_100'', build_request_create_osdu_wellbore_100 (texts ''build_request_create_osdu_wellbore_100'')),
     (''crud.osdu_wellbore_111.delete_osdu_wellbore_111'', build_request_delete_osdu_wellbore_111),
     (''crud.osdu_wellbore_111.get_osdu_wellbore_111_specific_version'', build_request_get_osdu_wellbore_111_specific_version),
     (''crud.osdu_wellbore_111.get_osdu_wellbore_111'', build_request_get_osdu_wellbore_111),
     (''crud.osdu_wellbore_111.get_versions_of_osdu_wellbore_111'', build_request_get_versions_of_osdu_wellbore_111),
     (''crud.osdu_wellbore_111.create_osdu_wellbore_111'', build_request_create_osdu_wellbore_111 (texts ''build_request_create_osdu_wellbore_111'')),
     (''crud.osdu_wellbore_120.delete_osdu_wellbore_120'', build_request_delete_osdu_wellbore_120),
     (''crud.osdu_wellbore_120.get_osdu_wellbore_120_specific_version'', build_request_get_osdu_wellbore_120_specific_version),
     (''crud.osdu_wellbore_120.get_osdu_wellbore_120'', build_request_get_osdu_wellbore_120),
     (''crud.osdu_wellbore_120.get_versions_of_osdu_wellbore_120'', build_request_get_versions_of_osdu_wellbore_120),
     (''crud.osdu_wellbore_120.create_osdu_wellbore_120'', build_request_create_osdu_wellbore_120 (texts ''build_request_create_osdu_wellbore_120'')),
     (''crud.osdu_well.delete_osdu_well'', build_request_delete_osdu_well),
     (''crud.osdu_well.get_osdu_well_specific_version'', build_request_get_osdu_well_specific_version),
     (''crud.osdu_well.get_osdu_well'', build_request_get_osdu_well),
     (''crud.osdu_well.get_versions_of_osdu_well'', build_request_get_versions_of_osdu_well),
     (''crud.osdu_well.create_osdu_well'', build_request_create_osdu_well (texts ''build_request_create_osdu_well'')),
     (''crud.osdu_well_100.delete_osdu_well_100'', build_request_delete_osdu_well_100),
     (''crud.osdu_well_100.get_osdu_well_100_specific_version'', build_request_get_osdu_well_100_specific_version),
     (''crud.osdu_well_100.get_osdu_well_100'', build_request_get_osdu_well_100),
     (''crud.osdu_well_100.get_versions_of_osdu_well_100'', build_request_get_versions_of_osdu_well_100),
     (''crud.osdu_well_100.create_osdu_well_100'', build_request_create_osdu_well_100 (texts ''build_request_create_osdu_well_100'')),
     (''crud.osdu_well_110.delete_osdu_well_110'', build_request_delete_osdu_well_110),
     (''crud.osdu_well_110.get_osdu_well_110_specific_version'', build_request_get_osdu_well_110_specific_version),
     (''crud.osdu_well_110.get_osdu_well_110'', build_request_get_osdu_well_110),
     (''crud.osdu_well_110.get_versions_of_osdu_well_110'', build_request_get_versions_of_osdu_well_110),
     (''crud.osdu_well_110.create_osdu_well_110'', build_request_create_osdu_well_110 (texts ''build_request_create_osdu_well_110'')),
     (''crud.osdu_welllog.delete_osdu_welllog'', build_request_delete_osdu_welllog ''{{osdu_welllog_record_id}}''),
     (''crud.osdu_welllog.get_osdu_welllog_specific_version'', build_request_get_osdu_welllog_specific_version),
     (''crud.osdu_welllog.get_osdu_welllog'', build_request_get_osdu_welllog),
     (''crud.osdu_welllog.get_versions_of_osdu_welllog'', build_request_get_versions_of_osdu_welllog),
     (''crud.osdu_welllog.create_osdu_welllog'', build_request_create_osdu_welllog (texts ''build_request_create_osdu_welllog'')),
     (''crud.unknown_kind_osdu_welllog.create_osdu_welllog'', build_request_create_osdu_unknown_kind_welllog (texts ''build_request_create_osdu_unknown_kind_welllog'')),
     (''crud.osdu_wellboretrajectory.delete_osdu_wellboretrajectory'', build_request_delete_osdu_wellboretrajectory ''{{osdu_wellboretrajectory_record_id}}''),
     (''crud.osdu_wellboretrajectory.get_osdu_wellboretrajectory_specific_version'', build_request_get_osdu_wellboretrajectory_specific_version),
     (''crud.osdu_wellboretrajectory.get_osdu_wellboretrajectory'', build_request_get_osdu_wellboretrajectory),
     (''crud.osdu_wellboretrajectory.get_versions_of_osdu_wellboretrajectory'', build_request_get_versions_of_osdu_wellboretrajectory),
     (''crud.osdu_wellboretrajectory.create_osdu_wellboretrajectory'', build_request_create_osdu_wellboretrajectory (texts ''build_request_create_osdu_wellboretrajectory'')),
     (''crud.osdu_wellboremarkerset.delete_osdu_wellboremarkerset'', build_request_delete_osdu_wellboremarkerset),
     (''crud.osdu_wellboremarkerset.get_osdu_wellboremarkerset_specific_version'', build_request_get_osdu_wellboremarkerset_specific_version),
     (''crud.osdu_wellboremarkerset.get_osdu_wellboremarkerset'', build_request_get_osdu_wellboremarkerset),
     (''crud.osdu_wellboremarkerset.get_versions_of_osdu_wellboremarkerset'', build_request_get_versions_of_osdu_wellboremarkerset),
     (''crud.osdu_wellboremarkerset.create_osdu_wellboremarkerset'', build_request_create_osdu_wellboremarkerset (texts ''build_request_create_osdu_wellboremarkerset'')),
     (''crud.osdu_wellboreintervalset_100.delete_osdu_wellboreintervalset_100'', build_request_delete_osdu_wellboreintervalset_100),
     (''crud.osdu_wellboreintervalset_100.get_osdu_wellboreintervalset_100_specific_version'', build_request_get_osdu_wellboreintervalset_100_specific_version),
     (''crud.osdu_wellboreintervalset_100.get_osdu_wellboreintervalset_100'', build_request_get_osdu_wellboreintervalset_100),
     (''crud.osdu_wellboreintervalset_100.get_versions_of_osdu_wellboreintervalset_100'', build_request_get_versions_of_osdu_wellboreintervalset_100),
     (''crud.osdu_wellboreintervalset_100.create_osdu_wellboreintervalset_100'', build_request_create_osdu_wellboreintervalset_100 (texts ''build_request_create_osdu_wellboreintervalset_100'')),
     (''crud.osdu_welllogacquisition.delete_osdu_welllogacquisition'', build_request_delete_osdu_welllogacquisition),
     (''crud.osdu_welllogacquisition.get_osdu_welllogacquisition_specific_version'', build_request_get_osdu_welllogacquisition_specific_version),
     (''crud.osdu_welllogacquisition.get_osdu_welllogacquisition'', build_request_get_osdu_welllogacquisition),
     (''crud.osdu_welllogacquisition.get_versions_of_osdu_welllogacquisition'', build_request_get_versions_of_osdu_welllogacquisition),
     (''crud.osdu_welllogacquisition.create_osdu_welllogacquisition'', build_request_create_osdu_welllogacquisition (texts ''build_request_create_osdu_welllogacquisition'')),
     (''crud.osdu_ppfgdataset.delete_osdu_ppfgdataset'', build_request_delete_osdu_ppfgdataset ''{{osdu_ppfgdataset_record_id}}''),
     (''crud.osdu_ppfgdataset.get_osdu_ppfgdataset_specific_version'', build_request_get_osdu_ppfgdataset_specific_version),
     (''crud.osdu_ppfgdataset.get_osdu_ppfgdataset'', build_request_get_osdu_ppfgdataset),
     (''crud.osdu_ppfgdataset.get_versions_of_osdu_ppfgdataset'', build_request_get_versions_of_osdu_ppfgdataset),
     (''crud.osdu_ppfgdataset.create_osdu_ppfgdataset'', build_request_create_osdu_ppfgdataset (texts ''build_request_create_osdu_ppfgdataset'')),
     (''crud.osdu_wellpressuretestrawmeasurement.delete_osdu_wellpressuretestrawmeasurement'', build_request_delete_osdu_wellpressuretestrawmeasurement ''{{osdu_wellpressuretestrawmeasurement_record_id}}''),
     (''crud.osdu_wellpressuretestrawmeasurement.get_osdu_wellpressuretestrawmeasurement_specific_version'', build_request_get_osdu_wellpressuretestrawmeasurement_specific_version),
     (''crud.osdu_wellpressuretestrawmeasurement.get_osdu_wellpressuretestrawmeasurement'', build_request_get_osdu_wellpressuretestrawmeasurement),
     (''crud.osdu_wellpressuretestrawmeasurement.get_versions_of_osdu_wellpressuretestrawmeasurement'', build_request_get_versions_of_osdu_wellpressuretestrawmeasurement),
     (''crud.osdu_wellpressuretestrawmeasurement.create_osdu_wellpressuretestrawmeasurement'', build_request_create_osdu_wellpressuretestrawmeasurement (texts ''build_request_create_osdu_wellpressuretestrawmeasurement'')),
     (''about'', build_request_about),
     (''version'', build_request_version)]"

definition normalized_path :: "string list \<Rightarrow> string" where
  "normalized_path path = join ''.'' (map (\<lambda>p. py_replace '' '' ''_'' (lower p)) path)"

definition build_request :: "(string \<Rightarrow> string) \<Rightarrow> string list \<Rightarrow> client_request res" where
  \<comment> \<open>a path given as one string is split at the separator first\<close>
  "build_request texts path = ofOption ValueError (map_of (request_path_dict texts) (normalized_path path))"

section \<open>Sessions and deletion\<close>

definition session_url :: "string \<Rightarrow> string \<Rightarrow> string" where
  "session_url pre record_id = ''{{base_url}}/'' @ pre @ ''/'' @ record_id @ ''/sessions''"

definition build_create_session :: "string \<Rightarrow> string \<Rightarrow> variables option \<Rightarrow> client_request" where
  "build_create_session record_id pre meta' = request ''Create session'' ''POST'' (session_url pre record_id) session_headers
     (Json (PDict ([(''fromVersion'', PInt 0), (''timeToLive'', PInt 1440), (''mode'', PStr ''overwrite'')]
       @ (case meta' of None \<Rightarrow> [] | Some m \<Rightarrow> [(''meta'', PDict m)]))))"

definition build_create_session_empty_payload :: "string \<Rightarrow> string \<Rightarrow> pyval \<Rightarrow> client_request" where
  "build_create_session_empty_payload record_id pre payload =
     request ''Create session'' ''POST'' (session_url pre record_id) session_headers (if payload = PNone then NoPayload else Json payload)"

definition build_get_session :: "string \<Rightarrow> string \<Rightarrow> string \<Rightarrow> client_request" where
  "build_get_session record_id pre session_id =
     request ''Get session'' ''GET'' (session_url pre record_id @ ''/'' @ session_id) record_headers NoPayload"

definition build_list_session :: "string \<Rightarrow> string \<Rightarrow> client_request" where
  "build_list_session record_id pre = request ''List session'' ''GET'' (session_url pre record_id) record_headers NoPayload"

definition build_delete_session :: "string \<Rightarrow> string \<Rightarrow> string \<Rightarrow> client_request" where
  "build_delete_session record_id pre session_id =
     request ''Delete session'' ''DELETE'' (session_url pre record_id @ ''/'' @ session_id) record_headers NoPayload"

definition build_request_delete_purge_record :: "string \<Rightarrow> string \<Rightarrow> string \<Rightarrow> client_request" where
  "build_request_delete_purge_record record_id v3_entity purge = request ''Delete log'' ''DELETE''
     (''{{base_url}}/ddms/v3/'' @ v3_entity @ ''/'' @ record_id @ ''?purge='' @ purge) record_headers NoPayload"

definition build_request_get_record :: "string \<Rightarrow> string \<Rightarrow> client_request" where
  "build_request_get_record base_url_v3_record record_id = request ''Get record'' ''GET''
     (base_url_v3_record @ ''/'' @ record_id) record_headers NoPayload"

section \<open>Requests by path, and the variables of a run\<close>

definition make_basic_request_proto :: "string \<Rightarrow> string \<Rightarrow> string option \<Rightarrow> payload \<Rightarrow> string \<Rightarrow> client_request" where
  "make_basic_request_proto method url name payload content_type =
     request (case name of Some (c # cs) \<Rightarrow> c # cs | _ \<Rightarrow> method @ '' - '' @ url) method url
       (record_headers @ (if payload \<noteq> NoPayload \<and> content_type \<noteq> [] then [(''Content-Type'', PStr content_type)] else [])) payload"

definition make_basic_wdms_request_proto :: "string \<Rightarrow> string \<Rightarrow> string option \<Rightarrow> payload \<Rightarrow> string \<Rightarrow> client_request" where
  "make_basic_wdms_request_proto method path name payload content_type =
     make_basic_request_proto method (''{{base_url}}'' @ path) name payload content_type"

definition variables_dict :: variables where
  \<comment> \<open>the variables of a run that sets no others\<close>
  "variables_dict = [
     (''base_url'', PStr ''https://open.opendes.cloud.slb-ds.com/api/os-wellbore-ddms''),
     (''token'', PStr []),
     (''cloud_provider'', PStr ''local''),
     (''wellKind'', PStr ''{{authorityKind}}:wks:well:1.0.2''),
     (''wellboreKind'', PStr ''{{authorityKind}}:wks:wellbore:1.0.6''),
     (''trajectoryKind'', PStr ''{{authorityKind}}:wks:trajectory:1.0.5''),
     (''trajectory_data'', PDict [(''name'', PStr ''{{prefix_data_entity_name}}_trajectory'')]),
     (''authorityKind'', PStr ''{{data_partition}}''),
     (''osduWellboreKind'', PStr ''osdu:wks:master-data--Wellbore:1.3.0''),
     (''osduWellKind'', PStr ''osdu:wks:master-data--Well:1.2.0''),
     (''osduWellLogKind'', PStr ''osdu:wks:work-product-component--WellLog:1.2.0''),
     (''osduWellboreTrajectoryKind'', PStr ''osdu:wks:work-product-component--WellboreTrajectory:1.1.0''),
     (''osduWellboreMarkerSetKind'', PStr ''osdu:wks:work-product-component--WellboreMarkerSet:1.2.1''),
     (''osduWellboreIntervalSetKind'', PStr ''osdu:wks:work-product-component--WellboreIntervalSet:1.0.0''),
     (''osduWellLogAcquisitionKind'', PStr ''osdu:wks:master-data--WellLogAcquisition:1.0.0''),
     (''osduPPFGDatasetKind'', PStr ''osdu:wks:work-product-component--PPFGDataset:1.2.0''),
     (''osduWellPressureTestRawMeasurementKind'', PStr ''osdu:wks:work-product-component--WellPressureTestRawMeasurement:1.1.0''),
     (''acl_domain'', PStr ''p4d.cloud.slb-ds.com''),
     (''acl_owner'', PStr (''data.default.owners@'' @ ''{{data_partition}}.{{acl_domain}}'')),
     (''acl_viewer'', PStr (''data.default.viewers@'' @ ''{{data_partition}}.{{acl_domain}}'')),
     (''legal_tag'', PStr ''opendes-public-usa-dataset-1''),
     (''data_partition'', PStr []),
     (''prefix_data_entity_name'', PStr ''wdms_e2e''),
     (''data'', PDict []),
     (''search_record_version'', PStr ''0001''),
     (''record_acl'', PDict [(''owners'', PList [PStr ''{{acl_owner}}'']), (''viewers'', PList [PStr ''{{acl_viewer}}''])]),
     (''record_legal'', PDict [(''legaltags'', PList [PStr ''{{legal_tag}}'']),
       (''otherRelevantDataCountries'', PList [PStr ''US'', PStr ''FR''])]),
     (''header_connection'', PStr ''close'')]"

section \<open>The requests and the routes of the service\<close>

definition seg_of :: "string \<Rightarrow> seg" where
  "seg_of s = (if startswith s ''{{'' then Hole (butlast (butlast (drop 2 s))) else Txt s)"

definition path_segs :: "string \<Rightarrow> seg list" where
  \<comment> \<open>the segments of an address behind the base address\<close>
  "path_segs url = map seg_of (split_char (CHR ''/'') (drop (length (hole ''base_url'')) url))"

definition seg_fits :: "string \<Rightarrow> seg \<Rightarrow> bool" where
  "seg_fits t g = (case g of Txt s \<Rightarrow> segment_fits t s | Hole x \<Rightarrow> is_parameter t)"

definition seg_ok :: "seg \<Rightarrow> bool" where
  "seg_ok g = (wf_seg g \<and> (case g of Txt s \<Rightarrow> CHR ''/'' \<notin> set s | Hole x \<Rightarrow> True))"

definition has_header :: "client_request \<Rightarrow> string \<Rightarrow> bool" where
  "has_header rq h = list_ex (\<lambda>(k, v). k = h) (rq_headers rq)"

definition well_addressed :: "client_request \<Rightarrow> bool" where
  "well_addressed rq = (let gs = path_segs (rq_url rq) in
     rq_url rq = hole ''base_url'' @ join ''/'' (map seg_text gs) \<and> (case gs of g # _ # _ \<Rightarrow> g = Txt [] | _ \<Rightarrow> False))"

definition well_formed_path :: "client_request \<Rightarrow> bool" where
  "well_formed_path rq = list_all seg_ok (path_segs (rq_url rq))"

definition reaches :: "client_request \<Rightarrow> string \<times> string \<Rightarrow> bool" where
  \<comment> \<open>a route by its method and its path\<close>
  "reaches rq t = (fst t = rq_method rq \<and> list_all2 seg_fits (split_char (CHR ''/'') (snd t)) (path_segs (rq_url rq)))"

definition identified :: "client_request \<Rightarrow> string \<times> string \<Rightarrow> bool" where
  "identified rq t = (has_header rq ''Authorization''
     \<and> (has_header rq ''data-partition-id'' \<or> list_ex (\<lambda>p. p = snd t) partition_free_paths))"

definition route_target :: "mount \<times> route_decl \<Rightarrow> string \<times> string" where
  "route_target mr = (rd_method (snd mr), route_path mr)"

definition record_targets :: "string \<Rightarrow> (string \<times> string) list" where
  "record_targets collection = (let all = ''/ddms/v3/'' @ collection; one = all @ ''/{record_id}'' in
     [(''DELETE'', one), (''GET'', one @ ''/versions/{version}''), (''GET'', one), (''GET'', one @ ''/versions''), (''POST'', all)])"

definition request_targets :: "(string \<times> string) list" where
  \<comment> \<open>the routes that the requests of the table reach, in the order of the table\<close>
  "request_targets = concat (map record_targets [''wellbores'', ''wellbores'', ''wellbores'', ''wellbores'', ''wells'', ''wells'', ''wells'', ''welllogs''])
     @ [(''POST'', ''/ddms/v3/welllogs'')]
     @ concat (map record_targets [''wellboretrajectories'', ''wellboremarkersets'', ''wellboreintervalsets'', ''welllogacquisition'',
         ''ppfgdataset'', ''wellpressuretestrawmeasurement''])
     @ [(''GET'', ''/about''), (''GET'', ''/version'')]"

lemma requests_addressed: "list_all (\<lambda>(k, rq). well_addressed rq) (request_path_dict texts)"
  by code_simp

lemma requests_well_formed: "list_all (\<lambda>(k, rq). well_formed_path rq) (request_path_dict texts)"
  by code_simp

lemma requests_reach: "list_all2 (\<lambda>(k, rq) t. reaches rq t) (request_path_dict texts) request_targets"
  by code_simp

lemma requests_identified: "list_all2 (\<lambda>(k, rq) t. identified rq t) (request_path_dict texts) request_targets"
  by code_simp

lemma fold_removeAll: "set (fold removeAll xs ys) = set ys - set xs"
  by (induction xs arbitrary: ys) auto

lemma targets_left: "fold removeAll (map route_target mounted_routes) request_targets = []"
  by code_simp

lemma targets_mounted: "set request_targets \<subseteq> set (map route_target mounted_routes)"
proof -
  have "set request_targets - set (map route_target mounted_routes) = {}" unfolding fold_removeAll [symmetric] targets_left by simp
  then show ?thesis by blast
qed

lemma request_routed:
  assumes "(k, rq) \<in> set (request_path_dict texts)"
  shows "\<exists>j. j < length mounted_routes \<and> well_addressed rq \<and> well_formed_path rq
    \<and> reaches rq (route_target (mounted_routes ! j)) \<and> identified rq (route_target (mounted_routes ! j))"
proof -
  obtain i where i: "i < length (request_path_dict texts)" "request_path_dict texts ! i = (k, rq)"
    using assms by (auto simp only: in_set_conv_nth)
  then have "i < length request_targets" using list_all2_lengthD [OF requests_reach [of texts]] by simp
  then have "request_targets ! i \<in> set (map route_target mounted_routes)" using targets_mounted nth_mem by blast
  then obtain j where "j < length mounted_routes" "request_targets ! i = route_target (mounted_routes ! j)"
    unfolding set_map in_set_conv_nth image_iff Bex_def by blast
  moreover have "well_addressed rq" "well_formed_path rq"
    using assms requests_addressed [of texts] requests_well_formed [of texts] by (auto simp only: list_all_iff split: prod.splits)
  moreover have "reaches rq (request_targets ! i)" using list_all2_nthD [OF requests_reach i(1)] by (simp only: i(2) prod.case)
  moreover have "identified rq (request_targets ! i)" using list_all2_nthD [OF requests_identified i(1)] by (simp only: i(2) prod.case)
  ultimately show ?thesis by auto
qed

definition url_template :: "string \<Rightarrow> seg list" where
  "url_template url = Hole ''base_url'' # concat (map (\<lambda>g. [Txt ''/'', g]) (tl (path_segs url)))"

lemma slash_template:
  "render (concat (map (\<lambda>g. [Txt ''/'', g]) gs)) = concat (map (\<lambda>g. ''/'' @ seg_text g) gs)"
  "fills val (concat (map (\<lambda>g. [Txt ''/'', g]) gs)) = concat (map (\<lambda>g. ''/'' @ fill val g) gs)"
  "holes (concat (map (\<lambda>g. [Txt ''/'', g]) gs)) = holes gs"
  "list_all wf_seg (concat (map (\<lambda>g. [Txt ''/'', g]) gs)) = list_all wf_seg gs"
proof (induction gs)
  case (Cons g gs)
  { case 1 with Cons show ?case by simp }
  { case 2 with Cons show ?case by simp }
  { case 3 with Cons show ?case by (cases g) simp_all }
  { case 4 with Cons show ?case by (simp add: braceless_def) }
qed simp_all

lemma join_slash: "join ''/'' ([] # map f gs) = concat (map (\<lambda>g. ''/'' @ f g) gs)"
proof (induction gs)
  case (Cons g gs)
  then show ?case by (cases gs) simp_all
qed simp

lemma seg_fits_filled:
  assumes "seg_fits t g" and "\<forall>x. g = Hole x \<longrightarrow> val x \<noteq> []"
  shows "segment_fits t (fill val g)"
  using assms by (cases g) (auto simp: seg_fits_def segment_fits_def)

lemma path_fits_filled:
  assumes "list_all2 seg_fits (split_char (CHR ''/'') template) gs" and "\<forall>x\<in>holes gs. val x \<noteq> []"
  shows "path_fits template (map (fill val) gs)"
  unfolding path_fits_def list_all2_map2
proof (rule list.rel_mono_strong [OF assms(1)])
  fix t g assume "g \<in> set gs" and "seg_fits t g"
  with assms(2) show "segment_fits t (fill val g)" by (intro seg_fits_filled) (auto simp: holes_def)
qed

lemma addressed_template:
  assumes "well_addressed rq" and "well_formed_path rq"
  shows "render (url_template (rq_url rq)) = rq_url rq" "list_all wf_seg (url_template (rq_url rq))"
    "holes (url_template (rq_url rq)) = insert ''base_url'' (holes (path_segs (rq_url rq)))"
    "fills val (url_template (rq_url rq)) = val ''base_url'' @ join ''/'' (map (fill val) (path_segs (rq_url rq)))"
proof -
  obtain gs where gs: "path_segs (rq_url rq) = Txt [] # gs" using assms(1) by (auto simp: well_addressed_def Let_def split: list.splits)
  have ok: "list_all seg_ok gs" and url: "rq_url rq = hole ''base_url'' @ join ''/'' ([] # map seg_text gs)"
    using assms unfolding well_addressed_def well_formed_path_def Let_def gs by simp_all
  show "render (url_template (rq_url rq)) = rq_url rq"
    unfolding url_template_def gs by (simp add: url slash_template join_slash del: join.simps)
  show "list_all wf_seg (url_template (rq_url rq))"
    using ok by (simp add: url_template_def gs slash_template braceless_def) (auto simp: list_all_iff seg_ok_def)
  show "holes (url_template (rq_url rq)) = insert ''base_url'' (holes (path_segs (rq_url rq)))"
    by (simp add: url_template_def gs slash_template)
  show "fills val (url_template (rq_url rq)) = val ''base_url'' @ join ''/'' (map (fill val) (path_segs (rq_url rq)))"
    by (simp add: url_template_def gs slash_template join_slash del: join.simps)
qed

lemma split_filled:
  assumes "well_addressed rq" and "well_formed_path rq" and "\<forall>x\<in>holes (path_segs (rq_url rq)). CHR ''/'' \<notin> set (val x)"
  shows "split_char (CHR ''/'') (join ''/'' (map (fill val) (path_segs (rq_url rq)))) = map (fill val) (path_segs (rq_url rq))"
proof (rule split_char_join)
  show "map (fill val) (path_segs (rq_url rq)) \<noteq> []" using assms(1) by (auto simp: well_addressed_def Let_def)
  fix p assume "p \<in> set (map (fill val) (path_segs (rq_url rq)))"
  then obtain g where g: "g \<in> set (path_segs (rq_url rq))" "p = fill val g" by auto
  then have "seg_ok g" using assms(2) by (auto simp: well_formed_path_def list_all_iff)
  then show "CHR ''/'' \<notin> set p" using g assms(3) by (cases g) (auto simp: seg_ok_def holes_def)
qed

lemma request_served:
  assumes "(k, rq) \<in> set (request_path_dict texts)"
  shows "\<exists>j. j < length (served_routes p) \<and> well_addressed rq \<and> well_formed_path rq
    \<and> reaches rq (route_target (served_routes p ! j)) \<and> identified rq (route_target (served_routes p ! j))"
proof -
  obtain j where "j < length mounted_routes" and rq: "well_addressed rq" "well_formed_path rq"
    "reaches rq (route_target (mounted_routes ! j))" "identified rq (route_target (mounted_routes ! j))"
    using request_routed [OF assms] by blast
  then have "mounted_routes ! j \<in> set (served_routes p)" by (simp add: served_routes_split)
  then obtain i where "i < length (served_routes p)" "served_routes p ! i = mounted_routes ! j" unfolding in_set_conv_nth by blast
  with rq show ?thesis by auto
qed

text \<open>C17: The client and the service agree on their interface.  Every request of the client's table is sent, when its
  variables resolve to texts without braces and its identifiers to single segments of a path, to the base address followed
  by a path that fits a route that the service serves, its own pages included, for its method, and only this one; and it carries the headers for the
  user and the partition that the route requires.\<close>

theorem client_requests_routed:
  assumes "(k, rq) \<in> set (request_path_dict texts)"
    and "good_variables vars tmpl val rank X" and "holes (url_template (rq_url rq)) \<subseteq> X"
    and "\<forall>x\<in>holes (path_segs (rq_url rq)). val x \<noteq> [] \<and> CHR ''/'' \<notin> set (val x)" and "2 \<le> length (val ''base_url'')"
  shows "\<exists>path j n. (\<forall>m\<ge>n. resolve_in fl m vars (PStr (rq_url rq)) = Some (PStr (val ''base_url'' @ path)))
    \<and> {i. i < length (served_routes p) \<and> rd_method (snd (served_routes p ! i)) = rq_method rq
         \<and> path_fits (route_path (served_routes p ! i)) (split_char (CHR ''/'') path)} = {j}
    \<and> (route_path (served_routes p ! j) \<notin> set open_paths \<longrightarrow> has_header rq ''Authorization'')
    \<and> (route_path (served_routes p ! j) \<notin> set partition_free_paths \<longrightarrow> has_header rq ''data-partition-id'')"
proof -
  obtain j where j: "j < length (served_routes p)" and rq: "well_addressed rq" "well_formed_path rq"
    and to: "reaches rq (route_target (served_routes p ! j))" "identified rq (route_target (served_routes p ! j))" using request_served [OF assms(1), of p] by blast
  let ?path = "join ''/'' (map (fill val) (path_segs (rq_url rq)))"
  have "first_step_ok val (url_template (rq_url rq))"
    using assms(5) by (auto simp: first_step_ok_def url_template_def Cons_eq_append_conv)
  moreover have "\<forall>x\<in>holes (url_template (rq_url rq)). \<exists>n. resolved_to fl n vars val x"
    using good_variable_resolved [OF assms(2)] assms(3) by blast
  ultimately obtain n where "\<forall>m\<ge>n. resolve_in fl m vars (PStr (render (url_template (rq_url rq)))) = Some (PStr (fills val (url_template (rq_url rq))))"
    using template_steps [OF addressed_template(2) [OF rq]] by blast
  then have n: "\<forall>m\<ge>n. resolve_in fl m vars (PStr (rq_url rq)) = Some (PStr (val ''base_url'' @ ?path))"
    unfolding addressed_template(1,4) [OF rq] .
  have "split_char (CHR ''/'') ?path = map (fill val) (path_segs (rq_url rq))" using split_filled [OF rq] assms(4) by blast
  moreover have "path_fits (route_path (served_routes p ! j)) (map (fill val) (path_segs (rq_url rq)))"
    using to(1) assms(4) by (intro path_fits_filled) (auto simp: reaches_def route_target_def)
  ultimately have fit: "path_fits (route_path (served_routes p ! j)) (split_char (CHR ''/'') ?path)" by simp
  have same_method: "rd_method (snd (served_routes p ! j)) = rq_method rq" using to(1) by (simp add: reaches_def route_target_def)
  have "i = j" if "i < length (served_routes p)" "rd_method (snd (served_routes p ! i)) = rq_method rq"
    "path_fits (route_path (served_routes p ! i)) (split_char (CHR ''/'') ?path)" for i
    using routes_apart [of i j p] routes_apart [of j i p] that j fit same_method by (metis linorder_neqE_nat)
  then have "{i. i < length (served_routes p) \<and> rd_method (snd (served_routes p ! i)) = rq_method rq
         \<and> path_fits (route_path (served_routes p ! i)) (split_char (CHR ''/'') ?path)} = {j}"
    using j fit same_method by blast
  moreover have "has_header rq ''Authorization''" "route_path (served_routes p ! j) \<notin> set partition_free_paths \<longrightarrow> has_header rq ''data-partition-id''"
    using to(2) unfolding identified_def route_target_def list_ex_iff snd_conv by blast+
  ultimately show ?thesis using n by blast
qed

definition client_variables :: variables where
  "client_variables = [(''base_url'', PStr ''http://h''), (''osdu_well_record_id'', PStr ''w'')]"

theorem client_requests_routed_witness:
  "\<exists>path. (\<exists>n. \<forall>m\<ge>n. resolve_in (\<lambda>_. []) m client_variables (PStr (rq_url build_request_get_osdu_well)) = Some (PStr (''http://h'' @ path)))
     \<and> (\<exists>j. {i. i < length (served_routes None) \<and> rd_method (snd (served_routes None ! i)) = ''GET''
         \<and> path_fits (route_path (served_routes None ! i)) (split_char (CHR ''/'') path)} = {j})"
proof -
  let ?val = "\<lambda>x. if x = ''base_url'' then ''http://h'' else ''w''"
  have mem: "(''crud.osdu_well.get_osdu_well'', build_request_get_osdu_well) \<in> set (request_path_dict (\<lambda>_. []))"
    by (simp add: request_path_dict_def)
  have "good_variables client_variables (\<lambda>x. [Txt (?val x)]) ?val (\<lambda>_. 0) {''base_url'', ''osdu_well_record_id''}"
    by (auto simp: good_variables_def client_variables_def braceless_def first_step_ok_def Cons_eq_append_conv)
  moreover have "path_segs (rq_url build_request_get_osdu_well) = [Txt [], Txt ''ddms'', Txt ''v3'', Txt ''wells'', Hole ''osdu_well_record_id'']"
    by code_simp
  moreover from this have "holes (url_template (rq_url build_request_get_osdu_well)) \<subseteq> {''base_url'', ''osdu_well_record_id''}"
    by (simp add: url_template_def)
  ultimately have "\<exists>path j n. (\<forall>m\<ge>n. resolve_in (\<lambda>_. []) m client_variables (PStr (rq_url build_request_get_osdu_well)) = Some (PStr (?val ''base_url'' @ path)))
    \<and> {i. i < length (served_routes None) \<and> rd_method (snd (served_routes None ! i)) = rq_method build_request_get_osdu_well
         \<and> path_fits (route_path (served_routes None ! i)) (split_char (CHR ''/'') path)} = {j}
    \<and> (route_path (served_routes None ! j) \<notin> set open_paths \<longrightarrow> has_header build_request_get_osdu_well ''Authorization'')
    \<and> (route_path (served_routes None ! j) \<notin> set partition_free_paths \<longrightarrow> has_header build_request_get_osdu_well ''data-partition-id'')"
    by (intro client_requests_routed [OF mem]) simp_all
  moreover have "rq_method build_request_get_osdu_well = ''GET''" by (simp add: build_request_get_osdu_well_def request_def)
  ultimately show ?thesis by auto
qed

section \<open>The kinds of the posted records\<close>

definition default_kinds :: "(string \<times> Entity) list" where
  "default_kinds = [(''osduWellKind'', WELL), (''osduWellboreKind'', WELLBORE), (''osduWellLogKind'', WELL_LOG),
     (''osduWellboreTrajectoryKind'', TRAJECTORY), (''osduWellboreMarkerSetKind'', MARKER),
     (''osduWellboreIntervalSetKind'', WELLBOREINTERVALSET), (''osduWellLogAcquisitionKind'', WELLLOGACQUISITION)]"

lemma default_kinds_named:
  "list_all (\<lambda>(x, e). case map_of variables_dict x of
       Some (PStr k) \<Rightarrow> (case get_kind_meta k of
           Inr m \<Rightarrow> (case map_of entity_names (entity_value e) of None \<Rightarrow> True | Some name \<Rightarrow> name = kind_entity_type m)
         | Inl _ \<Rightarrow> False)
     | _ \<Rightarrow> False) default_kinds"
  by code_simp

text \<open>The kinds that the client uses for the records it creates pass the check of kinds of their routes.\<close>

lemma default_kinds_accepted:
  assumes "(x, e) \<in> set default_kinds"
  shows "\<exists>k. map_of variables_dict x = Some (PStr k)
    \<and> (\<forall>r status. rec_kind r = k
         \<longrightarrow> raise_if_not_osdu_right_entity_kind r \<lparr>st_version = Some ''V3'', st_entity_type = Some e\<rparr> status = Inr ())"
  using default_kinds_named [unfolded list_all_iff, rule_format, OF assms]
  by (auto simp: raise_if_not_osdu_right_entity_kind_def split: option.splits pyval.splits sum.splits)

end
