(* ===== verification/Client_Runner.thy ===== *)
theory Client_Runner
  imports Client_Requests
begin

text \<open>
  The runner of the test client, \<open>wdms_client/request_runner.py\<close>, with the parameters of a run that
  \<open>CmdLineSpecialVar\<close> keeps among the variables.  The HTTP library, the identifiers, the pause between two attempts and
  the conversion of frames to Parquet are arguments; time stamps and logging are left out.  A substitution that has not
  returned after the given number of steps is a \<open>RecursionError\<close>.
\<close>

section \<open>Parameters of a run\<close>

definition timeout_request_key :: string where "timeout_request_key = ''___param_timeout_request''"
definition headers_key :: string where "headers_key = ''___param_headers''"
definition disable_ssl_validation_key :: string where "disable_ssl_validation_key = ''___param_disable_ssl_validation''"

definition set_timeout_request :: "int \<Rightarrow> variables \<Rightarrow> variables" where
  "set_timeout_request v = set_variable timeout_request_key (PInt v)"


definition set_disable_ssl_validation :: "bool \<Rightarrow> variables \<Rightarrow> variables" where
  "set_disable_ssl_validation b = set_variable disable_ssl_validation_key (PBool b)"

definition set_headers :: "variables \<Rightarrow> variables \<Rightarrow> variables" where
  "set_headers h = set_variable headers_key (PDict h)"












section \<open>One request\<close>








section \<open>Attempts\<close>






section \<open>What a call does\<close>













end
