(* ===== verification/Spec2Isabelle.thy ===== *)
theory Spec2Isabelle
  imports Record_Ids Sessions Record_Access Ddms_Routes Bulk_Routes Search_Wrapper Log_Recognition
    Middleware Error_Handlers Application Startup Workflow_Inputs Client_Runner
begin

text \<open>
  \<^bold>\<open>The wellbore domain services.\<close>
  The program is a web service for records of wells, wellbores, well logs and related entities and for
  the bulk data (data frames) that belong to them.  Records live in the storage service of the platform, or in a
  blob storage for local use; bulk data are written and read by a separate worker service; a record refers
  to its bulk by a bulk URI.  Bulk data are sent at once or in a session: a session is created on a version
  of a record, chunks are sent to it, and a commit merges them into a new bulk and a new version of the record.
  Sessions are JSON blobs with an etag, shared by all instances of the service.

  \<^bold>\<open>Conventions.\<close>
  A Python function that may raise is a function to \<open>exn + 'a\<close> (type \<open>'a res\<close>); a coroutine with effects is a
  program \<open>'w \<Rightarrow> (exn + 'a) \<times> 'w\<close> over a world (theory \<open>Prelude\<close>).  Exceptions are values of one type
  (\<open>Exceptions\<close>).  Values of records and JSON documents are \<open>pyval\<close>, with Python's equality, truth and
  conversions, and floats with IEEE rounding where the code depends on it (\<open>Py_Values\<close>); strings and the regular
  expressions of the code are in \<open>Py_Strings\<close> and \<open>Py_Regex\<close>, the latter as a backtracking matcher with
  groups.  Code that is not part of the repository is a parameter: the blob storage, the clock and the source
  of identifiers, the storage, schema and search services, the worker, pandas operations on a column, JSON paths,
  family processors.  What is relied on is a named predicate (\<open>sessions_laws\<close>, \<open>upload_law\<close>,
  \<open>read_law\<close>, \<open>series_law\<close>, \<open>schema_laws\<close>, \<open>clock_law\<close>, \<open>tenant_resolved\<close>,
  \<open>leaves_session\<close>) and each is shown satisfiable by the instance that the witnesses use.

  \<^bold>\<open>Parts, theories and source files\<close> (under \<open>app/\<close>).
  \<^item> \<open>Bulk_Uri\<close>: \<open>bulk_persistence/bulk_uri.py\<close>, \<open>bulk_storage_version.py\<close>.  A bulk URI is encoded and decoded
    without loss.
  \<^item> \<open>Record_Ids\<close>: \<open>model/osdu_record_id.py\<close>, \<open>entity_utils.py\<close>, \<open>schema_version.py\<close>.  Identifiers with
    versions split, kinds parse.
  \<^item> \<open>Columns\<close>: \<open>bulk_persistence/dataframe_columns.py\<close>, \<open>bulk_filter.py\<close>, \<open>model_chunking.py\<close>.  Column
    selection against a specification, equivalence of the two groupings of columns, read filters.
  \<^item> \<open>Records\<close>, \<open>Consistency\<close>: \<open>bulk_persistence/consistency_checks.py\<close>, \<open>consistency/\<close>.  What passing
    the checks of metadata and of posted bulks means.  The interface of the checks is the locale
    \<open>data_consistency_checks\<close>, interpreted for the five implementations.
  \<^item> \<open>Blob_Store\<close>, \<open>Sessions\<close>: \<open>bulk_persistence/sessions_storage.py\<close>.  The matrix of state changes, optimistic
    locking by etags, the context manager of a completion, recovery of stuck sessions, and as refinement: every
    run of operations (\<open>sess_run\<close>, with the operations as labels) is, seen from one session, a path of the automaton of the
    life cycle (\<open>life_move\<close>, \<open>life_path\<close>), in which a closed session begins no completion.  Dates are bounded as Python's, so
    that a creation can raise an \<open>OverflowError\<close>.  Two races are stated as theorems.
  \<^item> \<open>Bulk_Id_Access\<close>: \<open>routers/bulk/bulk_routes_dependencies.py\<close>, \<open>model/log_bulk.py\<close>.  Reading and writing the bulk
    reference of a record; locale \<open>bulk_id_access\<close>, interpreted for OSDU records and log records.
  \<^item> \<open>Storage_Paths\<close>, \<open>Record_Storage\<close>, \<open>Record_Access\<close>: \<open>bulk_persistence/storage_path_builder.py\<close>,
    \<open>clients/storage_service_blob_storage.py\<close>, \<open>routers/record_utils.py\<close>, \<open>routers/delete/delete_bulk_data.py\<close>.
    Round trips of stored records, deletion, partial reads, the purge.
  \<^item> \<open>Request_Context\<close>, \<open>Mime_Types\<close>, \<open>Dataframe_Validators\<close>: \<open>context.py\<close>, \<open>bulk_persistence/mime_types.py\<close>,
    \<open>routers/common_parameters.py\<close>, \<open>bulk_persistence/dataframe_validators.py\<close>.
  \<^item> \<open>Schema_Manager\<close>: \<open>schemas/schema_manager.py\<close>.  The schema libraries as a cache.
  \<^item> \<open>Ddms_Utils\<close>, \<open>Ddms_Routes\<close>: \<open>routers/ddms_v3/\<close>, \<open>model/api_configuration.py\<close>.  All handlers of the eight
    record routers.  What they share is the locales \<open>record_routes\<close> and \<open>bulk_record_routes\<close>,
    interpreted for every router: foreign kinds are refused before anything is stored, a posted record keeps its bulk.
  \<^item> \<open>Bulk_Io\<close>, \<open>Bulk_Routes\<close>: \<open>bulk_persistence/bulk_io_wdms_worker.py\<close>, \<open>routers/bulk/\<close>, \<open>routers/sessions.py\<close>.
    The worker client and all handlers for bulk data, sessions and statistics; the commit of a session from
    the request to the stored session and the stored record, and that closed sessions are final.
  \<^item> \<open>Search_Wrapper\<close>: \<open>routers/search/search_wrapper.py\<close>.  The cursor loop as a partial function, its result
    on a finite sequence of pages, and that it does not return when the cursors never end.
  \<^item> \<open>Middleware\<close>, \<open>Injector\<close>, \<open>Error_Handlers\<close>: \<open>middleware/basic_context_middleware.py\<close>, \<open>auth/auth.py\<close>,
    \<open>clients/clients_middleware.py\<close>, \<open>tenant/tenant_provider.py\<close>, \<open>injector/app_injector.py\<close>,
    \<open>routers/dependency/\<close>, \<open>errors/\<close>.  The identity of a request from its headers to the headers of the calls it
    makes, objects with a lifetime, and the response of every exception.
  \<^item> \<open>Configuration\<close>: \<open>conf.py\<close>.  Environment variables as shared objects in a store, the container, the variables
    of each cloud provider; what a passed check at start guarantees, and that secrets are not printed.
  \<^item> \<open>Startup\<close>: \<open>lifespan.py\<close>, \<open>injector/main_injector.py\<close> and the injectors of the providers.  What is registered at start,
    which objects the container then gives, and what the shutdown closes.
  \<^item> \<open>Openapi\<close>: \<open>utils.py\<close> and the document functions of \<open>wdms_app.py\<close>.  The corrections of the generated document and
    that its operation identifiers are unique.
  \<^item> \<open>Route_Table\<close>, \<open>Application\<close>: the decorators of all routers and the calls of \<open>include_router\<close> in \<open>wdms_app.py\<close>, with
    the routes that FastAPI adds for its documentation and \<open>helper/metric.py\<close> for the metrics (\<open>served_routes\<close>).  Every
    served route has the checks and values that its handler reads, and a request fits at most one route.
  \<^item> \<open>Descriptor_Parser\<close>, \<open>Descriptor_Schema\<close>, \<open>Descriptor_Resolve\<close>, \<open>Descriptor_Safety\<close>, \<open>Descriptor_Outputs\<close>: the scripts
    \<open>.github/scripts/service-config/descriptor.py\<close> and \<open>read_service_config.py\<close> with their \<open>schema.json\<close>, which choose the build of
    the repository from \<open>.spi/service.yaml\<close>.  The parser of the YAML subset, the validation, the resolution; accepted
    documents are well formed, and what reaches the workflows is single lines and paths inside of the repository.
  \<^item> \<open>Workflow_Inputs\<close>: \<open>.github/actions/integration-test/resolve_acceptance_config.py\<close>, \<open>validate_runner_inputs.py\<close> and
    \<open>aks-deploy/parse_image_reference.py\<close>.  The steps that read what the descriptor has published: the acceptance tests get
    single lines, environment variables that are not reserved and bounded times.
  \<^item> \<open>Client_Variables\<close>, \<open>Client_Requests\<close>, \<open>Client_Runner\<close>: the client for end-to-end tests, \<open>wdms_client/variables.py\<close>,
    \<open>request_builders/\<close> and \<open>request_runner.py\<close>.  The substitution of variables with its result and its gaps; that
    every request of the client fits exactly one route of \<open>Application\<close> and carries the headers this route needs; and
    the attempts of a call with what each of them sends (\<open>exchange\<close>, \<open>chain\<close>).  \<open>Py_Json\<close> holds the texts of \<open>json.dumps\<close> for the client and for the descriptor.
  \<^item> \<open>Log_Recognition\<close>: \<open>routers/log_recognition/\<close>.  The cache of family processors: it returns, and what
    it returns.

  \<^bold>\<open>Termination.\<close>
  Loops over data are structural recursions.  The two that depend on an outside service, the cursor
  loop and the recursive refresh of a family processor, are partial functions with result \<open>None\<close> for not
  returning; that they return is proved from the named hypotheses on the service and the clock.  Three definitions
  have a bound as argument.  The parser of blocks (\<open>parse_block\<close>) gets \<open>parse_fuel\<close>, two steps per line and
  two more, since every mapping and every block uses up a line; \<open>parse_well_formed\<close> shows that
  it never runs out.  Builders that ask the container for another object (\<open>run_builder\<close>) get the depth 1,
  since only the builder of the sessions storage asks, for the blob storage, whose builders do not.
  The substitution of variables (\<open>resolve_in\<close>) gets a number of steps, with result \<open>None\<close> when they are used up:
  \<open>variables_resolved\<close> shows that enough steps give the result where no variable refers to itself, and
  \<open>substitution_gaps\<close> that no number is enough where one does.

  \<^bold>\<open>Concurrency.\<close>
  Coroutines run one after the other, except where the interleaving is the point: \<open>optimistic_lock\<close> has
  two requests that have read the same version, \<open>torn_read_double_commit\<close> another request between the two reads
  of a session, \<open>rollback_reopens\<close> another one during a completion.

  \<^bold>\<open>Not modelled.\<close>
  The web framework itself (how FastAPI calls dependencies and handlers is taken from its documentation),
  logging and tracing, HTTP clients and their retries, conversion of frames by
  pandas and pyarrow (\<open>dataframe_serializer.py\<close>, \<open>dataframe_persistence.py\<close>), models that only document the API,
  the record texts that the create requests of \<open>wdms_client\<close> post (they are arguments) and the reference records it
  compares answers with, its command line, and the scripts of the workflows other than the service descriptor and
  the checks of inputs, which run git and build tools for several repositories.
\<close>

end
